(* ===== verification/Prelude.thy ===== *)
theory Prelude
  imports Main "HOL-Library.Word" "HOL-Library.Monad_Syntax"
begin

text \<open>
  What every component theory shares: the names of the C integer types, the arithmetic of
  \<open>size_t\<close>, byte memory with loads and stores, arrays of fixed length with their bounds
  checks, C strings inside such arrays, and the lemmas on them that carry the component
  proofs. An access outside an array is \<open>None\<close>; a function whose source can make one
  returns an \<open>option\<close>.
\<close>

unbundle bit_operations_syntax

named_theorems size_t_simps "arithmetic of size_t without wrap-around"
named_theorems array_simps "bounds-checked array accesses that succeed"
named_theorems step_simps "definitions unfolded to run one step of a state machine"

section \<open>Integers\<close>

type_synonym u8 = "8 word"
type_synonym u16 = "16 word"
type_synonym u32 = "32 word"
type_synonym u64 = "64 word"

text \<open>\<open>size_t\<close> has 32 bits on the PIC32; its values are naturals below \<open>2 ^ 32\<close>.\<close>

definition sz_add :: "nat \<Rightarrow> nat \<Rightarrow> nat" where
  "sz_add a b = (a + b) mod 2 ^ 32"

definition sz_sub :: "nat \<Rightarrow> nat \<Rightarrow> nat" where
  "sz_sub a b = (a + (2 ^ 32 - b mod 2 ^ 32)) mod 2 ^ 32"

lemma sz_add_exact [size_t_simps]: "a + b < 2 ^ 32 \<Longrightarrow> sz_add a b = a + b"
  by (simp add: sz_add_def)

lemma wrapped_difference:
  fixes a b M :: nat
  assumes "b \<le> a" and "a < M"
  shows "(a + (M - b mod M)) mod M = a - b"
proof -
  have "b mod M = b" using assms by simp
  then have wrap: "a + (M - b mod M) = (a - b) + M" using assms by simp
  have "(a - b) mod M = a - b" using assms by simp
  then show ?thesis unfolding wrap by (simp only: mod_add_self2)
qed

lemma wrapped_difference_below:
  fixes a b M :: nat
  assumes "a < b" and "b < M"
  shows "(a + (M - b mod M)) mod M = a + M - b"
  using assms by simp

lemma sz_sub_exact [size_t_simps]: "b \<le> a \<Longrightarrow> a < 2 ^ 32 \<Longrightarrow> sz_sub a b = a - b"
  unfolding sz_sub_def by (rule wrapped_difference)

lemma sz_sub_wraps: "a < b \<Longrightarrow> b < 2 ^ 32 \<Longrightarrow> sz_sub a b = a + 2 ^ 32 - b"
  unfolding sz_sub_def by (rule wrapped_difference_below)

section \<open>Byte memory\<close>

text \<open>
  Memory reached through pointers: a total map from addresses to bytes. Address 0 is NULL.
  Pointers are four bytes, least significant byte first.
\<close>

type_synonym mem = "nat \<Rightarrow> u8"

definition load_bytes :: "mem \<Rightarrow> nat \<Rightarrow> nat \<Rightarrow> u8 list" where
  "load_bytes m p n = map (\<lambda>i. m (p + i)) [0..<n]"

definition store_bytes :: "nat \<Rightarrow> u8 list \<Rightarrow> mem \<Rightarrow> mem" where
  "store_bytes p bs m = (\<lambda>a. if p \<le> a \<and> a < p + length bs then bs ! (a - p) else m a)"

definition load_ptr :: "mem \<Rightarrow> nat \<Rightarrow> nat" where
  "load_ptr m p = unat (m p) + 256 * unat (m (p + 1)) + 65536 * unat (m (p + 2))
     + 16777216 * unat (m (p + 3))"

definition store_ptr :: "nat \<Rightarrow> nat \<Rightarrow> mem \<Rightarrow> mem" where
  "store_ptr p v = store_bytes p
     [of_nat v, of_nat (v div 256), of_nat (v div 65536), of_nat (v div 16777216)]"

lemma length_load_bytes [simp]: "length (load_bytes m p n) = n"
  by (simp add: load_bytes_def)

lemma load_bytes_nth [simp]: "i < n \<Longrightarrow> load_bytes m p n ! i = m (p + i)"
  by (simp add: load_bytes_def)

lemma load_store_same: "length bs = n \<Longrightarrow> load_bytes (store_bytes p bs m) p n = bs"
  by (rule nth_equalityI) (auto simp: load_bytes_def store_bytes_def)

lemma load_store_disjoint:
  "p + n \<le> q \<or> q + length bs \<le> p \<Longrightarrow>
     load_bytes (store_bytes q bs m) p n = load_bytes m p n"
  by (rule nth_equalityI) (auto simp: load_bytes_def store_bytes_def)

lemma store_bytes_outside:
  "a < p \<or> p + length bs \<le> a \<Longrightarrow> store_bytes p bs m a = m a"
  by (auto simp: store_bytes_def)

lemma store_bytes_inside [simp]:
  "i < length bs \<Longrightarrow> store_bytes p bs m (p + i) = bs ! i"
  by (simp add: store_bytes_def)

lemma unat_of_nat_u8: "unat (of_nat n :: u8) = n mod 256"
  by (simp add: unat_of_nat)

lemma base_256_digits:
  fixes v :: nat
  assumes "v < 256 * (256 * (256 * 256))"
  shows "v mod 256 + 256 * (v div 256 mod 256) + 65536 * (v div 65536 mod 256)
      + 16777216 * (v div 16777216 mod 256) = v"
proof -
  define a b c where "a = v div 256" and "b = a div 256" and "c = b div 256"
  have digits: "v = 256 * a + v mod 256" "a = 256 * b + a mod 256" "b = 256 * c + b mod 256"
    by (simp_all add: a_def b_def c_def)
  have quotients: "v div 256 = a" "v div 65536 = b" "v div 16777216 = c"
    by (simp_all add: a_def b_def c_def div_mult2_eq [symmetric])
  have "c mod 256 = c"
    using assms by (simp add: a_def b_def c_def div_mult2_eq [symmetric])
  then show ?thesis unfolding quotients using digits by linarith
qed

lemma load_store_ptr:
  assumes "v < 2 ^ 32"
  shows "load_ptr (store_ptr p v m) p = v"
proof -
  have small: "v < 256 * (256 * (256 * 256))" using assms by simp
  have "load_ptr (store_ptr p v m) p = v mod 256 + 256 * (v div 256 mod 256)
      + 65536 * (v div 65536 mod 256) + 16777216 * (v div 16777216 mod 256)"
    by (simp add: load_ptr_def store_ptr_def store_bytes_def unat_of_nat_u8)
  then show ?thesis unfolding base_256_digits [OF small] .
qed

lemma load_ptr_store_disjoint:
  "p + 4 \<le> q \<or> q + length bs \<le> p \<Longrightarrow> load_ptr (store_bytes q bs m) p = load_ptr m p"
  by (auto simp: load_ptr_def store_bytes_def)

section \<open>Arrays\<close>

text \<open>
  An array member of a struct is a list of its declared length. Writing a run of elements
  (\<open>memcpy\<close> into the array) and moving a run inside it (\<open>memmove\<close>) are defined inside
  the array only.
\<close>

definition array_get :: "'a list \<Rightarrow> nat \<Rightarrow> 'a option" where
  "array_get xs i = (if i < length xs then Some (xs ! i) else None)"

definition array_set :: "'a list \<Rightarrow> nat \<Rightarrow> 'a \<Rightarrow> 'a list option" where
  "array_set xs i x = (if i < length xs then Some (xs[i := x]) else None)"

definition array_write :: "'a list \<Rightarrow> nat \<Rightarrow> 'a list \<Rightarrow> 'a list option" where
  "array_write xs i ys =
     (if i + length ys \<le> length xs then Some (take i xs @ ys @ drop (i + length ys) xs)
      else None)"

definition array_move :: "'a list \<Rightarrow> nat \<Rightarrow> nat \<Rightarrow> nat \<Rightarrow> 'a list option" where
  "array_move xs dst src n =
     (if src + n \<le> length xs then array_write xs dst (take n (drop src xs)) else None)"

lemma array_get_in [array_simps]: "i < length xs \<Longrightarrow> array_get xs i = Some (xs ! i)"
  by (simp add: array_get_def)

lemma array_set_in [array_simps]: "i < length xs \<Longrightarrow> array_set xs i x = Some (xs[i := x])"
  by (simp add: array_set_def)

lemma array_write_in [array_simps]:
  "i + length ys \<le> length xs \<Longrightarrow>
     array_write xs i ys = Some (take i xs @ ys @ drop (i + length ys) xs)"
  by (simp add: array_write_def)

lemma array_move_in [array_simps]:
  "src + n \<le> length xs \<Longrightarrow> dst + n \<le> length xs \<Longrightarrow>
     array_move xs dst src n = Some (take dst xs @ take n (drop src xs) @ drop (dst + n) xs)"
  by (simp add: array_move_def array_write_def)

lemma array_set_length: "array_set xs i x = Some ys \<Longrightarrow> length ys = length xs"
  by (auto simp: array_set_def split: if_splits)

lemma array_write_length: "array_write xs i bs = Some ys \<Longrightarrow> length ys = length xs"
  by (auto simp: array_write_def split: if_splits)

lemma array_move_length: "array_move xs d s n = Some ys \<Longrightarrow> length ys = length xs"
  by (auto simp: array_move_def array_write_length split: if_splits)

section \<open>C strings in arrays\<close>

text \<open>The characters before the terminating NUL (all of them when there is none).\<close>

definition cstr :: "char list \<Rightarrow> char list" where
  "cstr xs = takeWhile (\<lambda>c. c \<noteq> CHR 0x00) xs"

lemma cstr_no_nul: "CHR 0x00 \<notin> set xs \<Longrightarrow> cstr xs = xs"
  by (induction xs) (auto simp: cstr_def)

lemma cstr_append_nul [simp]: "CHR 0x00 \<notin> set xs \<Longrightarrow> cstr (xs @ CHR 0x00 # ys) = xs"
  by (induction xs) (auto simp: cstr_def)

lemma nul_notin_cstr: "CHR 0x00 \<notin> set (cstr xs)"
  by (auto simp: cstr_def dest: set_takeWhileD)

definition crlf :: "char list" where
  "crlf = [CHR 0x0D, CHR 0x0A]"

section \<open>Lists\<close>

lemma take_drop_append:
  "i + n \<le> length xs \<Longrightarrow> take n (drop i (xs @ ys)) = take n (drop i xs)"
  by simp

lemma drop_append_ge:
  "length xs \<le> i \<Longrightarrow> drop i (xs @ ys) = drop (i - length xs) ys"
  by simp

end
