(* ===== verification/Harmony.thy ===== *)
theory Harmony
  imports Prelude
begin

text \<open>
  The interface of the firmware to the code that is not in the repository: the drivers and
  stacks of MPLAB Harmony. A call to that code is an event of type \<open>io\<close>, appended to the
  log of the world; what the call returns is a function of the log that ends with this call.
  These functions are the fields of the environment records below and are arguments of every
  definition that uses them, so a theorem holds for every behaviour of the drivers, with a
  different answer to each poll if they like. The world also holds the memory that the program
  reaches through pointers.

  Handle types are options: \<open>None\<close> is the documented invalid handle (NULL for buffer
  handles). Status codes are datatypes with one constructor for each class of codes the program
  tells apart. Diagnostics printed on the system console and on the debug console are not
  modelled; what a command prints for its user is.
\<close>

section \<open>Values of the Harmony interface\<close>

datatype SYS_STATUS = SYS_STATUS_FAILED \<comment> \<open>negative codes\<close>
  | SYS_STATUS_READY | SYS_STATUS_PENDING \<comment> \<open>every other code\<close>

datatype DRV_I2C_BUFFER_EVENT = DRV_I2C_BUFFER_EVENT_COMPLETE | DRV_I2C_BUFFER_EVENT_ERROR
  | DRV_I2C_BUFFER_EVENT_PENDING \<comment> \<open>every other event\<close>

datatype TCPIP_DNS_RESULT = TCPIP_DNS_RES_OK | TCPIP_DNS_RES_PENDING
  | TCPIP_DNS_RES_NAME_IS_IPADDRESS | TCPIP_DNS_RES_FAILED \<comment> \<open>negative codes\<close>

datatype IP_ADDRESS_TYPE = IP_ADDRESS_TYPE_IPV4 | IP_ADDRESS_TYPE_IPV6

datatype IWPRIV_CONNECTION = IWPRIV_CONNECTION_SUCCESSFUL | IWPRIV_CONNECTION_FAILED
  | IWPRIV_CONNECTION_REESTABLISHED | IWPRIV_CONNECTION_OTHER

datatype DRV_WIFI_SECURITY = DRV_WIFI_SECURITY_WEP_40 | DRV_WIFI_SECURITY_WEP_104
  | DRV_WIFI_SECURITY_WPA_WITH_PASS_PHRASE | DRV_WIFI_SECURITY_WPA2_WITH_PASS_PHRASE
  | DRV_WIFI_SECURITY_WPS_PIN

datatype pin = SHIFT_DATA | SHIFT_EN | SHIFT_RCK | SHIFT_SRCK | HV_EN | ETH_NRST
  | STATUS_LED_1 | STATUS_LED_2 | STATUS_LED_3 | STATUS_LED_4

datatype print_arg = PInt int | PStr string | PChar char

section \<open>Calls\<close>

datatype i2c_io =
    DRV_I2C_Open nat
  | DRV_I2C_Transmit "u32 option" u8 "u8 list"
  | DRV_I2C_TransmitThenReceive "u32 option" u8 "u8 list" nat nat
      \<comment> \<open>bytes sent; address and size of the receive buffer\<close>
  | DRV_I2C_TransferStatusGet "u32 option" "u32 option"

datatype fs_io =
    DRV_SST25_Status
  | SYS_FS_MEDIA_MANAGER_Register
  | SYS_FS_Mount string string
  | SYS_FS_DriveSectorGet string
  | SYS_FS_DriveFormat string

datatype tmr_io =
    SYS_TMR_SystemCountGet
  | SYS_TMR_SystemCountFrequencyGet
  | SYS_TMR_TickCountGet
  | SYS_TMR_TickCounterFrequencyGet

datatype tcpip_io =
    TCPIP_STACK_Status
  | TCPIP_STACK_NumberOfNetworksGet
  | TCPIP_STACK_IndexToNet nat
  | TCPIP_STACK_NetNameGet "u32 option"
  | TCPIP_STACK_NetIsReady "u32 option"
  | TCPIP_STACK_NetIsUp "u32 option"
  | TCPIP_STACK_NetAddress "u32 option"
  | TCPIP_STACK_NetHandleGet string
  | TCPIP_STACK_NetDown "u32 option"
  | TCPIP_STACK_NetIndexGet "u32 option"
  | TCPIP_STACK_Initialize
  | TCPIP_STACK_InitializeDataGet "u32 option"
  | TCPIP_STACK_NetUp "u32 option" nat
  | TCPIP_DHCP_Enable "u32 option"
  | TCPIP_DHCP_Disable "u32 option"
  | TCPIP_DNS_Enable "u32 option"
  | TCPIP_DNS_Disable "u32 option" bool
  | TCPIP_DNS_Resolve string IP_ADDRESS_TYPE
  | TCPIP_DNS_IsResolved string IP_ADDRESS_TYPE
  | TCPIP_Helper_StringToIPAddress string
  | TCPIP_Helper_StringToIPv6Address string
  | TCPIP_SNTP_UTCSecondsGet

datatype wifi_io =
    iwpriv_get_DRVSTATUS
  | iwpriv_get_DEVICEINFO
  | iwpriv_get_CONNSTATUS
  | iwpriv_set_INITCONN_OPTION bool
  | DRV_WIFI_SecurityOpenSet
  | DRV_WIFI_SecurityWepSet DRV_WIFI_SECURITY u16 "char list"

datatype pres_io =
    NET_PRES_SocketOpen IP_ADDRESS_TYPE u16 "u8 list"
  | NET_PRES_SocketWasReset "u32 option"
  | NET_PRES_SocketIsConnected "u32 option"
  | NET_PRES_SocketEncryptSocket "u32 option"
  | NET_PRES_SocketClose "u32 option"
  | NET_PRES_SocketIsNegotiatingEncryption "u32 option"
  | NET_PRES_SocketIsSecure "u32 option"
  | NET_PRES_SocketWriteIsReady "u32 option" nat nat
  | NET_PRES_SocketWrite "u32 option" "char list"
  | NET_PRES_SocketReadIsReady "u32 option"
  | NET_PRES_SocketRead "u32 option" nat

datatype usb_io =
    USB_DEVICE_Open
  | USB_DEVICE_EventHandlerSet "u32 option"
  | USB_DEVICE_HID_ReportReceive nat
  | USB_DEVICE_HID_EventHandlerSet
  | USB_DEVICE_ControlStatus "u32 option"
  | USB_DEVICE_ControlSend "u32 option" u8
  | USB_DEVICE_Attach "u32 option"
  | USB_DEVICE_Detach "u32 option"

datatype console_io =
    Command_Print nat string "print_arg list" \<comment> \<open>console device, format, arguments\<close>
  | Command_Message nat string
  | SYS_CMD_READY_TO_READ
  | SYS_CMD_ADDGRP "string list"

datatype io = IO_Pin pin bool | IO_I2C i2c_io | IO_FS fs_io | IO_Tmr tmr_io
  | IO_TCPIP tcpip_io | IO_WiFi wifi_io | IO_Pres pres_io | IO_USB usb_io | IO_Cmd console_io
  | IO_Assert string \<comment> \<open>a \<open>SYS_ASSERT\<close> whose condition is false\<close>

section \<open>The world and the answers\<close>

record world =
  log :: "io list"
  mem :: mem

record i2c_env =
  i2c_open :: "io list \<Rightarrow> u32 option"
  i2c_transmit_handle :: "io list \<Rightarrow> u32 option"
  i2c_status :: "io list \<Rightarrow> DRV_I2C_BUFFER_EVENT"
  i2c_received :: "io list \<Rightarrow> (nat \<times> u8 list) list"
    \<comment> \<open>what the driver has stored in receive buffers when a status poll returns\<close>

record fs_env =
  sst25_status :: "io list \<Rightarrow> SYS_STATUS"
  media_register :: "io list \<Rightarrow> bool"
  fs_mount :: "io list \<Rightarrow> bool"
  fs_sectors :: "io list \<Rightarrow> bool \<times> u32 \<times> u32" \<comment> \<open>success, total and free sectors\<close>
  fs_format :: "io list \<Rightarrow> bool"

record tmr_env =
  tmr_count :: "io list \<Rightarrow> u64"
  tmr_frequency :: "io list \<Rightarrow> u32"
  tmr_tick :: "io list \<Rightarrow> u32"
  tmr_tick_frequency :: "io list \<Rightarrow> u32"

record net_env =
  stack_status :: "io list \<Rightarrow> SYS_STATUS"
  num_networks :: "io list \<Rightarrow> nat"
  index_to_net :: "io list \<Rightarrow> u32 option"
  net_name :: "io list \<Rightarrow> string"
  net_is_ready :: "io list \<Rightarrow> bool"
  net_is_up :: "io list \<Rightarrow> bool"
  net_address :: "io list \<Rightarrow> u32"
  net_handle :: "io list \<Rightarrow> u32 option"
  net_index :: "io list \<Rightarrow> nat"
  stack_object :: "io list \<Rightarrow> u32 option"

record wifi_env =
  wifi_is_open :: "io list \<Rightarrow> bool"
  wifi_device_info_get :: "io list \<Rightarrow> u8 list"
  wifi_connection :: "io list \<Rightarrow> IWPRIV_CONNECTION"
  dhcp_client_enabled :: bool \<comment> \<open>\<open>TCPIP_DHCP_CLIENT_ENABLED\<close>\<close>
  wep_key_size :: nat \<comment> \<open>the size of \<open>wepKey\<close> in \<open>DRV_WIFI_WEP_CONTEXT\<close>\<close>

record dns_env =
  dns_resolve :: "io list \<Rightarrow> TCPIP_DNS_RESULT"
  dns_is_resolved :: "io list \<Rightarrow> TCPIP_DNS_RESULT"
  dns_address :: "io list \<Rightarrow> u8 list" \<comment> \<open>content of the caller's address union\<close>
  string_to_ip :: "io list \<Rightarrow> bool"
  string_to_ip_address :: "io list \<Rightarrow> u8 list"
  sntp_seconds :: "io list \<Rightarrow> u32"

record pres_env =
  socket_open :: "io list \<Rightarrow> u32 option"
  socket_was_reset :: "io list \<Rightarrow> bool"
  socket_is_connected :: "io list \<Rightarrow> bool"
  socket_encrypt :: "io list \<Rightarrow> bool"
  socket_is_negotiating :: "io list \<Rightarrow> bool"
  socket_is_secure :: "io list \<Rightarrow> bool"
  socket_write_ready :: "io list \<Rightarrow> u16"
  socket_write :: "io list \<Rightarrow> u16"
  socket_read_ready :: "io list \<Rightarrow> u16"
  socket_read :: "io list \<Rightarrow> char list" \<comment> \<open>the bytes stored in the caller's buffer\<close>

record usb_env =
  usb_open :: "io list \<Rightarrow> u32 option"
  usb_receive_handle :: "io list \<Rightarrow> u32 option"

record harmony =
  i2c :: i2c_env
  fs :: fs_env
  tmr :: tmr_env
  net :: net_env
  wifi :: wifi_env
  dns :: dns_env
  pres :: pres_env
  usb :: usb_env
  cmd_add_group :: "io list \<Rightarrow> bool"

text \<open>The world before the first call.\<close>

definition empty_world :: world where
  "empty_world = \<lparr>log = [], mem = (\<lambda>_. 0)\<rparr>"

text \<open>An environment whose calls succeed.\<close>

definition sample_harmony :: harmony where
  "sample_harmony = \<lparr>
     i2c = \<lparr>i2c_open = \<lambda>_. Some 1, i2c_transmit_handle = \<lambda>_. Some 1,
            i2c_status = \<lambda>_. DRV_I2C_BUFFER_EVENT_COMPLETE, i2c_received = \<lambda>_. []\<rparr>,
     fs = \<lparr>sst25_status = \<lambda>_. SYS_STATUS_READY, media_register = \<lambda>_. True, fs_mount = \<lambda>_. True,
           fs_sectors = \<lambda>_. (True, 64, 32), fs_format = \<lambda>_. True\<rparr>,
     tmr = \<lparr>tmr_count = \<lambda>l. of_nat (length l), tmr_frequency = \<lambda>_. 1, tmr_tick = \<lambda>l. of_nat (length l),
            tmr_tick_frequency = \<lambda>_. 1\<rparr>,
     net = \<lparr>stack_status = \<lambda>_. SYS_STATUS_READY, num_networks = \<lambda>_. 1, index_to_net = \<lambda>_. Some 1,
            net_name = \<lambda>_. ''PIC32INT'', net_is_ready = \<lambda>_. True, net_is_up = \<lambda>_. True,
            net_address = \<lambda>_. 0, net_handle = \<lambda>_. Some 1, net_index = \<lambda>_. 0, stack_object = \<lambda>_. Some 1\<rparr>,
     wifi = \<lparr>wifi_is_open = \<lambda>_. True, wifi_device_info_get = \<lambda>_. [],
             wifi_connection = \<lambda>_. IWPRIV_CONNECTION_SUCCESSFUL, dhcp_client_enabled = True,
             wep_key_size = 26\<rparr>,
     dns = \<lparr>dns_resolve = \<lambda>_. TCPIP_DNS_RES_PENDING, dns_is_resolved = \<lambda>_. TCPIP_DNS_RES_OK,
            dns_address = \<lambda>_. [93, 184, 216, 34], string_to_ip = \<lambda>_. False,
            string_to_ip_address = \<lambda>_. [], sntp_seconds = \<lambda>_. 0\<rparr>,
     pres = \<lparr>socket_open = \<lambda>_. Some 3, socket_was_reset = \<lambda>_. True, socket_is_connected = \<lambda>_. True,
             socket_encrypt = \<lambda>_. True, socket_is_negotiating = \<lambda>_. False, socket_is_secure = \<lambda>_. True,
             socket_write_ready = \<lambda>_. 256, socket_write = \<lambda>_. 60, socket_read_ready = \<lambda>_. 0,
             socket_read = \<lambda>_. []\<rparr>,
     usb = \<lparr>usb_open = \<lambda>_. Some 7, usb_receive_handle = \<lambda>l. Some (of_nat (length l))\<rparr>,
     cmd_add_group = \<lambda>_. True\<rparr>"

section \<open>Calling\<close>

definition tell :: "io \<Rightarrow> world \<Rightarrow> world" where
  "tell e w = w\<lparr>log := log w @ [e]\<rparr>"

definition ask :: "(io list \<Rightarrow> 'r) \<Rightarrow> io \<Rightarrow> world \<Rightarrow> 'r \<times> world" where
  "ask f e w = (f (log w @ [e]), w\<lparr>log := log w @ [e]\<rparr>)"

lemma log_tell [simp]: "log (tell e w) = log w @ [e]"
  by (simp add: tell_def)

lemma mem_tell [simp]: "mem (tell e w) = mem w"
  by (simp add: tell_def)

lemma fst_ask [simp]: "fst (ask f e w) = f (log w @ [e])"
  by (simp add: ask_def)

lemma snd_ask [simp]: "snd (ask f e w) = tell e w"
  by (simp add: ask_def tell_def)

lemma ask_split: "ask f e w = (f (log w @ [e]), tell e w)"
  by (simp add: ask_def tell_def)

text \<open>Storing bytes at an address.\<close>

definition poke :: "nat \<Rightarrow> u8 list \<Rightarrow> world \<Rightarrow> world" where
  "poke p bs w = w\<lparr>mem := store_bytes p bs (mem w)\<rparr>"

lemma mem_poke [simp]: "mem (poke p bs w) = store_bytes p bs (mem w)"
  by (simp add: poke_def)

lemma log_poke [simp]: "log (poke p bs w) = log w"
  by (simp add: poke_def)

text \<open>\<open>SYS_ASSERT\<close> is Harmony's; the program goes on after it.\<close>

definition SYS_ASSERT :: "bool \<Rightarrow> string \<Rightarrow> world \<Rightarrow> world" where
  "SYS_ASSERT test message w = (if test then w else tell (IO_Assert message) w)"

lemma SYS_ASSERT_true [simp]: "test \<Longrightarrow> SYS_ASSERT test message w = w"
  by (simp add: SYS_ASSERT_def)

lemma mem_SYS_ASSERT [simp]: "mem (SYS_ASSERT test message w) = mem w"
  by (simp add: SYS_ASSERT_def)

text \<open>
  The pin macros of the board configuration. \<open>On\<close> drives the latch of the port high, \<open>Off\<close>
  low, \<open>StateSet\<close> by a value.
\<close>

definition pin_On :: "pin \<Rightarrow> world \<Rightarrow> world" where
  "pin_On p = tell (IO_Pin p True)"

definition pin_Off :: "pin \<Rightarrow> world \<Rightarrow> world" where
  "pin_Off p = tell (IO_Pin p False)"

definition pin_StateSet :: "pin \<Rightarrow> nat \<Rightarrow> world \<Rightarrow> world" where
  "pin_StateSet p v = tell (IO_Pin p (v \<noteq> 0))"

lemmas pin_simps [simp] = pin_On_def pin_Off_def pin_StateSet_def

text \<open>The level of a pin's latch after a log, \<open>d\<close> before it.\<close>

fun pin_level :: "pin \<Rightarrow> bool \<Rightarrow> io list \<Rightarrow> bool" where
  "pin_level p d [] = d"
| "pin_level p d (IO_Pin q b # es) = pin_level p (if q = p then b else d) es"
| "pin_level p d (_ # es) = pin_level p d es"

lemma pin_level_append [simp]: "pin_level p d (xs @ ys) = pin_level p (pin_level p d xs) ys"
  by (induction p d xs rule: pin_level.induct) auto

end
