(* ===== verification/App_Network.thy ===== *)
theory App_Network
  imports Harmony
begin

text \<open>
  Networking (\<open>app_network.c\<close>, \<open>app_network_utils.c\<close>): bringing the TCP/IP stack up,
  watching the interfaces, and the reset pin of the Ethernet PHY. The static variables of
  \<open>appNetworkRun\<close> are fields of the state record. The code that the default configuration
  leaves out (\<open>TCPIP_STACK_USE_IPV6\<close>, the DHCP server, NetBIOS, multicast DNS and Wi-Fi
  power save) is left out here.
\<close>

definition WIFI_INTERFACE_NAME :: string where "WIFI_INTERFACE_NAME = ''MRF24W''"
definition WIFI_RECONNECTION_RETRY_LIMIT :: u32 where "WIFI_RECONNECTION_RETRY_LIMIT = 16"
definition WIFI_DHCP_WAIT_THRESHOLD :: int where "WIFI_DHCP_WAIT_THRESHOLD = 60"

definition IS_WIFI_INTERFACE :: "string \<Rightarrow> bool" where
  "IS_WIFI_INTERFACE name \<longleftrightarrow> name = WIFI_INTERFACE_NAME"

datatype AppNetworkState =
    APP_NETWORK_TCPIP_WAIT_INIT
  | APP_NETWORK_WIFI_CONFIG
  | APP_NETWORK_TCPIP_MODULES_ENABLE
  | APP_NETWORK_TCPIP_TRANSACT
  | APP_NETWORK_TCPIP_ERROR

record AppNetworkData =
  network_state :: AppNetworkState
  ip_wait :: "16 word" \<comment> \<open>\<open>int16_t\<close>\<close>
  wifi_default_ip :: u32
  wifi_net_handle :: "u32 option"
  wifi_device_info :: "u8 list"
  is_wifi_power_save_configured :: bool
  was_net_up :: "bool list"
  reconn_retries :: u32
  start_tick :: u32
  last_ip :: "u32 list"

text \<open>The initial values of the static variables; the rest is set by initialization.\<close>

definition network_at_reset :: AppNetworkData where
  "network_at_reset = \<lparr>network_state = APP_NETWORK_TCPIP_WAIT_INIT, ip_wait = 0, wifi_default_ip = 0,
     wifi_net_handle = None, wifi_device_info = [], is_wifi_power_save_configured = False,
     was_net_up = [True, True], reconn_retries = 0, start_tick = 0, last_ip = [- 1, - 1]\<rparr>"

definition timestamp_dhcp_kickin :: "wifi_env \<Rightarrow> 16 word" where
  "timestamp_dhcp_kickin env = (if dhcp_client_enabled env then 1 else 0)"

section \<open>Utilities\<close>

definition APP_Network_TPCIP_IfModulesEnable :: "harmony \<Rightarrow> u32 option \<Rightarrow> world \<Rightarrow> world" where
  "APP_Network_TPCIP_IfModulesEnable env handle w =
     (let (name, w) = ask (net_name (net env)) (IO_TCPIP (TCPIP_STACK_NetNameGet handle)) w;
          w = tell (IO_TCPIP (TCPIP_DHCP_Enable handle)) w
      in tell (IO_TCPIP (TCPIP_DNS_Enable handle)) w)"

definition APP_Network_TCPIP_IfModulesDisable :: "harmony \<Rightarrow> u32 option \<Rightarrow> world \<Rightarrow> world" where
  "APP_Network_TCPIP_IfModulesDisable env handle w =
     (let (name, w) = ask (net_name (net env)) (IO_TCPIP (TCPIP_STACK_NetNameGet handle)) w;
          w = (if IS_WIFI_INTERFACE name
               then snd (ask (net_is_up (net env)) (IO_TCPIP (TCPIP_STACK_NetIsUp handle)) w) else w);
          w = tell (IO_TCPIP (TCPIP_DHCP_Disable handle)) w
      in tell (IO_TCPIP (TCPIP_DNS_Disable handle True)) w)"

definition APP_Network_TCPIP_IfaceDown :: "u32 option \<Rightarrow> world \<Rightarrow> world" where
  "APP_Network_TCPIP_IfaceDown handle w = tell (IO_TCPIP (TCPIP_STACK_NetDown handle)) w"

definition APP_Network_TCPIP_IfaceUp :: "harmony \<Rightarrow> u32 option \<Rightarrow> world \<Rightarrow> world" where
  "APP_Network_TCPIP_IfaceUp env handle w =
     (let (index, w) = ask (net_index (net env)) (IO_TCPIP (TCPIP_STACK_NetIndexGet handle)) w;
          (tcpip_stack_object, w) = ask (stack_object (net env)) (IO_TCPIP TCPIP_STACK_Initialize) w;
          w = tell (IO_TCPIP (TCPIP_STACK_InitializeDataGet tcpip_stack_object)) w
      in tell (IO_TCPIP (TCPIP_STACK_NetUp handle index)) w)"

section \<open>States\<close>

text \<open>The loop over the interfaces that looks for the Wi-Fi one.\<close>

primrec find_wifi :: "harmony \<Rightarrow> nat list \<Rightarrow> bool \<times> world \<Rightarrow> bool \<times> world" where
  "find_wifi env [] s = s"
| "find_wifi env (i # is) s =
     (let (has_wifi, w) = s;
          (handle, w) = ask (index_to_net (net env)) (IO_TCPIP (TCPIP_STACK_IndexToNet i)) w;
          (name, w) = ask (net_name (net env)) (IO_TCPIP (TCPIP_STACK_NetNameGet handle)) w
      in find_wifi env is (has_wifi \<or> IS_WIFI_INTERFACE name, w))"

definition appNetworkTCPIPInitWait ::
    "harmony \<Rightarrow> AppNetworkData \<times> world \<Rightarrow> bool \<times> AppNetworkData \<times> world" where
  "appNetworkTCPIPInitWait env = (\<lambda>(data, w).
     let (tcpip_status, w) = ask (stack_status (net env)) (IO_TCPIP TCPIP_STACK_Status) w in
     if tcpip_status = SYS_STATUS_FAILED then
       (True, data\<lparr>network_state := APP_NETWORK_TCPIP_ERROR\<rparr>, w)
     else if tcpip_status = SYS_STATUS_READY then
       let (num_nets, w) = ask (num_networks (net env)) (IO_TCPIP TCPIP_STACK_NumberOfNetworksGet) w;
           (has_wifi, w) = find_wifi env [0..<num_nets] (False, w)
       in if has_wifi then (True, data\<lparr>network_state := APP_NETWORK_WIFI_CONFIG\<rparr>, w)
          else (True, data\<lparr>network_state := APP_NETWORK_TCPIP_MODULES_ENABLE\<rparr>, w)
     else (False, data, w))"

definition appNetworkWifiConfig ::
    "harmony \<Rightarrow> AppNetworkData \<times> world \<Rightarrow> bool \<times> AppNetworkData \<times> world" where
  "appNetworkWifiConfig env = (\<lambda>(data, w).
     let (isOpen, w) = ask (wifi_is_open (wifi env)) (IO_WiFi iwpriv_get_DRVSTATUS) w in
     if isOpen then
       let (info, w) = ask (wifi_device_info_get (wifi env)) (IO_WiFi iwpriv_get_DEVICEINFO) w;
           (handle, w) = ask (net_handle (net env)) (IO_TCPIP (TCPIP_STACK_NetHandleGet WIFI_INTERFACE_NAME)) w;
           (address, w) = ask (net_address (net env)) (IO_TCPIP (TCPIP_STACK_NetAddress handle)) w
       in (True, data\<lparr>wifi_device_info := info, wifi_net_handle := handle, wifi_default_ip := address,
                      network_state := APP_NETWORK_TCPIP_MODULES_ENABLE\<rparr>, w)
     else (False, data, w))"

primrec enable_modules :: "harmony \<Rightarrow> nat list \<Rightarrow> world \<Rightarrow> world" where
  "enable_modules env [] w = w"
| "enable_modules env (i # is) w =
     (let (handle, w) = ask (index_to_net (net env)) (IO_TCPIP (TCPIP_STACK_IndexToNet i)) w
      in enable_modules env is (APP_Network_TPCIP_IfModulesEnable env handle w))"

definition appNetworkTCPIPModuleEnable ::
    "harmony \<Rightarrow> AppNetworkData \<times> world \<Rightarrow> AppNetworkData \<times> world" where
  "appNetworkTCPIPModuleEnable env = (\<lambda>(data, w).
     let (count, w) = ask (num_networks (net env)) (IO_TCPIP TCPIP_STACK_NumberOfNetworksGet) w
     in (data\<lparr>network_state := APP_NETWORK_TCPIP_TRANSACT\<rparr>, enable_modules env [0..<count] w))"

section \<open>Running\<close>

text \<open>The first loop of \<open>appNetworkRun\<close>: interfaces that went down or came up by hand.\<close>

definition watch_interface :: "harmony \<Rightarrow> nat \<Rightarrow> AppNetworkData \<times> world \<Rightarrow> (AppNetworkData \<times> world) option" where
  "watch_interface env i = (\<lambda>(data, w).
     let (handle, w) = ask (index_to_net (net env)) (IO_TCPIP (TCPIP_STACK_IndexToNet i)) w;
         (is_up, w) = ask (net_is_up (net env)) (IO_TCPIP (TCPIP_STACK_NetIsUp handle)) w
     in do {
       (data, w) \<leftarrow> (if is_up then Some (data, w) else do {
           was_up \<leftarrow> array_get (was_net_up data) i;
           (if was_up then
              let (name, w) = ask (net_name (net env)) (IO_TCPIP (TCPIP_STACK_NetNameGet handle)) w;
                  data = data\<lparr>was_net_up := (was_net_up data)[i := False]\<rparr>;
                  w = APP_Network_TCPIP_IfModulesDisable env handle w
              in Some (if IS_WIFI_INTERFACE name
                       then data\<lparr>is_wifi_power_save_configured := False\<rparr> else data, w)
            else Some (data, w))
         });
       let (is_up, w) = ask (net_is_up (net env)) (IO_TCPIP (TCPIP_STACK_NetIsUp handle)) w;
       (if is_up then do {
           was_up \<leftarrow> array_get (was_net_up data) i;
           (if was_up then Some (data, w)
            else Some (data\<lparr>was_net_up := (was_net_up data)[i := True]\<rparr>,
                       APP_Network_TPCIP_IfModulesEnable env handle w))
         }
        else Some (data, w))
     })"

primrec watch_interfaces ::
    "harmony \<Rightarrow> nat list \<Rightarrow> AppNetworkData \<times> world \<Rightarrow> (AppNetworkData \<times> world) option" where
  "watch_interfaces env [] s = Some s"
| "watch_interfaces env (i # is) s = Option.bind (watch_interface env i s) (watch_interfaces env is)"

text \<open>The second loop: a new address ends the wait for the DHCP server.\<close>

definition watch_address :: "harmony \<Rightarrow> nat \<Rightarrow> AppNetworkData \<times> world \<Rightarrow> (AppNetworkData \<times> world) option" where
  "watch_address env i = (\<lambda>(data, w).
     let (handle, w) = ask (index_to_net (net env)) (IO_TCPIP (TCPIP_STACK_IndexToNet i)) w;
         (address, w) = ask (net_address (net env)) (IO_TCPIP (TCPIP_STACK_NetAddress handle)) w
     in do {
       last \<leftarrow> array_get (last_ip data) i;
       (if last = address then Some (data, w)
        else
          let data = data\<lparr>last_ip := (last_ip data)[i := address]\<rparr> in
          if address = 0 then Some (data, w)
          else Some (data\<lparr>ip_wait := 0\<rparr>, tell (IO_TCPIP (TCPIP_STACK_NetNameGet handle)) w))
     })"

primrec watch_addresses ::
    "harmony \<Rightarrow> nat list \<Rightarrow> AppNetworkData \<times> world \<Rightarrow> (AppNetworkData \<times> world) option" where
  "watch_addresses env [] s = Some s"
| "watch_addresses env (i # is) s = Option.bind (watch_address env i s) (watch_addresses env is)"

text \<open>What the connection status asks for; the flag says to return after it.\<close>

definition handle_connection ::
    "harmony \<Rightarrow> IWPRIV_CONNECTION \<Rightarrow> AppNetworkData \<times> world \<Rightarrow> bool \<times> AppNetworkData \<times> world" where
  "handle_connection env status = (\<lambda>(data, w).
     let handle = wifi_net_handle data in
     case status of
       IWPRIV_CONNECTION_SUCCESSFUL \<Rightarrow> (False, data\<lparr>reconn_retries := 0\<rparr>, w)
     | IWPRIV_CONNECTION_FAILED \<Rightarrow>
         (let retries = reconn_retries data;
              data = data\<lparr>reconn_retries := retries + 1\<rparr>
          in if retries < WIFI_RECONNECTION_RETRY_LIMIT then
               let w = APP_Network_TCPIP_IfModulesDisable env handle w;
                   w = APP_Network_TCPIP_IfaceDown handle w;
                   w = APP_Network_TCPIP_IfaceUp env handle w
               in (True, data\<lparr>is_wifi_power_save_configured := False,
                              network_state := APP_NETWORK_WIFI_CONFIG\<rparr>, w)
             else (False, data, w))
     | IWPRIV_CONNECTION_REESTABLISHED \<Rightarrow>
         (let w = tell (IO_TCPIP (TCPIP_DHCP_Disable handle)) w;
              w = tell (IO_TCPIP (TCPIP_DHCP_Enable handle)) w
          in (False, data\<lparr>is_wifi_power_save_configured := False,
                          ip_wait := timestamp_dhcp_kickin (wifi env)\<rparr>, w))
     | IWPRIV_CONNECTION_OTHER \<Rightarrow> (False, data, w))"

definition configure_power_save :: "harmony \<Rightarrow> u32 option \<Rightarrow> AppNetworkData \<times> world \<Rightarrow> AppNetworkData \<times> world" where
  "configure_power_save env handle = (\<lambda>(data, w).
     if is_wifi_power_save_configured data then (data, w)
     else
       let (is_up, w) = ask (net_is_up (net env)) (IO_TCPIP (TCPIP_STACK_NetIsUp handle)) w in
       if \<not> is_up then (data, w)
       else
         let (address, w) = ask (net_address (net env)) (IO_TCPIP (TCPIP_STACK_NetAddress handle)) w in
         if address = wifi_default_ip data then (data, w)
         else (data\<lparr>is_wifi_power_save_configured := True\<rparr>, w))"

definition wait_for_address :: "harmony \<Rightarrow> AppNetworkData \<times> world \<Rightarrow> AppNetworkData \<times> world" where
  "wait_for_address env = (\<lambda>(data, w).
     let (ticks, w) = ask (tmr_tick (tmr env)) (IO_Tmr SYS_TMR_TickCountGet) w;
         time_delta = ticks - start_tick data;
         (frequency, w) = ask (tmr_tick_frequency (tmr env)) (IO_Tmr SYS_TMR_TickCounterFrequencyGet) w;
         time_threshold = frequency div 2
     in if time_threshold \<le> time_delta then
          let data = (if ip_wait data = 0 then data
                      else
                        let waited = ip_wait data + 1 in
                        if WIFI_DHCP_WAIT_THRESHOLD < sint waited then data\<lparr>ip_wait := 0\<rparr>
                        else data\<lparr>ip_wait := waited\<rparr>);
              (ticks, w) = ask (tmr_tick (tmr env)) (IO_Tmr SYS_TMR_TickCountGet) w
          in (data\<lparr>start_tick := ticks\<rparr>, w)
        else (data, w))"

definition appNetworkRun :: "harmony \<Rightarrow> AppNetworkData \<times> world \<Rightarrow> (AppNetworkData \<times> world) option" where
  "appNetworkRun env = (\<lambda>(data, w).
     let handle = wifi_net_handle data;
         (status, w) = ask (wifi_connection (wifi env)) (IO_WiFi iwpriv_get_CONNSTATUS) w;
         (return_now, data, w) = handle_connection env status (data, w)
     in if return_now then Some (data, w)
        else
          let (num_nets, w) = ask (num_networks (net env)) (IO_TCPIP TCPIP_STACK_NumberOfNetworksGet) w
          in do {
            s \<leftarrow> watch_interfaces env [0..<num_nets] (data, w);
            s \<leftarrow> watch_addresses env [0..<num_nets] (configure_power_save env handle s);
            Some (wait_for_address env s)
          })"

section \<open>Public functions\<close>

definition APP_Network_Initialize :: "AppNetworkData \<times> world \<Rightarrow> AppNetworkData \<times> world" where
  "APP_Network_Initialize = (\<lambda>(data, w).
     (data\<lparr>network_state := APP_NETWORK_TCPIP_WAIT_INIT, ip_wait := 0, wifi_default_ip := - 1,
           wifi_net_handle := None\<rparr>,
      tell (IO_WiFi (iwpriv_set_INITCONN_OPTION True)) w))"

text \<open>The last case of the fall-through of \<open>APP_Network_Tasks\<close>, then the case above it.\<close>

definition modules_enable :: "harmony \<Rightarrow> AppNetworkData \<times> world \<Rightarrow> AppNetworkData \<times> world" where
  "modules_enable env s =
     (let (data, w) = appNetworkTCPIPModuleEnable env s
      in (data\<lparr>ip_wait := timestamp_dhcp_kickin (wifi env)\<rparr>, w))"

definition wifi_config :: "harmony \<Rightarrow> AppNetworkData \<times> world \<Rightarrow> AppNetworkData \<times> world" where
  "wifi_config env s =
     (let (opened, s) = appNetworkWifiConfig env s in if opened then modules_enable env s else s)"

definition APP_Network_Tasks :: "harmony \<Rightarrow> AppNetworkData \<times> world \<Rightarrow> (AppNetworkData \<times> world) option" where
  "APP_Network_Tasks env s =
     (case network_state (fst s) of
        APP_NETWORK_TCPIP_WAIT_INIT \<Rightarrow>
          (let (finished, s) = appNetworkTCPIPInitWait env s in
           if finished then Some (wifi_config env s) else Some s)
      | APP_NETWORK_WIFI_CONFIG \<Rightarrow> Some (wifi_config env s)
      | APP_NETWORK_TCPIP_MODULES_ENABLE \<Rightarrow> Some (modules_enable env s)
      | APP_NETWORK_TCPIP_TRANSACT \<Rightarrow> appNetworkRun env s
      | APP_NETWORK_TCPIP_ERROR \<Rightarrow> Some s)"

definition APP_Network_PHY_Reset :: "world \<Rightarrow> world" where
  "APP_Network_PHY_Reset w = pin_On ETH_NRST (pin_Off ETH_NRST w)"

definition APP_Network_PHY_Down :: "world \<Rightarrow> world" where
  "APP_Network_PHY_Down w = pin_Off ETH_NRST w"

definition APP_Network_PHY_Up :: "world \<Rightarrow> world" where
  "APP_Network_PHY_Up w = pin_Off ETH_NRST w"

definition APP_Network_PHY_SetEnabled :: "bool \<Rightarrow> world \<Rightarrow> world" where
  "APP_Network_PHY_SetEnabled enabled w =
     (if enabled then APP_Network_PHY_Up w else APP_Network_PHY_Down w)"

primrec any_net_ready :: "harmony \<Rightarrow> nat list \<Rightarrow> world \<Rightarrow> bool \<times> world" where
  "any_net_ready env [] w = (False, w)"
| "any_net_ready env (i # is) w =
     (let (handle, w) = ask (index_to_net (net env)) (IO_TCPIP (TCPIP_STACK_IndexToNet i)) w;
          (ready, w) = ask (net_is_ready (net env)) (IO_TCPIP (TCPIP_STACK_NetIsReady handle)) w
      in if ready then (True, w) else any_net_ready env is w)"

definition APP_Network_hasUsableInterface :: "harmony \<Rightarrow> world \<Rightarrow> bool \<times> world" where
  "APP_Network_hasUsableInterface env w =
     (let (num_nets, w) = ask (num_networks (net env)) (IO_TCPIP TCPIP_STACK_NumberOfNetworksGet) w
      in any_net_ready env [0..<num_nets] w)"

section \<open>What holds of every run\<close>

primrec network_ticks :: "harmony \<Rightarrow> nat \<Rightarrow> AppNetworkData \<times> world \<Rightarrow> (AppNetworkData \<times> world) option" where
  "network_ticks env 0 s = Some s"
| "network_ticks env (Suc n) s = Option.bind (network_ticks env n s) (APP_Network_Tasks env)"

definition network_inv :: "AppNetworkData \<Rightarrow> bool" where
  "network_inv data \<longleftrightarrow> length (was_net_up data) = 2 \<and> length (last_ip data) = 2 \<and>
     0 \<le> sint (ip_wait data) \<and> sint (ip_wait data) \<le> WIFI_DHCP_WAIT_THRESHOLD"

lemma network_inv_init: "network_inv (fst (APP_Network_Initialize (network_at_reset, w)))"
  by (simp add: network_inv_def APP_Network_Initialize_def network_at_reset_def WIFI_DHCP_WAIT_THRESHOLD_def)

lemma sint_kickin [simp]:
  "0 \<le> sint (timestamp_dhcp_kickin env)" "sint (timestamp_dhcp_kickin env) \<le> WIFI_DHCP_WAIT_THRESHOLD"
  by (simp_all add: timestamp_dhcp_kickin_def WIFI_DHCP_WAIT_THRESHOLD_def)

lemma network_inv_connection:
  "network_inv data \<Longrightarrow> network_inv (fst (snd (handle_connection env status (data, w))))"
  by (simp add: network_inv_def handle_connection_def Let_def split: IWPRIV_CONNECTION.split)

lemma watch_interface_safe:
  assumes "network_inv data" and "i < 2"
  shows "\<exists>data' w'. watch_interface env i (data, w) = Some (data', w') \<and> network_inv data'"
  using assms
  by (auto simp: network_inv_def watch_interface_def ask_split Let_def array_get_def)

lemma watch_interfaces_safe:
  assumes "network_inv data" and "\<forall>i \<in> set is. i < 2"
  shows "\<exists>data' w'. watch_interfaces env is (data, w) = Some (data', w') \<and> network_inv data'"
  using assms
proof (induction "is" arbitrary: data w)
  case (Cons i "is")
  then obtain data' w' where "watch_interface env i (data, w) = Some (data', w')" "network_inv data'"
    using watch_interface_safe [of data i env w] by auto
  with Cons show ?case by simp
qed simp

lemma watch_address_safe:
  assumes "network_inv data" and "i < 2"
  shows "\<exists>data' w'. watch_address env i (data, w) = Some (data', w') \<and> network_inv data'"
  using assms
  by (auto simp: network_inv_def watch_address_def ask_split Let_def array_get_def WIFI_DHCP_WAIT_THRESHOLD_def)

lemma watch_addresses_safe:
  assumes "network_inv data" and "\<forall>i \<in> set is. i < 2"
  shows "\<exists>data' w'. watch_addresses env is (data, w) = Some (data', w') \<and> network_inv data'"
  using assms
proof (induction "is" arbitrary: data w)
  case (Cons i "is")
  then obtain data' w' where "watch_address env i (data, w) = Some (data', w')" "network_inv data'"
    using watch_address_safe [of data i env w] by auto
  with Cons show ?case by simp
qed simp

lemma network_inv_power_save:
  "network_inv data \<Longrightarrow> network_inv (fst (configure_power_save env handle (data, w)))"
  by (simp add: network_inv_def configure_power_save_def ask_split Let_def)

lemma sint_next_wait:
  fixes x :: "16 word"
  assumes "0 \<le> sint x" and "sint x \<le> 60"
  shows "sint (x + 1) = sint x + 1"
  using assms by (simp add: sint_word_ariths signed_take_bit_int_eq_self)

lemma network_inv_wait:
  assumes "network_inv data"
  shows "network_inv (fst (wait_for_address env (data, w)))"
  using assms sint_next_wait [of "ip_wait data"]
  by (auto simp: network_inv_def wait_for_address_def ask_split Let_def WIFI_DHCP_WAIT_THRESHOLD_def)

lemma network_inv_tick:
  assumes few: "\<forall>l. num_networks (net env) l \<le> 2" and inv: "network_inv data"
  shows "\<exists>data' w'. APP_Network_Tasks env (data, w) = Some (data', w') \<and> network_inv data'"
proof -
  have enable: "network_inv (fst (modules_enable env (d, w)))" if "network_inv d" for d w
    using that by (simp add: modules_enable_def appNetworkTCPIPModuleEnable_def network_inv_def ask_split)
  have config: "network_inv (fst (wifi_config env (d, w)))" if "network_inv d" for d w
  proof (cases "appNetworkWifiConfig env (d, w)")
    case (fields opened d' w')
    then have "network_inv d'"
      using that by (auto simp: appNetworkWifiConfig_def network_inv_def ask_split Let_def split: if_splits)
    then show ?thesis using enable [of d' w'] fields by (simp add: wifi_config_def)
  qed
  have wait: "network_inv (fst (snd (appNetworkTCPIPInitWait env (data, w))))"
    using inv by (simp add: appNetworkTCPIPInitWait_def network_inv_def ask_split Let_def split_beta)
  show ?thesis
  proof (cases "network_state data")
    case APP_NETWORK_TCPIP_TRANSACT
    show ?thesis
    proof (cases "handle_connection env (wifi_connection (wifi env) (log w @ [IO_WiFi iwpriv_get_CONNSTATUS]))
        (data, tell (IO_WiFi iwpriv_get_CONNSTATUS) w)")
      case (fields return_now d1 w1)
      have inv1: "network_inv d1" using network_inv_connection [OF inv] fields by (metis fst_conv snd_conv)
      define n where "n = num_networks (net env) (log w1 @ [IO_TCPIP TCPIP_STACK_NumberOfNetworksGet])"
      let ?w2 = "tell (IO_TCPIP TCPIP_STACK_NumberOfNetworksGet) w1"
      let ?h = "wifi_net_handle data"
      have small: "\<forall>i \<in> set [0..<n]. i < 2" using few by (auto simp: n_def intro: order.strict_trans2)
      obtain d3 w3 where s3: "watch_interfaces env [0..<n] (d1, ?w2) = Some (d3, w3)" "network_inv d3"
        using watch_interfaces_safe [OF inv1 small] by blast
      obtain d4 w4 where s4: "configure_power_save env ?h (d3, w3) = (d4, w4)" "network_inv d4"
        using network_inv_power_save [OF s3(2), of env ?h w3] by (cases "configure_power_save env ?h (d3, w3)") auto
      obtain d5 w5 where s5: "watch_addresses env [0..<n] (d4, w4) = Some (d5, w5)" "network_inv d5"
        using watch_addresses_safe [OF s4(2) small] by blast
      show ?thesis
        using APP_NETWORK_TCPIP_TRANSACT inv1 fields s3 s4 s5 network_inv_wait [OF s5(2), of env w5]
        by (cases "wait_for_address env (d5, w5)")
          (simp add: APP_Network_Tasks_def appNetworkRun_def ask_split Let_def n_def)
    qed
  next
    case APP_NETWORK_TCPIP_WAIT_INIT
    show ?thesis
    proof (cases "appNetworkTCPIPInitWait env (data, w)")
      case (fields finished d1 w1)
      then have "network_inv d1" using wait by simp
      then show ?thesis using APP_NETWORK_TCPIP_WAIT_INIT fields config [of d1 w1]
        by (cases "wifi_config env (d1, w1)") (simp add: APP_Network_Tasks_def)
    qed
  next
    case APP_NETWORK_WIFI_CONFIG
    then show ?thesis using config [OF inv, of w]
      by (cases "wifi_config env (data, w)") (simp add: APP_Network_Tasks_def)
  next
    case APP_NETWORK_TCPIP_MODULES_ENABLE
    then show ?thesis using enable [OF inv, of w]
      by (cases "modules_enable env (data, w)") (simp add: APP_Network_Tasks_def)
  next
    case APP_NETWORK_TCPIP_ERROR
    then show ?thesis using inv by (simp add: APP_Network_Tasks_def)
  qed
qed

lemma network_inv_run:
  assumes few: "\<forall>l. num_networks (net env) l \<le> 2"
  shows "\<exists>data' w'. network_ticks env n (APP_Network_Initialize (network_at_reset, w)) = Some (data', w') \<and>
     network_inv data'"
proof (induction n)
  case 0
  show ?case using network_inv_init [of w]
    by (cases "APP_Network_Initialize (network_at_reset, w)") simp
next
  case (Suc n)
  then obtain d v where "network_ticks env n (APP_Network_Initialize (network_at_reset, w)) = Some (d, v)"
      "network_inv d" by blast
  then show ?case using network_inv_tick [OF few, of d v] by simp
qed

text \<open>
  C34: With at most two interfaces the networking component never leaves its arrays, however the
  interfaces, the Wi-Fi driver and the timer behave, and its wait for an address counts from 0 to
  at most 60: every number of ticks after initialization yields a state with these bounds.
\<close>

theorem network_runs_within_bounds:
  assumes "\<forall>l. num_networks (net env) l \<le> 2"
  shows "\<exists>data' w'. network_ticks env n (APP_Network_Initialize (network_at_reset, w)) = Some (data', w') \<and>
     length (was_net_up data') = 2 \<and> length (last_ip data') = 2 \<and>
     0 \<le> sint (ip_wait data') \<and> sint (ip_wait data') \<le> 60"
  using network_inv_run [OF assms, of n w] unfolding network_inv_def WIFI_DHCP_WAIT_THRESHOLD_def by blast

lemma network_runs_within_bounds_witness:
  "\<exists>data' w'. network_ticks sample_harmony 7 (APP_Network_Initialize (network_at_reset, empty_world)) = Some (data', w') \<and>
     length (was_net_up data') = 2 \<and> length (last_ip data') = 2 \<and>
     0 \<le> sint (ip_wait data') \<and> sint (ip_wait data') \<le> 60"
  by (rule network_runs_within_bounds) (simp add: sample_harmony_def)

text \<open>
  A failed TCP/IP stack is not reported: when the stack reports failure and the Wi-Fi driver is
  open, the tick that sees the failure goes on through the cases below it, enables the modules and
  ends in the transaction state; the error state it had entered is lost.
\<close>

theorem network_init_failure_lost:
  assumes "network_state data = APP_NETWORK_TCPIP_WAIT_INIT"
    and "stack_status (net env) (log w @ [IO_TCPIP TCPIP_STACK_Status]) = SYS_STATUS_FAILED"
    and "wifi_is_open (wifi env) (log w @ [IO_TCPIP TCPIP_STACK_Status, IO_WiFi iwpriv_get_DRVSTATUS])"
  shows "\<exists>data' w'. APP_Network_Tasks env (data, w) = Some (data', w') \<and>
     network_state data' = APP_NETWORK_TCPIP_TRANSACT"
  using assms
  by (simp add: APP_Network_Tasks_def appNetworkTCPIPInitWait_def wifi_config_def appNetworkWifiConfig_def
      modules_enable_def appNetworkTCPIPModuleEnable_def ask_split Let_def)

definition failing_stack :: harmony where
  "failing_stack = sample_harmony\<lparr>net := (net sample_harmony)\<lparr>stack_status := \<lambda>_. SYS_STATUS_FAILED\<rparr>\<rparr>"

lemma network_init_failure_lost_witness:
  "\<exists>data' w'. APP_Network_Tasks failing_stack (network_at_reset, empty_world) = Some (data', w') \<and>
     network_state data' = APP_NETWORK_TCPIP_TRANSACT"
  by (rule network_init_failure_lost)
    (simp_all add: failing_stack_def sample_harmony_def network_at_reset_def empty_world_def)

text \<open>
  Enabling the Ethernet PHY leaves its reset pin low, as disabling it does: after
  \<open>APP_Network_PHY_SetEnabled\<close> the pin is low whatever the argument, and only a reset of the PHY
  leaves it high.
\<close>

theorem phy_enable_keeps_reset:
  "\<not> pin_level ETH_NRST d (log (APP_Network_PHY_SetEnabled enabled w)) \<and>
   pin_level ETH_NRST d (log (APP_Network_PHY_Reset w))"
  by (simp add: APP_Network_PHY_SetEnabled_def APP_Network_PHY_Up_def APP_Network_PHY_Down_def
      APP_Network_PHY_Reset_def pin_level_append)

end
