(* ===== verification/Byte_Search.thy ===== *)
theory Byte_Search
  imports Main
begin

text \<open>
  Substring search over byte sequences as an interface: what a search function promises
  (the first occurrence, or none), and what follows from it for a client that receives a stream
  in chunks and keeps only a bounded tail of it.
\<close>

section \<open>Occurrences\<close>

definition occurs_at :: "'a list \<Rightarrow> 'a list \<Rightarrow> nat \<Rightarrow> bool" where
  "occurs_at hs nd i \<longleftrightarrow> i + length nd \<le> length hs \<and> take (length nd) (drop i hs) = nd"

definition first_occurrence :: "'a list \<Rightarrow> 'a list \<Rightarrow> nat \<Rightarrow> bool" where
  "first_occurrence hs nd i \<longleftrightarrow> occurs_at hs nd i \<and> (\<forall>j < i. \<not> occurs_at hs nd j)"

lemma occurs_at_append_left: "occurs_at hs nd i \<Longrightarrow> occurs_at (hs @ ys) nd i"
  by (auto simp: occurs_at_def)

lemma occurs_at_append_inside:
  "i + length nd \<le> length hs \<Longrightarrow> occurs_at (hs @ ys) nd i = occurs_at hs nd i"
  by (auto simp: occurs_at_def)

lemma occurs_at_append_right:
  "length hs \<le> i \<Longrightarrow> occurs_at (hs @ ys) nd i = occurs_at ys nd (i - length hs)"
  by (auto simp: occurs_at_def)

lemma occurs_at_drop:
  assumes "k \<le> i" and "k \<le> length hs"
  shows "occurs_at (drop k hs) nd (i - k) = occurs_at hs nd i"
proof -
  have "i - k + length nd \<le> length hs - k \<longleftrightarrow> i + length nd \<le> length hs"
    using assms by arith
  then show ?thesis using assms(1) by (simp add: occurs_at_def)
qed

lemma occurs_at_take:
  "i + length nd \<le> k \<Longrightarrow> occurs_at (take k hs) nd i = occurs_at hs nd i"
  by (auto simp: occurs_at_def take_drop min_def)

lemma occurs_at_in_range: "occurs_at hs nd i \<Longrightarrow> i + length nd \<le> length hs"
  by (simp add: occurs_at_def)

lemma first_occurrence_unique:
  "first_occurrence hs nd i \<Longrightarrow> first_occurrence hs nd j \<Longrightarrow> i = j"
  by (metis first_occurrence_def linorder_neqE_nat)

lemma first_occurrence_append:
  assumes first: "first_occurrence hs nd i"
  shows "first_occurrence (hs @ ys) nd i"
proof -
  have "\<not> occurs_at (hs @ ys) nd j" if "j < i" for j
  proof -
    have "j + length nd \<le> length hs"
      using that first occurs_at_in_range [of hs nd i] by (simp add: first_occurrence_def)
    then show ?thesis using that first by (simp add: occurs_at_append_inside first_occurrence_def)
  qed
  then show ?thesis using first by (simp add: first_occurrence_def occurs_at_append_left)
qed

lemma occurs_first_exists:
  assumes "occurs_at hs nd i"
  obtains j where "first_occurrence hs nd j" and "j \<le> i"
proof
  show "first_occurrence hs nd (LEAST j. occurs_at hs nd j)"
    using assms by (auto simp: first_occurrence_def intro: LeastI dest: not_less_Least)
  show "(LEAST j. occurs_at hs nd j) \<le> i"
    using assms by (rule Least_le)
qed

section \<open>The interface\<close>

locale substring_search =
  fixes search :: "'a list \<Rightarrow> 'a list \<Rightarrow> nat option"
  assumes search_found: "nd \<noteq> [] \<Longrightarrow> search hs nd = Some i \<Longrightarrow> first_occurrence hs nd i"
    and search_missing: "nd \<noteq> [] \<Longrightarrow> search hs nd = None \<Longrightarrow> \<not> occurs_at hs nd j"
begin

lemma search_first: "nd \<noteq> [] \<Longrightarrow> first_occurrence hs nd i \<Longrightarrow> search hs nd = Some i"
  by (metis first_occurrence_def first_occurrence_unique not_None_eq search_found search_missing)

lemma search_iff: "nd \<noteq> [] \<Longrightarrow> search hs nd = Some i \<longleftrightarrow> first_occurrence hs nd i"
  using search_first search_found by blast

text \<open>
  A stream \<open>s\<close> without the needle, of which the last \<open>k\<close> bytes are kept, at least
  one needle's length (or all of it); then a chunk \<open>b\<close>.
\<close>

lemma occurrence_in_window:
  assumes no: "\<And>j. \<not> occurs_at s nd j"
    and keep: "length nd \<le> k \<or> length s \<le> k"
    and occ: "occurs_at (s @ b) nd p"
  shows "length s - k \<le> p"
proof (rule ccontr)
  assume "\<not> length s - k \<le> p"
  then have "p + length nd \<le> length s" using keep by linarith
  then have "occurs_at s nd p" using occ by (simp add: occurs_at_append_inside)
  with no show False by blast
qed

lemma window_found:
  assumes nd: "nd \<noteq> []"
    and no: "\<And>j. \<not> occurs_at s nd j"
    and keep: "length nd \<le> k \<or> length s \<le> k"
    and found: "search (drop (length s - k) s @ take a b) nd = Some q"
  shows "first_occurrence (s @ b) nd (length s - k + q)"
proof -
  let ?o = "length s - k"
  have window: "drop ?o s @ take a b = drop ?o (s @ take a b)" by simp
  have whole: "s @ b = (s @ take a b) @ drop a b" by simp
  from search_found [OF nd found] have first: "first_occurrence (drop ?o (s @ take a b)) nd q"
    unfolding window .
  then have occ: "occurs_at (s @ take a b) nd (?o + q)"
    using occurs_at_drop [of ?o "?o + q" "s @ take a b" nd] by (simp add: first_occurrence_def)
  have "\<not> occurs_at (s @ take a b) nd j" if "j < ?o + q" for j
  proof
    assume j: "occurs_at (s @ take a b) nd j"
    have "?o \<le> j" using occurrence_in_window [OF no keep j] .
    then have "occurs_at (drop ?o (s @ take a b)) nd (j - ?o)"
      using j occurs_at_drop [of ?o j "s @ take a b" nd] by simp
    moreover have "j - ?o < q" using \<open>?o \<le> j\<close> that by linarith
    ultimately show False using first by (auto simp: first_occurrence_def)
  qed
  then have "first_occurrence (s @ take a b) nd (?o + q)"
    using occ by (simp add: first_occurrence_def)
  then show ?thesis unfolding whole by (rule first_occurrence_append)
qed

lemma window_missing:
  assumes nd: "nd \<noteq> []"
    and no: "\<And>j. \<not> occurs_at s nd j"
    and keep: "length nd \<le> k \<or> length s \<le> k"
    and missing: "search (drop (length s - k) s @ take a b) nd = None"
    and ahead: "length nd \<le> a \<or> length b \<le> a"
    and occ: "occurs_at (s @ b) nd p"
  shows "length s \<le> p"
proof (rule ccontr)
  let ?o = "length s - k"
  assume "\<not> length s \<le> p"
  then have inside: "p + length nd \<le> length (s @ take a b)"
    using ahead occurs_at_in_range [OF occ] by auto
  have "s @ b = (s @ take a b) @ drop a b" by simp
  then have "occurs_at (s @ take a b) nd p"
    using occ inside occurs_at_append_inside by metis
  moreover have "?o \<le> p" using occurrence_in_window [OF no keep occ] .
  ultimately have "occurs_at (drop ?o (s @ take a b)) nd (p - ?o)"
    using occurs_at_drop [of ?o p "s @ take a b" nd] by simp
  then show False using search_missing [OF nd missing] by simp
qed

lemma chunk_found:
  assumes "nd \<noteq> []"
    and "\<And>j. \<not> occurs_at s nd j"
    and "length nd \<le> k \<or> length s \<le> k"
    and "search (drop (length s - k) s @ take a b) nd = None"
    and "length nd \<le> a \<or> length b \<le> a"
    and found: "search b nd = Some q"
  shows "first_occurrence (s @ b) nd (length s + q)"
proof -
  from search_found [OF assms(1) found] have first: "first_occurrence b nd q" .
  have "\<not> occurs_at (s @ b) nd j" if "j < length s + q" for j
  proof
    assume occ: "occurs_at (s @ b) nd j"
    have "length s \<le> j" using window_missing [OF assms(1-5) occ] .
    then have "occurs_at b nd (j - length s)" using occ by (simp add: occurs_at_append_right)
    then show False using first that \<open>length s \<le> j\<close> by (auto simp: first_occurrence_def)
  qed
  then show ?thesis using first by (simp add: first_occurrence_def occurs_at_append_right)
qed

lemma chunk_missing:
  assumes "nd \<noteq> []"
    and "\<And>j. \<not> occurs_at s nd j"
    and "length nd \<le> k \<or> length s \<le> k"
    and "search (drop (length s - k) s @ take a b) nd = None"
    and "length nd \<le> a \<or> length b \<le> a"
    and missing: "search b nd = None"
  shows "\<not> occurs_at (s @ b) nd j"
proof
  assume occ: "occurs_at (s @ b) nd j"
  have "length s \<le> j" using window_missing [OF assms(1-5) occ] .
  then have "occurs_at b nd (j - length s)" using occ by (simp add: occurs_at_append_right)
  then show False using search_missing [OF assms(1) missing] by simp
qed

text \<open>A kept suffix that starts with the first occurrence: more bytes leave it at the start.\<close>

lemma waiting_found:
  assumes nd: "nd \<noteq> []" and first: "first_occurrence s nd p"
  shows "search (drop p s @ x) nd = Some 0"
proof -
  have "occurs_at (drop p s) nd 0"
    using first occurs_at_drop [of p p s nd] occurs_at_in_range [of s nd p]
    by (simp add: first_occurrence_def)
  then have "first_occurrence (drop p s @ x) nd 0"
    by (simp add: first_occurrence_def occurs_at_append_left)
  then show ?thesis by (rule search_first [OF nd])
qed

end

end
