(* ===== verification/Util_String.thy ===== *)
theory Util_String
  imports Prelude Byte_Search
begin

text \<open>
  \<open>firmware/src/util_string.c\<close>, \<open>util_math.c\<close> and \<open>gcc/memmem.c\<close>. A function
  that only reads takes the memory \<open>m\<close> and addresses, and returns an address or
  \<open>None\<close> for NULL; a function that fills a buffer takes the content of the destination array
  (\<open>None\<close> for a NULL pointer) and returns the new content. A caller that holds its string in
  an array passes the array's content as the memory at address 0. The search functions are
  proved against the first occurrence of a substring, the copies against a bounded prefix.
\<close>

section \<open>util_math.c\<close>

definition min_zz :: "nat \<Rightarrow> nat \<Rightarrow> nat" where
  "min_zz a b = (if a < b then a else b)"

lemma min_zz_min [simp]: "min_zz a b = min a b"
  by (simp add: min_zz_def)

section \<open>Reading characters\<close>

type_synonym chars = "nat \<Rightarrow> char"
  \<comment> \<open>the characters in memory, by address\<close>

definition chars_at :: "chars \<Rightarrow> nat \<Rightarrow> nat \<Rightarrow> char list" where
  "chars_at m p n = map (\<lambda>i. m (p + i)) [0..<n]"

lemma length_chars_at [simp]: "length (chars_at m p n) = n"
  by (simp add: chars_at_def)

lemma chars_at_nth [simp]: "i < n \<Longrightarrow> chars_at m p n ! i = m (p + i)"
  by (simp add: chars_at_def)

lemma chars_at_0 [simp]: "chars_at m p 0 = []"
  by (simp add: chars_at_def)

lemma chars_at_Suc: "chars_at m p (Suc n) = m p # chars_at m (Suc p) n"
  by (rule nth_equalityI) (auto simp: nth_Cons' simp del: upt_Suc)

lemma chars_at_add: "chars_at m p (a + b) = chars_at m p a @ chars_at m (p + a) b"
  by (rule nth_equalityI) (auto simp: nth_append)

lemma take_chars_at: "k \<le> n \<Longrightarrow> take k (chars_at m p n) = chars_at m p k"
  by (rule nth_equalityI) auto

lemma drop_chars_at: "drop k (chars_at m p n) = chars_at m (p + k) (n - k)"
  by (rule nth_equalityI) (auto simp: add.assoc)

text \<open>The memory around an array of characters; past its end the characters are those of \<open>beyond\<close>.\<close>

definition array_chars :: "char list \<Rightarrow> chars \<Rightarrow> chars" where
  "array_chars xs beyond = (\<lambda>i. if i < length xs then xs ! i else beyond i)"

text \<open>\<open>strlen\<close>: the characters before the first NUL, among the next \<open>2 ^ 32\<close>.\<close>

primrec strlen_from :: "nat \<Rightarrow> chars \<Rightarrow> nat \<Rightarrow> nat" where
  "strlen_from 0 m p = 0"
| "strlen_from (Suc fuel) m p = (if m p = CHR 0x00 then 0 else Suc (strlen_from fuel m (Suc p)))"

text \<open>A string of \<open>n\<close> characters at \<open>p\<close>: its terminator is at \<open>p + n\<close>.\<close>

definition string_at :: "chars \<Rightarrow> nat \<Rightarrow> char list \<Rightarrow> bool" where
  "string_at m p s \<longleftrightarrow> CHR 0x00 \<notin> set s \<and> chars_at m p (length s) = s \<and> m (p + length s) = CHR 0x00"

definition strlen :: "chars \<Rightarrow> nat \<Rightarrow> nat" where
  "strlen m p = strlen_from (2 ^ 32) m p"

lemma strlen_from_numeral [simp]:
  "strlen_from (numeral k) m p =
     (if m p = CHR 0x00 then 0 else Suc (strlen_from (pred_numeral k) m (Suc p)))"
  by (simp add: numeral_eq_Suc)

lemma strlen_from_string_at:
  "string_at m p s \<Longrightarrow> length s < fuel \<Longrightarrow> strlen_from fuel m p = length s"
proof (induction s arbitrary: p fuel)
  case Nil
  then show ?case by (cases fuel) (auto simp: string_at_def)
next
  case (Cons c s)
  from Cons.prems obtain k where fuel: "fuel = Suc k" by (cases fuel) auto
  from Cons.prems(1) have "m p = c" "c \<noteq> CHR 0x00" "string_at m (Suc p) s"
    by (auto simp: string_at_def chars_at_Suc)
  with Cons.IH [of "Suc p" k] Cons.prems(2) fuel show ?case by simp
qed

lemma strlen_string_at: "string_at m p s \<Longrightarrow> length s < 2 ^ 32 \<Longrightarrow> strlen m p = length s"
  unfolding strlen_def by (rule strlen_from_string_at)

lemma string_at_suffix:
  "string_at m p (s @ t) \<Longrightarrow> string_at m (p + length s) t"
  by (auto simp: string_at_def chars_at_add add.assoc)

lemma string_at_chars: "string_at m p s \<Longrightarrow> k \<le> length s \<Longrightarrow> chars_at m p k = take k s"
  by (metis string_at_def take_chars_at)

section \<open>Searching for characters\<close>

primrec strchr_len :: "chars \<Rightarrow> nat \<Rightarrow> char \<Rightarrow> nat \<Rightarrow> nat option" where
  "strchr_len m haystack needle 0 = None"
| "strchr_len m haystack needle (Suc n) =
     (if m haystack = CHR 0x00 then None
      else if m haystack = needle then Some haystack
      else strchr_len m (Suc haystack) needle n)"

text \<open>
  \<open>strchr(needles, c)\<close> also finds the terminator of \<open>needles\<close>; the callee's test of the
  haystack's character against NUL comes first.
\<close>

primrec strchr_any_len :: "chars \<Rightarrow> nat \<Rightarrow> char list \<Rightarrow> nat \<Rightarrow> nat option" where
  "strchr_any_len m haystack needles 0 = None"
| "strchr_any_len m haystack needles (Suc n) =
     (if m haystack = CHR 0x00 then None
      else if m haystack \<in> set (needles @ [CHR 0x00]) then Some haystack
      else strchr_any_len m (Suc haystack) needles n)"

text \<open>Both are a search for the first character of a set, before NUL and within the length.\<close>

definition first_char :: "(char \<Rightarrow> bool) \<Rightarrow> char list \<Rightarrow> nat option" where
  "first_char P s = (if \<exists>c \<in> set s. P c then Some (length (takeWhile (\<lambda>c. \<not> P c) s)) else None)"

lemma first_char_Nil [simp]: "first_char P [] = None"
  by (simp add: first_char_def)

lemma first_char_Cons:
  "first_char P (c # s) = (if P c then Some 0 else map_option Suc (first_char P s))"
  by (simp add: first_char_def)

lemma first_char_append:
  "first_char P (s @ t) =
     (case first_char P s of Some i \<Rightarrow> Some i | None \<Rightarrow> map_option (\<lambda>i. length s + i) (first_char P t))"
  by (induction s) (auto simp: first_char_Cons map_option_case split: option.splits)

lemma first_char_none: "\<forall>c \<in> set s. \<not> P c \<Longrightarrow> first_char P s = None"
  by (auto simp: first_char_def)

lemma strchr_any_len_first:
  "strchr_any_len m p needles n =
     map_option ((+) p) (first_char (\<lambda>c. c \<in> set needles) (cstr (chars_at m p n)))"
  by (induction n arbitrary: p)
     (auto simp: chars_at_Suc cstr_def first_char_Cons map_option_case split: option.splits)

lemma strchr_len_any: "needle \<noteq> CHR 0x00 \<Longrightarrow> strchr_len m p needle n = strchr_any_len m p [needle] n"
  by (induction n arbitrary: p) auto

lemma strchr_len_first:
  "needle \<noteq> CHR 0x00 \<Longrightarrow>
     strchr_len m p needle n = map_option ((+) p) (first_char (\<lambda>c. c = needle) (cstr (chars_at m p n)))"
  by (simp add: strchr_len_any strchr_any_len_first)

section \<open>Searching for strings\<close>

text \<open>
  \<open>memmem\<close> of \<open>gcc/memmem.c\<close>, over the \<open>haystack_len\<close> bytes of the haystack and the
  \<open>needle_len\<close> bytes of the needle: the loop over \<open>begin\<close> compares the first byte and
  then the rest.
\<close>

function memmem_from :: "char list \<Rightarrow> char list \<Rightarrow> nat \<Rightarrow> nat option" where
  "memmem_from haystack needle begin =
     (if begin \<le> length haystack - length needle then
        if haystack ! begin = needle ! 0 \<and>
           take (length needle - 1) (drop (begin + 1) haystack) = drop 1 needle
        then Some begin
        else memmem_from haystack needle (begin + 1)
      else None)"
  by pat_completeness auto
termination
  by (relation "measure (\<lambda>(haystack, needle, begin). Suc (length haystack) - begin)") auto

declare memmem_from.simps [simp del]

definition memmem :: "char list \<Rightarrow> char list \<Rightarrow> nat option" where
  "memmem haystack needle =
     (if length needle = 0 then Some 0
      else if length haystack < length needle then None
      else memmem_from haystack needle 0)"

definition strstr_len :: "char list \<Rightarrow> char list \<Rightarrow> nat option" where
  "strstr_len haystack needle = memmem haystack (cstr needle)"

lemma memcmp_occurs:
  assumes "needle \<noteq> []" and "b + length needle \<le> length haystack"
  shows "(haystack ! b = needle ! 0 \<and> take (length needle - 1) (drop (b + 1) haystack) = drop 1 needle)
     = occurs_at haystack needle b"
proof -
  obtain c cs where needle: "needle = c # cs" using assms(1) by (cases needle) auto
  have "b < length haystack" using assms needle by simp
  then have "drop b haystack = haystack ! b # drop (Suc b) haystack" by (simp add: Cons_nth_drop_Suc)
  then show ?thesis using assms(2) by (auto simp: needle occurs_at_def)
qed

lemma memmem_from_first:
  assumes "needle \<noteq> []" and "length needle \<le> length haystack"
    and "\<forall>j < b. \<not> occurs_at haystack needle j"
  shows "case memmem_from haystack needle b of
      Some i \<Rightarrow> first_occurrence haystack needle i
    | None \<Rightarrow> \<forall>j. \<not> occurs_at haystack needle j"
  using assms
proof (induction haystack needle b rule: memmem_from.induct)
  case (1 haystack needle b)
  show ?case
  proof (cases "b \<le> length haystack - length needle")
    case False
    then have "\<not> occurs_at haystack needle j" for j
      using "1.prems" occurs_at_in_range [of haystack needle j] by (cases "j < b") auto
    with False show ?thesis by (simp add: memmem_from.simps [of haystack needle b])
  next
    case True
    then have inside: "b + length needle \<le> length haystack" using "1.prems"(2) by simp
    note same = memcmp_occurs [OF "1.prems"(1) inside]
    have step: "memmem_from haystack needle b =
        (if occurs_at haystack needle b then Some b else memmem_from haystack needle (b + 1))"
      using True same memmem_from.simps [of haystack needle b] by presburger
    show ?thesis
    proof (cases "occurs_at haystack needle b")
      case True
      then show ?thesis using "1.prems"(3) step by (simp add: first_occurrence_def)
    next
      case False
      then have "\<forall>j < b + 1. \<not> occurs_at haystack needle j"
        using "1.prems"(3) by (auto simp: less_Suc_eq)
      from "1.IH" [OF True _ "1.prems"(1,2) this] False step same show ?thesis by simp
    qed
  qed
qed

lemma memmem_first:
  assumes "needle \<noteq> []"
  shows "case memmem haystack needle of
      Some i \<Rightarrow> first_occurrence haystack needle i
    | None \<Rightarrow> \<forall>j. \<not> occurs_at haystack needle j"
proof (cases "length haystack < length needle")
  case True
  then show ?thesis using assms by (auto simp: memmem_def occurs_at_def)
next
  case False
  then show ?thesis using assms memmem_from_first [of needle haystack 0] by (simp add: memmem_def)
qed

interpretation memmem: substring_search memmem
proof
  fix nd hs :: "char list" and i j
  assume nd: "nd \<noteq> []"
  note first = memmem_first [OF nd, of hs]
  show "first_occurrence hs nd i" if "memmem hs nd = Some i" using first that by simp
  show "\<not> occurs_at hs nd j" if "memmem hs nd = None" using first that by simp
qed

section \<open>Bounded copies\<close>

text \<open>
  The result is whether a non-NULL pointer is returned, with the destination's new content;
  \<open>None\<close> when the copy runs past the end of the destination array.
\<close>

definition safe_strncpy_len ::
    "chars \<Rightarrow> char list option \<Rightarrow> nat option \<Rightarrow> nat \<Rightarrow> nat \<Rightarrow> (bool \<times> char list option) option" where
  "safe_strncpy_len m dst src len max_copy =
     (case (dst, src) of
        (Some d, Some s) \<Rightarrow>
          if max_copy = 0 then Some (False, dst)
          else do {
            let max_len = min_zz len (max_copy - 1);
            d \<leftarrow> array_write d 0 (chars_at m s max_len);
            d \<leftarrow> array_set d max_len (CHR 0x00);
            Some (True, Some d)
          }
      | _ \<Rightarrow> Some (False, dst))"

primrec safe_strnlen :: "chars \<Rightarrow> nat \<Rightarrow> nat \<Rightarrow> nat" where
  "safe_strnlen m s 0 = 0"
| "safe_strnlen m s (Suc n) = (if m s = CHR 0x00 then 0 else Suc (safe_strnlen m (Suc s) n))"

definition safe_strncpy ::
    "chars \<Rightarrow> char list option \<Rightarrow> nat option \<Rightarrow> nat \<Rightarrow> (bool \<times> char list option) option" where
  "safe_strncpy m dst src max_copy =
     (case (dst, src) of
        (Some d, Some s) \<Rightarrow>
          if max_copy = 0 then Some (False, dst)
          else do {
            let src_len = safe_strnlen m s (max_copy - 1);
            d \<leftarrow> array_write d 0 (chars_at m s src_len);
            d \<leftarrow> array_set d src_len (CHR 0x00);
            Some (True, Some d)
          }
      | _ \<Rightarrow> Some (False, dst))"

text \<open>
  \<open>vsnprintf\<close> itself is the C library's: \<open>expanded\<close> is the text it produces, \<open>None\<close>
  when it fails with -1. It stores at most \<open>size - 1\<close> characters and a NUL.
\<close>

definition vsnprintf :: "char list \<Rightarrow> nat \<Rightarrow> char list option \<Rightarrow> (int \<times> char list) option" where
  "vsnprintf buffer sz expanded =
     (case expanded of
        None \<Rightarrow> Some (-1, buffer)
      | Some s \<Rightarrow>
          (if sz = 0 then Some (int (length s), buffer)
           else do {
             buffer \<leftarrow> array_write buffer 0 (take (sz - 1) s @ [CHR 0x00]);
             Some (int (length s), buffer)
           }))"

definition safe_vsnprintf :: "char list \<Rightarrow> nat \<Rightarrow> char list option \<Rightarrow> (int \<times> char list) option" where
  "safe_vsnprintf buffer sz expanded = do {
     (n, buffer) \<leftarrow> vsnprintf buffer sz expanded;
     buffer \<leftarrow> (if n \<noteq> -1 \<and> n < int sz then array_set buffer (nat n) (CHR 0x00)
               else array_set buffer (sz - 1) (CHR 0x00));
     Some (n, buffer)
   }"

definition safe_snprintf :: "char list \<Rightarrow> nat \<Rightarrow> char list option \<Rightarrow> (int \<times> char list) option" where
  "safe_snprintf dst sz expanded = safe_vsnprintf dst sz expanded"

lemma safe_strnlen_cstr: "safe_strnlen m s n = length (cstr (chars_at m s n))"
  by (induction n arbitrary: s) (auto simp: chars_at_Suc cstr_def)

lemma safe_strnlen_le: "safe_strnlen m s n \<le> n"
  by (induction n arbitrary: s) auto

lemma safe_strnlen_string_at:
  "string_at m p s \<Longrightarrow> safe_strnlen m p n = min (length s) n"
proof (induction n arbitrary: p s)
  case 0
  then show ?case by simp
next
  case (Suc n)
  show ?case
  proof (cases s)
    case Nil
    then show ?thesis using Suc.prems by (simp add: string_at_def)
  next
    case (Cons c t)
    then have "m p = c" "c \<noteq> CHR 0x00" "string_at m (Suc p) t"
      using Suc.prems by (auto simp: string_at_def chars_at_Suc)
    then show ?thesis using Suc.IH [of "Suc p" t] Cons by simp
  qed
qed

lemma list_update_append_drop:
  "n < length d \<Longrightarrow> length s = n \<Longrightarrow> (s @ drop n d)[n := x] = s @ x # drop (Suc n) d"
  by (simp add: list_update_append Cons_nth_drop_Suc [symmetric] del: Cons_nth_drop_Suc)

lemma safe_strncpy_len_content:
  assumes "0 < max_copy" and "max_copy \<le> length d"
  shows "safe_strncpy_len m (Some d) (Some s) len max_copy =
    Some (True, Some (chars_at m s (min len (max_copy - 1)) @ CHR 0x00 #
      drop (Suc (min len (max_copy - 1))) d))"
  using assms
  by (simp add: safe_strncpy_len_def array_simps list_update_append_drop Let_def)

lemma safe_strncpy_content:
  assumes "0 < max_copy" and "max_copy \<le> length d"
  shows "safe_strncpy m (Some d) (Some s) max_copy =
    Some (True, Some (chars_at m s (safe_strnlen m s (max_copy - 1)) @ CHR 0x00 #
      drop (Suc (safe_strnlen m s (max_copy - 1))) d))"
proof -
  have "safe_strnlen m s (max_copy - 1) < length d"
    using assms safe_strnlen_le [of m s "max_copy - 1"] by linarith
  then show ?thesis using assms
    by (simp add: safe_strncpy_def array_simps list_update_append_drop Let_def)
qed

lemma safe_strncpy_len_null [simp]:
  "safe_strncpy_len m None src len max_copy = Some (False, None)"
  by (simp add: safe_strncpy_len_def)

section \<open>reverse_bytes\<close>

text \<open>
  \<open>lo\<close> and \<open>hi\<close> are offsets from \<open>mem\<close>; for \<open>size = 0\<close> the source's \<open>hi\<close> lies before
  \<open>lo\<close> and the loop does not run either.
\<close>

function reverse_bytes_from :: "'a list \<Rightarrow> nat \<Rightarrow> nat \<Rightarrow> 'a list" where
  "reverse_bytes_from xs lo hi =
     (if lo < hi then reverse_bytes_from ((xs[lo := xs ! hi])[hi := xs ! lo]) (lo + 1) (hi - 1) else xs)"
  by pat_completeness auto
termination
  by (relation "measure (\<lambda>(xs, lo, hi). hi - lo)") auto

declare reverse_bytes_from.simps [simp del]

definition reverse_bytes :: "'a list \<Rightarrow> 'a list" where
  "reverse_bytes xs = reverse_bytes_from xs 0 (length xs - 1)"

lemma length_reverse_bytes_from [simp]: "length (reverse_bytes_from xs lo hi) = length xs"
  by (induction xs lo hi rule: reverse_bytes_from.induct) (subst reverse_bytes_from.simps, simp)

lemma reverse_bytes_from_nth:
  "hi < length xs \<Longrightarrow> lo \<le> Suc hi \<Longrightarrow> i < length xs \<Longrightarrow>
     reverse_bytes_from xs lo hi ! i = (if lo \<le> i \<and> i \<le> hi then xs ! (lo + hi - i) else xs ! i)"
proof (induction xs lo hi rule: reverse_bytes_from.induct)
  case (1 xs lo hi)
  show ?case
  proof (cases "lo < hi")
    case False
    then have "lo \<le> i \<and> i \<le> hi \<Longrightarrow> lo + hi - i = i" by linarith
    with False show ?thesis by (auto simp: reverse_bytes_from.simps [of xs lo hi])
  next
    case True
    let ?ys = "(xs[lo := xs ! hi])[hi := xs ! lo]"
    have IH: "reverse_bytes_from ?ys (lo + 1) (hi - 1) ! i =
      (if lo + 1 \<le> i \<and> i \<le> hi - 1 then ?ys ! (lo + 1 + (hi - 1) - i) else ?ys ! i)"
      using "1.IH" True "1.prems" by simp
    consider "i = lo" | "i = hi" | "lo < i \<and> i < hi" | "i < lo \<or> hi < i" by linarith
    then have "reverse_bytes_from ?ys (lo + 1) (hi - 1) ! i =
      (if lo \<le> i \<and> i \<le> hi then xs ! (lo + hi - i) else xs ! i)"
      using True "1.prems" unfolding IH by cases (auto simp: nth_list_update)
    then show ?thesis using True by (simp add: reverse_bytes_from.simps [of xs lo hi])
  qed
qed

lemma reverse_bytes_rev: "reverse_bytes xs = rev xs"
proof (rule nth_equalityI)
  show "length (reverse_bytes xs) = length (rev xs)" by (simp add: reverse_bytes_def)
next
  fix i
  assume "i < length (reverse_bytes xs)"
  then have i: "i < length xs" by (simp add: reverse_bytes_def)
  then have "reverse_bytes xs ! i = xs ! (length xs - 1 - i)"
    using reverse_bytes_from_nth [of "length xs - 1" xs 0 i] by (auto simp: reverse_bytes_def)
  with i show "reverse_bytes xs ! i = rev xs ! i" by (simp add: rev_nth)
qed

end
