(* ===== verification/Util_Url.thy ===== *)
theory Util_Url
  imports Util_String
begin

text \<open>
  \<open>firmware/src/util_url.c\<close>: the URL parser. The URL is read from memory through pointers;
  the outputs are buffers with their sizes, either of which the caller may leave out with a NULL
  pointer. Lengths are \<open>size_t\<close> and wrap. The result is \<open>None\<close> when a copy leaves its
  destination. The functional correctness of the parser is a round trip with the abstract
  \<open>url\<close> and its text.
\<close>

section \<open>Functions of the C library\<close>

definition string_from :: "chars \<Rightarrow> nat \<Rightarrow> char list" where
  "string_from m p = chars_at m p (strlen m p)"

definition strstr :: "chars \<Rightarrow> nat \<Rightarrow> char list \<Rightarrow> nat option" where
  "strstr m haystack needle = map_option (\<lambda>i. haystack + i) (memmem (string_from m haystack) needle)"

text \<open>\<open>strncmp\<close> with a literal of exactly \<open>n\<close> characters.\<close>

definition STREQ_LEN :: "chars \<Rightarrow> nat \<Rightarrow> char list \<Rightarrow> nat \<Rightarrow> bool" where
  "STREQ_LEN m a literal n \<longleftrightarrow> chars_at m a n = take n literal"

definition is_digit :: "char \<Rightarrow> bool" where
  "is_digit c \<longleftrightarrow> 48 \<le> (of_char c :: nat) \<and> of_char c \<le> (57 :: nat)"

definition is_space :: "char \<Rightarrow> bool" where
  "is_space c \<longleftrightarrow> c \<in> {CHR '' '', CHR 0x09, CHR 0x0A, CHR 0x0B, CHR 0x0C, CHR 0x0D}"

definition digit_value :: "char \<Rightarrow> int" where
  "digit_value c = int (of_char c) - 48"

definition digits_value :: "char list \<Rightarrow> int" where
  "digits_value = foldl (\<lambda>v c. 10 * v + digit_value c) 0"

fun atoi :: "char list \<Rightarrow> int" where
  "atoi (c # s) =
     (if is_space c then atoi s
      else if c = CHR ''-'' then - digits_value (takeWhile is_digit s)
      else if c = CHR ''+'' then digits_value (takeWhile is_digit s)
      else digits_value (takeWhile is_digit (c # s)))"
| "atoi [] = 0"

section \<open>Outputs\<close>

type_synonym url_buffer = "char list option \<times> nat" \<comment> \<open>content (None for NULL) and size\<close>

record url_outputs =
  url_scheme :: url_buffer
  url_user :: url_buffer
  url_password :: url_buffer
  url_host :: url_buffer
  url_port :: "u16 option"
  url_path :: url_buffer
  url_query :: url_buffer
  url_fragment :: url_buffer
  url_path_suffix :: url_buffer

definition copy_part :: "chars \<Rightarrow> url_buffer \<Rightarrow> nat option \<Rightarrow> nat \<Rightarrow> url_buffer option" where
  "copy_part m = (\<lambda>(buffer, max_copy) src len. do {
     (_, buffer) \<leftarrow> safe_strncpy_len m buffer src len max_copy;
     Some (buffer, max_copy)
   })"

definition copy_literal :: "url_buffer \<Rightarrow> char list \<Rightarrow> nat \<Rightarrow> url_buffer option" where
  "copy_literal out literal len = copy_part (array_chars literal (\<lambda>_. CHR 0x00)) out (Some 0) len"

section \<open>The parser\<close>

definition urlParse_scheme ::
    "chars \<Rightarrow> nat \<Rightarrow> nat \<Rightarrow> url_outputs \<Rightarrow> (bool \<times> url_outputs) option" where
  "urlParse_scheme m url_part len out = do {
     scheme \<leftarrow> copy_part m (url_scheme out) (Some url_part) len;
     let out = out\<lparr>url_scheme := scheme\<rparr>;
     if url_port out = None then Some (True, out)
     else if STREQ_LEN m url_part ''https'' 5 then Some (True, out\<lparr>url_port := Some 443\<rparr>)
     else if STREQ_LEN m url_part ''http'' 4 then Some (True, out\<lparr>url_port := Some 80\<rparr>)
     else Some (True, out)
   }"

definition urlParse_userAndPassword ::
    "chars \<Rightarrow> nat \<Rightarrow> nat \<Rightarrow> url_outputs \<Rightarrow> (bool \<times> url_outputs) option" where
  "urlParse_userAndPassword m url_part len out =
     (if fst (url_user out) = None \<and> fst (url_password out) = None then Some (True, out)
      else case strchr_len m url_part CHR '':'' len of
        None \<Rightarrow> do {
          user \<leftarrow> copy_part m (url_user out) (Some url_part) len;
          password \<leftarrow> copy_literal (url_password out) [CHR 0x00] 1;
          Some (True, out\<lparr>url_user := user, url_password := password\<rparr>)
        }
      | Some colon \<Rightarrow> do {
          user \<leftarrow> copy_part m (url_user out) (Some url_part) (colon - url_part);
          password \<leftarrow> copy_part m (url_password out) (Some (colon + 1))
                        (sz_sub len (colon - url_part + 1));
          Some (True, out\<lparr>url_user := user, url_password := password\<rparr>)
        })"

definition urlParse_hostAndPort ::
    "chars \<Rightarrow> nat \<Rightarrow> nat \<Rightarrow> url_outputs \<Rightarrow> (bool \<times> url_outputs) option" where
  "urlParse_hostAndPort m url_part len out =
     (if fst (url_host out) = None \<and> url_port out = None then Some (True, out)
      else case strchr_len m url_part CHR '':'' len of
        None \<Rightarrow> do {
          host \<leftarrow> copy_part m (url_host out) (Some url_part) len;
          Some (True, out\<lparr>url_host := host\<rparr>)
        }
      | Some colon \<Rightarrow> do {
          host \<leftarrow> copy_part m (url_host out) (Some url_part) (colon - url_part);
          let out = out\<lparr>url_host := host\<rparr>;
          Some (True,
            if url_port out \<noteq> None
            then out\<lparr>url_port := Some (word_of_int (atoi (string_from m (colon + 1))))\<rparr>
            else out)
        })"

definition urlParse_userPasswordHostAndPort ::
    "chars \<Rightarrow> nat \<Rightarrow> nat \<Rightarrow> url_outputs \<Rightarrow> (bool \<times> url_outputs) option" where
  "urlParse_userPasswordHostAndPort m url_part len out = do {
     (ok, url_part, len, out) \<leftarrow>
       (case strchr_len m url_part CHR ''@'' len of
          Some at \<Rightarrow> do {
            let user_password_len = at - url_part;
            (ok, out) \<leftarrow> urlParse_userAndPassword m url_part user_password_len out;
            Some (ok, at + 1, sz_sub len (user_password_len + 1), out)
          }
        | None \<Rightarrow> do {
            user \<leftarrow> copy_literal (url_user out) [CHR 0x00] 1;
            password \<leftarrow> copy_literal (url_password out) [CHR 0x00] 1;
            Some (True, url_part, len, out\<lparr>url_user := user, url_password := password\<rparr>)
          });
     if \<not> ok then Some (False, out)
     else do {
       (ok, out) \<leftarrow> urlParse_hostAndPort m url_part len out;
       Some (ok, out)
     }
   }"

definition urlParse_pathQueryAndFragment ::
    "chars \<Rightarrow> nat \<Rightarrow> nat \<Rightarrow> url_outputs \<Rightarrow> (bool \<times> url_outputs) option" where
  "urlParse_pathQueryAndFragment m url_part len out =
     (if fst (url_path out) = None \<and> fst (url_query out) = None \<and> fst (url_fragment out) = None
      then Some (True, out)
      else do {
        (fragment, len) \<leftarrow>
          (case strchr_len m url_part CHR ''#'' len of
             Some token \<Rightarrow> do {
               b \<leftarrow> copy_part m (url_fragment out) (Some (token + 1))
                     (sz_sub (sz_sub len (token - url_part)) 1);
               Some (b, token - url_part)
             }
           | None \<Rightarrow> do { b \<leftarrow> copy_literal (url_fragment out) [CHR 0x00] 1; Some (b, len) });
        (query, len) \<leftarrow>
          (case strchr_len m url_part CHR ''?'' len of
             Some token \<Rightarrow> do {
               b \<leftarrow> copy_part m (url_query out) (Some (token + 1))
                     (sz_sub (sz_sub len (token - url_part)) 1);
               Some (b, token - url_part)
             }
           | None \<Rightarrow> do { b \<leftarrow> copy_literal (url_query out) [CHR 0x00] 1; Some (b, len) });
        path \<leftarrow> copy_part m (url_path out) (Some url_part) len;
        Some (True, out\<lparr>url_fragment := fragment, url_query := query, url_path := path\<rparr>)
      })"

definition urlParse_pastScheme ::
    "chars \<Rightarrow> nat \<Rightarrow> nat \<Rightarrow> url_outputs \<Rightarrow> (bool \<times> url_outputs) option" where
  "urlParse_pastScheme m url_part len out = do {
     (ok, url_part, len, out) \<leftarrow>
       (if 3 \<le> len \<and> STREQ_LEN m url_part ''//'' 2 then do {
          let url_part = url_part + 2;
          let len = sz_add len 2;
          let path_start = strchr_any_len m url_part ''/?#'' len;
          let first_part_length = (case path_start of Some p \<Rightarrow> p - url_part | None \<Rightarrow> len);
          (ok, out) \<leftarrow> urlParse_userPasswordHostAndPort m url_part first_part_length out;
          Some (ok, path_start, sz_sub len first_part_length, out)
        }
        else Some (True, Some url_part, len, out));
     if \<not> ok then Some (False, out)
     else
       (case url_part of
          None \<Rightarrow> do {
            path \<leftarrow> copy_literal (url_path out) ''/'' 1;
            query \<leftarrow> copy_literal (url_query out) [CHR 0x00] 1;
            fragment \<leftarrow> copy_literal (url_fragment out) [CHR 0x00] 1;
            path_suffix \<leftarrow> copy_literal (url_path_suffix out) ''/'' 1;
            Some (True, out\<lparr>url_path := path, url_query := query, url_fragment := fragment,
                            url_path_suffix := path_suffix\<rparr>)
          }
        | Some url_part \<Rightarrow> do {
            path_suffix \<leftarrow> copy_part m (url_path_suffix out) (Some url_part) len;
            urlParse_pathQueryAndFragment m url_part len (out\<lparr>url_path_suffix := path_suffix\<rparr>)
          })
   }"

definition urlParseGetParts :: "chars \<Rightarrow> nat \<Rightarrow> url_outputs \<Rightarrow> (bool \<times> url_outputs) option" where
  "urlParseGetParts m url out =
     (case strstr m url '':'' of
        None \<Rightarrow> Some (False, out)
      | Some scheme_delim \<Rightarrow> do {
          let scheme_len = scheme_delim - url;
          (ok, out) \<leftarrow> urlParse_scheme m url scheme_len out;
          if \<not> ok then Some (False, out)
          else do {
            let total_len = strlen m url;
            let url_no_scheme = scheme_delim + 1;
            (ok, out) \<leftarrow> urlParse_pastScheme m url_no_scheme
                          (sz_sub (sz_sub total_len scheme_len) 3) out;
            Some (ok, out)
          }
        })"

section \<open>Copies\<close>

definition window_text :: "chars \<Rightarrow> nat \<Rightarrow> nat \<Rightarrow> char list" where
  "window_text m p n = cstr (chars_at m p n)"

definition sized :: "url_buffer \<Rightarrow> bool" where
  "sized b \<longleftrightarrow> (case fst b of Some d \<Rightarrow> 0 < snd b \<and> snd b \<le> length d | None \<Rightarrow> True)"

text \<open>The text in a buffer, and a text cut to its size; both are empty for a NULL pointer.\<close>

definition text_of :: "url_buffer \<Rightarrow> char list" where
  "text_of b = (case fst b of Some d \<Rightarrow> cstr d | None \<Rightarrow> [])"

definition cut_to :: "url_buffer \<Rightarrow> char list \<Rightarrow> char list" where
  "cut_to b s = (case fst b of Some d \<Rightarrow> take (snd b - 1) s | None \<Rightarrow> [])"

definition copied :: "chars \<Rightarrow> url_buffer \<Rightarrow> nat \<Rightarrow> nat \<Rightarrow> url_buffer" where
  "copied m b p len = (case fst b of
     Some d \<Rightarrow> (let n = min len (snd b - 1) in (Some (chars_at m p n @ CHR 0x00 # drop (Suc n) d), snd b))
   | None \<Rightarrow> b)"

lemma copy_part_run: "sized b \<Longrightarrow> copy_part m b (Some p) len = Some (copied m b p len)"
  by (cases b) (auto simp: sized_def copy_part_def copied_def safe_strncpy_len_content Let_def
      split: option.splits)

lemma cstr_take: "cstr (take n s) = take n (cstr s)"
  by (induction s arbitrary: n) (auto simp: cstr_def take_Cons')

lemma cstr_append_nul_any: "cstr (xs @ CHR 0x00 # ys) = cstr xs"
  by (induction xs) (auto simp: cstr_def)

lemma text_of_copied: "text_of (copied m b p len) = cut_to b (window_text m p len)"
proof -
  have "chars_at m p (min len (snd b - 1)) = take (snd b - 1) (chars_at m p len)"
    by (simp add: take_chars_at min_def)
  then show ?thesis
    by (auto simp: text_of_def copied_def Let_def cstr_append_nul_any cstr_take window_text_def cut_to_def
        split: option.splits)
qed

lemma sized_copied [simp]: "sized b \<Longrightarrow> sized (copied m b p len)"
  by (auto simp: sized_def copied_def Let_def split: option.splits)

lemma cut_to_Nil [simp]: "cut_to b [] = []"
  by (simp add: cut_to_def split: option.splits)

lemma null_buffer: "fst b = None \<Longrightarrow> text_of b = []" "fst b = None \<Longrightarrow> cut_to b s = []"
  by (simp_all add: text_of_def cut_to_def)

lemma copied_null [simp]: "fst b = None \<Longrightarrow> copied m b p len = b"
  by (simp add: copied_def)

lemma outputs_own_field [simp]:
  "out\<lparr>url_user := url_user out\<rparr> = out" "out\<lparr>url_password := url_password out\<rparr> = out"
  "out\<lparr>url_host := url_host out\<rparr> = out" "out\<lparr>url_path := url_path out\<rparr> = out"
  "out\<lparr>url_query := url_query out\<rparr> = out" "out\<lparr>url_fragment := url_fragment out\<rparr> = out"
  by simp_all

definition literal_copied :: "url_buffer \<Rightarrow> char list \<Rightarrow> url_buffer" where
  "literal_copied b literal = copied (array_chars literal (\<lambda>_. CHR 0x00)) b 0 1"

lemma copy_literal_run: "sized b \<Longrightarrow> copy_literal b literal (Suc 0) = Some (literal_copied b literal)"
  by (simp add: copy_literal_def literal_copied_def copy_part_run)

lemma literal_copied_null [simp]: "fst b = None \<Longrightarrow> literal_copied b l = b"
  by (simp add: literal_copied_def)

lemma text_of_literal_copied:
  "text_of (literal_copied b [c]) = cut_to b (if c = CHR 0x00 then [] else [c])"
  unfolding literal_copied_def text_of_copied
  by (simp add: window_text_def chars_at_Suc array_chars_def cstr_def)

section \<open>Parts of a string\<close>

text \<open>The string at \<open>p\<close>, of which a window of \<open>n\<close> characters is looked at.\<close>

lemma part_whole: "string_at m p s \<Longrightarrow> length s \<le> n \<Longrightarrow> window_text m p n = s"
proof -
  assume s: "string_at m p s" and n: "length s \<le> n"
  show "window_text m p n = s"
  proof (cases "n = length s")
    case True
    then show ?thesis using s by (simp add: window_text_def string_at_def cstr_no_nul)
  next
    case False
    then obtain k where k: "n = length s + Suc k"
      using n by (metis less_imp_Suc_add add_Suc_right nat_less_le)
    show ?thesis unfolding window_text_def k chars_at_add chars_at_Suc
      using s by (simp add: string_at_def)
  qed
qed

lemma part_take: "string_at m p s \<Longrightarrow> n \<le> length s \<Longrightarrow> window_text m p n = take n s"
  by (metis cstr_no_nul in_set_takeD window_text_def string_at_chars string_at_def)

lemma strlen_bounded: "string_at m p s \<Longrightarrow> length s < 2 ^ 32 \<Longrightarrow> string_from m p = s"
  by (simp add: string_from_def strlen_string_at string_at_def)

definition text_before :: "char \<Rightarrow> char list \<Rightarrow> char list" where
  "text_before c s = takeWhile (\<lambda>x. x \<noteq> c) s"

definition text_after :: "char \<Rightarrow> char list \<Rightarrow> char list" where
  "text_after c s = drop 1 (dropWhile (\<lambda>x. x \<noteq> c) s)"

lemma before_after: "c \<in> set s \<Longrightarrow> s = text_before c s @ c # text_after c s"
  unfolding text_before_def text_after_def
  by (metis (mono_tags, lifting) One_nat_def drop0 drop_Suc_Cons dropWhile_eq_Cons_conv
      hd_dropWhile list.collapse dropWhile_eq_Nil_conv takeWhile_dropWhile_id)

lemma before_absent [simp]: "c \<notin> set s \<Longrightarrow> text_before c s = s"
  unfolding text_before_def by (metis (mono_tags, lifting) takeWhile_eq_all_conv)

lemma after_absent: "c \<notin> set s \<Longrightarrow> text_after c s = []"
  unfolding text_after_def by (metis (mono_tags, lifting) dropWhile_eq_Nil_conv drop_Nil)

lemma length_before: "c \<in> set s \<Longrightarrow> length s = Suc (length (text_before c s) + length (text_after c s))"
  by (metis before_after length_append length_Cons add_Suc_right)

lemma strchr_window:
  assumes "c \<noteq> CHR 0x00" and "window_text m p n = s"
  shows "strchr_len m p c n = (if c \<in> set s then Some (p + length (text_before c s)) else None)"
  using assms
  by (auto simp: strchr_len_first window_text_def first_char_def text_before_def)

lemma cstr_append: "CHR 0x00 \<notin> set xs \<Longrightarrow> cstr (xs @ ys) = xs @ cstr ys"
  by (induction xs) (auto simp: cstr_def)

lemma length_part_le: "length (window_text m p n) \<le> n"
  unfolding window_text_def cstr_def by (metis length_chars_at length_takeWhile_le)

lemma part_prefix:
  assumes "k \<le> length (window_text m p n)"
  shows "chars_at m p k = take k (window_text m p n)"
proof -
  have "k \<le> n" using assms length_part_le [of m p n] by simp
  then show ?thesis using assms
    by (metis window_text_def cstr_def take_chars_at takeWhile_eq_take take_take min.absorb1 nat_le_linear
        length_takeWhile_le dual_order.trans)
qed

lemma part_take_window:
  assumes "window_text m p n = s" and "k \<le> length s"
  shows "window_text m p k = take k s"
  using assms part_prefix [of k m p n] nul_notin_cstr [of "chars_at m p n"]
  by (metis cstr_no_nul in_set_takeD window_text_def)

lemma part_drop_window:
  assumes "window_text m p n = s" and "k \<le> length s"
  shows "window_text m (p + k) (n - k) = drop k s"
proof -
  have "k \<le> n" using assms length_part_le [of m p n] by simp
  then have "chars_at m p n = take k s @ chars_at m (p + k) (n - k)"
    using assms part_prefix [of k m p n] chars_at_add [of m p k "n - k"] by simp
  moreover have "CHR 0x00 \<notin> set (take k s)"
    using assms(1) nul_notin_cstr by (metis in_set_takeD window_text_def)
  ultimately have "s = take k s @ window_text m (p + k) (n - k)"
    using assms(1) by (simp add: window_text_def cstr_append)
  then show ?thesis by (metis append_take_drop_id same_append_eq)
qed

lemma before_take: "c \<in> set s \<Longrightarrow> take (length (text_before c s)) s = text_before c s"
  by (metis append_eq_conv_conj before_after)

lemma after_drop: "c \<in> set s \<Longrightarrow> drop (Suc (length (text_before c s))) s = text_after c s"
  by (metis (no_types, lifting) append_eq_conv_conj before_after drop_Suc list.sel(3) drop_tl tl_drop)

text \<open>A window split at the first \<open>c\<close>.\<close>

lemma window_split:
  assumes "window_text m p n = s" and "c \<in> set s" and "n < 2 ^ 32"
  shows "window_text m p (length (text_before c s)) = text_before c s"
    and "window_text m (Suc (p + length (text_before c s))) (sz_sub n (Suc (length (text_before c s)))) = text_after c s"
proof -
  have len: "Suc (length (text_before c s)) \<le> length s" using assms(2) by (simp add: length_before)
  then show "window_text m p (length (text_before c s)) = text_before c s"
    using part_take_window [OF assms(1)] before_take [OF assms(2)] by simp
  have "Suc (length (text_before c s)) \<le> n" using len assms(1) length_part_le [of m p n] by simp
  then show "window_text m (Suc (p + length (text_before c s))) (sz_sub n (Suc (length (text_before c s)))) = text_after c s"
    using part_drop_window [OF assms(1) len] after_drop [OF assms(2)] assms(3)
    by (simp add: sz_sub_exact)
qed

section \<open>What the parser promises\<close>

record url_parts =
  part_scheme :: "char list"
  part_user :: "char list"
  part_password :: "char list"
  part_host :: "char list"
  part_port :: u16
  part_path :: "char list"
  part_query :: "char list"
  part_fragment :: "char list"
  part_path_suffix :: "char list"

definition all_sized :: "url_outputs \<Rightarrow> bool" where
  "all_sized out \<longleftrightarrow> (\<forall>b \<in> set [url_scheme out, url_user out, url_password out, url_host out,
     url_path out, url_query out, url_fragment out, url_path_suffix out]. sized b) \<and>
     url_port out \<noteq> None"

lemma sized_literal [simp]: "sized b \<Longrightarrow> sized (literal_copied b l)"
  by (simp add: literal_copied_def)

lemma userAndPassword_text:
  assumes "window_text m p n = s" and "n < 2 ^ 32" and "sized (url_user out)" and "sized (url_password out)"
  shows "\<exists>user password. urlParse_userAndPassword m p n out =
      Some (True, out\<lparr>url_user := user, url_password := password\<rparr>) \<and>
    text_of user = cut_to (url_user out) (text_before CHR '':'' s) \<and>
    text_of password = cut_to (url_password out) (text_after CHR '':'' s)"
proof (cases "CHR '':'' \<in> set s")
  case True
  note split = window_split [OF assms(1) True assms(2)]
  have "urlParse_userAndPassword m p n out = Some (True, out\<lparr>
      url_user := copied m (url_user out) p (length (text_before CHR '':'' s)),
      url_password := copied m (url_password out) (Suc (p + length (text_before CHR '':'' s)))
        (sz_sub n (Suc (length (text_before CHR '':'' s))))\<rparr>)"
    using True assms strchr_window [of "CHR '':''" m p n s]
    by (simp add: urlParse_userAndPassword_def copy_part_run)
  then show ?thesis
    by (intro exI conjI) (assumption, simp_all add: text_of_copied split)
next
  case False
  then have "urlParse_userAndPassword m p n out = Some (True, out\<lparr>
      url_user := copied m (url_user out) p n,
      url_password := literal_copied (url_password out) [CHR 0x00]\<rparr>)"
    using assms strchr_window [of "CHR '':''" m p n s]
    by (simp add: urlParse_userAndPassword_def copy_part_run copy_literal_run)
  then show ?thesis
    by (intro exI conjI) (assumption, use False assms(1) in \<open>simp_all add: text_of_copied
      text_of_literal_copied after_absent\<close>)
qed

lemma hostAndPort_text:
  assumes "window_text m p n = s" and "n < 2 ^ 32" and "sized (url_host out)" and "url_port out = Some d"
    and tail: "CHR '':'' \<in> set s \<Longrightarrow>
      string_from m (Suc (p + length (text_before CHR '':'' s))) = text_after CHR '':'' s @ rest"
  shows "\<exists>host. urlParse_hostAndPort m p n out =
      Some (True, out\<lparr>url_host := host, url_port :=
        Some (if CHR '':'' \<in> set s then word_of_int (atoi (text_after CHR '':'' s @ rest)) else d)\<rparr>) \<and>
    text_of host = cut_to (url_host out) (text_before CHR '':'' s)"
proof (cases "CHR '':'' \<in> set s")
  case True
  note split = window_split [OF assms(1) True assms(2)]
  have "urlParse_hostAndPort m p n out = Some (True, out\<lparr>
      url_host := copied m (url_host out) p (length (text_before CHR '':'' s)),
      url_port := Some (if CHR '':'' \<in> set s then word_of_int (atoi (text_after CHR '':'' s @ rest)) else d)\<rparr>)"
    using True assms strchr_window [of "CHR '':''" m p n s] tail
    by (simp add: urlParse_hostAndPort_def copy_part_run)
  then show ?thesis
    by (intro exI conjI) (assumption, simp add: text_of_copied split)
next
  case False
  then have "urlParse_hostAndPort m p n out = Some (True, out\<lparr>
      url_host := copied m (url_host out) p n,
      url_port := Some (if CHR '':'' \<in> set s then word_of_int (atoi (text_after CHR '':'' s @ rest)) else d)\<rparr>)"
    using assms strchr_window [of "CHR '':''" m p n s]
    by (simp add: urlParse_hostAndPort_def copy_part_run)
  then show ?thesis
    by (intro exI conjI) (assumption, use False assms(1) in \<open>simp add: text_of_copied\<close>)
qed

text \<open>The credentials, host and port of an authority.\<close>

definition credentials :: "char list \<Rightarrow> char list" where
  "credentials s = (if CHR ''@'' \<in> set s then text_before CHR ''@'' s else [])"

definition host_port :: "char list \<Rightarrow> char list" where
  "host_port s = (if CHR ''@'' \<in> set s then text_after CHR ''@'' s else s)"

definition port_value :: "char list \<Rightarrow> char list \<Rightarrow> u16 \<Rightarrow> u16" where
  "port_value s rest d = (if CHR '':'' \<in> set (host_port s)
     then word_of_int (atoi (text_after CHR '':'' (host_port s) @ rest)) else d)"

lemma string_from_suffix:
  assumes "string_at m p (s @ t)" and "length (s @ t) < 2 ^ 32"
  shows "string_from m (p + length s) = t"
  using strlen_bounded [OF string_at_suffix [OF assms(1)]] assms(2) by simp

lemma port_suffix:
  assumes "string_at m p (s @ rest)" and "length (s @ rest) < 2 ^ 32" and "c \<in> set s"
  shows "string_from m (Suc (p + length (text_before c s))) = text_after c s @ rest"
proof -
  have split: "s @ rest = (text_before c s @ [c]) @ (text_after c s @ rest)"
    using before_after [OF assms(3)] by simp
  show ?thesis
    using string_from_suffix [OF assms(1,2) [unfolded split]] by simp
qed

lemma authority_text:
  assumes s: "window_text m p n = s" and n: "n < 2 ^ 32" and sized: "all_sized out"
    and port: "url_port out = Some d"
    and whole: "string_at m p (s @ rest)" "length (s @ rest) < 2 ^ 32"
  shows "\<exists>user password host. urlParse_userPasswordHostAndPort m p n out =
      Some (True, out\<lparr>url_user := user, url_password := password, url_host := host,
        url_port := Some (port_value s rest d)\<rparr>) \<and>
    text_of user = cut_to (url_user out) (text_before CHR '':'' (credentials s)) \<and>
    text_of password = cut_to (url_password out) (text_after CHR '':'' (credentials s)) \<and>
    text_of host = cut_to (url_host out) (text_before CHR '':'' (host_port s))"
proof (cases "CHR ''@'' \<in> set s")
  case True
  let ?k = "length (text_before CHR ''@'' s)"
  note split = window_split [OF s True n]
  have k: "?k < 2 ^ 32"
    using True n length_part_le [of m p n] by (simp add: s length_before)
  from userAndPassword_text [OF split(1) k, of out] sized obtain user password where
    up: "urlParse_userAndPassword m p ?k out = Some (True, out\<lparr>url_user := user, url_password := password\<rparr>)"
      "text_of user = cut_to (url_user out) (text_before CHR '':'' (text_before CHR ''@'' s))"
      "text_of password = cut_to (url_password out) (text_after CHR '':'' (text_before CHR ''@'' s))"
    by (auto simp: all_sized_def)
  have tail: "string_at m (Suc (p + ?k)) (text_after CHR ''@'' s @ rest)"
    using string_at_suffix [of m p "text_before CHR ''@'' s @ [CHR ''@'']"] whole(1)
      before_after [OF True] by (metis append.assoc append_Cons append_Nil length_append_singleton add_Suc_right)
  have short: "length (text_after CHR ''@'' s @ rest) < 2 ^ 32"
    using whole(2) length_before [OF True] by simp
  let ?out = "out\<lparr>url_user := user, url_password := password\<rparr>"
  have bound: "sz_sub n (Suc ?k) < 2 ^ 32" by (simp add: sz_sub_def)
  have pv: "port_value s rest d = (if CHR '':'' \<in> set (text_after CHR ''@'' s)
      then word_of_int (atoi (text_after CHR '':'' (text_after CHR ''@'' s) @ rest)) else d)"
    by (simp add: port_value_def host_port_def True)
  have h: "sized (url_host ?out)" "url_port ?out = Some d"
    using sized port by (simp_all add: all_sized_def)
  from hostAndPort_text [OF split(2) bound h port_suffix [OF tail short], folded pv] obtain host where
    "urlParse_hostAndPort m (Suc (p + ?k)) (sz_sub n (Suc ?k)) ?out =
       Some (True, ?out\<lparr>url_host := host, url_port := Some (port_value s rest d)\<rparr>)"
    "text_of host = cut_to (url_host out) (text_before CHR '':'' (text_after CHR ''@'' s))"
    by auto
  then have "urlParse_userPasswordHostAndPort m p n out = Some (True, out\<lparr>url_user := user,
      url_password := password, url_host := host, url_port := Some (port_value s rest d)\<rparr>)"
    using up True s strchr_window [of "CHR ''@''" m p n s]
    by (simp add: urlParse_userPasswordHostAndPort_def Let_def)
  then show ?thesis
    by (intro exI conjI) (assumption, use up True \<open>text_of host = _\<close> in
      \<open>simp_all add: credentials_def host_port_def\<close>)
next
  case False
  let ?out = "out\<lparr>url_user := literal_copied (url_user out) [CHR 0x00],
    url_password := literal_copied (url_password out) [CHR 0x00]\<rparr>"
  have pv: "port_value s rest d = (if CHR '':'' \<in> set s
      then word_of_int (atoi (text_after CHR '':'' s @ rest)) else d)"
    by (simp add: port_value_def host_port_def False)
  have h: "sized (url_host ?out)" "url_port ?out = Some d"
    using sized port by (simp_all add: all_sized_def)
  from hostAndPort_text [OF s n h port_suffix [OF whole], folded pv] obtain host where
    "urlParse_hostAndPort m p n ?out =
       Some (True, ?out\<lparr>url_host := host, url_port := Some (port_value s rest d)\<rparr>)"
    "text_of host = cut_to (url_host out) (text_before CHR '':'' s)"
    by auto
  then have "urlParse_userPasswordHostAndPort m p n out = Some (True, out\<lparr>
      url_user := literal_copied (url_user out) [CHR 0x00],
      url_password := literal_copied (url_password out) [CHR 0x00],
      url_host := host, url_port := Some (port_value s rest d)\<rparr>)"
    using False s strchr_window [of "CHR ''@''" m p n s] sized
    by (simp add: urlParse_userPasswordHostAndPort_def copy_literal_run all_sized_def)
  then show ?thesis
    by (intro exI conjI) (assumption, use False \<open>text_of host = _\<close> in
      \<open>simp_all add: credentials_def host_port_def text_of_literal_copied after_absent\<close>)
qed

text \<open>The path, query and fragment that follow the authority.\<close>

lemma tail_text:
  assumes s: "window_text m p n = s" and n: "n < 2 ^ 32"
    and sized: "sized (url_path out)" "sized (url_query out)" "sized (url_fragment out)"
  shows "\<exists>path query fragment. urlParse_pathQueryAndFragment m p n out =
      Some (True, out\<lparr>url_fragment := fragment, url_query := query, url_path := path\<rparr>) \<and>
    text_of fragment = cut_to (url_fragment out) (text_after CHR ''#'' s) \<and>
    text_of query = cut_to (url_query out) (text_after CHR ''?'' (text_before CHR ''#'' s)) \<and>
    text_of path = cut_to (url_path out) (text_before CHR ''?'' (text_before CHR ''#'' s))"
proof -
  define n1 where "n1 = (if CHR ''#'' \<in> set s then length (text_before CHR ''#'' s) else n)"
  define s1 where "s1 = text_before CHR ''#'' s"
  have s1: "window_text m p n1 = s1"
    using s window_split(1) [OF s _ n, of "CHR ''#''"] by (auto simp: n1_def s1_def)
  have n1: "n1 < 2 ^ 32"
    using n length_part_le [of m p n] s by (auto simp: n1_def length_before)
  define n2 where "n2 = (if CHR ''?'' \<in> set s1 then length (text_before CHR ''?'' s1) else n1)"
  have s2: "window_text m p n2 = text_before CHR ''?'' s1"
    using s1 window_split(1) [OF s1 _ n1, of "CHR ''?''"] by (auto simp: n2_def)
  have minus: "sz_sub (sz_sub k l) 1 = sz_sub k (Suc l)" if "l < k" and "k < 2 ^ 32" for k l
    using that by (simp add: sz_sub_exact)
  define fragment where "fragment = (if CHR ''#'' \<in> set s
    then copied m (url_fragment out) (Suc (p + n1)) (sz_sub (sz_sub n n1) 1)
    else literal_copied (url_fragment out) [CHR 0x00])"
  define query where "query = (if CHR ''?'' \<in> set s1
    then copied m (url_query out) (Suc (p + n2)) (sz_sub (sz_sub n1 n2) 1)
    else literal_copied (url_query out) [CHR 0x00])"
  have run: "urlParse_pathQueryAndFragment m p n out = Some (True, out\<lparr>url_fragment := fragment,
      url_query := query, url_path := copied m (url_path out) p n2\<rparr>)"
    using strchr_window [OF _ s, of "CHR ''#''"] strchr_window [OF _ s1, of "CHR ''?''"] sized
    by (auto simp: urlParse_pathQueryAndFragment_def fragment_def query_def n1_def n2_def
        copy_part_run copy_literal_run all_sized_def)
  have "text_of fragment = cut_to (url_fragment out) (text_after CHR ''#'' s)"
  proof (cases "CHR ''#'' \<in> set s")
    case True
    then have "n1 < n" using length_part_le [of m p n] s by (simp add: n1_def length_before)
    then show ?thesis using True window_split(2) [OF s True n] minus [OF _ n, of n1]
      by (simp add: fragment_def text_of_copied n1_def)
  qed (simp add: fragment_def text_of_literal_copied after_absent)
  moreover have "text_of query = cut_to (url_query out) (text_after CHR ''?'' s1)"
  proof (cases "CHR ''?'' \<in> set s1")
    case True
    then have "n2 < n1" using length_part_le [of m p n1] s1 by (simp add: n2_def length_before)
    then show ?thesis using True window_split(2) [OF s1 True n1] minus [OF _ n1, of n2]
      by (simp add: query_def text_of_copied n2_def)
  qed (simp add: query_def text_of_literal_copied after_absent)
  ultimately show ?thesis using run s2
    by (intro exI conjI) (assumption, simp_all add: text_of_copied s1_def)
qed


text \<open>The specification: the parts of \<open>scheme://rest\<close>, as functions of the text.\<close>

definition in_authority :: "char \<Rightarrow> bool" where
  "in_authority c \<longleftrightarrow> c \<notin> set ''/?#''"

definition default_port :: "char list \<Rightarrow> u16 \<Rightarrow> u16" where
  "default_port text d = (if take 5 text = ''https'' then 443 else if take 4 text = ''http'' then 80 else d)"

definition url_spec :: "char list \<Rightarrow> char list \<Rightarrow> u16 \<Rightarrow> url_parts" where
  "url_spec scheme rest d =
     (let authority = takeWhile in_authority rest;
          tail = dropWhile in_authority rest;
          no_fragment = text_before CHR ''#'' tail
      in \<lparr>part_scheme = scheme,
          part_user = text_before CHR '':'' (credentials authority),
          part_password = text_after CHR '':'' (credentials authority),
          part_host = text_before CHR '':'' (host_port authority),
          part_port = port_value authority tail d,
          part_path = (if tail = [] then ''/'' else text_before CHR ''?'' no_fragment),
          part_query = text_after CHR ''?'' no_fragment,
          part_fragment = text_after CHR ''#'' tail,
          part_path_suffix = (if tail = [] then ''/'' else tail)\<rparr>)"

definition outputs_hold :: "url_outputs \<Rightarrow> url_outputs \<Rightarrow> url_parts \<Rightarrow> bool" where
  "outputs_hold out0 out u \<longleftrightarrow>
     text_of (url_scheme out) = part_scheme u \<and>
     text_of (url_user out) = cut_to (url_user out0) (part_user u) \<and>
     text_of (url_password out) = cut_to (url_password out0) (part_password u) \<and>
     text_of (url_host out) = cut_to (url_host out0) (part_host u) \<and>
     url_port out = Some (part_port u) \<and>
     text_of (url_path out) = cut_to (url_path out0) (part_path u) \<and>
     text_of (url_query out) = cut_to (url_query out0) (part_query u) \<and>
     text_of (url_fragment out) = cut_to (url_fragment out0) (part_fragment u) \<and>
     text_of (url_path_suffix out) = cut_to (url_path_suffix out0) (part_path_suffix u)"

declare dropWhile_eq_Nil_conv [simp del]

lemma authority_end:
  "strchr_any_len m p ''/?#'' n =
     (if dropWhile in_authority (window_text m p n) = [] then None
      else Some (p + length (takeWhile in_authority (window_text m p n))))"
proof -
  have eq: "(\<lambda>c. c \<notin> set ''/?#'') = in_authority" by (simp add: in_authority_def fun_eq_iff)
  have "(\<exists>c \<in> set (window_text m p n). c \<in> set ''/?#'') \<longleftrightarrow> dropWhile in_authority (window_text m p n) \<noteq> []"
    by (auto simp: in_authority_def dropWhile_eq_Nil_conv)
  then show ?thesis
    by (simp only: strchr_any_len_first first_char_def window_text_def [symmetric] eq) (simp add: eq)
qed

text \<open>The window of the authority, and of what follows it.\<close>

lemma authority_window:
  assumes window: "window_text m p n = rest" and n: "n < 2 ^ 32" and big: "length rest \<le> n"
    and k: "k = (if dropWhile in_authority rest = [] then n else length (takeWhile in_authority rest))"
  shows "window_text m p k = takeWhile in_authority rest" and "k < 2 ^ 32"
    and "window_text m (p + length (takeWhile in_authority rest))
           (n - length (takeWhile in_authority rest)) = dropWhile in_authority rest"
proof -
  let ?a = "takeWhile in_authority rest"
  have len: "length ?a \<le> length rest" by (rule length_takeWhile_le)
  have ta: "take (length ?a) rest = ?a" by (metis append_eq_conv_conj takeWhile_dropWhile_id)
  show "window_text m p k = ?a"
  proof (cases "dropWhile in_authority rest = []")
    case True
    then have "?a = rest" by (metis append_Nil2 takeWhile_dropWhile_id)
    then show ?thesis using True window k by (simp only: if_True simp_thms)
  next
    case False
    then show ?thesis using part_take_window [OF window len] k ta by simp
  qed
  show "k < 2 ^ 32" using n big len k by auto
  show "window_text m (p + length ?a) (n - length ?a) = dropWhile in_authority rest"
    using part_drop_window [OF window len] by (simp add: dropWhile_eq_drop)
qed

lemma pastScheme_text:
  assumes rest: "string_at m (Suc (Suc p)) rest" and short: "length rest < 2 ^ 32 - 2"
    and slashes: "chars_at m p 2 = ''//''" and long: "3 \<le> length rest"
    and sized: "all_sized out" and port: "url_port out = Some d"
  shows "\<exists>out'. urlParse_pastScheme m p (length rest) out = Some (True, out') \<and>
    outputs_hold out out' (url_spec (text_of (url_scheme out)) rest d)"
proof -
  let ?p = "Suc (Suc p)" and ?n = "Suc (Suc (length rest))"
  let ?auth = "takeWhile in_authority rest" and ?tail = "dropWhile in_authority rest"
  define k where "k = (if ?tail = [] then ?n else length ?auth)"
  have n: "sz_add (length rest) 2 = ?n" "?n < 2 ^ 32" using short by (simp_all add: sz_add_exact)
  have window: "window_text m ?p ?n = rest" by (rule part_whole [OF rest]) simp
  note ends = authority_window [OF window n(2) _ k_def]
  have big: "length rest \<le> ?n" by simp
  have whole: "string_at m ?p (?auth @ ?tail)" "length (?auth @ ?tail) < 2 ^ 32"
    using rest short by simp_all
  from authority_text [OF ends(1,2) [OF big] sized port whole] obtain user password host where
    auth: "urlParse_userPasswordHostAndPort m ?p k out =
      Some (True, out\<lparr>url_user := user, url_password := password, url_host := host,
        url_port := Some (port_value ?auth ?tail d)\<rparr>)" (is "_ = Some (True, ?out)")
    and texts: "text_of user = cut_to (url_user out) (text_before CHR '':'' (credentials ?auth))"
      "text_of password = cut_to (url_password out) (text_after CHR '':'' (credentials ?auth))"
      "text_of host = cut_to (url_host out) (text_before CHR '':'' (host_port ?auth))"
    by blast
  have sl: "STREQ_LEN m p ''//'' 2" using slashes by (simp add: STREQ_LEN_def)
  have sizes: "sized (url_path out)" "sized (url_query out)" "sized (url_fragment out)"
    "sized (url_path_suffix out)"
    using sized by (simp_all add: all_sized_def)
  show ?thesis
  proof (cases "?tail = []")
    case True
    have "urlParse_pastScheme m p (length rest) out = Some (True, ?out\<lparr>
        url_path := literal_copied (url_path out) ''/'',
        url_query := literal_copied (url_query out) [CHR 0x00],
        url_fragment := literal_copied (url_fragment out) [CHR 0x00],
        url_path_suffix := literal_copied (url_path_suffix out) ''/''\<rparr>)"
      using True sl long n auth sizes
      by (simp add: urlParse_pastScheme_def Let_def authority_end window copy_literal_run k_def)
    then show ?thesis
      by (intro exI conjI) (assumption, use True texts in
        \<open>simp add: outputs_hold_def url_spec_def Let_def text_of_literal_copied after_absent\<close>)
  next
    case False
    let ?t = "?p + length ?auth" and ?l = "?n - length ?auth"
    have l: "sz_sub ?n k = ?l" "?l < 2 ^ 32"
      using n False length_takeWhile_le [of in_authority rest] by (simp_all add: sz_sub_exact k_def)
    let ?out1 = "?out\<lparr>url_path_suffix := copied m (url_path_suffix out) ?t ?l\<rparr>"
    from tail_text [OF ends(3) [OF big] l(2), of ?out1] sizes obtain path query fragment where
      tail: "urlParse_pathQueryAndFragment m ?t ?l ?out1 =
        Some (True, ?out1\<lparr>url_fragment := fragment, url_query := query, url_path := path\<rparr>)"
        (is "_ = Some (True, ?out2)")
      and tail_texts: "text_of fragment = cut_to (url_fragment out) (text_after CHR ''#'' ?tail)"
        "text_of query = cut_to (url_query out) (text_after CHR ''?'' (text_before CHR ''#'' ?tail))"
        "text_of path = cut_to (url_path out) (text_before CHR ''?'' (text_before CHR ''#'' ?tail))"
      by auto
    have "urlParse_pastScheme m p (length rest) out = Some (True, ?out2)"
      using False sl long n auth sizes l tail
      by (simp add: urlParse_pastScheme_def Let_def authority_end window copy_part_run k_def)
    then show ?thesis
      by (intro exI conjI) (assumption, use False texts tail_texts ends(3) [OF big] in
        \<open>simp add: outputs_hold_def url_spec_def Let_def text_of_copied\<close>)
  qed
qed


lemma strstr_colon:
  assumes url: "string_at m url (scheme @ CHR '':'' # s)" and "length (scheme @ CHR '':'' # s) < 2 ^ 32"
    and "CHR '':'' \<notin> set scheme"
  shows "strstr m url '':'' = Some (url + length scheme)"
proof -
  have "first_occurrence (scheme @ CHR '':'' # s) '':'' (length scheme)"
    using assms(3) by (auto simp: first_occurrence_def occurs_at_def nth_append take_Suc
        hd_drop_conv_nth hd_append split: if_splits)
      (metis drop_eq_Nil hd_append2 hd_drop_conv_nth linorder_not_le nth_mem)
  then show ?thesis
    using strlen_bounded [OF url assms(2)] memmem.search_first [of "'':''"]
    by (simp add: strstr_def)
qed

lemma url_parse_text:
  assumes url: "string_at m url (scheme @ ''://'' @ rest)" and "length (scheme @ ''://'' @ rest) < 2 ^ 32 - 2"
    and "CHR '':'' \<notin> set scheme" and long: "3 \<le> length rest"
    and sized: "all_sized out" and port: "url_port out = Some d"
  shows "\<exists>out'. urlParseGetParts m url out = Some (True, out') \<and>
    outputs_hold out out' (url_spec (cut_to (url_scheme out) scheme) rest
      (default_port (scheme @ ''://'' @ rest) d))"
proof -
  let ?text = "scheme @ ''://'' @ rest" and ?k = "length scheme"
  let ?out1 = "out\<lparr>url_scheme := copied m (url_scheme out) url ?k,
    url_port := Some (default_port ?text d)\<rparr>"
  have len: "length ?text = ?k + 3 + length rest" "length ?text < 2 ^ 32" using assms(2) by simp_all
  have total: "strlen m url = length ?text" using strlen_string_at [OF url len(2)] .
  have colon: "strstr m url '':'' = Some (url + ?k)"
    using strstr_colon [of m url scheme "''//'' @ rest"] assms(3) url len(2) by simp
  have scheme: "window_text m url ?k = scheme"
    using part_take [OF url, of ?k] by simp
  have "STREQ_LEN m url ''https'' 5 \<longleftrightarrow> take 5 ?text = ''https''"
    "STREQ_LEN m url ''http'' 4 \<longleftrightarrow> take 4 ?text = ''http''"
    using string_at_chars [OF url, of 5] string_at_chars [OF url, of 4] long
    by (simp_all add: STREQ_LEN_def)
  then have s: "urlParse_scheme m url ?k out = Some (True, ?out1)"
    using sized port
    by (simp add: urlParse_scheme_def copy_part_run all_sized_def default_port_def Let_def)
  have window: "sz_sub (sz_sub (length ?text) ?k) 3 = length rest"
    using len by (simp add: sz_sub_exact)
  have past: "string_at m (Suc (Suc (Suc (url + ?k)))) rest"
    using string_at_suffix [of m url "scheme @ ''://''" rest] url by (simp add: numeral_3_eq_3)
  have slashes: "chars_at m (Suc (url + ?k)) 2 = ''//''"
    using string_at_chars [OF string_at_suffix [of m url "scheme @ '':''" "''//'' @ rest"], of 2] url
    by simp
  have sized1: "all_sized ?out1" using sized by (simp add: all_sized_def)
  from pastScheme_text [OF past _ slashes long sized1] len assms(2) obtain out' where
    "urlParse_pastScheme m (Suc (url + ?k)) (length rest) ?out1 = Some (True, out')"
    "outputs_hold ?out1 out' (url_spec (text_of (url_scheme ?out1)) rest (default_port ?text d))"
    by auto
  then show ?thesis
    using colon s total window
    by (auto simp: urlParseGetParts_def Let_def outputs_hold_def text_of_copied scheme)
qed

text \<open>
  C10: The parser returns the parts of the URL: for a string \<open>scheme://rest\<close> anywhere in memory,
  with at least three characters after the slashes, and any outputs with room for a terminator,
  every output holds the part of \<open>url_spec\<close>, cut to its buffer's size: the authority up to
  the first of \<open>/?#\<close>, its credentials and host, the port given or the scheme's default,
  the path, query, fragment and the suffix of all three.
\<close>

theorem url_parse_spec:
  assumes url: "string_at m url (scheme @ ''://'' @ rest)" and "length (scheme @ ''://'' @ rest) < 2 ^ 32 - 2"
    and "CHR '':'' \<notin> set scheme" and long: "3 \<le> length rest"
    and sized: "all_sized out" and port: "url_port out = Some d"
  shows "\<exists>out'. urlParseGetParts m url out = Some (True, out') \<and>
    outputs_hold out out' (url_spec (cut_to (url_scheme out) scheme) rest
      (default_port (scheme @ ''://'' @ rest) d))"
  by (rule url_parse_text [OF assms])

lemma before_append [simp]: "c \<notin> set s \<Longrightarrow> text_before c (s @ c # t) = s"
  by (simp add: text_before_def takeWhile_append)

lemma after_append [simp]: "c \<notin> set s \<Longrightarrow> text_after c (s @ c # t) = t"
  by (induction s) (auto simp: text_after_def)

lemma atoi_digits:
  assumes "s \<noteq> []" and "\<forall>c \<in> set s. is_digit c" and "t = [] \<or> \<not> is_digit (hd t)"
  shows "atoi (s @ t) = digits_value s"
proof -
  obtain c cs where s: "s = c # cs" using assms(1) by (cases s) auto
  have c: "\<not> is_space c" "c \<noteq> CHR ''-''" "c \<noteq> CHR ''+''"
    using assms(2) by (auto simp: s is_digit_def is_space_def)
  have "takeWhile is_digit t = []" using assms(3) by (cases t) auto
  then have "takeWhile is_digit (s @ t) = s"
    using assms(2) by (metis append_Nil2 takeWhile_append2)
  with c show ?thesis by (simp add: s)
qed

section \<open>Round trip\<close>

text \<open>A URL with all its parts, and its text.\<close>

record url =
  scheme_text :: "char list"
  user_text :: "char list"
  password_text :: "char list"
  host_text :: "char list"
  port_digits :: "char list"
  path_text :: "char list"
  query_text :: "char list"
  fragment_text :: "char list"

definition url_rest :: "url \<Rightarrow> char list" where
  "url_rest u = user_text u @ '':'' @ password_text u @ ''@'' @ host_text u @ '':'' @ port_digits u
     @ ''/'' @ path_text u @ ''?'' @ query_text u @ ''#'' @ fragment_text u"

definition url_text :: "url \<Rightarrow> char list" where
  "url_text u = scheme_text u @ ''://'' @ url_rest u"

definition avoids :: "char list \<Rightarrow> char list \<Rightarrow> bool" where
  "avoids s bad \<longleftrightarrow> (\<forall>c \<in> set bad. c \<notin> set s)"

definition well_formed :: "url \<Rightarrow> bool" where
  "well_formed u \<longleftrightarrow> avoids (scheme_text u) '':'' \<and> avoids (user_text u) '':@/?#'' \<and>
     avoids (password_text u) ''@/?#'' \<and> avoids (host_text u) '':@/?#'' \<and>
     port_digits u \<noteq> [] \<and> (\<forall>c \<in> set (port_digits u). is_digit c) \<and>
     avoids (path_text u) ''?#'' \<and> avoids (query_text u) ''#'' \<and>
     CHR 0x00 \<notin> set (url_text u) \<and> length (url_text u) < 2 ^ 32 - 2"

lemma url_spec_text:
  assumes "well_formed u"
  shows "url_spec s (url_rest u) d =
    \<lparr>part_scheme = s, part_user = user_text u, part_password = password_text u,
     part_host = host_text u, part_port = word_of_int (digits_value (port_digits u)),
     part_path = ''/'' @ path_text u, part_query = query_text u, part_fragment = fragment_text u,
     part_path_suffix = ''/'' @ path_text u @ ''?'' @ query_text u @ ''#'' @ fragment_text u\<rparr>"
proof -
  let ?auth = "user_text u @ '':'' @ password_text u @ ''@'' @ host_text u @ '':'' @ port_digits u"
  let ?tail = "''/'' @ path_text u @ ''?'' @ query_text u @ ''#'' @ fragment_text u"
  have digits: "c \<in> set (port_digits u) \<Longrightarrow> in_authority c \<and> c \<noteq> CHR '':'' \<and> c \<noteq> CHR ''@''" for c
    using assms by (auto simp: well_formed_def is_digit_def in_authority_def)
  then have auth: "\<forall>c \<in> set ?auth. in_authority c"
    using assms by (auto simp: well_formed_def avoids_def in_authority_def)
  have rest: "url_rest u = ?auth @ ?tail" by (simp add: url_rest_def)
  have a: "takeWhile in_authority (url_rest u) = ?auth"
    unfolding rest using auth by (subst takeWhile_append2) (auto simp: in_authority_def)
  have t: "dropWhile in_authority (url_rest u) = ?tail"
    unfolding rest using auth by (subst dropWhile_append2) (auto simp: in_authority_def)
  have at: "CHR ''@'' \<notin> set (user_text u @ '':'' @ password_text u)"
    using assms by (auto simp: well_formed_def avoids_def)
  have cred: "credentials ?auth = user_text u @ '':'' @ password_text u"
    using before_append [OF at] by (simp add: credentials_def)
  have hp: "host_port ?auth = host_text u @ '':'' @ port_digits u"
    using after_append [OF at] by (simp add: host_port_def)
  have "atoi (port_digits u @ ?tail) = digits_value (port_digits u)"
    by (rule atoi_digits) (use assms in \<open>auto simp: well_formed_def is_digit_def\<close>)
  then have port: "port_value ?auth ?tail d = word_of_int (digits_value (port_digits u))"
    using assms unfolding port_value_def hp by (simp add: well_formed_def avoids_def)
  have nofrag: "text_before CHR ''#'' ?tail = ''/'' @ path_text u @ ''?'' @ query_text u"
    using before_append [of "CHR ''#''" "''/'' @ path_text u @ ''?'' @ query_text u"] assms
    by (simp add: well_formed_def avoids_def)
  have frag: "text_after CHR ''#'' ?tail = fragment_text u"
    using after_append [of "CHR ''#''" "''/'' @ path_text u @ ''?'' @ query_text u"] assms
    by (simp add: well_formed_def avoids_def)
  have path: "text_before CHR ''?'' (''/'' @ path_text u @ ''?'' @ query_text u) = ''/'' @ path_text u"
    "text_after CHR ''?'' (''/'' @ path_text u @ ''?'' @ query_text u) = query_text u"
    using before_append [of "CHR ''?''" "''/'' @ path_text u"]
      after_append [of "CHR ''?''" "''/'' @ path_text u"] assms
    by (simp_all add: well_formed_def avoids_def)
  show ?thesis
    unfolding url_spec_def Let_def a t cred hp port nofrag frag path
    using assms by (simp add: well_formed_def avoids_def)
qed

text \<open>
  C16: Round trip: the text of a well-formed URL with every part present parses back to its parts.
\<close>

theorem url_roundtrip:
  assumes "well_formed u" and "string_at m url (url_text u)"
    and "all_sized out" and "url_port out = Some d"
  shows "\<exists>out'. urlParseGetParts m url out = Some (True, out') \<and>
    outputs_hold out out'
      \<lparr>part_scheme = cut_to (url_scheme out) (scheme_text u), part_user = user_text u,
       part_password = password_text u, part_host = host_text u,
       part_port = word_of_int (digits_value (port_digits u)), part_path = ''/'' @ path_text u,
       part_query = query_text u, part_fragment = fragment_text u,
       part_path_suffix = ''/'' @ path_text u @ ''?'' @ query_text u @ ''#'' @ fragment_text u\<rparr>"
proof -
  have "CHR '':'' \<notin> set (scheme_text u)" "3 \<le> length (url_rest u)"
    "length (scheme_text u @ ''://'' @ url_rest u) < 2 ^ 32 - 2"
    using assms(1) by (simp_all add: well_formed_def avoids_def url_text_def url_rest_def)
  from url_parse_text [OF assms(2) [unfolded url_text_def] this(3,1,2) assms(3,4)]
  show ?thesis by (simp only: url_spec_text [OF assms(1)])
qed

definition sample_buffer :: url_buffer where
  "sample_buffer = (Some (replicate 24 (CHR ''.'')), 24)"

definition sample_outputs :: url_outputs where
  "sample_outputs = \<lparr>url_scheme = sample_buffer, url_user = sample_buffer,
     url_password = sample_buffer, url_host = sample_buffer, url_port = Some 0,
     url_path = sample_buffer, url_query = sample_buffer, url_fragment = sample_buffer,
     url_path_suffix = sample_buffer\<rparr>"

definition sample_url :: url where
  "sample_url = \<lparr>scheme_text = ''https'', user_text = ''bob'', password_text = ''s:t'',
     host_text = ''example.com'', port_digits = ''8080'', path_text = ''api/v1'',
     query_text = ''a=b?'', fragment_text = ''top''\<rparr>"

lemma sample_outputs_sized: "all_sized sample_outputs" "url_port sample_outputs = Some 0"
  by (simp_all add: all_sized_def sized_def sample_outputs_def sample_buffer_def)

lemma sample_url_well_formed: "well_formed sample_url"
  by (simp add: well_formed_def avoids_def sample_url_def url_text_def url_rest_def is_digit_def)

lemma string_at_array_chars:
  "CHR 0x00 \<notin> set s \<Longrightarrow> string_at (array_chars (s @ CHR 0x00 # t) beyond) 0 s"
proof -
  assume "CHR 0x00 \<notin> set s"
  moreover have "chars_at (array_chars (s @ CHR 0x00 # t) beyond) 0 (length s) = s"
    by (rule nth_equalityI) (simp_all add: array_chars_def nth_append)
  moreover have "array_chars (s @ CHR 0x00 # t) beyond (length s) = CHR 0x00"
    by (simp add: array_chars_def)
  ultimately show ?thesis by (simp add: string_at_def)
qed

lemma sample_url_values:
  "host_text sample_url = ''example.com''" "password_text sample_url = ''s:t''"
  "digits_value (port_digits sample_url) = 8080" "path_text sample_url = ''api/v1''"
  "query_text sample_url = ''a=b?''" "fragment_text sample_url = ''top''"
  by (simp_all add: sample_url_def digits_value_def digit_value_def)

lemma outputs_hold_sample:
  "\<exists>out. r = Some (True, out) \<and> outputs_hold sample_outputs out u \<Longrightarrow>
   \<exists>out. r = Some (True, out) \<and>
     text_of (url_host out) = take 23 (part_host u) \<and> url_port out = Some (part_port u) \<and>
     text_of (url_password out) = take 23 (part_password u) \<and>
     text_of (url_path_suffix out) = take 23 (part_path_suffix u)"
  by (auto simp: outputs_hold_def cut_to_def sample_outputs_def sample_buffer_def)

lemma url_roundtrip_witness:
  "\<exists>out'. urlParseGetParts (array_chars (url_text sample_url @ [CHR 0x00]) (\<lambda>_. CHR ''x'')) 0
       sample_outputs = Some (True, out') \<and>
     text_of (url_host out') = ''example.com'' \<and> url_port out' = Some 8080 \<and>
     text_of (url_password out') = ''s:t'' \<and> text_of (url_path_suffix out') = ''/api/v1?a=b?#top''"
proof -
  have "CHR 0x00 \<notin> set (url_text sample_url)"
    using sample_url_well_formed by (simp add: well_formed_def)
  from outputs_hold_sample [OF url_roundtrip [OF sample_url_well_formed
      string_at_array_chars [OF this] sample_outputs_sized, of "[]" "\<lambda>_. CHR ''x''"]]
  have "\<exists>out. urlParseGetParts (array_chars (url_text sample_url @ [CHR 0x00]) (\<lambda>_. CHR ''x'')) 0
      sample_outputs = Some (True, out) \<and>
     text_of (url_host out) = take 23 (host_text sample_url) \<and>
     url_port out = Some (word_of_int (digits_value (port_digits sample_url))) \<and>
     text_of (url_password out) = take 23 (password_text sample_url) \<and>
     text_of (url_path_suffix out) = take 23 (''/'' @ path_text sample_url @ ''?'' @ query_text sample_url
       @ ''#'' @ fragment_text sample_url)"
    by (simp only: url_parts.simps)
  then show ?thesis
    by (rule ex_forward) (simp add: sample_url_values)
qed

lemma url_parse_spec_witness:
  "\<exists>out'. urlParseGetParts (array_chars ((''http'' @ ''://'' @ ''host:81/a?b#c'') @ [CHR 0x00]) (\<lambda>_. CHR ''x'')) 0
       sample_outputs = Some (True, out') \<and>
     text_of (url_host out') = ''host'' \<and> url_port out' = Some 81 \<and>
     text_of (url_path_suffix out') = ''/a?b#c''"
proof -
  have s: "string_at (array_chars ((''http'' @ ''://'' @ ''host:81/a?b#c'') @ [CHR 0x00]) (\<lambda>_. CHR ''x'')) 0
      (''http'' @ ''://'' @ ''host:81/a?b#c'')"
    by (rule string_at_array_chars) simp
  have spec: "part_host (url_spec s ''host:81/a?b#c'' d) = ''host''"
    "part_port (url_spec s ''host:81/a?b#c'' d) = 81"
    "part_path_suffix (url_spec s ''host:81/a?b#c'' d) = ''/a?b#c''" for s d
    by (simp_all add: url_spec_def Let_def in_authority_def port_value_def host_port_def
      text_before_def text_after_def is_space_def is_digit_def digits_value_def digit_value_def)
  have "length (''http'' @ ''://'' @ ''host:81/a?b#c'') < 2 ^ 32 - 2" "CHR '':'' \<notin> set ''http''"
    "3 \<le> length ''host:81/a?b#c''"
    by simp_all
  from outputs_hold_sample [OF url_parse_spec [OF s this sample_outputs_sized]]
  show ?thesis
    by (rule ex_forward) (simp add: spec)
qed

lemma host_only:
  assumes "window_text m p n = s" and "CHR ''@'' \<notin> set s" and "CHR '':'' \<notin> set s" and "all_sized out"
  shows "\<exists>user password. urlParse_userPasswordHostAndPort m p n out = Some (True, out\<lparr>url_user := user,
      url_password := password, url_host := copied m (url_host out) p n\<rparr>)"
proof -
  have "urlParse_userPasswordHostAndPort m p n out = Some (True, out\<lparr>
      url_user := literal_copied (url_user out) [CHR 0x00],
      url_password := literal_copied (url_password out) [CHR 0x00],
      url_host := copied m (url_host out) p n\<rparr>)"
    using assms strchr_window [of _ m p n s]
    by (simp add: urlParse_userPasswordHostAndPort_def urlParse_hostAndPort_def copy_literal_run
        copy_part_run all_sized_def)
  then show ?thesis by blast
qed

text \<open>The host of a URL that ends with it is copied with two characters more.\<close>

lemma host_copied_too_long:
  assumes url: "string_at m url (scheme @ ''://'' @ host)" and short: "length (scheme @ ''://'' @ host) < 2 ^ 32 - 2"
    and scheme: "CHR '':'' \<notin> set scheme" and host: "avoids host '':@/?#''" and long: "3 \<le> length host"
    and sized: "all_sized out"
  shows "\<exists>out'. urlParseGetParts m url out = Some (True, out') \<and>
    url_host out' = copied m (url_host out) (Suc (Suc (Suc (url + length scheme)))) (Suc (Suc (length host)))"
proof -
  let ?text = "scheme @ ''://'' @ host" and ?k = "length scheme" and ?n = "Suc (Suc (length host))"
  let ?p = "Suc (Suc (Suc (url + ?k)))"
  have len: "length ?text = ?k + 3 + length host" "length ?text < 2 ^ 32" using short by simp_all
  have total: "strlen m url = length ?text" using strlen_string_at [OF url len(2)] .
  have colon: "strstr m url '':'' = Some (url + ?k)"
    using strstr_colon [of m url scheme "''//'' @ host"] scheme url len(2) by simp
  have "\<exists>out1. urlParse_scheme m url ?k out = Some (True, out1) \<and> all_sized out1 \<and>
      url_host out1 = url_host out"
    using sized by (auto simp: urlParse_scheme_def copy_part_run all_sized_def Let_def)
  then obtain out1 where s: "urlParse_scheme m url ?k out = Some (True, out1)"
    and out1: "all_sized out1" "url_host out1 = url_host out"
    by blast
  have sub: "sz_sub (sz_sub (length ?text) ?k) 3 = length host" "sz_add (length host) 2 = ?n"
    using len short by (simp_all add: sz_sub_exact sz_add_exact)
  have past: "string_at m ?p host"
    using string_at_suffix [of m url "scheme @ ''://''" host] url by (simp add: numeral_3_eq_3)
  have slashes: "STREQ_LEN m (Suc (url + ?k)) ''//'' 2"
    using string_at_chars [OF string_at_suffix [of m url "scheme @ '':''" "''//'' @ host"], of 2] url
    by (simp add: STREQ_LEN_def)
  have window: "window_text m ?p ?n = host" by (rule part_whole [OF past]) simp
  have no_end: "dropWhile in_authority host = []"
    using host by (auto simp: in_authority_def avoids_def dropWhile_eq_Nil_conv)
  from host_only [OF window _ _ out1(1)] host obtain user password where
    h: "urlParse_userPasswordHostAndPort m ?p ?n out1 = Some (True, out1\<lparr>url_user := user,
      url_password := password, url_host := copied m (url_host out) ?p ?n\<rparr>)"
    by (auto simp: avoids_def out1(2))
  have "\<exists>out'. urlParse_pastScheme m (Suc (url + ?k)) (length host) out1 = Some (True, out') \<and>
      url_host out' = copied m (url_host out) ?p ?n"
    using long slashes sub h out1
    by (simp add: urlParse_pastScheme_def Let_def authority_end window no_end copy_literal_run
        all_sized_def)
  then show ?thesis using colon s total sub by (auto simp: urlParseGetParts_def Let_def)
qed

text \<open>
  C39: The length passed on for the part after the slashes is two too large: for a URL that ends
  with its host the copy of the host takes the terminating NUL and also the byte of memory after
  it.
\<close>

theorem url_reads_past_terminator:
  assumes url: "string_at m url (scheme @ ''://'' @ host)" and short: "length (scheme @ ''://'' @ host) < 2 ^ 32 - 2"
    and scheme: "CHR '':'' \<notin> set scheme" and host: "avoids host '':@/?#''" and long: "3 \<le> length host"
    and sized: "all_sized out" and room: "fst (url_host out) \<noteq> None" "length host + 3 \<le> snd (url_host out)"
  shows "\<exists>out' b. urlParseGetParts m url out = Some (True, out') \<and> fst (url_host out') = Some b \<and>
    take (length host + 2) b = host @ [CHR 0x00, m (url + length (scheme @ ''://'' @ host) + 1)]"
proof -
  let ?p = "Suc (Suc (Suc (url + length scheme)))" and ?n = "Suc (Suc (length host))"
  obtain out' where out: "urlParseGetParts m url out = Some (True, out')" "url_host out' = copied m (url_host out) ?p ?n"
    using host_copied_too_long [OF url short scheme host long sized] by blast
  have past: "string_at m ?p host"
    using string_at_suffix [of m url "scheme @ ''://''" host] url by (simp add: numeral_3_eq_3)
  have "chars_at m ?p ?n = host @ [CHR 0x00, m (Suc (?p + length host))]"
    using past chars_at_add [of m ?p "length host" 2]
    by (simp add: string_at_def chars_at_Suc numeral_2_eq_2)
  moreover have "min ?n (snd (url_host out) - 1) = ?n" using room by linarith
  then have "fst (copied m (url_host out) ?p ?n) =
      Some (chars_at m ?p ?n @ CHR 0x00 # drop (Suc ?n) (the (fst (url_host out))))"
    using room(1) by (auto simp: copied_def Let_def simp del: chars_at_Suc)
  ultimately show ?thesis using out by (simp add: add.assoc)
qed


lemma url_reads_past_terminator_witness:
  "\<exists>out' b. urlParseGetParts (array_chars (''http://abc'' @ [CHR 0x00, CHR ''S'']) (\<lambda>_. CHR 0x00)) 0
     sample_outputs = Some (True, out') \<and> fst (url_host out') = Some b \<and>
     take 5 b = ''abc'' @ [CHR 0x00, CHR ''S'']"
proof -
  have s: "string_at (array_chars ((''http'' @ ''://'' @ ''abc'') @ CHR 0x00 # ''S'') (\<lambda>_. CHR 0x00)) 0
      (''http'' @ ''://'' @ ''abc'')"
    by (rule string_at_array_chars) simp
  have "length (''http'' @ ''://'' @ ''abc'') < 2 ^ 32 - 2" "CHR '':'' \<notin> set ''http''"
    "avoids ''abc'' '':@/?#''" "3 \<le> length ''abc''"
    "fst (url_host sample_outputs) \<noteq> None" "length ''abc'' + 3 \<le> snd (url_host sample_outputs)"
    by (simp_all add: avoids_def sample_outputs_def sample_buffer_def)
  from url_reads_past_terminator [OF s this(1-4) sample_outputs_sized(1) this(5,6)]
  show ?thesis by (simp add: array_chars_def eval_nat_numeral)
qed

text \<open>
  A URL without two slashes after the colon is accepted, leaves the host untouched, and its
  path suffix lacks the last two characters.
\<close>

theorem url_without_slashes_cut_short:
  assumes url: "string_at m url (scheme @ '':'' @ rest)" and short: "length (scheme @ '':'' @ rest) < 2 ^ 32"
    and scheme: "CHR '':'' \<notin> set scheme" and slashes: "take 2 rest \<noteq> ''//''" and two: "2 \<le> length rest"
    and sized: "all_sized out"
  shows "\<exists>out'. urlParseGetParts m url out = Some (True, out') \<and>
    text_of (url_path_suffix out') = cut_to (url_path_suffix out) (take (length rest - 2) rest) \<and>
    url_host out' = url_host out"
proof -
  let ?text = "scheme @ '':'' @ rest" and ?k = "length scheme"
  let ?n = "length rest - 2" and ?p = "Suc (url + ?k)"
  have total: "strlen m url = length ?text" using strlen_string_at [OF url short] .
  have colon: "strstr m url '':'' = Some (url + ?k)"
    using strstr_colon [of m url scheme rest] scheme url short by simp
  have "\<exists>out1. urlParse_scheme m url ?k out = Some (True, out1) \<and> all_sized out1 \<and>
      url_host out1 = url_host out \<and> url_path_suffix out1 = url_path_suffix out"
    using sized by (auto simp: urlParse_scheme_def copy_part_run all_sized_def Let_def)
  then obtain out1 where s: "urlParse_scheme m url ?k out = Some (True, out1)"
    and out1: "all_sized out1" "url_host out1 = url_host out" "url_path_suffix out1 = url_path_suffix out"
    by blast
  have sub: "sz_sub (sz_sub (length ?text) ?k) 3 = ?n"
    using two short by (simp add: sz_sub_exact)
  have past: "string_at m ?p rest"
    using string_at_suffix [of m url "scheme @ '':''" rest] url by simp
  then have no: "\<not> STREQ_LEN m ?p ''//'' 2"
    using string_at_chars [OF past two] slashes by (simp add: STREQ_LEN_def)
  have window: "window_text m ?p ?n = take ?n rest" by (rule part_take [OF past]) simp
  let ?out2 = "out1\<lparr>url_path_suffix := copied m (url_path_suffix out) ?p ?n\<rparr>"
  have "?n < 2 ^ 32" using short by simp
  from tail_text [OF window this, of ?out2] out1 obtain path query fragment where
    "urlParse_pathQueryAndFragment m ?p ?n ?out2 =
       Some (True, ?out2\<lparr>url_fragment := fragment, url_query := query, url_path := path\<rparr>)"
    by (auto simp: all_sized_def)
  then have "urlParseGetParts m url out =
      Some (True, ?out2\<lparr>url_fragment := fragment, url_query := query, url_path := path\<rparr>)"
    using colon s total sub no out1
    by (simp add: urlParseGetParts_def urlParse_pastScheme_def Let_def copy_part_run all_sized_def)
  then show ?thesis
    by (intro exI conjI) (assumption, simp_all add: text_of_copied window cut_to_def out1)
qed

lemma url_without_slashes_cut_short_witness:
  "\<exists>out'. urlParseGetParts (array_chars ((''http'' @ '':'' @ ''/path'') @ [CHR 0x00]) (\<lambda>_. CHR 0x00)) 0
     sample_outputs = Some (True, out') \<and> text_of (url_path_suffix out') = ''/pa'' \<and>
     url_host out' = sample_buffer"
proof -
  have s: "string_at (array_chars ((''http'' @ '':'' @ ''/path'') @ [CHR 0x00]) (\<lambda>_. CHR 0x00)) 0
      (''http'' @ '':'' @ ''/path'')"
    by (rule string_at_array_chars) simp
  have "length (''http'' @ '':'' @ ''/path'') < 2 ^ 32" "CHR '':'' \<notin> set ''http''"
    "take 2 ''/path'' \<noteq> ''//''" "2 \<le> length ''/path''"
    by simp_all
  from url_without_slashes_cut_short [OF s this sample_outputs_sized(1)] show ?thesis
    by (rule ex_forward) (simp add: cut_to_def sample_outputs_def sample_buffer_def)
qed

section \<open>Memory safety\<close>

text \<open>Every buffer is as large as it is said to be.\<close>

definition buffer_fits :: "url_buffer \<Rightarrow> bool" where
  "buffer_fits b \<longleftrightarrow> (case fst b of None \<Rightarrow> True | Some d \<Rightarrow> snd b \<le> length d)"

definition same_shape :: "url_buffer \<Rightarrow> url_buffer \<Rightarrow> bool" where
  "same_shape b b' \<longleftrightarrow> snd b' = snd b \<and> map_option length (fst b') = map_option length (fst b)"

definition outputs_fit :: "url_outputs \<Rightarrow> bool" where
  "outputs_fit out \<longleftrightarrow> buffer_fits (url_scheme out) \<and> buffer_fits (url_user out) \<and>
     buffer_fits (url_password out) \<and> buffer_fits (url_host out) \<and> buffer_fits (url_path out) \<and>
     buffer_fits (url_query out) \<and> buffer_fits (url_fragment out) \<and> buffer_fits (url_path_suffix out)"

definition outputs_same_shape :: "url_outputs \<Rightarrow> url_outputs \<Rightarrow> bool" where
  "outputs_same_shape out out' \<longleftrightarrow> same_shape (url_scheme out) (url_scheme out') \<and>
     same_shape (url_user out) (url_user out') \<and> same_shape (url_password out) (url_password out') \<and>
     same_shape (url_host out) (url_host out') \<and> same_shape (url_path out) (url_path out') \<and>
     same_shape (url_query out) (url_query out') \<and> same_shape (url_fragment out) (url_fragment out') \<and>
     same_shape (url_path_suffix out) (url_path_suffix out') \<and>
     (url_port out' = None \<longleftrightarrow> url_port out = None)"

lemma same_shape_refl [simp]: "same_shape b b"
  by (simp add: same_shape_def)

lemma same_shape_fits: "same_shape b b' \<Longrightarrow> buffer_fits b \<Longrightarrow> buffer_fits b'"
  by (cases b; cases b') (auto simp: same_shape_def buffer_fits_def split: option.splits)

lemma outputs_same_shape_refl [simp]: "outputs_same_shape out out"
  by (simp add: outputs_same_shape_def)

lemma same_shape_trans: "same_shape a b \<Longrightarrow> same_shape b c \<Longrightarrow> same_shape a c"
  by (simp add: same_shape_def)

lemma outputs_same_shape_trans:
  "outputs_same_shape a b \<Longrightarrow> outputs_same_shape b c \<Longrightarrow> outputs_same_shape a c"
  by (auto simp: outputs_same_shape_def intro: same_shape_trans)

lemma outputs_same_shape_fit: "outputs_same_shape a b \<Longrightarrow> outputs_fit a \<Longrightarrow> outputs_fit b"
  by (auto simp: outputs_same_shape_def outputs_fit_def intro: same_shape_fits)

lemma copy_part_total:
  assumes "buffer_fits b"
  shows "\<exists>b'. copy_part m b (Some p) len = Some b' \<and> same_shape b b'"
proof (cases "fst b = None \<or> snd b = 0")
  case True
  then show ?thesis
    by (cases b) (auto simp: copy_part_def safe_strncpy_len_def same_shape_def split: option.splits)
next
  case False
  then obtain d k where d: "b = (Some d, k)" "0 < k" "k \<le> length d"
    using assms by (cases b) (auto simp: buffer_fits_def)
  have "min len (k - 1) < length d" using d(2,3) by linarith
  then show ?thesis
    using safe_strncpy_len_content [OF d(2,3), of m p len] d(1)
    by (simp add: copy_part_def same_shape_def)
qed

lemma copy_literal_total:
  "buffer_fits b \<Longrightarrow> \<exists>b'. copy_literal b l n = Some b' \<and> same_shape b b'"
  unfolding copy_literal_def by (rule copy_part_total)

text \<open>A step of the parser that ends, with outputs of the same shape.\<close>

definition safe :: "url_outputs \<Rightarrow> (bool \<times> url_outputs) option \<Rightarrow> bool" where
  "safe out r \<longleftrightarrow> (\<exists>out'. r = Some (True, out') \<and> outputs_same_shape out out')"

lemma safe_Some: "outputs_same_shape out out' \<Longrightarrow> safe out (Some (True, out'))"
  by (simp add: safe_def)

lemma safe_bind:
  assumes "\<exists>b'. f = Some b' \<and> same_shape b b'" and "\<And>b'. same_shape b b' \<Longrightarrow> safe out (g b')"
  shows "safe out (Option.bind f g)"
  using assms by auto

lemma scheme_safe: "outputs_fit out \<Longrightarrow> safe out (urlParse_scheme m p n out)"
  unfolding urlParse_scheme_def Let_def
  by (rule safe_bind [OF copy_part_total [of "url_scheme out"]])
    (auto simp: outputs_fit_def outputs_same_shape_def intro!: safe_Some)

lemma userAndPassword_safe: "outputs_fit out \<Longrightarrow> safe out (urlParse_userAndPassword m p n out)"
  unfolding urlParse_userAndPassword_def
  by (auto simp: outputs_fit_def outputs_same_shape_def split: option.splits
      intro!: safe_Some safe_bind [OF copy_part_total [of "url_user out"]]
        safe_bind [OF copy_part_total [of "url_password out"]]
        safe_bind [OF copy_literal_total [of "url_password out"]])

lemma hostAndPort_safe: "outputs_fit out \<Longrightarrow> safe out (urlParse_hostAndPort m p n out)"
  unfolding urlParse_hostAndPort_def Let_def
  by (auto simp: outputs_fit_def outputs_same_shape_def split: option.splits
      intro!: safe_Some safe_bind [OF copy_part_total [of "url_host out"]])

lemma safe_then:
  assumes "safe out r" and "\<And>out'. outputs_same_shape out out' \<Longrightarrow> r = Some (True, out') \<Longrightarrow> safe out (f (True, out'))"
  shows "safe out (Option.bind r f)"
  using assms by (auto simp: safe_def)

lemma safe_trans: "outputs_same_shape a b \<Longrightarrow> safe b r \<Longrightarrow> safe a r"
  by (auto simp: safe_def intro: outputs_same_shape_trans)

lemma authority_safe: "outputs_fit out \<Longrightarrow> safe out (urlParse_userPasswordHostAndPort m p n out)"
proof -
  assume fit: "outputs_fit out"
  have rest: "safe out (Option.bind (urlParse_hostAndPort m q k o1) (\<lambda>(ok, o2). Some (ok, o2)))"
    if "outputs_same_shape out o1" for q k o1
    using safe_trans [OF that hostAndPort_safe [OF outputs_same_shape_fit [OF that fit]]]
    by simp
  show ?thesis
  proof (cases "strchr_len m p CHR ''@'' n")
    case (Some a)
    obtain o1 where "urlParse_userAndPassword m p (a - p) out = Some (True, o1)" "outputs_same_shape out o1"
      using userAndPassword_safe [OF fit, of m p "a - p"] by (auto simp: safe_def)
    then show ?thesis using rest Some by (simp add: urlParse_userPasswordHostAndPort_def Let_def)
  next
    case None
    obtain u where u: "copy_literal (url_user out) [CHR 0x00] 1 = Some u" "same_shape (url_user out) u"
      using copy_literal_total [of "url_user out" "[CHR 0x00]" 1] fit by (auto simp: outputs_fit_def)
    obtain v where v: "copy_literal (url_password out) [CHR 0x00] 1 = Some v" "same_shape (url_password out) v"
      using copy_literal_total [of "url_password out" "[CHR 0x00]" 1] fit by (auto simp: outputs_fit_def)
    have "outputs_same_shape out (out\<lparr>url_user := u, url_password := v\<rparr>)"
      using u(2) v(2) by (simp add: outputs_same_shape_def)
    from rest [OF this] None u(1) v(1) show ?thesis
      by (simp add: urlParse_userPasswordHostAndPort_def)
  qed
qed

lemma tail_safe: "outputs_fit out \<Longrightarrow> safe out (urlParse_pathQueryAndFragment m p n out)"
  unfolding urlParse_pathQueryAndFragment_def
  by (auto simp: outputs_fit_def outputs_same_shape_def split: option.splits
      intro!: safe_Some safe_bind [OF copy_part_total [of "url_path out"]]
        safe_bind [OF copy_part_total [of "url_fragment out"]] safe_bind [OF copy_part_total [of "url_query out"]]
        safe_bind [OF copy_literal_total [of "url_query out"]] safe_bind [OF copy_literal_total [of "url_fragment out"]])


lemma pastScheme_safe: "outputs_fit out \<Longrightarrow> safe out (urlParse_pastScheme m p n out)"
proof -
  assume fit: "outputs_fit out"
  have rest: "safe out (Option.bind (copy_part m (url_path_suffix o1) (Some q) k)
      (\<lambda>b. urlParse_pathQueryAndFragment m q k (o1\<lparr>url_path_suffix := b\<rparr>)))"
    if o1: "outputs_same_shape out o1" for q k o1
  proof (rule safe_bind [OF copy_part_total])
    show "buffer_fits (url_path_suffix o1)"
      using outputs_same_shape_fit [OF o1 fit] by (simp add: outputs_fit_def)
    fix b' assume "same_shape (url_path_suffix o1) b'"
    then have "outputs_same_shape out (o1\<lparr>url_path_suffix := b'\<rparr>)"
      using o1 by (auto simp: outputs_same_shape_def intro: same_shape_trans)
    then show "safe out (urlParse_pathQueryAndFragment m q k (o1\<lparr>url_path_suffix := b'\<rparr>))"
      using fit by (blast intro: safe_trans tail_safe outputs_same_shape_fit)
  qed
  have none: "safe out (do {
      path \<leftarrow> copy_literal (url_path o1) ''/'' 1;
      query \<leftarrow> copy_literal (url_query o1) [CHR 0x00] 1;
      fragment \<leftarrow> copy_literal (url_fragment o1) [CHR 0x00] 1;
      path_suffix \<leftarrow> copy_literal (url_path_suffix o1) ''/'' 1;
      Some (True, o1\<lparr>url_path := path, url_query := query, url_fragment := fragment,
                      url_path_suffix := path_suffix\<rparr>)
    })" if o1: "outputs_same_shape out o1" for o1
  proof -
    have "outputs_fit o1" using outputs_same_shape_fit [OF o1 fit] .
    then have "safe o1 (do {
        path \<leftarrow> copy_literal (url_path o1) ''/'' 1;
        query \<leftarrow> copy_literal (url_query o1) [CHR 0x00] 1;
        fragment \<leftarrow> copy_literal (url_fragment o1) [CHR 0x00] 1;
        path_suffix \<leftarrow> copy_literal (url_path_suffix o1) ''/'' 1;
        Some (True, o1\<lparr>url_path := path, url_query := query, url_fragment := fragment,
                        url_path_suffix := path_suffix\<rparr>)
      })"
      by (intro safe_bind [OF copy_literal_total [of "url_path o1"]]
          safe_bind [OF copy_literal_total [of "url_query o1"]]
          safe_bind [OF copy_literal_total [of "url_fragment o1"]]
          safe_bind [OF copy_literal_total [of "url_path_suffix o1"]] safe_Some)
        (auto simp: outputs_fit_def outputs_same_shape_def)
    then show ?thesis by (rule safe_trans [OF o1])
  qed
  show ?thesis
  proof (cases "3 \<le> n \<and> STREQ_LEN m p ''//'' 2")
    case True
    let ?start = "strchr_any_len m (p + 2) ''/?#'' (sz_add n 2)"
    let ?first = "case ?start of Some q \<Rightarrow> q - (p + 2) | None \<Rightarrow> sz_add n 2"
    obtain o1 where "urlParse_userPasswordHostAndPort m (p + 2) ?first out = Some (True, o1)"
      "outputs_same_shape out o1"
      using authority_safe [OF fit, of m "p + 2" ?first] by (auto simp: safe_def)
    then show ?thesis using True rest none
      by (cases ?start) (simp_all add: urlParse_pastScheme_def Let_def)
  next
    case False
    then show ?thesis using rest [of out] by (simp only: urlParse_pastScheme_def if_False) simp
  qed
qed

lemma url_parse_safe:
  assumes "outputs_fit out"
  shows "\<exists>ok out'. urlParseGetParts m url out = Some (ok, out') \<and> outputs_same_shape out out' \<and>
    (ok \<longleftrightarrow> strstr m url '':'' \<noteq> None)"
proof (cases "strstr m url '':''")
  case None
  then have "urlParseGetParts m url out = Some (False, out)" by (simp add: urlParseGetParts_def)
  then show ?thesis using None by (intro exI [of _ False] exI [of _ out]) simp
next
  case (Some q)
  obtain o1 where o1: "urlParse_scheme m url (q - url) out = Some (True, o1)" "outputs_same_shape out o1"
    using scheme_safe [OF assms, of m url "q - url"] by (auto simp: safe_def)
  obtain o2 where "urlParse_pastScheme m (q + 1) (sz_sub (sz_sub (strlen m url) (q - url)) 3) o1 = Some (True, o2)"
    "outputs_same_shape o1 o2"
    using pastScheme_safe [OF outputs_same_shape_fit [OF o1(2) assms], of m "q + 1"
      "sz_sub (sz_sub (strlen m url) (q - url)) 3"] by (auto simp: safe_def)
  then show ?thesis using Some o1
    by (auto simp: urlParseGetParts_def Let_def intro: outputs_same_shape_trans)
qed

text \<open>
  C22: Whatever string it is given, the parser never writes outside its output buffers: with
  buffers at least as large as their sizes (or NULL) it ends, reporting success exactly when the
  string has a colon, and every buffer keeps its size.
\<close>

theorem url_parse_memory_safe:
  assumes "outputs_fit out"
  shows "\<exists>ok out'. urlParseGetParts m url out = Some (ok, out') \<and> outputs_same_shape out out' \<and>
    (ok \<longleftrightarrow> strstr m url '':'' \<noteq> None)"
  by (rule url_parse_safe [OF assms])

lemma url_parse_memory_safe_witness:
  "\<exists>ok out'. urlParseGetParts (array_chars ''x'' (\<lambda>_. CHR '':'')) 0
     (sample_outputs\<lparr>url_user := (None, 0)\<rparr>) = Some (ok, out') \<and>
     outputs_same_shape (sample_outputs\<lparr>url_user := (None, 0)\<rparr>) out'"
  using url_parse_memory_safe [of "sample_outputs\<lparr>url_user := (None, 0)\<rparr>"]
  by (force simp: outputs_fit_def buffer_fits_def sample_outputs_def sample_buffer_def)

end
