(* ===== verification/App_Https_Client.thy ===== *)
theory App_Https_Client
  imports Harmony Util_Url
begin

text \<open>
  \<open>firmware/src/app_https_client.c\<close> and its header: the state machine that serves one HTTP(S)
  request at a time. The client's callbacks are names of type \<open>'cb\<close>, applied by the argument
  \<open>call\<close> of the task function to a state of type \<open>'u\<close> that stands for what the callbacks'
  \<open>user_data\<close> points to. \<open>after_url\<close> is the memory behind the array \<open>request_url\<close>. A step is
  \<open>None\<close> when it writes outside an array.
\<close>

section \<open>Data\<close>

definition MAX_URL :: nat where "MAX_URL = 128"
definition MAX_URL_SCHEME :: nat where "MAX_URL_SCHEME = 6"
definition MAX_URL_HOST :: nat where "MAX_URL_HOST = 32"
definition MAX_URL_PATH :: nat where "MAX_URL_PATH = 64"
definition HTTPS_CLIENT_NETWORK_BUFFER_SIZE :: nat where "HTTPS_CLIENT_NETWORK_BUFFER_SIZE = 256"

lemmas https_sizes = MAX_URL_def MAX_URL_SCHEME_def MAX_URL_HOST_def MAX_URL_PATH_def
  HTTPS_CLIENT_NETWORK_BUFFER_SIZE_def

record 'cb AppHttpsClientCallbacks =
  cb_buffer_received :: "'cb option"
  cb_request_handled :: "'cb option"
  cb_error :: "'cb option"

text \<open>What a callback is called with.\<close>

datatype callback_event = Buffer_Received "char list" | Request_Handled | Request_Error

datatype AppHTTPSClientState =
    APP_HTTPS_CLIENT_STATE_IDLE
  | APP_HTTPS_CLIENT_STATE_BEGIN_SEQUENCE
  | APP_HTTPS_CLIENT_STATE_WAIT_FOR_NETWORK
  | APP_HTTPS_CLIENT_STATE_PARSE_REQUEST_URL
  | APP_HTTPS_CLIENT_STATE_PROCESS_REQUEST
  | APP_HTTPS_CLIENT_STATE_WAIT_ON_DNS
  | APP_HTTPS_CLIENT_STATE_START_CONNECTION
  | APP_HTTPS_CLIENT_STATE_WAIT_FOR_CONNECTION
  | APP_HTTPS_CLIENT_STATE_CLOSE_CONNECTION
  | APP_HTTPS_CLIENT_STATE_WAIT_FOR_SSL_CONNECT
  | APP_HTTPS_CLIENT_STATE_SEND_REQUEST
  | APP_HTTPS_CLIENT_STATE_WAIT_FOR_RESPONSE
  | APP_HTTPS_CLIENT_STATE_ERROR

datatype AppHTTPSClientIPMode = APP_HTTPS_CLIENT_IP_MODE_IPV4 | APP_HTTPS_CLIENT_IP_MODE_IPV6

record 'cb AppHTTPSClientData =
  ip_mode_config :: AppHTTPSClientIPMode
  https_state :: AppHTTPSClientState
  https_callbacks :: "'cb AppHttpsClientCallbacks"
  request_url :: "char list"
  https_timeout :: u64
  https_scheme :: "char list"
  https_host :: "char list"
  https_port :: u16
  https_path :: "char list"
  dns_query_ip_mode :: AppHTTPSClientIPMode
  ip_mode :: AppHTTPSClientIPMode
  ip_address :: "u8 list"
  https_socket :: "u32 option"
  network_buffer :: "char list"

section \<open>Steps\<close>

definition enterErrorState :: "'cb AppHTTPSClientData \<Rightarrow> 'cb AppHTTPSClientData" where
  "enterErrorState data = data\<lparr>https_state := APP_HTTPS_CLIENT_STATE_ERROR\<rparr>"

definition checkNetworkIsAvailable :: "'cb AppHTTPSClientData \<Rightarrow> bool" where
  "checkNetworkIsAvailable data = True"

definition waitForNetworkAvailable ::
    "tmr_env \<Rightarrow> 'cb AppHTTPSClientData \<times> world \<Rightarrow> 'cb AppHTTPSClientData \<times> world" where
  "waitForNetworkAvailable env = (\<lambda>(data, w).
     if checkNetworkIsAvailable data
     then (data\<lparr>https_state := APP_HTTPS_CLIENT_STATE_PARSE_REQUEST_URL\<rparr>, w)
     else
       let (count, w) = ask (tmr_count env) (IO_Tmr SYS_TMR_SystemCountGet) w in
       if https_timeout data < count then (enterErrorState data, w) else (data, w))"

definition pasreRequestURL :: "chars \<Rightarrow> 'cb AppHTTPSClientData \<Rightarrow> 'cb AppHTTPSClientData option" where
  "pasreRequestURL after_url data = do {
     (ok, out) \<leftarrow> urlParseGetParts (array_chars (request_url data) after_url) 0
       \<lparr>url_scheme = (Some (https_scheme data), MAX_URL_SCHEME),
        url_user = (None, 0), url_password = (None, 0),
        url_host = (Some (https_host data), MAX_URL_HOST),
        url_port = Some (https_port data),
        url_path = (None, 0), url_query = (None, 0), url_fragment = (None, 0),
        url_path_suffix = (Some (https_path data), MAX_URL_PATH)\<rparr>;
     let data = data\<lparr>https_scheme := the (fst (url_scheme out)), https_host := the (fst (url_host out)),
                     https_port := the (url_port out), https_path := the (fst (url_path_suffix out))\<rparr>;
     if \<not> ok then Some (enterErrorState data)
     else Some (data\<lparr>https_state := APP_HTTPS_CLIENT_STATE_PROCESS_REQUEST\<rparr>)
   }"

definition processRequest ::
    "dns_env \<Rightarrow> 'cb AppHTTPSClientData \<times> world \<Rightarrow> 'cb AppHTTPSClientData \<times> world" where
  "processRequest env = (\<lambda>(data, w).
     let host = cstr (https_host data);
         (is_v4, w) = ask (string_to_ip env) (IO_TCPIP (TCPIP_Helper_StringToIPAddress host)) w in
     if is_v4 then
       (data\<lparr>ip_address := string_to_ip_address env (log w), ip_mode := APP_HTTPS_CLIENT_IP_MODE_IPV4,
             https_state := APP_HTTPS_CLIENT_STATE_START_CONNECTION\<rparr>, w)
     else
       let (is_v6, w) = ask (string_to_ip env) (IO_TCPIP (TCPIP_Helper_StringToIPv6Address host)) w in
       if is_v6 then
         (data\<lparr>ip_address := string_to_ip_address env (log w), ip_mode := APP_HTTPS_CLIENT_IP_MODE_IPV6,
               https_state := APP_HTTPS_CLIENT_STATE_START_CONNECTION\<rparr>, w)
       else
         let (result, data, w) =
           (case ip_mode_config data of
              APP_HTTPS_CLIENT_IP_MODE_IPV6 \<Rightarrow>
                (let (result, w) = ask (dns_resolve env)
                       (IO_TCPIP (TCPIP_DNS_Resolve host IP_ADDRESS_TYPE_IPV6)) w
                 in (result, data\<lparr>dns_query_ip_mode := APP_HTTPS_CLIENT_IP_MODE_IPV6\<rparr>, w))
            | APP_HTTPS_CLIENT_IP_MODE_IPV4 \<Rightarrow>
                (let (result, w) = ask (dns_resolve env)
                       (IO_TCPIP (TCPIP_DNS_Resolve host IP_ADDRESS_TYPE_IPV4)) w
                 in (result, data\<lparr>dns_query_ip_mode := APP_HTTPS_CLIENT_IP_MODE_IPV4\<rparr>, w)));
           w = SYS_ASSERT (result \<noteq> TCPIP_DNS_RES_NAME_IS_IPADDRESS)
                 ''DNS Result is TCPIP_DNS_RES_NAME_IS_IPADDRESS, which should not happen since we already checked'' w
         in
         if result \<noteq> TCPIP_DNS_RES_FAILED
         then (data\<lparr>https_state := APP_HTTPS_CLIENT_STATE_WAIT_ON_DNS\<rparr>, w)
         else (enterErrorState data, w))"

definition checkDNSResolveStatus ::
    "dns_env \<Rightarrow> 'cb AppHTTPSClientData \<times> world \<Rightarrow> 'cb AppHTTPSClientData \<times> world" where
  "checkDNSResolveStatus env = (\<lambda>(data, w).
     let host = cstr (https_host data);
         ip_type = (if dns_query_ip_mode data = APP_HTTPS_CLIENT_IP_MODE_IPV4
                    then IP_ADDRESS_TYPE_IPV4 else IP_ADDRESS_TYPE_IPV6);
         (result, w) = ask (dns_is_resolved env) (IO_TCPIP (TCPIP_DNS_IsResolved host ip_type)) w;
         failed =
           (if dns_query_ip_mode data = APP_HTTPS_CLIENT_IP_MODE_IPV6 then
              let (result, w) = ask (dns_resolve env)
                    (IO_TCPIP (TCPIP_DNS_Resolve host IP_ADDRESS_TYPE_IPV4)) w in
              if result \<noteq> TCPIP_DNS_RES_FAILED
              then (data\<lparr>https_state := APP_HTTPS_CLIENT_STATE_WAIT_ON_DNS\<rparr>, w)
              else (enterErrorState data, w)
            else (enterErrorState data, w))
     in
     case result of
       TCPIP_DNS_RES_PENDING \<Rightarrow> (data, w)
     | TCPIP_DNS_RES_OK \<Rightarrow>
         (data\<lparr>ip_address := dns_address env (log w), ip_mode := dns_query_ip_mode data,
               https_state := APP_HTTPS_CLIENT_STATE_START_CONNECTION\<rparr>, w)
     | TCPIP_DNS_RES_NAME_IS_IPADDRESS \<Rightarrow> failed
     | TCPIP_DNS_RES_FAILED \<Rightarrow> failed)"

definition startNetworkConnection ::
    "pres_env \<Rightarrow> 'cb AppHTTPSClientData \<times> world \<Rightarrow> 'cb AppHTTPSClientData \<times> world" where
  "startNetworkConnection env = (\<lambda>(data, w).
     let socket_type = (case ip_mode data of
           APP_HTTPS_CLIENT_IP_MODE_IPV4 \<Rightarrow> IP_ADDRESS_TYPE_IPV4
         | APP_HTTPS_CLIENT_IP_MODE_IPV6 \<Rightarrow> IP_ADDRESS_TYPE_IPV6);
         (socket, w) = ask (socket_open env)
           (IO_Pres (NET_PRES_SocketOpen socket_type (https_port data) (ip_address data))) w;
         data = data\<lparr>https_socket := socket\<rparr>;
         (_, w) = ask (socket_was_reset env) (IO_Pres (NET_PRES_SocketWasReset socket)) w
     in
     if socket = None then (enterErrorState data, w)
     else (data\<lparr>https_state := APP_HTTPS_CLIENT_STATE_WAIT_FOR_CONNECTION\<rparr>, w))"

definition waitNetworkConnection ::
    "pres_env \<Rightarrow> chars \<Rightarrow> 'cb AppHTTPSClientData \<times> world \<Rightarrow> 'cb AppHTTPSClientData \<times> world" where
  "waitNetworkConnection env after_url = (\<lambda>(data, w).
     let (connected, w) = ask (socket_is_connected env)
           (IO_Pres (NET_PRES_SocketIsConnected (https_socket data))) w in
     if \<not> connected then (data, w)
     else if STREQ_LEN (array_chars (request_url data) after_url) 0 ''https://'' 8 then
       let (encrypted, w) = ask (socket_encrypt env)
             (IO_Pres (NET_PRES_SocketEncryptSocket (https_socket data))) w in
       if \<not> encrypted then (data\<lparr>https_state := APP_HTTPS_CLIENT_STATE_CLOSE_CONNECTION\<rparr>, w)
       else (data\<lparr>https_state := APP_HTTPS_CLIENT_STATE_WAIT_FOR_SSL_CONNECT\<rparr>, w)
     else (data\<lparr>https_state := APP_HTTPS_CLIENT_STATE_SEND_REQUEST\<rparr>, w))"

definition closeNetworkConnection :: "'cb AppHTTPSClientData \<times> world \<Rightarrow> 'cb AppHTTPSClientData \<times> world" where
  "closeNetworkConnection = (\<lambda>(data, w).
     (data\<lparr>https_state := APP_HTTPS_CLIENT_STATE_IDLE\<rparr>,
      tell (IO_Pres (NET_PRES_SocketClose (https_socket data))) w))"

definition waitForSSLConnect ::
    "pres_env \<Rightarrow> 'cb AppHTTPSClientData \<times> world \<Rightarrow> 'cb AppHTTPSClientData \<times> world" where
  "waitForSSLConnect env = (\<lambda>(data, w).
     let (negotiating, w) = ask (socket_is_negotiating env)
           (IO_Pres (NET_PRES_SocketIsNegotiatingEncryption (https_socket data))) w in
     if negotiating then (data, w)
     else
       let (secure, w) = ask (socket_is_secure env)
             (IO_Pres (NET_PRES_SocketIsSecure (https_socket data))) w in
       if \<not> secure
       then (enterErrorState data, tell (IO_Pres (NET_PRES_SocketClose (https_socket data))) w)
       else (data\<lparr>https_state := APP_HTTPS_CLIENT_STATE_SEND_REQUEST\<rparr>, w))"

definition request_text :: "char list \<Rightarrow> char list \<Rightarrow> char list" where
  "request_text path host = ''GET '' @ path @ '' HTTP/1.1'' @ crlf @ ''Host: '' @ host @ crlf
     @ ''Connection: close'' @ crlf @ crlf"

definition sendRequest ::
    "pres_env \<Rightarrow> 'cb AppHTTPSClientData \<times> world \<Rightarrow> ('cb AppHTTPSClientData \<times> world) option" where
  "sendRequest env = (\<lambda>(data, w).
     let (ready, w) = ask (socket_write_ready env)
           (IO_Pres (NET_PRES_SocketWriteIsReady (https_socket data)
              HTTPS_CLIENT_NETWORK_BUFFER_SIZE HTTPS_CLIENT_NETWORK_BUFFER_SIZE)) w in
     if ready = 0 then Some (data, w)
     else do {
       (n, buffer) \<leftarrow> safe_snprintf (network_buffer data) HTTPS_CLIENT_NETWORK_BUFFER_SIZE
         (Some (request_text (cstr (https_path data)) (cstr (https_host data))));
       let len = (word_of_int n :: u16);
       let data = data\<lparr>network_buffer := buffer\<rparr>;
       let (num_bytes_written, w) = ask (socket_write env)
             (IO_Pres (NET_PRES_SocketWrite (https_socket data) (cstr (network_buffer data)))) w;
       if num_bytes_written \<noteq> len then Some (enterErrorState data, w)
       else Some (data\<lparr>https_state := APP_HTTPS_CLIENT_STATE_WAIT_FOR_RESPONSE\<rparr>, w)
     })"

text \<open>A call of a callback that may be NULL.\<close>

definition call_if ::
    "('cb \<Rightarrow> callback_event \<Rightarrow> 'u \<times> world \<Rightarrow> ('u \<times> world) option) \<Rightarrow> 'cb option \<Rightarrow>
     callback_event \<Rightarrow> 'u \<times> world \<Rightarrow> ('u \<times> world) option" where
  "call_if call callback event s = (case callback of None \<Rightarrow> Some s | Some cb \<Rightarrow> call cb event s)"

definition waitForResponse ::
    "pres_env \<Rightarrow> ('cb \<Rightarrow> callback_event \<Rightarrow> 'u \<times> world \<Rightarrow> ('u \<times> world) option) \<Rightarrow>
     'cb AppHTTPSClientData \<times> 'u \<times> world \<Rightarrow> ('cb AppHTTPSClientData \<times> 'u \<times> world) option" where
  "waitForResponse env call = (\<lambda>(data, u, w).
     let (available, w) = ask (socket_read_ready env)
           (IO_Pres (NET_PRES_SocketReadIsReady (https_socket data))) w in
     if available = 0 then
       let (reset, w) = ask (socket_was_reset env)
             (IO_Pres (NET_PRES_SocketWasReset (https_socket data))) w in
       if reset then do {
         (u, w) \<leftarrow> call_if call (cb_request_handled (https_callbacks data)) Request_Handled (u, w);
         Some (data\<lparr>https_state := APP_HTTPS_CLIENT_STATE_CLOSE_CONNECTION\<rparr>, u, w)
       }
       else Some (data, u, w)
     else do {
       let (bytes, w) = ask (socket_read env)
             (IO_Pres (NET_PRES_SocketRead (https_socket data) HTTPS_CLIENT_NETWORK_BUFFER_SIZE)) w;
       buffer \<leftarrow> array_write (network_buffer data) 0 bytes;
       let data = data\<lparr>network_buffer := buffer\<rparr>;
       (u, w) \<leftarrow> call_if call (cb_buffer_received (https_callbacks data)) (Buffer_Received bytes) (u, w);
       Some (data, u, w)
     })"

definition handleError ::
    "('cb \<Rightarrow> callback_event \<Rightarrow> 'u \<times> world \<Rightarrow> ('u \<times> world) option) \<Rightarrow>
     'cb AppHTTPSClientData \<times> 'u \<times> world \<Rightarrow> ('cb AppHTTPSClientData \<times> 'u \<times> world) option" where
  "handleError call = (\<lambda>(data, u, w). do {
     (u, w) \<leftarrow> call_if call (cb_error (https_callbacks data)) Request_Error (u, w);
     Some (data\<lparr>https_state := APP_HTTPS_CLIENT_STATE_IDLE\<rparr>, u, w)
   })"

section \<open>Public functions\<close>

definition APP_HTTPS_Client_Initialize :: "'cb AppHTTPSClientData \<Rightarrow> 'cb AppHTTPSClientData" where
  "APP_HTTPS_Client_Initialize data =
     data\<lparr>https_state := APP_HTTPS_CLIENT_STATE_IDLE, ip_mode_config := APP_HTTPS_CLIENT_IP_MODE_IPV4\<rparr>"

text \<open>A step that does not call back.\<close>

definition keep_user :: "'d \<times> world \<Rightarrow> 'u \<Rightarrow> 'd \<times> 'u \<times> world" where
  "keep_user s u = (fst s, u, snd s)"

definition APP_HTTPS_Client_Tasks ::
    "harmony \<Rightarrow> chars \<Rightarrow> ('cb \<Rightarrow> callback_event \<Rightarrow> 'u \<times> world \<Rightarrow> ('u \<times> world) option) \<Rightarrow>
     'cb AppHTTPSClientData \<times> 'u \<times> world \<Rightarrow> ('cb AppHTTPSClientData \<times> 'u \<times> world) option" where
  "APP_HTTPS_Client_Tasks env after_url call = (\<lambda>(data, u, w).
     case https_state data of
       APP_HTTPS_CLIENT_STATE_IDLE \<Rightarrow> Some (data, u, w)
     | APP_HTTPS_CLIENT_STATE_BEGIN_SEQUENCE \<Rightarrow>
         (let data = data\<lparr>https_state := APP_HTTPS_CLIENT_STATE_WAIT_FOR_NETWORK\<rparr>;
              (count, w) = ask (tmr_count (tmr env)) (IO_Tmr SYS_TMR_SystemCountGet) w;
              (frequency, w) = ask (tmr_frequency (tmr env)) (IO_Tmr SYS_TMR_SystemCountFrequencyGet) w
          in Some (data\<lparr>https_timeout := count + ucast frequency\<rparr>, u, w))
     | APP_HTTPS_CLIENT_STATE_WAIT_FOR_NETWORK \<Rightarrow>
         Some (keep_user (waitForNetworkAvailable (tmr env) (data, w)) u)
     | APP_HTTPS_CLIENT_STATE_PARSE_REQUEST_URL \<Rightarrow> do {
         data \<leftarrow> pasreRequestURL after_url data;
         Some (data, u, w)
       }
     | APP_HTTPS_CLIENT_STATE_PROCESS_REQUEST \<Rightarrow> Some (keep_user (processRequest (dns env) (data, w)) u)
     | APP_HTTPS_CLIENT_STATE_WAIT_ON_DNS \<Rightarrow> Some (keep_user (checkDNSResolveStatus (dns env) (data, w)) u)
     | APP_HTTPS_CLIENT_STATE_START_CONNECTION \<Rightarrow>
         Some (keep_user (startNetworkConnection (pres env) (data, w)) u)
     | APP_HTTPS_CLIENT_STATE_WAIT_FOR_CONNECTION \<Rightarrow>
         Some (keep_user (waitNetworkConnection (pres env) after_url (data, w)) u)
     | APP_HTTPS_CLIENT_STATE_CLOSE_CONNECTION \<Rightarrow> Some (keep_user (closeNetworkConnection (data, w)) u)
     | APP_HTTPS_CLIENT_STATE_WAIT_FOR_SSL_CONNECT \<Rightarrow>
         Some (keep_user (waitForSSLConnect (pres env) (data, w)) u)
     | APP_HTTPS_CLIENT_STATE_SEND_REQUEST \<Rightarrow> do {
         s \<leftarrow> sendRequest (pres env) (data, w);
         Some (keep_user s u)
       }
     | APP_HTTPS_CLIENT_STATE_WAIT_FOR_RESPONSE \<Rightarrow> waitForResponse (pres env) call (data, u, w)
     | APP_HTTPS_CLIENT_STATE_ERROR \<Rightarrow> handleError call (data, u, w))"

definition APP_HTTPS_Client_IsBusy :: "'cb AppHTTPSClientData \<Rightarrow> bool" where
  "APP_HTTPS_Client_IsBusy data \<longleftrightarrow> https_state data \<noteq> APP_HTTPS_CLIENT_STATE_IDLE"

definition APP_HTTPS_Client_Request ::
    "chars \<Rightarrow> nat \<Rightarrow> 'cb AppHttpsClientCallbacks \<Rightarrow> 'cb AppHTTPSClientData \<Rightarrow>
     (bool \<times> 'cb AppHTTPSClientData) option" where
  "APP_HTTPS_Client_Request m url callbacks data =
     (if APP_HTTPS_Client_IsBusy data then Some (False, data)
      else do {
        (_, copy) \<leftarrow> safe_strncpy m (Some (request_url data)) (Some url) MAX_URL;
        Some (True, data\<lparr>request_url := the copy, https_callbacks := callbacks,
                         https_state := APP_HTTPS_CLIENT_STATE_BEGIN_SEQUENCE\<rparr>)
      })"

definition APP_HTTPS_Client_SetWolfSSLDebug :: "bool \<Rightarrow> bool \<Rightarrow> bool" where
  "APP_HTTPS_Client_SetWolfSSLDebug enabled g_wolfssl_debug = enabled"

end
