(* ===== verification/App_Shift_Register.thy ===== *)
theory App_Shift_Register
  imports Harmony
begin

text \<open>
  \<open>firmware/src/app_shift_register.c\<close> and its header: the state machine that sends bytes to
  the daisy-chained shift registers behind an inverter, one pin change or two per tick. The
  specification is the chain itself, replayed from the pin events: a rising edge of SRCK shifts
  the data line in, a rising edge of RCK copies the shifted bits to the outputs, which are off
  while EN is high.
\<close>

section \<open>Pins\<close>

text \<open>With \<open>USE_INVERTER\<close>, pulling a line down drives its pin high.\<close>

definition SHIFT_EN_PULL_DOWN :: "world \<Rightarrow> world" where "SHIFT_EN_PULL_DOWN = pin_On SHIFT_EN"
definition SHIFT_EN_PULL_UP :: "world \<Rightarrow> world" where "SHIFT_EN_PULL_UP = pin_Off SHIFT_EN"
definition SHIFT_SRCK_PULL_DOWN :: "world \<Rightarrow> world" where "SHIFT_SRCK_PULL_DOWN = pin_On SHIFT_SRCK"
definition SHIFT_SRCK_PULL_UP :: "world \<Rightarrow> world" where "SHIFT_SRCK_PULL_UP = pin_Off SHIFT_SRCK"
definition SHIFT_RCK_PULL_DOWN :: "world \<Rightarrow> world" where "SHIFT_RCK_PULL_DOWN = pin_On SHIFT_RCK"
definition SHIFT_RCK_PULL_UP :: "world \<Rightarrow> world" where "SHIFT_RCK_PULL_UP = pin_Off SHIFT_RCK"
definition SHIFT_DATA_PULL_DOWN :: "world \<Rightarrow> world" where "SHIFT_DATA_PULL_DOWN = pin_On SHIFT_DATA"
definition SHIFT_DATA_SET :: "u8 \<Rightarrow> world \<Rightarrow> world" where
  "SHIFT_DATA_SET x = pin_StateSet SHIFT_DATA (if x \<noteq> 0 then 0 else 1)"

lemmas shift_pins [step_simps] = SHIFT_EN_PULL_DOWN_def SHIFT_EN_PULL_UP_def
  SHIFT_SRCK_PULL_DOWN_def SHIFT_SRCK_PULL_UP_def SHIFT_RCK_PULL_DOWN_def SHIFT_RCK_PULL_UP_def
  SHIFT_DATA_PULL_DOWN_def SHIFT_DATA_SET_def

section \<open>Data\<close>

definition SHIFT_REGISTER_MAX_DATA :: nat where "SHIFT_REGISTER_MAX_DATA = 6"

datatype AppShiftRegisterState =
    APP_SHIFT_REGISTER_STATE_IDLE
  | APP_SHIFT_REGISTER_STATE_TRANSMIT_BEGIN
  | APP_SHIFT_REGISTER_STATE_TRANSMIT_STEP
  | APP_SHIFT_REGISTER_STATE_TRANSMIT_FINISH
  | APP_SHIFT_REGISTER_STATE_TRANSMIT_PAUSE

record AppShiftRegisterData =
  sr_state :: AppShiftRegisterState
  sr_data :: "u8 list"
  sr_num_bytes :: nat
  sr_current_byte :: nat
  sr_current_bit :: u8
  sr_counter :: u8

section \<open>Tasks\<close>

definition transmitBegin :: "AppShiftRegisterData \<times> world \<Rightarrow> AppShiftRegisterData \<times> world" where
  "transmitBegin = (\<lambda>(data, w).
     let data = data\<lparr>sr_current_byte := 0, sr_current_bit := 0, sr_counter := 0\<rparr>;
         w = SHIFT_DATA_PULL_DOWN w;
         w = SHIFT_RCK_PULL_DOWN w;
         w = SHIFT_SRCK_PULL_DOWN w;
         w = SHIFT_EN_PULL_UP w
     in (data\<lparr>sr_state := APP_SHIFT_REGISTER_STATE_TRANSMIT_STEP\<rparr>, w))"

definition transmitStep ::
    "AppShiftRegisterData \<times> world \<Rightarrow> (AppShiftRegisterData \<times> world) option" where
  "transmitStep = (\<lambda>(data, w).
     if sr_counter data = 1 then
       Some (data\<lparr>sr_current_bit := sr_current_bit data + 1, sr_counter := 0\<rparr>, SHIFT_SRCK_PULL_DOWN w)
     else if sr_current_bit data = 8 then
       let data = data\<lparr>sr_current_bit := 0, sr_current_byte := sz_add (sr_current_byte data) 1\<rparr> in
       if sr_current_byte data = sr_num_bytes data
       then Some (data\<lparr>sr_state := APP_SHIFT_REGISTER_STATE_TRANSMIT_FINISH\<rparr>, w)
       else Some (data\<lparr>sr_state := APP_SHIFT_REGISTER_STATE_TRANSMIT_PAUSE\<rparr>, w)
     else do {
       current_byte \<leftarrow> array_get (sr_data data) (sr_current_byte data);
       let value = current_byte AND push_bit (unat (7 - sr_current_bit data)) 1;
       let w = SHIFT_DATA_SET value w;
       let w = SHIFT_SRCK_PULL_UP w;
       Some (data\<lparr>sr_counter := sr_counter data + 1\<rparr>, w)
     })"

definition transmitFinish :: "AppShiftRegisterData \<times> world \<Rightarrow> AppShiftRegisterData \<times> world" where
  "transmitFinish = (\<lambda>(data, w).
     if sr_counter data = 1 then
       (data\<lparr>sr_state := APP_SHIFT_REGISTER_STATE_IDLE\<rparr>, SHIFT_EN_PULL_DOWN (SHIFT_RCK_PULL_DOWN w))
     else (data\<lparr>sr_counter := sr_counter data + 1\<rparr>, SHIFT_RCK_PULL_UP w))"

definition transmitPause :: "AppShiftRegisterData \<times> world \<Rightarrow> AppShiftRegisterData \<times> world" where
  "transmitPause = (\<lambda>(data, w).
     if sr_counter data = 1 then
       (data\<lparr>sr_counter := 0, sr_state := APP_SHIFT_REGISTER_STATE_TRANSMIT_STEP\<rparr>, w)
     else (data\<lparr>sr_counter := sr_counter data + 1\<rparr>, w))"

definition APP_ShiftRegister_Initialize ::
    "AppShiftRegisterData \<times> world \<Rightarrow> AppShiftRegisterData \<times> world" where
  "APP_ShiftRegister_Initialize = (\<lambda>(data, w).
     let data = data\<lparr>sr_state := APP_SHIFT_REGISTER_STATE_IDLE\<rparr>;
         w = SHIFT_EN_PULL_DOWN w;
         w = SHIFT_DATA_PULL_DOWN w;
         w = SHIFT_RCK_PULL_DOWN w;
         w = SHIFT_SRCK_PULL_DOWN w
     in (data, w))"

definition APP_ShiftRegister_Tasks ::
    "AppShiftRegisterData \<times> world \<Rightarrow> (AppShiftRegisterData \<times> world) option" where
  "APP_ShiftRegister_Tasks = (\<lambda>(data, w).
     case sr_state data of
       APP_SHIFT_REGISTER_STATE_IDLE \<Rightarrow> Some (data, w)
     | APP_SHIFT_REGISTER_STATE_TRANSMIT_BEGIN \<Rightarrow> Some (transmitBegin (data, w))
     | APP_SHIFT_REGISTER_STATE_TRANSMIT_STEP \<Rightarrow> transmitStep (data, w)
     | APP_SHIFT_REGISTER_STATE_TRANSMIT_FINISH \<Rightarrow> Some (transmitFinish (data, w))
     | APP_SHIFT_REGISTER_STATE_TRANSMIT_PAUSE \<Rightarrow> Some (transmitPause (data, w)))"

definition APP_ShiftRegister_IsBusy :: "AppShiftRegisterData \<Rightarrow> bool" where
  "APP_ShiftRegister_IsBusy data \<longleftrightarrow> sr_state data \<noteq> APP_SHIFT_REGISTER_STATE_IDLE"

definition APP_ShiftRegister_SetEnabled :: "bool \<Rightarrow> world \<Rightarrow> world" where
  "APP_ShiftRegister_SetEnabled is_enabled w =
     (if is_enabled then SHIFT_EN_PULL_DOWN w else SHIFT_EN_PULL_UP w)"

text \<open>The copy reads the whole member's size from the caller's array.\<close>

definition APP_ShiftRegister_SendData ::
    "u8 list \<Rightarrow> nat \<Rightarrow> AppShiftRegisterData \<Rightarrow> AppShiftRegisterData option" where
  "APP_ShiftRegister_SendData bytes num_bytes data =
     (if length bytes < SHIFT_REGISTER_MAX_DATA then None
      else Some (data\<lparr>sr_data := take SHIFT_REGISTER_MAX_DATA bytes, sr_num_bytes := num_bytes,
                      sr_state := APP_SHIFT_REGISTER_STATE_TRANSMIT_BEGIN\<rparr>))"

section \<open>The chain of shift registers\<close>

record chain =
  line_data :: bool
  line_srck :: bool
  line_rck :: bool
  line_en :: bool
  shifted :: "bool list" \<comment> \<open>every bit shifted in, oldest first\<close>
  outputs :: "bool list" \<comment> \<open>what was latched last\<close>

fun chain_step :: "io \<Rightarrow> chain \<Rightarrow> chain" where
  "chain_step (IO_Pin SHIFT_DATA level) c = c\<lparr>line_data := \<not> level\<rparr>"
| "chain_step (IO_Pin SHIFT_SRCK level) c =
     c\<lparr>line_srck := \<not> level,
       shifted := shifted c @ (if \<not> line_srck c \<and> \<not> level then [line_data c] else [])\<rparr>"
| "chain_step (IO_Pin SHIFT_RCK level) c =
     c\<lparr>line_rck := \<not> level, outputs := (if \<not> line_rck c \<and> \<not> level then shifted c else outputs c)\<rparr>"
| "chain_step (IO_Pin SHIFT_EN level) c = c\<lparr>line_en := \<not> level\<rparr>"
| "chain_step _ c = c"

definition chain_after :: "chain \<Rightarrow> io list \<Rightarrow> chain" where
  "chain_after c es = fold chain_step es c"

lemma chain_after_Nil [simp]: "chain_after c [] = c"
  by (simp add: chain_after_def)

lemma chain_after_append [simp]: "chain_after c (es @ es') = chain_after (chain_after c es) es'"
  by (simp add: chain_after_def)

lemma chain_after_Cons [simp]: "chain_after c (e # es) = chain_after (chain_step e c) es"
  by (simp add: chain_after_def)

text \<open>Events of the rest of the program: anything but the pins of the chain.\<close>

definition is_shift_pin :: "io \<Rightarrow> bool" where
  "is_shift_pin e = (case e of IO_Pin p _ \<Rightarrow> p \<in> {SHIFT_DATA, SHIFT_EN, SHIFT_RCK, SHIFT_SRCK} | _ \<Rightarrow> False)"

definition foreign :: "io list \<Rightarrow> bool" where
  "foreign es \<longleftrightarrow> (\<forall>e \<in> set es. \<not> is_shift_pin e)"

lemma chain_step_foreign: "\<not> is_shift_pin e \<Longrightarrow> chain_step e c = c"
  by (cases "(e, c)" rule: chain_step.cases) (auto simp: is_shift_pin_def)

lemma chain_after_foreign: "foreign es \<Longrightarrow> chain_after c es = c"
  by (induction es) (auto simp: foreign_def chain_step_foreign)

section \<open>Runs\<close>

text \<open>
  A run of the main loop as this component sees it: before each tick other components may have
  logged events (\<open>others\<close>, by the number of the tick).
\<close>

definition sr_tick :: "io list \<Rightarrow> AppShiftRegisterData \<times> world \<Rightarrow> (AppShiftRegisterData \<times> world) option" where
  "sr_tick es s = APP_ShiftRegister_Tasks (fst s, (snd s)\<lparr>log := log (snd s) @ es\<rparr>)"

primrec sr_run :: "(nat \<Rightarrow> io list) \<Rightarrow> nat \<Rightarrow> nat \<Rightarrow> AppShiftRegisterData \<times> world \<Rightarrow>
    (AppShiftRegisterData \<times> world) option" where
  "sr_run others t 0 s = Some s"
| "sr_run others t (Suc n) s = do { s \<leftarrow> sr_tick (others t) s; sr_run others (Suc t) n s }"

lemma sr_run_add: "sr_run others t (m + n) s = do { s \<leftarrow> sr_run others t m s; sr_run others (t + m) n s }"
  by (induction m arbitrary: t s) (auto simp: bind_assoc)

text \<open>The state between ticks, with the chain it has driven.\<close>

definition chain_at :: "chain \<Rightarrow> AppShiftRegisterData \<times> world \<Rightarrow> AppShiftRegisterData \<Rightarrow> chain \<Rightarrow> bool" where
  "chain_at c0 s data c \<longleftrightarrow> fst s = data \<and> chain_after c0 (log (snd s)) = c"

lemma and_bit: "(v AND 2 ^ n = (0 :: u8)) = (\<not> bit v n)"
  by (simp add: and_exp_eq_0_iff_not_bit)

lemma below_8: "(j :: nat) < 8 \<Longrightarrow> j = 0 \<or> j = 1 \<or> j = 2 \<or> j = 3 \<or> j = 4 \<or> j = 5 \<or> j = 6 \<or> j = 7"
  by arith

lemma bit_position: "j < 8 \<Longrightarrow> unat (7 - of_nat j :: u8) = 7 - j"
  by (drule below_8) auto

lemma bit_index_not_8: "j < 8 \<Longrightarrow> of_nat j \<noteq> (8 :: u8)"
  by (drule below_8) auto

lemma at_tick:
  assumes "chain_at c0 s d c" and "foreign es" and "APP_ShiftRegister_Tasks (d, w) = Some s'"
    and "w = (snd s)\<lparr>log := log (snd s) @ es\<rparr>"
  shows "sr_tick es s = Some s'" and "chain_after c0 (log w) = c"
  using assms by (simp_all add: sr_tick_def chain_at_def chain_after_foreign)

lemma at_world: "chain_at c0 (d, w) d c \<longleftrightarrow> chain_after c0 (log w) = c"
  by (simp add: chain_at_def)

lemma sr_run_2: "sr_run others t 2 s = do { s \<leftarrow> sr_tick (others t) s; sr_tick (others (Suc t)) s }"
  by (simp add: numeral_2_eq_2)

text \<open>One tick from a known state: what it logs decides the chain.\<close>

lemma tick_at:
  assumes "chain_at c0 s d c" and "foreign es"
    and "\<And>w. APP_ShiftRegister_Tasks (d, w) = Some (d', w\<lparr>log := log w @ es'\<rparr>)"
  shows "\<exists>s'. sr_tick es s = Some s' \<and> chain_at c0 s' d' (chain_after c es')"
  using assms by (simp add: sr_tick_def chain_at_def chain_after_foreign)

lemma send_bit:
  assumes "chain_at c0 s d c" and quiet: "\<forall>t. foreign (others t)"
    and step: "sr_state d = APP_SHIFT_REGISTER_STATE_TRANSMIT_STEP" "sr_counter d = 0"
    and j: "sr_current_bit d = of_nat j" "j < 8"
    and byte: "sr_current_byte d < length (sr_data d)" and low: "\<not> line_srck c"
  shows "\<exists>s'. sr_run others t 2 s = Some s' \<and>
    chain_at c0 s' (d\<lparr>sr_current_bit := of_nat (Suc j)\<rparr>)
      (c\<lparr>line_data := bit (sr_data d ! sr_current_byte d) (7 - j),
         shifted := shifted c @ [bit (sr_data d ! sr_current_byte d) (7 - j)]\<rparr>)"
proof -
  let ?b = "bit (sr_data d ! sr_current_byte d) (7 - j)"
  have not8: "sr_current_bit d \<noteq> 8"
    using j bit_index_not_8 by simp
  have t1: "APP_ShiftRegister_Tasks (d, w) = Some (d\<lparr>sr_counter := 1\<rparr>,
      w\<lparr>log := log w @ [IO_Pin SHIFT_DATA (\<not> ?b), IO_Pin SHIFT_SRCK False]\<rparr>)" for w
    using step not8 byte j
    by (simp add: APP_ShiftRegister_Tasks_def transmitStep_def array_simps step_simps tell_def
        Let_def and_bit bit_position push_bit_of_1)
  obtain s1 where s1: "sr_tick (others t) s = Some s1" "chain_at c0 s1 (d\<lparr>sr_counter := 1\<rparr>)
      (chain_after c [IO_Pin SHIFT_DATA (\<not> ?b), IO_Pin SHIFT_SRCK False])"
    using tick_at [OF assms(1) spec [OF quiet] t1] by blast
  have t2: "APP_ShiftRegister_Tasks (d\<lparr>sr_counter := 1\<rparr>, w) =
      Some (d\<lparr>sr_current_bit := of_nat (Suc j), sr_counter := 0\<rparr>, w\<lparr>log := log w @ [IO_Pin SHIFT_SRCK True]\<rparr>)" for w
    using step j by (simp add: APP_ShiftRegister_Tasks_def transmitStep_def step_simps tell_def)
  obtain s2 where "sr_tick (others (Suc t)) s1 = Some s2"
    "chain_at c0 s2 (d\<lparr>sr_current_bit := of_nat (Suc j), sr_counter := 0\<rparr>)
      (chain_after (chain_after c [IO_Pin SHIFT_DATA (\<not> ?b), IO_Pin SHIFT_SRCK False]) [IO_Pin SHIFT_SRCK True])"
    using tick_at [OF s1(2) spec [OF quiet] t2] by blast
  moreover have "d\<lparr>sr_current_bit := of_nat (Suc j), sr_counter := 0\<rparr> = d\<lparr>sr_current_bit := of_nat (Suc j)\<rparr>"
    using step(2) by simp
  moreover have "c\<lparr>line_data := ?b, line_srck := False, shifted := shifted c @ [?b]\<rparr> =
      c\<lparr>line_data := ?b, shifted := shifted c @ [?b]\<rparr>"
    using low by (cases c) simp
  ultimately show ?thesis using s1 low by (simp add: sr_run_2)
qed


definition msb_first :: "u8 \<Rightarrow> bool list" where
  "msb_first b = map (\<lambda>i. bit b (7 - i)) [0..<8]"

text \<open>What every byte leaves: the state at bit \<open>n\<close>, the chain with \<open>n\<close> more bits.\<close>

lemma send_bits:
  assumes "chain_at c0 s d c" and quiet: "\<forall>t. foreign (others t)"
    and step: "sr_state d = APP_SHIFT_REGISTER_STATE_TRANSMIT_STEP" "sr_counter d = 0" "sr_current_bit d = 0"
    and byte: "sr_current_byte d < length (sr_data d)" and low: "\<not> line_srck c" and "n \<le> 8"
  shows "\<exists>s' ld. sr_run others t (2 * n) s = Some s' \<and>
    chain_at c0 s' (d\<lparr>sr_current_bit := of_nat n\<rparr>) (c\<lparr>line_data := ld,
      shifted := shifted c @ map (\<lambda>i. bit (sr_data d ! sr_current_byte d) (7 - i)) [0..<n]\<rparr>)"
  using \<open>n \<le> 8\<close>
proof (induction n)
  case 0
  then show ?case using assms(1) step
    by (intro exI [of _ s] exI [of _ "line_data c"]) (simp add: chain_at_def)
next
  case (Suc n)
  then obtain s1 ld where s1: "sr_run others t (2 * n) s = Some s1"
    "chain_at c0 s1 (d\<lparr>sr_current_bit := of_nat n\<rparr>) (c\<lparr>line_data := ld,
      shifted := shifted c @ map (\<lambda>i. bit (sr_data d ! sr_current_byte d) (7 - i)) [0..<n]\<rparr>)"
    by auto
  obtain s2 where "sr_run others (t + 2 * n) 2 s1 = Some s2"
    "chain_at c0 s2 (d\<lparr>sr_current_bit := of_nat (Suc n)\<rparr>) (c\<lparr>line_data := bit (sr_data d ! sr_current_byte d) (7 - n),
      shifted := shifted c @ map (\<lambda>i. bit (sr_data d ! sr_current_byte d) (7 - i)) [0..<Suc n]\<rparr>)"
    using send_bit [OF s1(2) quiet, of n "t + 2 * n"] step byte low Suc.prems by auto
  then show ?case using s1(1) sr_run_add [of others t "2 * n" 2 s] by auto
qed

lemma sr_run_1: "sr_run others t (Suc 0) s = sr_tick (others t) s"
  by (cases "sr_tick (others t) s") auto

lemma send_byte:
  assumes chain_at: "chain_at c0 s d c" and quiet: "\<forall>t. foreign (others t)"
    and step: "sr_state d = APP_SHIFT_REGISTER_STATE_TRANSMIT_STEP" "sr_counter d = 0" "sr_current_bit d = 0"
    and byte: "sr_current_byte d < length (sr_data d)" and six: "length (sr_data d) = 6" and low: "\<not> line_srck c"
  shows "\<exists>s' ld. sr_run others t 17 s = Some s' \<and>
    chain_at c0 s' (d\<lparr>sr_current_byte := Suc (sr_current_byte d),
        sr_state := if Suc (sr_current_byte d) = sr_num_bytes d then APP_SHIFT_REGISTER_STATE_TRANSMIT_FINISH
                    else APP_SHIFT_REGISTER_STATE_TRANSMIT_PAUSE\<rparr>)
      (c\<lparr>line_data := ld, shifted := shifted c @ msb_first (sr_data d ! sr_current_byte d)\<rparr>)"
proof -
  obtain s1 ld where s1: "sr_run others t 16 s = Some s1"
    "chain_at c0 s1 (d\<lparr>sr_current_bit := 8\<rparr>) (c\<lparr>line_data := ld,
      shifted := shifted c @ msb_first (sr_data d ! sr_current_byte d)\<rparr>)"
    using send_bits [OF chain_at quiet step byte low, where n = 8 and t = t] by (auto simp: msb_first_def)
  have inc: "sz_add (sr_current_byte d) (Suc 0) = Suc (sr_current_byte d)"
    using byte six by (simp add: sz_add_exact)
  have t: "APP_ShiftRegister_Tasks (d\<lparr>sr_current_bit := 8\<rparr>, w) = Some (d\<lparr>sr_current_byte := Suc (sr_current_byte d),
      sr_state := if Suc (sr_current_byte d) = sr_num_bytes d then APP_SHIFT_REGISTER_STATE_TRANSMIT_FINISH
                  else APP_SHIFT_REGISTER_STATE_TRANSMIT_PAUSE\<rparr>, w\<lparr>log := log w @ []\<rparr>)" for w
    using step inc by (simp add: APP_ShiftRegister_Tasks_def transmitStep_def Let_def)
  from tick_at [OF s1(2) spec [OF quiet, of "t + 16"] t] s1(1) sr_run_add [of others t 16 1 s] show ?thesis
    by (auto simp: sr_run_1)
qed

lemma pause:
  assumes chain_at: "chain_at c0 s d c" and quiet: "\<forall>t. foreign (others t)"
    and step: "sr_state d = APP_SHIFT_REGISTER_STATE_TRANSMIT_PAUSE" "sr_counter d = 0"
  shows "\<exists>s'. sr_run others t 2 s = Some s' \<and>
    chain_at c0 s' (d\<lparr>sr_state := APP_SHIFT_REGISTER_STATE_TRANSMIT_STEP\<rparr>) c"
proof -
  have t1: "APP_ShiftRegister_Tasks (d, w) = Some (d\<lparr>sr_counter := 1\<rparr>, w\<lparr>log := log w @ []\<rparr>)" for w
    using step by (simp add: APP_ShiftRegister_Tasks_def transmitPause_def)
  have t2: "APP_ShiftRegister_Tasks (d\<lparr>sr_counter := 1\<rparr>, w) =
      Some (d\<lparr>sr_state := APP_SHIFT_REGISTER_STATE_TRANSMIT_STEP\<rparr>, w\<lparr>log := log w @ []\<rparr>)" for w
    using step by (simp add: APP_ShiftRegister_Tasks_def transmitPause_def)
  obtain s1 where s1: "sr_tick (others t) s = Some s1" "chain_at c0 s1 (d\<lparr>sr_counter := 1\<rparr>) c"
    using tick_at [OF chain_at spec [OF quiet, of t] t1] by auto
  from tick_at [OF s1(2) spec [OF quiet, of "Suc t"] t2] s1(1) show ?thesis by (auto simp: sr_run_2)
qed

text \<open>Byte after byte, with the pauses between them, until \<open>i\<close> bytes are out.\<close>

definition byte_state :: "AppShiftRegisterData \<Rightarrow> nat \<Rightarrow> AppShiftRegisterData" where
  "byte_state d i = d\<lparr>sr_current_byte := i, sr_current_bit := 0, sr_counter := 0,
     sr_state := APP_SHIFT_REGISTER_STATE_TRANSMIT_STEP\<rparr>"

lemma send_bytes:
  assumes chain_at: "chain_at c0 s (byte_state d 0) c" and quiet: "\<forall>t. foreign (others t)"
    and six: "length (sr_data d) = 6" and low: "\<not> line_srck c"
    and "i \<le> 6" and before: "\<And>k. k \<in> {1..i} \<Longrightarrow> k \<noteq> sr_num_bytes d"
  shows "\<exists>s' ld. sr_run others t (19 * i) s = Some s' \<and>
    chain_at c0 s' (byte_state d i) (c\<lparr>line_data := ld,
      shifted := shifted c @ concat (map msb_first (take i (sr_data d)))\<rparr>)"
  using \<open>i \<le> 6\<close> before
proof (induction i)
  case 0
  then show ?case using chain_at by (intro exI [of _ s] exI [of _ "line_data c"]) (simp add: chain_at_def)
next
  case (Suc i)
  let ?b = "\<lambda>i. concat (map msb_first (take i (sr_data d)))"
  obtain s1 ld where s1: "sr_run others t (19 * i) s = Some s1"
    "chain_at c0 s1 (byte_state d i) (c\<lparr>line_data := ld, shifted := shifted c @ ?b i\<rparr>)"
    using Suc by fastforce
  have not: "Suc i \<noteq> sr_num_bytes d" using Suc.prems(2) [of "Suc i"] by simp
  obtain s2 ld2 where s2: "sr_run others (t + 19 * i) 17 s1 = Some s2"
    "chain_at c0 s2 ((byte_state d i)\<lparr>sr_current_byte := Suc i, sr_state := APP_SHIFT_REGISTER_STATE_TRANSMIT_PAUSE\<rparr>)
      (c\<lparr>line_data := ld2, shifted := shifted c @ ?b i @ msb_first (sr_data d ! i)\<rparr>)"
    using send_byte [OF s1(2) quiet, of "t + 19 * i"] six low Suc.prems(1) not
    by (auto simp: byte_state_def)
  have b: "?b i @ msb_first (sr_data d ! i) = ?b (Suc i)"
    using six Suc.prems(1) by (simp add: take_Suc_conv_app_nth)
  have next_byte: "(byte_state d i)\<lparr>sr_current_byte := Suc i,
      sr_state := APP_SHIFT_REGISTER_STATE_TRANSMIT_PAUSE,
      sr_state := APP_SHIFT_REGISTER_STATE_TRANSMIT_STEP\<rparr> = byte_state d (Suc i)"
    by (cases d) (simp add: byte_state_def)
  obtain s3 where s3: "sr_run others (t + 19 * i + 17) 2 s2 = Some s3"
    "chain_at c0 s3 (byte_state d (Suc i)) (c\<lparr>line_data := ld2, shifted := shifted c @ ?b (Suc i)\<rparr>)"
    using pause [OF s2(2) quiet, where t = "t + 19 * i + 17"] unfolding b next_byte
    by (auto simp: byte_state_def)
  have "19 * Suc i = 19 * i + (17 + 2)" by simp
  then have "sr_run others t (19 * Suc i) s = Some s3"
    using s1(1) s2(1) s3(1) by (simp only: sr_run_add bind.simps option.case)
  then show ?case using s3(2) by blast
qed


lemma finish:
  assumes chain_at: "chain_at c0 s d c" and quiet: "\<forall>t. foreign (others t)"
    and step: "sr_state d = APP_SHIFT_REGISTER_STATE_TRANSMIT_FINISH" "sr_counter d = 0"
    and low: "\<not> line_rck c"
  shows "\<exists>s'. sr_run others t 2 s = Some s' \<and>
    chain_at c0 s' (d\<lparr>sr_counter := 1, sr_state := APP_SHIFT_REGISTER_STATE_IDLE\<rparr>)
      (c\<lparr>outputs := shifted c, line_en := False\<rparr>)"
proof -
  have t1: "APP_ShiftRegister_Tasks (d, w) =
      Some (d\<lparr>sr_counter := 1\<rparr>, w\<lparr>log := log w @ [IO_Pin SHIFT_RCK False]\<rparr>)" for w
    using step by (simp add: APP_ShiftRegister_Tasks_def transmitFinish_def step_simps tell_def)
  have t2: "APP_ShiftRegister_Tasks (d\<lparr>sr_counter := 1\<rparr>, w) =
      Some (d\<lparr>sr_counter := 1, sr_state := APP_SHIFT_REGISTER_STATE_IDLE\<rparr>,
        w\<lparr>log := log w @ [IO_Pin SHIFT_RCK True, IO_Pin SHIFT_EN True]\<rparr>)" for w
    using step by (simp add: APP_ShiftRegister_Tasks_def transmitFinish_def step_simps tell_def)
  obtain s1 where s1: "sr_tick (others t) s = Some s1"
    "chain_at c0 s1 (d\<lparr>sr_counter := 1\<rparr>) (chain_after c [IO_Pin SHIFT_RCK False])"
    using tick_at [OF chain_at spec [OF quiet, of t] t1] by auto
  have "chain_after (chain_after c [IO_Pin SHIFT_RCK False]) [IO_Pin SHIFT_RCK True, IO_Pin SHIFT_EN True]
      = c\<lparr>outputs := shifted c, line_en := False\<rparr>"
    using low by (cases c) simp
  with tick_at [OF s1(2) spec [OF quiet, of "Suc t"] t2] s1(1) show ?thesis by (auto simp: sr_run_2)
qed

definition begun :: "chain \<Rightarrow> chain" where
  "begun c = c\<lparr>line_data := False, line_rck := False, line_srck := False, line_en := True\<rparr>"

lemma begin_tick:
  assumes "APP_ShiftRegister_SendData bytes n d0 = Some d" and quiet: "\<forall>t. foreign (others t)"
  shows "\<exists>s'. sr_run others t 1 (d, w) = Some s' \<and>
    chain_at c0 s' (byte_state d 0) (begun (chain_after c0 (log w)))"
proof -
  have d: "sr_state d = APP_SHIFT_REGISTER_STATE_TRANSMIT_BEGIN"
    using assms(1) by (auto simp: APP_ShiftRegister_SendData_def split: if_splits)
  have t: "APP_ShiftRegister_Tasks (d, w) = Some (byte_state d 0, w\<lparr>log := log w @
      [IO_Pin SHIFT_DATA True, IO_Pin SHIFT_RCK True, IO_Pin SHIFT_SRCK True, IO_Pin SHIFT_EN False]\<rparr>)" for w
    using d by (simp add: APP_ShiftRegister_Tasks_def transmitBegin_def step_simps tell_def
        byte_state_def Let_def)
  have "chain_at c0 (d, w) d (chain_after c0 (log w))" by (simp add: chain_at_def)
  from tick_at [OF this spec [OF quiet, of t] t] show ?thesis
    by (simp add: sr_run_1 begun_def)
qed

lemma byte_state_simps [simp]:
  "sr_state (byte_state d i) = APP_SHIFT_REGISTER_STATE_TRANSMIT_STEP"
  "sr_counter (byte_state d i) = 0" "sr_current_bit (byte_state d i) = 0"
  "sr_current_byte (byte_state d i) = i" "sr_data (byte_state d i) = sr_data d"
  "sr_num_bytes (byte_state d i) = sr_num_bytes d"
  by (simp_all add: byte_state_def)

text \<open>The whole transmission: the begin tick, the bytes, and the tick that latches.\<close>

lemma shift_transmission:
  assumes send: "APP_ShiftRegister_SendData bytes n d0 = Some d" and n: "1 \<le> n" "n \<le> 6"
    and quiet: "\<forall>t. foreign (others t)"
  shows "\<exists>d' w'. sr_run others t (19 * n + 1) (d, w) = Some (d', w') \<and>
    \<not> APP_ShiftRegister_IsBusy d' \<and>
    shifted (chain_after c0 (log w')) =
      shifted (chain_after c0 (log w)) @ concat (map msb_first (take n bytes)) \<and>
    outputs (chain_after c0 (log w')) = shifted (chain_after c0 (log w')) \<and>
    \<not> line_en (chain_after c0 (log w'))"
proof -
  let ?c = "begun (chain_after c0 (log w))"
  have d: "sr_data d = take 6 bytes" "length (sr_data d) = 6" "sr_num_bytes d = n"
    using send by (auto simp: APP_ShiftRegister_SendData_def SHIFT_REGISTER_MAX_DATA_def split: if_splits)
  obtain s1 where s1: "sr_run others t 1 (d, w) = Some s1" "chain_at c0 s1 (byte_state d 0) ?c"
    using begin_tick [OF send quiet] by blast
  have low: "\<not> line_srck ?c" by (simp add: begun_def)
  obtain s2 ld where s2: "sr_run others (t + 1) (19 * (n - 1)) s1 = Some s2"
    "chain_at c0 s2 (byte_state d (n - 1)) (?c\<lparr>line_data := ld,
      shifted := shifted ?c @ concat (map msb_first (take (n - 1) (sr_data d)))\<rparr>)"
    using send_bytes [OF s1(2) quiet d(2) low, where i = "n - 1" and t = "t + 1"] n d(3) by fastforce
  have last: "concat (map msb_first (take (n - 1) (sr_data d))) @ msb_first (sr_data d ! (n - 1))
      = concat (map msb_first (take n (sr_data d)))"
    using n d(2) take_Suc_conv_app_nth [of "n - 1" "sr_data d"] by simp
  have in_byte: "sr_current_byte (byte_state d (n - 1)) < length (sr_data (byte_state d (n - 1)))"
    "length (sr_data (byte_state d (n - 1))) = 6"
    using n d(2) by simp_all
  let ?c3 = "\<lambda>ld. ?c\<lparr>line_data := ld, shifted := shifted ?c @ concat (map msb_first (take n (sr_data d)))\<rparr>"
  obtain s3 ld3 where s3: "sr_run others (t + 1 + 19 * (n - 1)) 17 s2 = Some s3"
    "chain_at c0 s3 ((byte_state d (n - 1))\<lparr>sr_current_byte := n, sr_state := APP_SHIFT_REGISTER_STATE_TRANSMIT_FINISH\<rparr>)
      (?c3 ld3)"
    using send_byte [OF s2(2) quiet _ _ _ in_byte, where t = "t + 1 + 19 * (n - 1)"] n d(3) low last
    by auto
  obtain s4 where s4: "sr_run others (t + 1 + 19 * (n - 1) + 17) 2 s3 = Some s4"
    "chain_at c0 s4 ((byte_state d (n - 1))\<lparr>sr_current_byte := n, sr_counter := 1,
        sr_state := APP_SHIFT_REGISTER_STATE_IDLE\<rparr>)
      ((?c3 ld3)\<lparr>outputs := shifted (?c3 ld3), line_en := False\<rparr>)"
    using finish [OF s3(2) quiet, where t = "t + 1 + 19 * (n - 1) + 17"] by (auto simp: begun_def)
  have "19 * n + 1 = 1 + (19 * (n - 1) + (17 + 2))" using n(1) by simp
  then have "sr_run others t (19 * n + 1) (d, w) = Some s4"
    using s1(1) s2(1) s3(1) s4(1) by (simp only: sr_run_add bind.bind_lunit add.assoc)
  moreover have "take n (take 6 bytes) = take n bytes" using n(2) by (simp add: min_def)
  ultimately show ?thesis using s4(2) d(1)
    by (cases s4) (simp add: chain_at_def APP_ShiftRegister_IsBusy_def begun_def)
qed

text \<open>
  C9: A transmission of \<open>n\<close> bytes, one to six, ends after \<open>19 n + 1\<close> ticks with the machine
  idle: exactly the \<open>8 n\<close> bits of the first \<open>n\<close> bytes have been shifted into the chain, the most
  significant bit of each byte first, they are what the outputs show, and the outputs are on.
  Events of other components between the ticks make no difference.
\<close>

theorem shift_register_sends_and_latches:
  assumes send: "APP_ShiftRegister_SendData bytes n d0 = Some d" and n: "1 \<le> n" "n \<le> 6"
    and quiet: "\<forall>t. foreign (others t)"
  shows "\<exists>d' w'. sr_run others t (19 * n + 1) (d, w) = Some (d', w') \<and>
    \<not> APP_ShiftRegister_IsBusy d' \<and>
    shifted (chain_after c0 (log w')) =
      shifted (chain_after c0 (log w)) @ concat (map msb_first (take n bytes)) \<and>
    outputs (chain_after c0 (log w')) = shifted (chain_after c0 (log w')) \<and>
    \<not> line_en (chain_after c0 (log w'))"
  by (rule shift_transmission [OF assms])

text \<open>
  C38: A transmission of no bytes at all, or of more than six, does not stop at the end of its data:
  after six bytes the machine reads outside its array.
\<close>

theorem shift_register_overruns:
  assumes send: "APP_ShiftRegister_SendData bytes n d0 = Some d" and n: "n = 0 \<or> 6 < n"
    and quiet: "\<forall>t. foreign (others t)"
  shows "sr_run others t (19 * 6 + 2) (d, w) = None"
proof -
  let ?c = "begun (chain_after undefined (log w))"
  have d: "length (sr_data d) = 6" "sr_num_bytes d = n"
    using send by (auto simp: APP_ShiftRegister_SendData_def SHIFT_REGISTER_MAX_DATA_def split: if_splits)
  obtain s1 where s1: "sr_run others t 1 (d, w) = Some s1" "chain_at undefined s1 (byte_state d 0) ?c"
    using begin_tick [OF send quiet] by blast
  have low: "\<not> line_srck ?c" by (simp add: begun_def)
  obtain s2 ld where s2: "sr_run others (t + 1) (19 * 6) s1 = Some s2"
    "chain_at undefined s2 (byte_state d 6) (?c\<lparr>line_data := ld,
      shifted := shifted ?c @ concat (map msb_first (take 6 (sr_data d)))\<rparr>)"
    using send_bytes [OF s1(2) quiet d(1) low, where i = 6 and t = "t + 1"] n d(2) by fastforce
  have "sr_tick es s2 = None" for es
    using s2(2) d(1) by (simp add: chain_at_def sr_tick_def APP_ShiftRegister_Tasks_def transmitStep_def
        array_get_def byte_state_def Let_def)
  then have s3: "sr_run others (t + 1 + 19 * 6) 1 s2 = None" by (simp add: sr_run_1)
  have "19 * 6 + 2 = 1 + (19 * 6 + (1 :: nat))" by simp
  then show ?thesis
    using s1(1) s2(1) s3 by (simp only: sr_run_add bind.bind_lunit add.assoc)
qed


definition blank :: "AppShiftRegisterData \<Rightarrow> chain \<Rightarrow> bool" where
  "blank d c \<longleftrightarrow> sr_state d \<notin> {APP_SHIFT_REGISTER_STATE_IDLE, APP_SHIFT_REGISTER_STATE_TRANSMIT_BEGIN}
     \<longrightarrow> line_en c"

text \<open>
  C33: While a transmission is under way the outputs are off, and what they hold changes only in the
  finishing state: a tick in any state keeps this.
\<close>

theorem shift_register_blank_while_sending:
  assumes "sr_tick es (d, w) = Some (d', w')" and "foreign es"
    and "blank d (chain_after c0 (log w))"
  shows "blank d' (chain_after c0 (log w')) \<and>
    (sr_state d \<noteq> APP_SHIFT_REGISTER_STATE_TRANSMIT_FINISH \<longrightarrow>
       outputs (chain_after c0 (log w')) = outputs (chain_after c0 (log w)))"
  using assms
  by (auto simp: sr_tick_def APP_ShiftRegister_Tasks_def transmitBegin_def transmitStep_def
      transmitFinish_def transmitPause_def step_simps blank_def chain_after_foreign Let_def bind_eq_Some_conv
      split: AppShiftRegisterState.splits if_splits)

section \<open>Between the ticks of a transmission\<close>

text \<open>
  The states of the driver between two ticks: a transmission has one to six bytes, and the byte, the bit and the
  counter say how far it has come. \<open>sr_ticks_left\<close> is what a transmission still needs.
\<close>

definition sr_ok :: "AppShiftRegisterData \<Rightarrow> bool" where
  "sr_ok data \<longleftrightarrow> sr_state data = APP_SHIFT_REGISTER_STATE_IDLE \<or>
     length (sr_data data) = SHIFT_REGISTER_MAX_DATA \<and>
     1 \<le> sr_num_bytes data \<and> sr_num_bytes data \<le> SHIFT_REGISTER_MAX_DATA \<and>
     (case sr_state data of
        APP_SHIFT_REGISTER_STATE_TRANSMIT_STEP \<Rightarrow> sr_current_byte data < sr_num_bytes data \<and>
          sr_current_bit data \<le> 8 \<and> (sr_counter data = 0 \<or> sr_counter data = 1 \<and> sr_current_bit data < 8)
      | APP_SHIFT_REGISTER_STATE_TRANSMIT_PAUSE \<Rightarrow> 1 \<le> sr_current_byte data \<and> sr_current_byte data < sr_num_bytes data \<and>
          sr_current_bit data = 0 \<and> sr_counter data \<le> 1
      | APP_SHIFT_REGISTER_STATE_TRANSMIT_FINISH \<Rightarrow> sr_counter data \<le> 1
      | _ \<Rightarrow> True)"

definition sr_ticks_left :: "AppShiftRegisterData \<Rightarrow> nat" where
  "sr_ticks_left data = (case sr_state data of
     APP_SHIFT_REGISTER_STATE_IDLE \<Rightarrow> 0
   | APP_SHIFT_REGISTER_STATE_TRANSMIT_BEGIN \<Rightarrow> 19 * sr_num_bytes data + 1
   | APP_SHIFT_REGISTER_STATE_TRANSMIT_STEP \<Rightarrow>
       19 * (sr_num_bytes data - sr_current_byte data) - 2 * unat (sr_current_bit data) - unat (sr_counter data)
   | APP_SHIFT_REGISTER_STATE_TRANSMIT_PAUSE \<Rightarrow>
       19 * (sr_num_bytes data - sr_current_byte data) + 2 - unat (sr_counter data)
   | APP_SHIFT_REGISTER_STATE_TRANSMIT_FINISH \<Rightarrow> 2 - unat (sr_counter data))"

lemma byte_le_1: "(x :: u8) \<le> 1 \<longleftrightarrow> x = 0 \<or> x = 1"
  by unat_arith

lemma byte_below_8: "(x :: u8) < 8 \<longleftrightarrow> unat x < 8" "(x :: u8) \<le> 8 \<longleftrightarrow> unat x \<le> 8" "(x :: u8) = 8 \<longleftrightarrow> unat x = 8"
  by unat_arith+

lemma next_bit: "unat (x :: u8) < 8 \<Longrightarrow> unat (x + 1) = unat x + 1"
  by (simp add: unat_word_ariths)

lemma sr_idle_left: "sr_ok d \<Longrightarrow> sr_ticks_left d = 0 \<longleftrightarrow> \<not> APP_ShiftRegister_IsBusy d"
  by (cases "sr_state d") (auto simp: sr_ok_def sr_ticks_left_def APP_ShiftRegister_IsBusy_def byte_le_1 byte_below_8)

lemma sr_left_bound: "sr_ok d \<Longrightarrow> sr_ticks_left d \<le> 115"
  by (cases "sr_state d") (auto simp: sr_ok_def sr_ticks_left_def SHIFT_REGISTER_MAX_DATA_def)

text \<open>A tick succeeds, keeps the invariant and is one of those that were left.\<close>

lemma sr_tick_left:
  assumes "sr_ok d"
  shows "\<exists>d' w'. APP_ShiftRegister_Tasks (d, w) = Some (d', w') \<and> sr_ok d' \<and> sr_ticks_left d' = sr_ticks_left d - 1"
proof (cases "sr_state d")
  case APP_SHIFT_REGISTER_STATE_TRANSMIT_STEP
  note step = this
  have ok: "length (sr_data d) = 6" "sr_num_bytes d \<le> 6" "sr_current_byte d < sr_num_bytes d" "unat (sr_current_bit d) \<le> 8"
    "sr_counter d = 0 \<or> sr_counter d = 1 \<and> unat (sr_current_bit d) < 8"
    using assms step by (auto simp: sr_ok_def SHIFT_REGISTER_MAX_DATA_def byte_below_8)
  have inc: "sz_add (sr_current_byte d) (Suc 0) = Suc (sr_current_byte d)" using ok by (simp add: sz_add_exact)
  consider "sr_counter d = 1" "unat (sr_current_bit d) < 8" | "sr_counter d = 0" "sr_current_bit d = 8"
    | "sr_counter d = 0" "unat (sr_current_bit d) < 8" "sr_current_bit d \<noteq> 8"
    using ok(4,5) byte_below_8(3) by fastforce
  then show ?thesis
  proof cases
    case 1
    then show ?thesis using step ok(1-3) next_bit [OF 1(2)] by (auto simp: APP_ShiftRegister_Tasks_def transmitStep_def sr_ok_def sr_ticks_left_def
        SHIFT_REGISTER_MAX_DATA_def byte_below_8)
  next
    case 2
    then show ?thesis using step ok(1-3) inc by (auto simp: APP_ShiftRegister_Tasks_def transmitStep_def sr_ok_def sr_ticks_left_def
        SHIFT_REGISTER_MAX_DATA_def Let_def)
  next
    case 3
    then show ?thesis using step ok(1-3) by (auto simp: APP_ShiftRegister_Tasks_def transmitStep_def sr_ok_def sr_ticks_left_def
        SHIFT_REGISTER_MAX_DATA_def Let_def array_simps byte_below_8)
  qed
qed (use assms in \<open>auto simp: APP_ShiftRegister_Tasks_def sr_ok_def sr_ticks_left_def byte_le_1
      transmitBegin_def transmitFinish_def transmitPause_def SHIFT_REGISTER_MAX_DATA_def Let_def\<close>)

lemma sr_tick_ok:
  assumes "sr_ok data"
  shows "\<exists>data' w'. APP_ShiftRegister_Tasks (data, w) = Some (data', w') \<and> sr_ok data'"
  using sr_tick_left [OF assms] by blast

lemma sr_send_ok:
  assumes "length bytes = SHIFT_REGISTER_MAX_DATA" and "1 \<le> n" and "n \<le> SHIFT_REGISTER_MAX_DATA"
  shows "\<exists>data'. APP_ShiftRegister_SendData bytes n data = Some data' \<and> sr_ok data'"
  using assms by (auto simp: APP_ShiftRegister_SendData_def sr_ok_def)

lemma sr_run_left:
  assumes "sr_ok d"
  shows "\<exists>d' w'. sr_run others t n (d, w) = Some (d', w') \<and> sr_ok d' \<and> sr_ticks_left d' = sr_ticks_left d - n"
  using assms
proof (induction n arbitrary: t d w)
  case (Suc n)
  obtain d1 w1 where "sr_tick (others t) (d, w) = Some (d1, w1)" "sr_ok d1" "sr_ticks_left d1 = sr_ticks_left d - 1"
    using sr_tick_left [OF Suc.prems, of "w\<lparr>log := log w @ others t\<rparr>"] by (auto simp: sr_tick_def)
  with Suc.IH [of d1 "Suc t" w1] show ?case by auto
qed simp

text \<open>Initialization, ticks, and data of one to six bytes at any time.\<close>

inductive sr_reachable :: "AppShiftRegisterData \<Rightarrow> bool" where
  init: "sr_reachable (fst (APP_ShiftRegister_Initialize (data, w)))"
| send: "sr_reachable data \<Longrightarrow> 1 \<le> n \<Longrightarrow> n \<le> SHIFT_REGISTER_MAX_DATA \<Longrightarrow>
    APP_ShiftRegister_SendData bytes n data = Some data' \<Longrightarrow> sr_reachable data'"
| tick: "sr_reachable data \<Longrightarrow> APP_ShiftRegister_Tasks (data, w) = Some (data', w') \<Longrightarrow> sr_reachable data'"

lemma sr_reachable_ok: "sr_reachable d \<Longrightarrow> sr_ok d"
proof (induction rule: sr_reachable.induct)
  case (tick data w data' w')
  then show ?case using sr_tick_ok [of data w] by auto
qed (auto simp: sr_ok_def APP_ShiftRegister_Initialize_def APP_ShiftRegister_SendData_def Let_def split: if_splits)

text \<open>
  C32: The driver always comes to rest: in every state that initialization, ticks and data of one to six bytes
  lead to, it is idle after some number of ticks, at most 115, and busy at each tick before, whatever the other
  components do meanwhile.
\<close>

theorem shift_register_comes_to_rest:
  assumes "sr_reachable d"
  shows "\<exists>n d' w'. n \<le> 115 \<and> sr_run others t n (d, w) = Some (d', w') \<and> \<not> APP_ShiftRegister_IsBusy d' \<and>
    (\<forall>k < n. \<exists>e v. sr_run others t k (d, w) = Some (e, v) \<and> APP_ShiftRegister_IsBusy e)"
proof -
  have ok: "sr_ok d" by (rule sr_reachable_ok [OF assms])
  let ?n = "sr_ticks_left d"
  obtain d' w' where rest: "sr_run others t ?n (d, w) = Some (d', w')" "\<not> APP_ShiftRegister_IsBusy d'"
    using sr_run_left [OF ok, of others t ?n w] sr_idle_left by auto
  have "\<exists>e v. sr_run others t k (d, w) = Some (e, v) \<and> APP_ShiftRegister_IsBusy e" if "k < ?n" for k
    using sr_run_left [OF ok, of others t k w] sr_idle_left that by fastforce
  with rest sr_left_bound [OF ok] show ?thesis by blast
qed


section \<open>Sample values\<close>

definition sample_shift_data :: AppShiftRegisterData where
  "sample_shift_data = \<lparr>sr_state = APP_SHIFT_REGISTER_STATE_IDLE, sr_data = [0, 0, 0, 0, 0, 0],
     sr_num_bytes = 0, sr_current_byte = 0, sr_current_bit = 0, sr_counter = 0\<rparr>"

definition sample_chain :: chain where
  "sample_chain = \<lparr>line_data = False, line_srck = False, line_rck = False, line_en = False,
     shifted = [], outputs = []\<rparr>"

lemma shift_register_sends_and_latches_witness:
  "\<exists>d' w'. sr_run (\<lambda>_. []) 0 39 (the (APP_ShiftRegister_SendData [0xa1, 0x0f, 0, 0, 0, 0] 2 sample_shift_data),
       empty_world) = Some (d', w') \<and> \<not> APP_ShiftRegister_IsBusy d' \<and>
     outputs (chain_after sample_chain (log w')) =
       [True, False, True, False, False, False, False, True, False, False, False, False, True, True, True, True]"
proof -
  have bits: "msb_first 0xa1 = [True, False, True, False, False, False, False, True]"
    "msb_first 0x0f = [False, False, False, False, True, True, True, True]"
    by (simp_all add: msb_first_def upt_conv_Cons)
  have send: "APP_ShiftRegister_SendData [0xa1, 0x0f, 0, 0, 0, 0] 2 sample_shift_data =
      Some (the (APP_ShiftRegister_SendData [0xa1, 0x0f, 0, 0, 0, 0] 2 sample_shift_data))"
    by (simp add: APP_ShiftRegister_SendData_def SHIFT_REGISTER_MAX_DATA_def)
  have quiet: "\<forall>t. foreign ((\<lambda>_. []) (t :: nat))" by (simp add: foreign_def)
  show ?thesis
    using shift_register_sends_and_latches [OF send _ _ quiet, of 0 empty_world sample_chain]
    by (auto simp: empty_world_def sample_chain_def bits eval_nat_numeral)
qed

lemma shift_register_overruns_witness:
  "sr_run (\<lambda>_. []) 0 116 (the (APP_ShiftRegister_SendData [1, 2, 3, 4, 5, 6] 0 sample_shift_data), empty_world) = None"
proof -
  have send: "APP_ShiftRegister_SendData [1, 2, 3, 4, 5, 6] 0 sample_shift_data =
      Some (the (APP_ShiftRegister_SendData [1, 2, 3, 4, 5, 6] 0 sample_shift_data))"
    by (simp add: APP_ShiftRegister_SendData_def SHIFT_REGISTER_MAX_DATA_def)
  have quiet: "\<forall>t. foreign ((\<lambda>_. []) (t :: nat))" by (simp add: foreign_def)
  show ?thesis
    using shift_register_overruns [OF send _ quiet, of 0 empty_world] by simp
qed

lemma shift_register_blank_while_sending_witness:
  "blank (sample_shift_data\<lparr>sr_state := APP_SHIFT_REGISTER_STATE_TRANSMIT_STEP\<rparr>)
     (chain_after sample_chain [IO_Pin SHIFT_EN False, IO_Pin SHIFT_DATA True, IO_Pin SHIFT_SRCK False])"
proof -
  let ?d = "sample_shift_data\<lparr>sr_state := APP_SHIFT_REGISTER_STATE_TRANSMIT_STEP\<rparr>"
  have "sr_tick [] (?d, empty_world\<lparr>log := [IO_Pin SHIFT_EN False]\<rparr>) = Some (?d\<lparr>sr_counter := 1\<rparr>,
      empty_world\<lparr>log := [IO_Pin SHIFT_EN False, IO_Pin SHIFT_DATA True, IO_Pin SHIFT_SRCK False]\<rparr>)"
    by (simp add: sr_tick_def APP_ShiftRegister_Tasks_def transmitStep_def sample_shift_data_def
        array_get_def step_simps tell_def empty_world_def Let_def)
  from shift_register_blank_while_sending [OF this, of sample_chain] show ?thesis
    by (simp add: foreign_def blank_def empty_world_def)
qed

lemma shift_register_comes_to_rest_witness:
  "\<exists>n d' w'. n \<le> 115 \<and> sr_run (\<lambda>_. [IO_Cmd SYS_CMD_READY_TO_READ]) 0 n
     (sample_shift_data\<lparr>sr_num_bytes := 3, sr_state := APP_SHIFT_REGISTER_STATE_TRANSMIT_BEGIN\<rparr>, empty_world) = Some (d', w') \<and>
     \<not> APP_ShiftRegister_IsBusy d'"
proof -
  have "sr_reachable sample_shift_data"
    using sr_reachable.init [of sample_shift_data empty_world]
    by (simp add: APP_ShiftRegister_Initialize_def sample_shift_data_def Let_def)
  moreover have "APP_ShiftRegister_SendData [0, 0, 0, 0, 0, 0] 3 sample_shift_data =
      Some (sample_shift_data\<lparr>sr_num_bytes := 3, sr_state := APP_SHIFT_REGISTER_STATE_TRANSMIT_BEGIN\<rparr>)"
    by (simp add: APP_ShiftRegister_SendData_def SHIFT_REGISTER_MAX_DATA_def sample_shift_data_def)
  ultimately have "sr_reachable (sample_shift_data\<lparr>sr_num_bytes := 3, sr_state := APP_SHIFT_REGISTER_STATE_TRANSMIT_BEGIN\<rparr>)"
    using sr_reachable.send [of sample_shift_data 3] by (simp add: SHIFT_REGISTER_MAX_DATA_def)
  from shift_register_comes_to_rest [OF this, of "\<lambda>_. [IO_Cmd SYS_CMD_READY_TO_READ]" 0 empty_world] show ?thesis by blast
qed

end
