(* ===== verification/App_Nixie.thy ===== *)
theory App_Nixie
  imports App_Network App_Https_Client App_Shift_Register
begin

text \<open>
  The Nixie display (\<open>app_nixie.c\<close>): finding the value in the server's response, turning
  it into cathodes and shift register bits, and the state machine around it. The pointers to the
  HTTPS client and to the shift register are arguments of the functions that follow them; the
  caller's buffers of \<open>APP_Nixie_Fetch\<close> are addresses in the world's memory.
\<close>

section \<open>Data\<close>

definition MAX_NIXIE_TUBES :: nat where "MAX_NIXIE_TUBES = 4"
definition NUM_NIXIE_SHIFT_REGISTERS :: nat where "NUM_NIXIE_SHIFT_REGISTERS = 6"
definition MAX_NIXIE_CATHODE :: nat where "MAX_NIXIE_CATHODE = 12"
definition MAX_NIXIE_TOKEN :: nat where "MAX_NIXIE_TOKEN = 64"

lemmas nixie_sizes = MAX_NIXIE_TUBES_def NUM_NIXIE_SHIFT_REGISTERS_def MAX_NIXIE_CATHODE_def
  MAX_NIXIE_TOKEN_def

definition PERIODIC_INTERVAL_FAST :: u64 where "PERIODIC_INTERVAL_FAST = 5"
definition PERIODIC_INTERVAL_NORMAL :: u64 where "PERIODIC_INTERVAL_NORMAL = 30"

datatype NixieType = NIXIE_TYPE_IN12A | NIXIE_TYPE_IN12B

datatype AppNixieState =
    APP_NIXIE_STATE_IDLE
  | APP_NIXIE_STATE_ERROR
  | APP_NIXIE_STATE_BEGIN_HTTP_REQUEST
  | APP_NIXIE_STATE_WAIT_HTTPS_CLIENT
  | APP_NIXIE_STATE_WAIT_HTTPS_RESPONSE
  | APP_NIXIE_STATE_SHUFFLE_SERVER_VALUE
  | APP_NIXIE_STATE_BEGIN_DISPLAY_SEQUENCE
  | APP_NIXIE_STATE_DECODE_DISPLAY_VALUE
  | APP_NIXIE_STATE_ENCODE_SHIFT_REGISTER
  | APP_NIXIE_STATE_WRITE_SHIFT_REGISTER

text \<open>The members of type \<open>int8_t\<close> hold small numbers and are integers or naturals here.\<close>

record NixieCathodeBit =
  bit_byte :: int
  bit_bit :: int

record AppNixieData =
  nixie_state :: AppNixieState
  periodic_tasks_enabled :: bool
  periodic_next_time :: u64
  task_from_periodic :: bool
  num_nixies :: nat
  nixie_types :: "NixieType list"
  cathode_mapping :: "NixieCathodeBit list list"
  num_shift_registers :: nat
  nixie_request_url :: "char list"
  token :: "char list"
  token_len :: nat
  is_value_parsed :: bool
  cyclic_buffer :: "char list"
  cyclic_buffer_len :: nat
  max_cyclic_buffer_len :: nat
  display_value :: "char list"
  cathodes :: "int list"
  register_shift_state :: "u8 list"
  display_value_out :: "nat option"
  is_fetched_out :: "nat option"

text \<open>The functions the program hands to the HTTPS client: the display's and the fetch command's.\<close>

datatype app_callback =
    Nixie_bufferReceivedCallback | Nixie_requestHandledCallback | Nixie_errorCallback
  | Fetch_bufferReceivedCallback | Fetch_requestHandledCallback | Fetch_errorCallback

text \<open>Array accesses with a signed index.\<close>

definition array_at :: "'a list \<Rightarrow> int \<Rightarrow> 'a option" where
  "array_at xs i = (if i < 0 then None else array_get xs (nat i))"

definition array_put :: "'a list \<Rightarrow> int \<Rightarrow> 'a \<Rightarrow> 'a list option" where
  "array_put xs i x = (if i < 0 then None else array_set xs (nat i) x)"

section \<open>Tubes\<close>

definition IN12A_SymbolToCathodeIndex :: "char \<Rightarrow> int" where
  "IN12A_SymbolToCathodeIndex symbol =
     (if symbol = CHR ''0'' then 2
      else if is_digit symbol then 12 - digit_value symbol
      else -1)"

definition IN12B_SymbolToCathodeIndex :: "char \<Rightarrow> int" where
  "IN12B_SymbolToCathodeIndex symbol =
     (if symbol = CHR ''0'' then 2
      else if is_digit symbol then 12 - digit_value symbol
      else if symbol = CHR '','' then 12
      else -1)"

definition nixieSymbolToCathodeIndex :: "NixieType \<Rightarrow> char \<Rightarrow> int" where
  "nixieSymbolToCathodeIndex type symbol =
     (case type of
        NIXIE_TYPE_IN12A \<Rightarrow> IN12A_SymbolToCathodeIndex symbol
      | NIXIE_TYPE_IN12B \<Rightarrow> IN12B_SymbolToCathodeIndex symbol)"

section \<open>The server's response\<close>

text \<open>
  The copying loop over the next bytes of the buffer, from \<open>index\<close> on, and the loop that clears
  the rest of the display value; \<open>n\<close> is the number of tubes.
\<close>

fun copy_digits :: "nat \<Rightarrow> char list \<Rightarrow> nat \<Rightarrow> char list \<Rightarrow> (nat \<times> char list) option" where
  "copy_digits n [] index value = Some (index, value)"
| "copy_digits n (ch # rest) index value =
     (if is_digit ch then do {
        value \<leftarrow> array_put value (int n - int index - 1) ch;
        copy_digits n rest (index + 1) value
      }
      else Some (index, value))"

function clear_digits :: "nat \<Rightarrow> nat \<Rightarrow> char list \<Rightarrow> char list option" where
  "clear_digits n index value =
     (if index < MAX_NIXIE_TUBES then do {
        value \<leftarrow> array_put value (int n - int index - 1) (CHR 0x00);
        clear_digits n (index + 1) value
      }
      else Some value)"
  by pat_completeness auto
termination
  by (relation "measure (\<lambda>(n, index, value). MAX_NIXIE_TUBES - index)") auto

declare clear_digits.simps [simp del]

definition parseValueFromBuffer :: "char list \<Rightarrow> AppNixieData \<Rightarrow> AppNixieData option" where
  "parseValueFromBuffer buffer data = do {
     let num_bytes = min_zz (length buffer) (num_nixies data);
     (index, value) \<leftarrow> copy_digits (num_nixies data) (take num_bytes buffer) 0 (display_value data);
     value \<leftarrow> clear_digits (num_nixies data) index value;
     Some (data\<lparr>display_value := value, is_value_parsed := True\<rparr>)
   }"

text \<open>The bytes in use of the cyclic buffer.\<close>

definition cyclic_bytes :: "AppNixieData \<Rightarrow> char list" where
  "cyclic_bytes data = take (cyclic_buffer_len data) (cyclic_buffer data)"

definition token_found :: "char list \<Rightarrow> nat \<Rightarrow> nat \<Rightarrow> AppNixieData \<Rightarrow> AppNixieData option" where
  "token_found buffer append_suffix_len prefix_len data = do {
     let num_bytes = length buffer;
     let required_len = token_len data + num_nixies data;
     data \<leftarrow> (if prefix_len = 0 then Some data
       else do {
         moved \<leftarrow> array_move (cyclic_buffer data) 0 prefix_len (cyclic_buffer_len data - prefix_len);
         let data = data\<lparr>cyclic_buffer := moved, cyclic_buffer_len := cyclic_buffer_len data - prefix_len\<rparr>;
         (if num_bytes = append_suffix_len then Some data
          else do {
            let extra_suffix_len = min_zz prefix_len (num_bytes - append_suffix_len);
            filled \<leftarrow> array_write (cyclic_buffer data) (cyclic_buffer_len data)
                       (take extra_suffix_len (drop append_suffix_len buffer));
            Some (data\<lparr>cyclic_buffer := filled, cyclic_buffer_len := cyclic_buffer_len data + extra_suffix_len\<rparr>)
          })
       });
     if cyclic_buffer_len data < required_len then Some data
     else parseValueFromBuffer (drop (token_len data) (cyclic_bytes data)) data
   }"

definition token_missing :: "char list \<Rightarrow> nat \<Rightarrow> AppNixieData \<Rightarrow> AppNixieData option" where
  "token_missing buffer append_suffix_len data = do {
     let num_bytes = length buffer;
     let data = data\<lparr>cyclic_buffer_len := cyclic_buffer_len data - append_suffix_len\<rparr>;
     let max_store_bytes = token_len data + num_nixies data;
     let num_new_bytes = min_zz num_bytes max_store_bytes;
     let num_old_bytes = min_zz (cyclic_buffer_len data) (max_store_bytes - num_new_bytes);
     moved \<leftarrow> (if num_old_bytes = 0 then Some (cyclic_buffer data)
       else array_move (cyclic_buffer data) 0 (cyclic_buffer_len data - num_old_bytes) num_old_bytes);
     stored \<leftarrow> array_write moved num_old_bytes (drop (num_bytes - num_new_bytes) buffer);
     Some (data\<lparr>cyclic_buffer := stored, cyclic_buffer_len := num_new_bytes + num_old_bytes\<rparr>)
   }"

definition token_in_buffer :: "char list \<Rightarrow> nat \<Rightarrow> AppNixieData \<Rightarrow> AppNixieData option" where
  "token_in_buffer buffer prefix_len data =
     (let num_bytes = length buffer;
          required_len = token_len data + num_nixies data
      in if required_len \<le> num_bytes - prefix_len
         then parseValueFromBuffer (drop (prefix_len + token_len data) buffer) data
         else do {
           stored \<leftarrow> array_write (cyclic_buffer data) 0 (drop prefix_len buffer);
           Some (data\<lparr>cyclic_buffer := stored, cyclic_buffer_len := num_bytes - prefix_len\<rparr>)
         })"

definition bufferReceivedCallback :: "char list \<Rightarrow> AppNixieData \<Rightarrow> AppNixieData option" where
  "bufferReceivedCallback buffer data =
     (if is_value_parsed data then Some data
      else do {
        let append_suffix_len =
          min_zz (length buffer) (sz_sub (max_cyclic_buffer_len data) (cyclic_buffer_len data));
        appended \<leftarrow> array_write (cyclic_buffer data) (cyclic_buffer_len data) (take append_suffix_len buffer);
        let data = data\<lparr>cyclic_buffer := appended,
                        cyclic_buffer_len := cyclic_buffer_len data + append_suffix_len\<rparr>;
        (case strstr_len (cyclic_bytes data) (token data) of
           Some prefix_len \<Rightarrow> token_found buffer append_suffix_len prefix_len data
         | None \<Rightarrow>
             (case strstr_len buffer (token data) of
                None \<Rightarrow> token_missing buffer append_suffix_len data
              | Some prefix_len \<Rightarrow> token_in_buffer buffer prefix_len data))
      })"

definition requestHandledCallback :: "AppNixieData \<Rightarrow> AppNixieData option" where
  "requestHandledCallback data = do {
     data \<leftarrow> (if is_value_parsed data then Some data
       else (case strstr_len (cyclic_bytes data) (token data) of
           Some found \<Rightarrow> parseValueFromBuffer (drop (token_len data) (cyclic_bytes data)) data
         | None \<Rightarrow> Some data));
     Some (if is_value_parsed data
           then data\<lparr>nixie_state := APP_NIXIE_STATE_SHUFFLE_SERVER_VALUE\<rparr>
           else data\<lparr>nixie_state := APP_NIXIE_STATE_IDLE\<rparr>)
   }"

definition errorCallback :: "AppNixieData \<Rightarrow> AppNixieData" where
  "errorCallback data = data\<lparr>nixie_state := APP_NIXIE_STATE_ERROR\<rparr>"

definition nixie_callbacks :: "app_callback AppHttpsClientCallbacks" where
  "nixie_callbacks = \<lparr>cb_buffer_received = Some Nixie_bufferReceivedCallback,
     cb_request_handled = Some Nixie_requestHandledCallback, cb_error = Some Nixie_errorCallback\<rparr>"

text \<open>\<open>after\<close> is what follows the array of the URL in memory.\<close>

definition waitHttpsClientAndSendRequest ::
    "chars \<Rightarrow> AppNixieData \<times> app_callback AppHTTPSClientData \<Rightarrow>
     (AppNixieData \<times> app_callback AppHTTPSClientData) option" where
  "waitHttpsClientAndSendRequest after = (\<lambda>(data, https).
     if APP_HTTPS_Client_IsBusy https then Some (data, https)
     else do {
       let data = data\<lparr>is_value_parsed := False, cyclic_buffer_len := 0\<rparr>;
       (submitted, https) \<leftarrow> APP_HTTPS_Client_Request (array_chars (nixie_request_url data) after) 0
                               nixie_callbacks https;
       Some (if submitted then data\<lparr>nixie_state := APP_NIXIE_STATE_WAIT_HTTPS_RESPONSE\<rparr>
             else data\<lparr>nixie_state := APP_NIXIE_STATE_ERROR\<rparr>, https)
     })"


section \<open>The value and its digits\<close>

text \<open>The first loop of \<open>shuffleServerValueDigits\<close>, over the indices given.\<close>

primrec leading_null :: "char list \<Rightarrow> nat list \<Rightarrow> nat option" where
  "leading_null value [] = Some 0"
| "leading_null value (a # as) = do {
     ch \<leftarrow> array_get value a;
     (if ch \<noteq> CHR 0x00 then Some 0
      else do { k \<leftarrow> leading_null value as; Some (Suc k) })
   }"

text \<open>The second: zeros at the most significant end.\<close>

primrec fill_zeros :: "nat \<Rightarrow> nat list \<Rightarrow> char list \<Rightarrow> char list option" where
  "fill_zeros n [] value = Some value"
| "fill_zeros n (a # as) value = do {
     value \<leftarrow> array_put value (int n - int a - 1) (CHR ''0'');
     fill_zeros n as value
   }"

definition shuffleServerValueDigits :: "AppNixieData \<times> world \<Rightarrow> (AppNixieData \<times> world) option" where
  "shuffleServerValueDigits = (\<lambda>(data, w). do {
     num_leading_null \<leftarrow> leading_null (display_value data) [0..<num_nixies data];
     data \<leftarrow> (if num_leading_null = 0 then Some data
       else do {
         moved \<leftarrow> array_move (display_value data) 0 num_leading_null (num_nixies data - num_leading_null);
         filled \<leftarrow> fill_zeros (num_nixies data) [0..<num_leading_null] moved;
         Some (data\<lparr>display_value := filled\<rparr>)
       });
     (case display_value_out data of
        None \<Rightarrow> Some (data\<lparr>nixie_state := APP_NIXIE_STATE_BEGIN_DISPLAY_SEQUENCE\<rparr>, w)
      | Some out \<Rightarrow> do {
          let w = poke out (map of_char (display_value data)) w;
          fetched \<leftarrow> is_fetched_out data;
          Some (data\<lparr>nixie_state := APP_NIXIE_STATE_IDLE, display_value_out := None, is_fetched_out := None\<rparr>,
                poke fetched [1] w)
        })
   })"

primrec decode_tubes :: "nat list \<Rightarrow> AppNixieData \<Rightarrow> AppNixieData option" where
  "decode_tubes [] data = Some data"
| "decode_tubes (i # is) data = do {
     let nixie_index = int (num_nixies data) - int i - 1;
     type \<leftarrow> array_at (nixie_types data) nixie_index;
     symbol \<leftarrow> array_at (display_value data) nixie_index;
     decoded \<leftarrow> array_set (cathodes data) i (nixieSymbolToCathodeIndex type symbol);
     decode_tubes is (data\<lparr>cathodes := decoded\<rparr>)
   }"

definition decodeDisplayValue :: "AppNixieData \<Rightarrow> AppNixieData option" where
  "decodeDisplayValue data = do {
     data \<leftarrow> decode_tubes [0..<num_nixies data] data;
     Some (data\<lparr>nixie_state := APP_NIXIE_STATE_ENCODE_SHIFT_REGISTER\<rparr>)
   }"

text \<open>The byte that \<open>1 << bit\<close>, an \<open>int\<close>, becomes in an array of bytes; a negative shift is undefined.\<close>

definition bit_mask :: "int \<Rightarrow> u8 option" where
  "bit_mask n = (if n < 0 \<or> 31 < n then None else Some (ucast (push_bit (nat n) (1 :: u32))))"

primrec encode_tubes :: "nat list \<Rightarrow> AppNixieData \<times> world \<Rightarrow> (AppNixieData \<times> world) option" where
  "encode_tubes [] s = Some s"
| "encode_tubes (i # is) s = (case s of (data, w) \<Rightarrow> do {
     cathode \<leftarrow> array_get (cathodes data) i;
     (if cathode = -1 then encode_tubes is (data, w)
      else do {
        tube \<leftarrow> array_get (cathode_mapping data) i;
        wire \<leftarrow> array_at tube cathode;
        let w = SYS_ASSERT (bit_byte wire < int (num_shift_registers data)) ''Invalid shift register index'' w;
        let w = SYS_ASSERT (bit_bit wire \<le> 8) ''Invalid shift register bit'' w;
        let num_byte = int (num_shift_registers data) - bit_byte wire - 1;
        mask \<leftarrow> bit_mask (bit_bit wire);
        old \<leftarrow> array_at (register_shift_state data) num_byte;
        new \<leftarrow> array_put (register_shift_state data) num_byte (old OR mask);
        encode_tubes is (data\<lparr>register_shift_state := new\<rparr>, w)
      })
   })"

definition encodeShiftRegister :: "AppNixieData \<times> world \<Rightarrow> (AppNixieData \<times> world) option" where
  "encodeShiftRegister = (\<lambda>(data, w). do {
     let data = data\<lparr>register_shift_state := replicate NUM_NIXIE_SHIFT_REGISTERS 0\<rparr>;
     (data, w) \<leftarrow> encode_tubes [0..<num_nixies data] (data, w);
     Some (data\<lparr>nixie_state := APP_NIXIE_STATE_WRITE_SHIFT_REGISTER\<rparr>, w)
   })"

definition writeShiftRegister ::
    "AppNixieData \<times> AppShiftRegisterData \<Rightarrow> (AppNixieData \<times> AppShiftRegisterData) option" where
  "writeShiftRegister = (\<lambda>(data, sr).
     if APP_ShiftRegister_IsBusy sr then Some (data, sr)
     else do {
       sr \<leftarrow> APP_ShiftRegister_SendData (register_shift_state data) (num_shift_registers data) sr;
       Some (data\<lparr>nixie_state := APP_NIXIE_STATE_IDLE\<rparr>, sr)
     })"

section \<open>Periodic tasks\<close>

datatype PeriodicTime = PERIODIC_TIME_FAST | PERIODIC_TIME_NORMAL

definition schedulePeriodicTask :: "tmr_env \<Rightarrow> PeriodicTime \<Rightarrow> AppNixieData \<times> world \<Rightarrow> AppNixieData \<times> world" where
  "schedulePeriodicTask env time = (\<lambda>(data, w).
     let interval = (case time of
           PERIODIC_TIME_FAST \<Rightarrow> PERIODIC_INTERVAL_FAST
         | PERIODIC_TIME_NORMAL \<Rightarrow> PERIODIC_INTERVAL_NORMAL);
         (count, w) = ask (tmr_count env) (IO_Tmr SYS_TMR_SystemCountGet) w;
         (frequency, w) = ask (tmr_frequency env) (IO_Tmr SYS_TMR_SystemCountFrequencyGet) w
     in (data\<lparr>periodic_next_time := count + ucast frequency * interval\<rparr>, w))"

definition APP_Nixie_IsBusy :: "AppNixieData \<Rightarrow> bool" where
  "APP_Nixie_IsBusy data \<longleftrightarrow> nixie_state data \<noteq> APP_NIXIE_STATE_IDLE"

definition performPeriodicTasks :: "harmony \<Rightarrow> AppNixieData \<times> world \<Rightarrow> AppNixieData \<times> world" where
  "performPeriodicTasks env = (\<lambda>(data, w).
     if \<not> periodic_tasks_enabled data then (data, w)
     else
       let (count, w) = ask (tmr_count (tmr env)) (IO_Tmr SYS_TMR_SystemCountGet) w in
       if count < periodic_next_time data then (data, w)
       else if APP_Nixie_IsBusy data then (data, w)
       else
         let (usable, w) = APP_Network_hasUsableInterface env w in
         if \<not> usable then (data, w)
         else schedulePeriodicTask (tmr env) PERIODIC_TIME_NORMAL
                (data\<lparr>nixie_state := APP_NIXIE_STATE_BEGIN_HTTP_REQUEST, task_from_periodic := True\<rparr>, w))"

section \<open>Public functions\<close>

text \<open>
  The wiring of the four tubes, by cathode index; cathodes 0 and 1 are not wired and keep what the
  array held before.
\<close>

definition wiring_J2 :: "(nat \<times> int \<times> int) list" where
  "wiring_J2 = [(2, 3, 3), (3, 3, 1), (4, 3, 4), (5, 3, 0), (6, 3, 5), (7, 2, 7), (8, 3, 6), (9, 2, 6), (10, 3, 7), (11, 2, 5)]"

definition wiring_J3 :: "(nat \<times> int \<times> int) list" where
  "wiring_J3 = [(2, 2, 0), (3, 1, 6), (4, 2, 1), (5, 1, 5), (6, 2, 2), (7, 1, 4), (8, 2, 3), (9, 1, 0), (10, 2, 4), (11, 1, 1)]"

definition wiring_J4 :: "(nat \<times> int \<times> int) list" where
  "wiring_J4 = [(2, 1, 2), (3, 0, 0), (4, 1, 3), (5, 0, 1), (6, 0, 7), (7, 0, 2), (8, 0, 6), (9, 0, 3), (10, 0, 5), (11, 5, 3)]"

definition wiring_J5 :: "(nat \<times> int \<times> int) list" where
  "wiring_J5 = [(2, 4, 5), (3, 4, 6), (4, 4, 4), (5, 5, 7), (6, 5, 0), (7, 5, 6), (8, 5, 1), (9, 5, 5), (10, 5, 2), (11, 5, 4)]"

definition set_wiring :: "NixieCathodeBit list list \<Rightarrow> nat \<Rightarrow> (nat \<times> int \<times> int) list \<Rightarrow> NixieCathodeBit list list option" where
  "set_wiring mapping n wires = do {
     tube \<leftarrow> array_get mapping n;
     tube \<leftarrow> fold (\<lambda>(cathode, sbyte, sbit) acc.
               Option.bind acc (\<lambda>tube. array_set tube cathode \<lparr>bit_byte = sbyte, bit_bit = sbit\<rparr>)) wires (Some tube);
     array_set mapping n tube
   }"

definition add_tube :: "(nat \<times> int \<times> int) list \<Rightarrow> AppNixieData \<Rightarrow> AppNixieData option" where
  "add_tube wires data = do {
     types \<leftarrow> array_set (nixie_types data) (num_nixies data) NIXIE_TYPE_IN12A;
     mapping \<leftarrow> set_wiring (cathode_mapping data) (num_nixies data) wires;
     Some (data\<lparr>nixie_types := types, cathode_mapping := mapping, num_nixies := num_nixies data + 1\<rparr>)
   }"

definition NIXIE_REQUEST_URL :: string where
  "NIXIE_REQUEST_URL = ''https://developer.blender.org/maniphest/project/2/type/Bug/query/open/''"

definition NIXIE_TOKEN :: string where
  "NIXIE_TOKEN = ''>Open Tasks (''"

text \<open>A string literal in memory.\<close>

definition literal :: "char list \<Rightarrow> chars" where
  "literal s = array_chars (s @ [CHR 0x00]) (\<lambda>_. CHR 0x00)"

definition APP_Nixie_Initialize ::
    "AppNixieData \<times> AppShiftRegisterData \<Rightarrow> (AppNixieData \<times> AppShiftRegisterData) option" where
  "APP_Nixie_Initialize = (\<lambda>(data, sr). do {
     let data = data\<lparr>nixie_state := APP_NIXIE_STATE_IDLE, display_value_out := None,
                     periodic_tasks_enabled := True, periodic_next_time := 0, task_from_periodic := False,
                     num_nixies := 0\<rparr>;
     data \<leftarrow> add_tube wiring_J2 data;
     data \<leftarrow> add_tube wiring_J3 data;
     data \<leftarrow> add_tube wiring_J4 data;
     data \<leftarrow> add_tube wiring_J5 data;
     (_, url) \<leftarrow> safe_strncpy (literal NIXIE_REQUEST_URL) (Some (nixie_request_url data)) (Some 0) MAX_URL;
     (_, tok) \<leftarrow> safe_strncpy (literal NIXIE_TOKEN) (Some (token data)) (Some 0) MAX_NIXIE_TOKEN;
     let data = data\<lparr>nixie_request_url := the url, token := the tok\<rparr>;
     let data = data\<lparr>token_len := length (cstr (token data))\<rparr>;
     let data = data\<lparr>max_cyclic_buffer_len := 2 * (token_len data + num_nixies data),
                     num_shift_registers := 6,
                     register_shift_state := replicate NUM_NIXIE_SHIFT_REGISTERS 0\<rparr>;
     sr \<leftarrow> APP_ShiftRegister_SendData (register_shift_state data) (num_shift_registers data) sr;
     Some (data, sr)
   })"

definition APP_Nixie_Tasks ::
    "harmony \<Rightarrow> chars \<Rightarrow>
     AppNixieData \<times> app_callback AppHTTPSClientData \<times> AppShiftRegisterData \<times> world \<Rightarrow>
     (AppNixieData \<times> app_callback AppHTTPSClientData \<times> AppShiftRegisterData \<times> world) option" where
  "APP_Nixie_Tasks env after = (\<lambda>(data, https, sr, w).
     case nixie_state data of
       APP_NIXIE_STATE_IDLE \<Rightarrow>
         (let (data, w) = performPeriodicTasks env (data\<lparr>task_from_periodic := False\<rparr>, w)
          in Some (data, https, sr, w))
     | APP_NIXIE_STATE_ERROR \<Rightarrow>
         (let data = data\<lparr>nixie_state := APP_NIXIE_STATE_IDLE\<rparr>;
              (data, w) = (if task_from_periodic data
                           then schedulePeriodicTask (tmr env) PERIODIC_TIME_FAST (data, w) else (data, w))
          in Some (data, https, sr, w))
     | APP_NIXIE_STATE_BEGIN_HTTP_REQUEST \<Rightarrow>
         Some (data\<lparr>nixie_state := APP_NIXIE_STATE_WAIT_HTTPS_CLIENT\<rparr>, https, sr, w)
     | APP_NIXIE_STATE_WAIT_HTTPS_CLIENT \<Rightarrow> do {
         (data, https) \<leftarrow> waitHttpsClientAndSendRequest after (data, https);
         Some (data, https, sr, w)
       }
     | APP_NIXIE_STATE_WAIT_HTTPS_RESPONSE \<Rightarrow> Some (data, https, sr, w)
     | APP_NIXIE_STATE_SHUFFLE_SERVER_VALUE \<Rightarrow> do {
         (data, w) \<leftarrow> shuffleServerValueDigits (data, w);
         Some (data, https, sr, w)
       }
     | APP_NIXIE_STATE_BEGIN_DISPLAY_SEQUENCE \<Rightarrow>
         Some (data\<lparr>nixie_state := APP_NIXIE_STATE_DECODE_DISPLAY_VALUE\<rparr>, https, sr, w)
     | APP_NIXIE_STATE_DECODE_DISPLAY_VALUE \<Rightarrow> do {
         data \<leftarrow> decodeDisplayValue data;
         Some (data, https, sr, w)
       }
     | APP_NIXIE_STATE_ENCODE_SHIFT_REGISTER \<Rightarrow> do {
         (data, w) \<leftarrow> encodeShiftRegister (data, w);
         Some (data, https, sr, w)
       }
     | APP_NIXIE_STATE_WRITE_SHIFT_REGISTER \<Rightarrow> do {
         (data, sr) \<leftarrow> writeShiftRegister (data, sr);
         Some (data, https, sr, w)
       })"

text \<open>\<open>strncpy\<close> from an array, up to its NUL; the rest of the destination is cleared.\<close>

definition strncpy :: "char list \<Rightarrow> char list \<Rightarrow> nat \<Rightarrow> char list option" where
  "strncpy dst src n =
     (let copied = cstr (take n src) in
      if length copied < n \<and> length copied = length src then None
      else array_write dst 0 (copied @ replicate (n - length copied) (CHR 0x00)))"

definition APP_Nixie_Display :: "char list \<Rightarrow> AppNixieData \<Rightarrow> (bool \<times> AppNixieData) option" where
  "APP_Nixie_Display value data =
     (if APP_Nixie_IsBusy data then Some (False, data)
      else do {
        let data = data\<lparr>display_value := replicate MAX_NIXIE_TUBES (CHR 0x00)\<rparr>;
        copied \<leftarrow> strncpy (display_value data) value MAX_NIXIE_TUBES;
        Some (True, data\<lparr>display_value := copied, nixie_state := APP_NIXIE_STATE_BEGIN_DISPLAY_SEQUENCE\<rparr>)
      })"

definition APP_Nixie_Fetch :: "nat \<Rightarrow> nat \<Rightarrow> AppNixieData \<times> world \<Rightarrow> bool \<times> AppNixieData \<times> world" where
  "APP_Nixie_Fetch is_fetched value = (\<lambda>(data, w).
     let w = poke is_fetched [0] w in
     if APP_Nixie_IsBusy data then (False, data, w)
     else (True, data\<lparr>nixie_state := APP_NIXIE_STATE_BEGIN_HTTP_REQUEST, is_fetched_out := Some is_fetched,
                      display_value_out := Some value\<rparr>, w))"

definition APP_Nixie_PeriodicTasksEnabled :: "AppNixieData \<Rightarrow> bool" where
  "APP_Nixie_PeriodicTasksEnabled data = periodic_tasks_enabled data"

definition APP_Nixie_PeriodicTasksSetEnabled :: "bool \<Rightarrow> AppNixieData \<Rightarrow> AppNixieData" where
  "APP_Nixie_PeriodicTasksSetEnabled enabled data = data\<lparr>periodic_tasks_enabled := enabled\<rparr>"

end
