(* ===== verification/App_Flash.thy ===== *)
theory App_Flash
  imports Harmony
begin

text \<open>
  \<open>firmware/src/app_flash.c\<close> and its header: the state machine that registers, mounts and if
  needed formats the SPI flash. The drive is formatted by the state machine once at most, and
  its error state is final and counts as busy.
\<close>

definition FLASH_DEVICE_NAME :: string where "FLASH_DEVICE_NAME = ''/dev/mtda1''"
definition FLASH_MOUNT_POINT :: string where "FLASH_MOUNT_POINT = ''/mnt/sst25_drive''"

datatype AppFlashState =
    APP_FLASH_STATE_REGISTER_MEDIA
  | APP_FLASH_STATE_MOUNT_DISK
  | APP_FLASH_STATE_ENSURE_FORMATTED
  | APP_FLASH_STATE_FORMAT
  | APP_FLASH_STATE_IDLE
  | APP_FLASH_STATE_ERROR

record AppFlashData =
  flash_state :: AppFlashState
  format_attempted :: bool

definition APP_Flash_Initialize :: "AppFlashData \<Rightarrow> AppFlashData" where
  "APP_Flash_Initialize data =
     data\<lparr>flash_state := APP_FLASH_STATE_REGISTER_MEDIA, format_attempted := False\<rparr>"

definition APP_Flash_Tasks :: "fs_env \<Rightarrow> AppFlashData \<times> world \<Rightarrow> AppFlashData \<times> world" where
  "APP_Flash_Tasks env = (\<lambda>(data, w).
     case flash_state data of
       APP_FLASH_STATE_REGISTER_MEDIA \<Rightarrow>
         (let (status, w) = ask (sst25_status env) (IO_FS DRV_SST25_Status) w in
          if status = SYS_STATUS_READY then
            let (registered, w) = ask (media_register env) (IO_FS SYS_FS_MEDIA_MANAGER_Register) w in
            if registered then (data\<lparr>flash_state := APP_FLASH_STATE_MOUNT_DISK\<rparr>, w)
            else (data\<lparr>flash_state := APP_FLASH_STATE_ERROR\<rparr>, w)
          else (data, w))
     | APP_FLASH_STATE_MOUNT_DISK \<Rightarrow>
         (let (mounted, w) = ask (fs_mount env) (IO_FS (SYS_FS_Mount FLASH_DEVICE_NAME FLASH_MOUNT_POINT)) w in
          if \<not> mounted then (data\<lparr>flash_state := APP_FLASH_STATE_MOUNT_DISK\<rparr>, w)
          else (data\<lparr>flash_state := APP_FLASH_STATE_ENSURE_FORMATTED\<rparr>, w))
     | APP_FLASH_STATE_ENSURE_FORMATTED \<Rightarrow>
         (let ((ok, total_sectors, free_sectors), w) =
            ask (fs_sectors env) (IO_FS (SYS_FS_DriveSectorGet FLASH_MOUNT_POINT)) w in
          if \<not> ok then (data\<lparr>flash_state := APP_FLASH_STATE_ERROR\<rparr>, w)
          else if total_sectors = 0 then
            (if format_attempted data then (data\<lparr>flash_state := APP_FLASH_STATE_ERROR\<rparr>, w)
             else (data\<lparr>flash_state := APP_FLASH_STATE_FORMAT\<rparr>, w))
          else (data\<lparr>flash_state := APP_FLASH_STATE_IDLE\<rparr>, w))
     | APP_FLASH_STATE_FORMAT \<Rightarrow>
         (let data = data\<lparr>format_attempted := True\<rparr>;
              (ok, w) = ask (fs_format env) (IO_FS (SYS_FS_DriveFormat FLASH_MOUNT_POINT)) w in
          if \<not> ok then (data\<lparr>flash_state := APP_FLASH_STATE_ERROR\<rparr>, w)
          else (data\<lparr>flash_state := APP_FLASH_STATE_ENSURE_FORMATTED\<rparr>, w))
     | APP_FLASH_STATE_IDLE \<Rightarrow> (data, w)
     | APP_FLASH_STATE_ERROR \<Rightarrow> (data, w))"

definition APP_Flash_IsBusy :: "AppFlashData \<Rightarrow> bool" where
  "APP_Flash_IsBusy data \<longleftrightarrow> flash_state data \<noteq> APP_FLASH_STATE_IDLE"

definition APP_Flash_IsError :: "AppFlashData \<Rightarrow> bool" where
  "APP_Flash_IsError data \<longleftrightarrow> flash_state data = APP_FLASH_STATE_ERROR"

definition APP_Flash_DriveSectorGet :: "fs_env \<Rightarrow> world \<Rightarrow> (bool \<times> u32 \<times> u32) \<times> world" where
  "APP_Flash_DriveSectorGet env w =
     ask (fs_sectors env) (IO_FS (SYS_FS_DriveSectorGet FLASH_MOUNT_POINT)) w"

definition APP_Flash_DriveFormat :: "fs_env \<Rightarrow> world \<Rightarrow> bool \<times> world" where
  "APP_Flash_DriveFormat env w = ask (fs_format env) (IO_FS (SYS_FS_DriveFormat FLASH_MOUNT_POINT)) w"

section \<open>Properties\<close>

definition formats :: "io list \<Rightarrow> nat" where
  "formats es = length (filter (\<lambda>e. e = IO_FS (SYS_FS_DriveFormat FLASH_MOUNT_POINT)) es)"

lemma formats_append [simp]: "formats (xs @ ys) = formats xs + formats ys"
  by (simp add: formats_def)

lemma formats_Nil [simp]: "formats [] = 0"
  by (simp add: formats_def)

lemma formats_Cons [simp]:
  "formats (e # es) = (if e = IO_FS (SYS_FS_DriveFormat FLASH_MOUNT_POINT) then 1 else 0) + formats es"
  by (simp add: formats_def)

definition flash_ticks :: "fs_env \<Rightarrow> nat \<Rightarrow> AppFlashData \<times> world \<Rightarrow> AppFlashData \<times> world" where
  "flash_ticks env n = (APP_Flash_Tasks env ^^ n)"

lemma flash_ticks_Suc [simp]: "flash_ticks env (Suc n) s = APP_Flash_Tasks env (flash_ticks env n s)"
  by (simp add: flash_ticks_def)

lemma flash_ticks_0 [simp]: "flash_ticks env 0 s = s"
  by (simp add: flash_ticks_def)

lemma flash_ticks_numeral [simp]:
  "flash_ticks env (numeral k) s = APP_Flash_Tasks env (flash_ticks env (pred_numeral k) s)"
  by (simp add: numeral_eq_Suc)

text \<open>The format that may still be made, and those that were: a tick keeps their sum.\<close>

definition format_budget :: "AppFlashData \<times> world \<Rightarrow> nat" where
  "format_budget s = formats (log (snd s)) + (if format_attempted (fst s) then 0 else 1)"

definition format_once :: "AppFlashData \<Rightarrow> bool" where
  "format_once d \<longleftrightarrow> (flash_state d = APP_FLASH_STATE_FORMAT \<longrightarrow> \<not> format_attempted d)"

lemma format_tick:
  assumes "format_once (fst s)"
  shows "format_once (fst (APP_Flash_Tasks env s)) \<and>
    format_budget (APP_Flash_Tasks env s) = format_budget s"
proof -
  obtain d w where s: "s = (d, w)" by (cases s)
  show ?thesis
    using assms
    by (cases "flash_state d")
      (auto simp: s APP_Flash_Tasks_def format_once_def format_budget_def ask_split Let_def
        split: prod.split)
qed

lemma format_ticks:
  assumes "format_once (fst s)"
  shows "format_once (fst (flash_ticks env n s)) \<and> format_budget (flash_ticks env n s) = format_budget s"
  using assms by (induction n) (auto simp: format_tick)

text \<open>
  C30: From initialization on, however the drive behaves and however long it runs, the flash state
  machine formats the drive at most once.
\<close>

theorem flash_formats_at_most_once:
  "formats (log (snd (flash_ticks env n (APP_Flash_Initialize d, w)))) \<le> formats (log w) + 1"
proof -
  have "format_once (fst (APP_Flash_Initialize d, w))"
    by (simp add: format_once_def APP_Flash_Initialize_def)
  from format_ticks [OF this, of env n] show ?thesis
    by (simp add: format_budget_def APP_Flash_Initialize_def split: if_splits)
qed

text \<open>
  The error state of the flash is final, and the module is busy in it: once there, it is busy
  after any number of ticks, so whoever waits for it to become idle waits for ever.
\<close>

theorem flash_error_is_busy_forever:
  assumes "APP_Flash_IsError d"
  shows "flash_ticks env n (d, w) = (d, w) \<and> APP_Flash_IsBusy (fst (flash_ticks env n (d, w)))"
proof -
  have "flash_ticks env n (d, w) = (d, w)"
    using assms by (induction n) (simp_all add: APP_Flash_Tasks_def APP_Flash_IsError_def)
  then show ?thesis using assms by (simp add: APP_Flash_IsBusy_def APP_Flash_IsError_def)
qed

definition sample_fs :: fs_env where
  "sample_fs = \<lparr>sst25_status = (\<lambda>_. SYS_STATUS_READY), media_register = (\<lambda>_. True),
     fs_mount = (\<lambda>_. True), fs_sectors = (\<lambda>l. (True, if formats l = 0 then 0 else 64, 0)),
     fs_format = (\<lambda>_. True)\<rparr>"

lemma flash_error_is_busy_forever_witness:
  "APP_Flash_IsBusy (fst (flash_ticks sample_fs 1000
     (\<lparr>flash_state = APP_FLASH_STATE_ERROR, format_attempted = True\<rparr>, empty_world)))"
  by (rule conjunct2 [OF flash_error_is_busy_forever]) (simp add: APP_Flash_IsError_def)

text \<open>
  A drive that is ready, mounts and reports sectors is idle after three ticks; a blank one that
  formats and then reports sectors after five, formatted once.
\<close>

theorem flash_becomes_idle:
  assumes "\<forall>l. sst25_status env l = SYS_STATUS_READY" and "\<forall>l. media_register env l"
    and "\<forall>l. fs_mount env l" and "\<forall>l. fs_format env l"
    and "\<forall>l. fs_sectors env l = (True, if blank \<and> formats l = formats (log w) then 0 else sectors, 0)"
    and "sectors \<noteq> 0"
  shows "\<not> APP_Flash_IsBusy (fst (flash_ticks env (if blank then 5 else 3) (APP_Flash_Initialize d, w))) \<and>
    formats (log (snd (flash_ticks env (if blank then 5 else 3) (APP_Flash_Initialize d, w)))) =
      formats (log w) + (if blank then 1 else 0)"
  using assms
  by (simp add: APP_Flash_Initialize_def APP_Flash_Tasks_def APP_Flash_IsBusy_def
      ask_split Let_def)

lemma flash_becomes_idle_witness:
  "\<not> APP_Flash_IsBusy (fst (flash_ticks sample_fs 5
     (APP_Flash_Initialize \<lparr>flash_state = APP_FLASH_STATE_ERROR, format_attempted = True\<rparr>, empty_world)))"
  using flash_becomes_idle [of sample_fs True empty_world 64]
  by (simp add: sample_fs_def empty_world_def del: flash_ticks_numeral)

end
