(* ===== verification/Rtc_Mcp7940n.thy ===== *)
theory Rtc_Mcp7940n
  imports Harmony
begin

text \<open>
  \<open>firmware/src/rtc_mcp7940n.c\<close> and its header: the driver of the MCP7940N real time clock
  on the I2C bus. The descriptor is a record; its union \<open>_private\<close> is the 32 bytes of memory
  at \<open>rtc_private\<close>, so that members of the union overlap as they do in C, and pointers to the
  caller's memory are addresses. The driver of the bus stores received bytes in memory when a
  status poll returns. A function takes and returns the descriptor and the world.
\<close>

section \<open>Constants and types\<close>

definition MCP7940N_I2C_ADDRESS :: u8 where "MCP7940N_I2C_ADDRESS = 0x6f"
definition MCP7940N_REG_ADDR_SECONDS :: u8 where "MCP7940N_REG_ADDR_SECONDS = 0x00"
definition MCP7940N_REG_ADDR_DAY_OF_WEEK :: u8 where "MCP7940N_REG_ADDR_DAY_OF_WEEK = 0x03"
definition MCP7940N_FLAG_START_OSCILLATOR :: u8 where "MCP7940N_FLAG_START_OSCILLATOR = 0x80"
definition MCP7940N_FLAG_BATTERY_ENABLE :: u8 where "MCP7940N_FLAG_BATTERY_ENABLE = 0x08"
definition RTC_MCP7940N_NUM_REGISTERS :: nat where "RTC_MCP7940N_NUM_REGISTERS = 31"

lemmas rtc_constants [simp] = MCP7940N_I2C_ADDRESS_def MCP7940N_REG_ADDR_SECONDS_def
  MCP7940N_REG_ADDR_DAY_OF_WEEK_def MCP7940N_FLAG_START_OSCILLATOR_def
  MCP7940N_FLAG_BATTERY_ENABLE_def RTC_MCP7940N_NUM_REGISTERS_def

datatype RTC_MCP7940N_State =
    RTC_MCP7940N_STATE_NONE
  | RTC_MCP7940N_STATE_ERROR
  | RTC_MCP7940N_STATE_I2C_STAUS_CHECK

datatype RTC_MCP7940N_NextTask =
    RTC_MCP7940N_TASK_NONE
  | RTC_MCP7940N_TASK_OSCILLATOR_UPDATE_ENABLE
  | RTC_MCP7940N_TASK_OSCILLATOR_UPDATE_DISABLE
  | RTC_MCP7940N_TASK_OSCILLATOR_UPDATE_STATUS
  | RTC_MCP7940N_TASK_BATTERY_UPDATE_ENABLE
  | RTC_MCP7940N_TASK_BATTERY_UPDATE_DISABLE
  | RTC_MCP7940N_TASK_BATTERY_UPDATE_STATUS
  | RTC_MCP7940N_TASK_DATE_TIME_CONVERT_BCD
  | RTC_MCP7940N_TASK_DATE_TIME_UPDATE_AND_TRANSMIT

text \<open>The date and time: seven bytes of memory, in this order.\<close>

record RTC_MCP7940N_DateTime =
  seconds :: u8
  minutes :: u8
  hours :: u8
  day_of_week :: u8
  day :: u8
  month :: u8
  year :: u8

definition sizeof_DateTime :: nat where "sizeof_DateTime = 7"

definition date_time_of_bytes :: "u8 list \<Rightarrow> RTC_MCP7940N_DateTime" where
  "date_time_of_bytes bs = \<lparr>seconds = bs ! 0, minutes = bs ! 1, hours = bs ! 2,
     day_of_week = bs ! 3, day = bs ! 4, month = bs ! 5, year = bs ! 6\<rparr>"

definition bytes_of_date_time :: "RTC_MCP7940N_DateTime \<Rightarrow> u8 list" where
  "bytes_of_date_time t = [seconds t, minutes t, hours t, day_of_week t, day t, month t, year t]"

record RTC_MCP7940N =
  rtc_state :: RTC_MCP7940N_State
  next_task :: RTC_MCP7940N_NextTask
  i2c_handle :: "u32 option"
  i2c_buffer_handle :: "u32 option"
  rtc_private :: nat

text \<open>
  The addresses of the members of the union, by the layout of its structs (pointers are four
  bytes and aligned to four).
\<close>

definition date_time_read_date_time_ptr :: "RTC_MCP7940N \<Rightarrow> nat" where
  "date_time_read_date_time_ptr rtc = rtc_private rtc"
definition date_time_read_transmit_buffer :: "RTC_MCP7940N \<Rightarrow> nat" where
  "date_time_read_transmit_buffer rtc = rtc_private rtc + 4"
definition date_time_write_register_storage :: "RTC_MCP7940N \<Rightarrow> nat" where
  "date_time_write_register_storage rtc = rtc_private rtc"
definition date_time_write_date_time :: "RTC_MCP7940N \<Rightarrow> nat" where
  "date_time_write_date_time rtc = rtc_private rtc + 8"
definition oscillator_bits_current_register_value :: "RTC_MCP7940N \<Rightarrow> nat" where
  "oscillator_bits_current_register_value rtc = rtc_private rtc"
definition oscillator_bits_transmit_buffer :: "RTC_MCP7940N \<Rightarrow> nat" where
  "oscillator_bits_transmit_buffer rtc = rtc_private rtc + 1"
definition oscillator_status_current_register_value :: "RTC_MCP7940N \<Rightarrow> nat" where
  "oscillator_status_current_register_value rtc = rtc_private rtc"
definition oscillator_status_return_status_ptr :: "RTC_MCP7940N \<Rightarrow> nat" where
  "oscillator_status_return_status_ptr rtc = rtc_private rtc + 4"
definition oscillator_status_transmit_buffer :: "RTC_MCP7940N \<Rightarrow> nat" where
  "oscillator_status_transmit_buffer rtc = rtc_private rtc + 8"
definition battery_bits_current_register_value :: "RTC_MCP7940N \<Rightarrow> nat" where
  "battery_bits_current_register_value rtc = rtc_private rtc"
definition battery_bits_transmit_buffer :: "RTC_MCP7940N \<Rightarrow> nat" where
  "battery_bits_transmit_buffer rtc = rtc_private rtc + 1"
definition battery_status_current_register_value :: "RTC_MCP7940N \<Rightarrow> nat" where
  "battery_status_current_register_value rtc = rtc_private rtc"
definition battery_status_return_status_ptr :: "RTC_MCP7940N \<Rightarrow> nat" where
  "battery_status_return_status_ptr rtc = rtc_private rtc + 4"
definition battery_status_transmit_buffer :: "RTC_MCP7940N \<Rightarrow> nat" where
  "battery_status_transmit_buffer rtc = rtc_private rtc + 8"
definition register_read_transmit_buffer :: "RTC_MCP7940N \<Rightarrow> nat" where
  "register_read_transmit_buffer rtc = rtc_private rtc"
definition register_write_transmit_buffer :: "RTC_MCP7940N \<Rightarrow> nat" where
  "register_write_transmit_buffer rtc = rtc_private rtc"
definition register_num_read_transmit_buffer :: "RTC_MCP7940N \<Rightarrow> nat" where
  "register_num_read_transmit_buffer rtc = rtc_private rtc"
definition register_num_write_transmit_buffer :: "RTC_MCP7940N \<Rightarrow> nat" where
  "register_num_write_transmit_buffer rtc = rtc_private rtc"

lemmas private_members [simp] =
  date_time_read_date_time_ptr_def date_time_read_transmit_buffer_def
  date_time_write_register_storage_def date_time_write_date_time_def
  oscillator_bits_current_register_value_def oscillator_bits_transmit_buffer_def
  oscillator_status_current_register_value_def oscillator_status_return_status_ptr_def
  oscillator_status_transmit_buffer_def battery_bits_current_register_value_def
  battery_bits_transmit_buffer_def battery_status_current_register_value_def
  battery_status_return_status_ptr_def battery_status_transmit_buffer_def
  register_read_transmit_buffer_def register_write_transmit_buffer_def
  register_num_read_transmit_buffer_def register_num_write_transmit_buffer_def

section \<open>Binary coded decimals\<close>

definition convertToBCD :: "u8 \<Rightarrow> u8" where
  "convertToBCD decimal = push_bit 4 (decimal div 10) OR (decimal mod 10)"

definition convertFromBCD :: "u8 \<Rightarrow> u8" where
  "convertFromBCD bcd =
     (let byte_msb = drop_bit 4 (bcd AND 0xf0);
          byte_lsb = bcd AND 0x0f
      in byte_msb * 10 + byte_lsb)"

section \<open>Communication\<close>

definition i2c_transferStatusGet ::
    "i2c_env \<Rightarrow> RTC_MCP7940N \<Rightarrow> world \<Rightarrow> DRV_I2C_BUFFER_EVENT \<times> world" where
  "i2c_transferStatusGet env rtc w =
     (let (status, w) = ask (i2c_status env)
            (IO_I2C (DRV_I2C_TransferStatusGet (i2c_handle rtc) (i2c_buffer_handle rtc))) w
      in (status, fold (\<lambda>(p, bs). poke p bs) (i2c_received env (log w)) w))"

definition i2c_checkReadyForTransmit :: "i2c_env \<Rightarrow> RTC_MCP7940N \<Rightarrow> world \<Rightarrow> bool \<times> world" where
  "i2c_checkReadyForTransmit env rtc w =
     (if i2c_buffer_handle rtc = None then (True, w)
      else let (status, w) = i2c_transferStatusGet env rtc w
           in (status = DRV_I2C_BUFFER_EVENT_COMPLETE \<or> status = DRV_I2C_BUFFER_EVENT_ERROR, w))"

definition i2c_transmit ::
    "i2c_env \<Rightarrow> RTC_MCP7940N \<Rightarrow> nat \<Rightarrow> nat \<Rightarrow> world \<Rightarrow> bool \<times> RTC_MCP7940N \<times> world" where
  "i2c_transmit env rtc transmit_buffer num_bytes w =
     (let (ready, w) = i2c_checkReadyForTransmit env rtc w in
      if \<not> ready then (False, rtc\<lparr>rtc_state := RTC_MCP7940N_STATE_ERROR\<rparr>, w)
      else
        let (handle, w) = ask (i2c_transmit_handle env)
              (IO_I2C (DRV_I2C_Transmit (i2c_handle rtc) (push_bit 1 MCP7940N_I2C_ADDRESS)
                 (load_bytes (mem w) transmit_buffer num_bytes))) w;
            rtc = rtc\<lparr>i2c_buffer_handle := handle\<rparr>
        in
        if i2c_buffer_handle rtc = None
        then (False, rtc\<lparr>rtc_state := RTC_MCP7940N_STATE_ERROR\<rparr>, w)
        else (True, rtc\<lparr>rtc_state := RTC_MCP7940N_STATE_I2C_STAUS_CHECK\<rparr>, w))"

definition i2c_transmitThenReceive ::
    "i2c_env \<Rightarrow> RTC_MCP7940N \<Rightarrow> nat \<Rightarrow> nat \<Rightarrow> nat \<Rightarrow> nat \<Rightarrow> world \<Rightarrow> bool \<times> RTC_MCP7940N \<times> world" where
  "i2c_transmitThenReceive env rtc transmit_buffer num_bytes_transmit
       receive_buffer num_bytes_receive w =
     (let (ready, w) = i2c_checkReadyForTransmit env rtc w in
      if \<not> ready then (False, rtc\<lparr>rtc_state := RTC_MCP7940N_STATE_ERROR\<rparr>, w)
      else
        let (handle, w) = ask (i2c_transmit_handle env)
              (IO_I2C (DRV_I2C_TransmitThenReceive (i2c_handle rtc)
                 (push_bit 1 MCP7940N_I2C_ADDRESS)
                 (load_bytes (mem w) transmit_buffer num_bytes_transmit)
                 receive_buffer num_bytes_receive)) w;
            rtc = rtc\<lparr>i2c_buffer_handle := handle\<rparr>
        in
        if i2c_buffer_handle rtc = None
        then (False, rtc\<lparr>rtc_state := RTC_MCP7940N_STATE_ERROR\<rparr>, w)
        else (True, rtc\<lparr>rtc_state := RTC_MCP7940N_STATE_I2C_STAUS_CHECK\<rparr>, w))"

definition i2c_transmitReadRegister ::
    "i2c_env \<Rightarrow> RTC_MCP7940N \<Rightarrow> nat \<Rightarrow> nat \<Rightarrow> nat \<Rightarrow> world \<Rightarrow> bool \<times> RTC_MCP7940N \<times> world" where
  "i2c_transmitReadRegister env rtc transmit_buffer receive_buffer num_bytes_receive w =
     i2c_transmitThenReceive env rtc transmit_buffer 1 receive_buffer num_bytes_receive w"

definition i2c_transmitUpdateSingleRegister ::
    "i2c_env \<Rightarrow> RTC_MCP7940N \<Rightarrow> nat \<Rightarrow> world \<Rightarrow> bool \<times> RTC_MCP7940N \<times> world" where
  "i2c_transmitUpdateSingleRegister env rtc transmit_buffer w =
     i2c_transmit env rtc transmit_buffer 2 w"

section \<open>Tasks run after a transfer\<close>

definition task_oscillator_enableOrDisable ::
    "i2c_env \<Rightarrow> RTC_MCP7940N \<times> world \<Rightarrow> RTC_MCP7940N \<times> world" where
  "task_oscillator_enableOrDisable env = (\<lambda>(rtc, w).
     let register_value = mem w (oscillator_bits_current_register_value rtc);
         (register_value, w) =
           (if next_task rtc = RTC_MCP7940N_TASK_OSCILLATOR_UPDATE_ENABLE
            then (register_value OR MCP7940N_FLAG_START_OSCILLATOR, w)
            else (register_value AND NOT MCP7940N_FLAG_START_OSCILLATOR,
                  SYS_ASSERT (next_task rtc = RTC_MCP7940N_TASK_OSCILLATOR_UPDATE_DISABLE)
                    ''Unexpected value of rtc->next_task'' w));
         transmit_buffer = oscillator_bits_transmit_buffer rtc;
         w = poke transmit_buffer [MCP7940N_REG_ADDR_SECONDS, register_value] w;
         (_, rtc, w) = i2c_transmitUpdateSingleRegister env rtc transmit_buffer w
     in (rtc\<lparr>next_task := RTC_MCP7940N_TASK_NONE\<rparr>, w))"

definition task_oscillator_postStatusReceive :: "RTC_MCP7940N \<times> world \<Rightarrow> RTC_MCP7940N \<times> world" where
  "task_oscillator_postStatusReceive = (\<lambda>(rtc, w).
     let register_value = mem w (oscillator_status_current_register_value rtc);
         enabled = register_value AND MCP7940N_FLAG_START_OSCILLATOR \<noteq> 0;
         w = poke (load_ptr (mem w) (oscillator_status_return_status_ptr rtc)) [of_bool enabled] w
     in (rtc\<lparr>next_task := RTC_MCP7940N_TASK_NONE\<rparr>, w))"

definition task_battery_enableOrDisable ::
    "i2c_env \<Rightarrow> RTC_MCP7940N \<times> world \<Rightarrow> RTC_MCP7940N \<times> world" where
  "task_battery_enableOrDisable env = (\<lambda>(rtc, w).
     let register_value = mem w (battery_bits_current_register_value rtc);
         (register_value, w) =
           (if next_task rtc = RTC_MCP7940N_TASK_BATTERY_UPDATE_ENABLE
            then (register_value OR MCP7940N_FLAG_BATTERY_ENABLE, w)
            else (register_value AND NOT MCP7940N_FLAG_BATTERY_ENABLE,
                  SYS_ASSERT (next_task rtc = RTC_MCP7940N_TASK_BATTERY_UPDATE_DISABLE)
                    ''Unexpected value of rtc->next_task'' w));
         transmit_buffer = battery_bits_transmit_buffer rtc;
         w = poke transmit_buffer [MCP7940N_REG_ADDR_DAY_OF_WEEK, register_value] w;
         (_, rtc, w) = i2c_transmitUpdateSingleRegister env rtc transmit_buffer w
     in (rtc\<lparr>next_task := RTC_MCP7940N_TASK_NONE\<rparr>, w))"

definition task_battery_postStatusReceive :: "RTC_MCP7940N \<times> world \<Rightarrow> RTC_MCP7940N \<times> world" where
  "task_battery_postStatusReceive = (\<lambda>(rtc, w).
     let register_value = mem w (battery_status_current_register_value rtc);
         enabled = register_value AND MCP7940N_FLAG_BATTERY_ENABLE \<noteq> 0;
         w = poke (load_ptr (mem w) (battery_status_return_status_ptr rtc)) [of_bool enabled] w
     in (rtc\<lparr>next_task := RTC_MCP7940N_TASK_NONE\<rparr>, w))"

text \<open>The registers to be written, from their old content and the date; the address comes first.\<close>

definition registers_of_date_time :: "u8 list \<Rightarrow> RTC_MCP7940N_DateTime \<Rightarrow> u8 list" where
  "registers_of_date_time reg t =
     [MCP7940N_REG_ADDR_SECONDS,
      (reg ! 1 AND NOT 0x7f) OR convertToBCD (seconds t),
      (reg ! 2 AND NOT 0x7f) OR convertToBCD (minutes t),
      (reg ! 3 AND NOT 0x3f) OR convertToBCD (hours t),
      (reg ! 4 AND NOT 0x7) OR convertToBCD (day_of_week t),
      (reg ! 5 AND NOT 0x3f) OR convertToBCD (day t),
      (reg ! 6 AND NOT 0xf) OR convertToBCD (month t),
      (reg ! 7 AND NOT 0xff) OR convertToBCD (year t)]"

definition task_datetime_convertToBCDAndTransmit ::
    "i2c_env \<Rightarrow> RTC_MCP7940N \<times> world \<Rightarrow> RTC_MCP7940N \<times> world" where
  "task_datetime_convertToBCDAndTransmit env = (\<lambda>(rtc, w).
     let num_registers = sizeof_DateTime;
         date_time = date_time_of_bytes
           (load_bytes (mem w) (date_time_write_date_time rtc) sizeof_DateTime);
         reg = date_time_write_register_storage rtc;
         w = poke reg (registers_of_date_time (load_bytes (mem w) reg 8) date_time) w;
         (_, rtc, w) = i2c_transmit env rtc reg (num_registers + 1) w
     in (rtc\<lparr>next_task := RTC_MCP7940N_TASK_NONE\<rparr>, w))"

definition date_time_of_registers :: "u8 list \<Rightarrow> RTC_MCP7940N_DateTime" where
  "date_time_of_registers bs =
     \<lparr>seconds = convertFromBCD (bs ! 0 AND 0x7f),
      minutes = convertFromBCD (bs ! 1 AND 0x7f),
      hours = convertFromBCD (bs ! 2 AND 0x3f),
      day_of_week = convertFromBCD (bs ! 3 AND 0x7),
      day = convertFromBCD (bs ! 4 AND 0x3f),
      month = convertFromBCD (bs ! 5 AND 0xf),
      year = convertFromBCD (bs ! 6 AND 0xff)\<rparr>"

definition task_datetime_convertFromBCD :: "RTC_MCP7940N \<times> world \<Rightarrow> RTC_MCP7940N \<times> world" where
  "task_datetime_convertFromBCD = (\<lambda>(rtc, w).
     let date_time = load_ptr (mem w) (date_time_read_date_time_ptr rtc);
         w = poke date_time (bytes_of_date_time
           (date_time_of_registers (load_bytes (mem w) date_time sizeof_DateTime))) w
     in (rtc\<lparr>rtc_state := RTC_MCP7940N_STATE_NONE, next_task := RTC_MCP7940N_TASK_NONE\<rparr>, w))"

definition i2c_taskCheckStatus :: "i2c_env \<Rightarrow> RTC_MCP7940N \<times> world \<Rightarrow> RTC_MCP7940N \<times> world" where
  "i2c_taskCheckStatus env = (\<lambda>(rtc, w).
     let (status, w) = i2c_transferStatusGet env rtc w in
     (case status of
        DRV_I2C_BUFFER_EVENT_COMPLETE \<Rightarrow>
          (case next_task rtc of
             RTC_MCP7940N_TASK_NONE \<Rightarrow> (rtc\<lparr>rtc_state := RTC_MCP7940N_STATE_NONE\<rparr>, w)
           | RTC_MCP7940N_TASK_OSCILLATOR_UPDATE_ENABLE \<Rightarrow> task_oscillator_enableOrDisable env (rtc, w)
           | RTC_MCP7940N_TASK_OSCILLATOR_UPDATE_DISABLE \<Rightarrow> task_oscillator_enableOrDisable env (rtc, w)
           | RTC_MCP7940N_TASK_OSCILLATOR_UPDATE_STATUS \<Rightarrow> task_oscillator_postStatusReceive (rtc, w)
           | RTC_MCP7940N_TASK_BATTERY_UPDATE_ENABLE \<Rightarrow> task_battery_enableOrDisable env (rtc, w)
           | RTC_MCP7940N_TASK_BATTERY_UPDATE_DISABLE \<Rightarrow> task_battery_enableOrDisable env (rtc, w)
           | RTC_MCP7940N_TASK_BATTERY_UPDATE_STATUS \<Rightarrow>
               task_battery_postStatusReceive (rtc\<lparr>next_task := RTC_MCP7940N_TASK_NONE\<rparr>, w)
           | RTC_MCP7940N_TASK_DATE_TIME_CONVERT_BCD \<Rightarrow> task_datetime_convertFromBCD (rtc, w)
           | RTC_MCP7940N_TASK_DATE_TIME_UPDATE_AND_TRANSMIT \<Rightarrow>
               task_datetime_convertToBCDAndTransmit env (rtc, w))
      | DRV_I2C_BUFFER_EVENT_ERROR \<Rightarrow> (rtc\<lparr>rtc_state := RTC_MCP7940N_STATE_ERROR\<rparr>, w)
      | DRV_I2C_BUFFER_EVENT_PENDING \<Rightarrow> (rtc, w)))"

section \<open>Public functions\<close>

definition sizeof_private :: nat where "sizeof_private = 32"

definition RTC_MCP7940N_Initialize ::
    "i2c_env \<Rightarrow> RTC_MCP7940N \<Rightarrow> nat \<Rightarrow> world \<Rightarrow> bool \<times> RTC_MCP7940N \<times> world" where
  "RTC_MCP7940N_Initialize env rtc i2c_module_index w =
     (let w = poke (rtc_private rtc) (replicate sizeof_private 0) w;
          (handle, w) = ask (i2c_open env) (IO_I2C (DRV_I2C_Open i2c_module_index)) w;
          rtc = rtc\<lparr>rtc_state := RTC_MCP7940N_STATE_NONE, next_task := RTC_MCP7940N_TASK_NONE,
                    i2c_handle := handle, i2c_buffer_handle := None\<rparr>
      in
      if i2c_handle rtc = None then (False, rtc\<lparr>rtc_state := RTC_MCP7940N_STATE_ERROR\<rparr>, w)
      else (True, rtc, w))"

definition RTC_MCP7940N_Tasks :: "i2c_env \<Rightarrow> RTC_MCP7940N \<times> world \<Rightarrow> RTC_MCP7940N \<times> world" where
  "RTC_MCP7940N_Tasks env = (\<lambda>(rtc, w).
     case rtc_state rtc of
       RTC_MCP7940N_STATE_NONE \<Rightarrow> (rtc, w)
     | RTC_MCP7940N_STATE_ERROR \<Rightarrow> (rtc, w)
     | RTC_MCP7940N_STATE_I2C_STAUS_CHECK \<Rightarrow> i2c_taskCheckStatus env (rtc, w))"

definition RTC_MCP7940N_IsBusy :: "RTC_MCP7940N \<Rightarrow> bool" where
  "RTC_MCP7940N_IsBusy rtc \<longleftrightarrow>
     \<not> (rtc_state rtc = RTC_MCP7940N_STATE_NONE \<or> rtc_state rtc = RTC_MCP7940N_STATE_ERROR)"

definition RTC_MCP7940N_ReadNumRegisters ::
    "i2c_env \<Rightarrow> nat \<Rightarrow> nat \<Rightarrow> RTC_MCP7940N \<times> world \<Rightarrow> RTC_MCP7940N \<times> world" where
  "RTC_MCP7940N_ReadNumRegisters env register_storage num_registers = (\<lambda>(rtc, w).
     let w = SYS_ASSERT (num_registers \<le> RTC_MCP7940N_NUM_REGISTERS)
               ''Attempt to read too many registers'' w;
         transmit_buffer = register_num_read_transmit_buffer rtc;
         w = poke transmit_buffer [MCP7940N_REG_ADDR_SECONDS] w;
         (_, rtc, w) = i2c_transmitReadRegister env rtc transmit_buffer register_storage num_registers w
     in (rtc, w))"

text \<open>
  The copy runs past the 31 bytes of \<open>register_num_write.transmit_buffer\<close> when all 31
  registers are written after the address byte.
\<close>

definition RTC_MCP7940N_WriteNumRegisters ::
    "i2c_env \<Rightarrow> nat \<Rightarrow> nat \<Rightarrow> RTC_MCP7940N \<times> world \<Rightarrow> (RTC_MCP7940N \<times> world) option" where
  "RTC_MCP7940N_WriteNumRegisters env register_storage num_registers = (\<lambda>(rtc, w).
     let w = SYS_ASSERT (num_registers \<le> RTC_MCP7940N_NUM_REGISTERS)
               ''Attempt to read too many registers'' w;
         transmit_buffer = register_num_write_transmit_buffer rtc;
         w = poke transmit_buffer [MCP7940N_REG_ADDR_SECONDS] w
     in
     if 1 + num_registers > RTC_MCP7940N_NUM_REGISTERS then None
     else
       let w = poke (transmit_buffer + 1) (load_bytes (mem w) register_storage num_registers) w;
           (_, rtc, w) = i2c_transmit env rtc transmit_buffer (num_registers + 1) w
       in Some (rtc, w))"

definition RTC_MCP7940N_WriteDateAndTime ::
    "i2c_env \<Rightarrow> nat \<Rightarrow> RTC_MCP7940N \<times> world \<Rightarrow> RTC_MCP7940N \<times> world" where
  "RTC_MCP7940N_WriteDateAndTime env date_time = (\<lambda>(rtc, w).
     let rtc = rtc\<lparr>next_task := RTC_MCP7940N_TASK_DATE_TIME_UPDATE_AND_TRANSMIT\<rparr>;
         w = poke (date_time_write_date_time rtc) (load_bytes (mem w) date_time sizeof_DateTime) w
     in RTC_MCP7940N_ReadNumRegisters env (date_time_write_register_storage rtc + 1)
          sizeof_DateTime (rtc, w))"

definition RTC_MCP7940N_ReadDateAndTime ::
    "i2c_env \<Rightarrow> nat \<Rightarrow> RTC_MCP7940N \<times> world \<Rightarrow> RTC_MCP7940N \<times> world" where
  "RTC_MCP7940N_ReadDateAndTime env date_time = (\<lambda>(rtc, w).
     let transmit_buffer = date_time_read_transmit_buffer rtc;
         w = poke transmit_buffer [MCP7940N_REG_ADDR_SECONDS] w;
         rtc = rtc\<lparr>next_task := RTC_MCP7940N_TASK_DATE_TIME_CONVERT_BCD\<rparr>;
         w = w\<lparr>mem := store_ptr (date_time_read_date_time_ptr rtc) date_time (mem w)\<rparr>;
         (_, rtc, w) = i2c_transmitReadRegister env rtc transmit_buffer date_time sizeof_DateTime w
     in (rtc, w))"

definition RTC_MCP7940N_ReadRegister ::
    "i2c_env \<Rightarrow> u8 \<Rightarrow> nat \<Rightarrow> RTC_MCP7940N \<times> world \<Rightarrow> RTC_MCP7940N \<times> world" where
  "RTC_MCP7940N_ReadRegister env register_address register_value = (\<lambda>(rtc, w).
     let transmit_buffer = register_read_transmit_buffer rtc;
         w = poke transmit_buffer [register_address] w;
         (_, rtc, w) = i2c_transmitReadRegister env rtc transmit_buffer register_value 1 w
     in (rtc, w))"

definition RTC_MCP7940N_WriteRegister ::
    "i2c_env \<Rightarrow> u8 \<Rightarrow> u8 \<Rightarrow> RTC_MCP7940N \<times> world \<Rightarrow> RTC_MCP7940N \<times> world" where
  "RTC_MCP7940N_WriteRegister env register_address register_value = (\<lambda>(rtc, w).
     let transmit_buffer = register_write_transmit_buffer rtc;
         w = poke transmit_buffer [register_address, register_value] w;
         (_, rtc, w) = i2c_transmitUpdateSingleRegister env rtc transmit_buffer w
     in (rtc, w))"

definition RTC_MCP7940N_EnableOscillator ::
    "i2c_env \<Rightarrow> bool \<Rightarrow> RTC_MCP7940N \<times> world \<Rightarrow> RTC_MCP7940N \<times> world" where
  "RTC_MCP7940N_EnableOscillator env enable = (\<lambda>(rtc, w).
     let transmit_buffer = oscillator_bits_transmit_buffer rtc;
         w = poke transmit_buffer [MCP7940N_REG_ADDR_SECONDS] w;
         rtc = rtc\<lparr>next_task := if enable then RTC_MCP7940N_TASK_OSCILLATOR_UPDATE_ENABLE
                               else RTC_MCP7940N_TASK_OSCILLATOR_UPDATE_DISABLE\<rparr>;
         (_, rtc, w) = i2c_transmitReadRegister env rtc transmit_buffer
           (oscillator_bits_current_register_value rtc) 1 w
     in (rtc, w))"

definition RTC_MCP7940N_OscillatorStatus ::
    "i2c_env \<Rightarrow> nat \<Rightarrow> RTC_MCP7940N \<times> world \<Rightarrow> RTC_MCP7940N \<times> world" where
  "RTC_MCP7940N_OscillatorStatus env enabled = (\<lambda>(rtc, w).
     let transmit_buffer = oscillator_status_transmit_buffer rtc;
         w = poke transmit_buffer [MCP7940N_REG_ADDR_SECONDS] w;
         rtc = rtc\<lparr>next_task := RTC_MCP7940N_TASK_OSCILLATOR_UPDATE_STATUS\<rparr>;
         w = w\<lparr>mem := store_ptr (oscillator_status_return_status_ptr rtc) enabled (mem w)\<rparr>;
         (_, rtc, w) = i2c_transmitReadRegister env rtc transmit_buffer
           (oscillator_status_current_register_value rtc) 1 w
     in (rtc, w))"

definition RTC_MCP7940N_EnableBatteryBackup ::
    "i2c_env \<Rightarrow> bool \<Rightarrow> RTC_MCP7940N \<times> world \<Rightarrow> RTC_MCP7940N \<times> world" where
  "RTC_MCP7940N_EnableBatteryBackup env enable = (\<lambda>(rtc, w).
     let transmit_buffer = battery_bits_transmit_buffer rtc;
         w = poke transmit_buffer [MCP7940N_REG_ADDR_DAY_OF_WEEK] w;
         rtc = rtc\<lparr>next_task := if enable then RTC_MCP7940N_TASK_BATTERY_UPDATE_ENABLE
                               else RTC_MCP7940N_TASK_BATTERY_UPDATE_DISABLE\<rparr>;
         (_, rtc, w) = i2c_transmitReadRegister env rtc transmit_buffer
           (battery_bits_current_register_value rtc) 1 w
     in (rtc, w))"

definition RTC_MCP7940N_BatteryBackupStatus ::
    "i2c_env \<Rightarrow> nat \<Rightarrow> RTC_MCP7940N \<times> world \<Rightarrow> RTC_MCP7940N \<times> world" where
  "RTC_MCP7940N_BatteryBackupStatus env enabled = (\<lambda>(rtc, w).
     let transmit_buffer = battery_status_transmit_buffer rtc;
         w = poke transmit_buffer [MCP7940N_REG_ADDR_DAY_OF_WEEK] w;
         rtc = rtc\<lparr>next_task := RTC_MCP7940N_TASK_BATTERY_UPDATE_STATUS\<rparr>;
         w = w\<lparr>mem := store_ptr (battery_status_return_status_ptr rtc) enabled (mem w)\<rparr>;
         (_, rtc, w) = i2c_transmitReadRegister env rtc transmit_buffer
           (battery_status_current_register_value rtc) 1 w
     in (rtc, w))"

end
