(* ===== verification/App_Power.thy ===== *)
theory App_Power
  imports Rtc_Mcp7940n
begin

text \<open>
  The two smallest modules: \<open>firmware/src/app_power.c\<close>, the switch of the high-voltage supply,
  and \<open>firmware/src/app_rtc.c\<close>, the application's handle of the RTC driver.
\<close>

section \<open>app_power.c\<close>

datatype AppPowerSupply = APP_POWER_SUPPLY_HV

definition APP_Power_Initialize :: "world \<Rightarrow> world" where
  "APP_Power_Initialize w = w"

definition APP_Power_Enable :: "AppPowerSupply \<Rightarrow> bool \<Rightarrow> world \<Rightarrow> world" where
  "APP_Power_Enable power_supply enabled w =
     (case power_supply of APP_POWER_SUPPLY_HV \<Rightarrow> pin_StateSet HV_EN (if enabled then 0 else 1) w)"

section \<open>app_rtc.c\<close>

record AppRTCData =
  rtc_handle :: RTC_MCP7940N

definition APP_RTC_Initialize :: "i2c_env \<Rightarrow> AppRTCData \<times> world \<Rightarrow> AppRTCData \<times> world" where
  "APP_RTC_Initialize env = (\<lambda>(data, w).
     let (_, rtc, w) = RTC_MCP7940N_Initialize env (rtc_handle data) 0 w
     in (data\<lparr>rtc_handle := rtc\<rparr>, w))"

definition APP_RTC_Tasks :: "i2c_env \<Rightarrow> AppRTCData \<times> world \<Rightarrow> AppRTCData \<times> world" where
  "APP_RTC_Tasks env = (\<lambda>(data, w).
     let (rtc, w) = RTC_MCP7940N_Tasks env (rtc_handle data, w)
     in (data\<lparr>rtc_handle := rtc\<rparr>, w))"

end
