(* ===== verification/App_Usb_Hid.thy ===== *)
theory App_Usb_Hid
  imports Harmony
begin

text \<open>
  \<open>firmware/src/app_usb_hid.c\<close>, \<open>app_usb_hid_utils.c\<close> and their headers: the USB HID
  state machine and the event handlers that the device layer calls between its ticks. The runs of
  the component are an inductive relation over both, with the read request that the driver holds;
  the invariant is that a configured device always has a request outstanding or data to fetch.
\<close>

datatype AppUSBHIDState =
    APP_USB_HID_STATE_INIT
  | APP_USB_HID_STATE_WAIT_FOR_CONFIGURATION
  | APP_USB_HID_STATE_MAIN_TASK
  | APP_USB_HID_STATE_ERROR

record AppUSBHIDData =
  usb_state :: AppUSBHIDState
  us_handle :: "u32 option"
  is_device_configured :: bool
  tx_transfer_handle :: "u32 option"
  rx_transfer_handle :: "u32 option"
  configuration_value :: u8
  is_hid_data_received :: bool
  is_hid_data_transmitted :: bool
  idle_rate :: u8

definition APP_USB_HID_Initialize :: "AppUSBHIDData \<Rightarrow> AppUSBHIDData" where
  "APP_USB_HID_Initialize data = data\<lparr>usb_state := APP_USB_HID_STATE_INIT, us_handle := None,
     is_device_configured := False, tx_transfer_handle := None, rx_transfer_handle := None,
     is_hid_data_received := False, is_hid_data_transmitted := True\<rparr>"

text \<open>A new read request: the driver stores its handle in \<open>rx_transfer_handle\<close>.\<close>

definition reportReceive :: "usb_env \<Rightarrow> AppUSBHIDData \<times> world \<Rightarrow> AppUSBHIDData \<times> world" where
  "reportReceive env = (\<lambda>(data, w).
     let (handle, w) = ask (usb_receive_handle env) (IO_USB (USB_DEVICE_HID_ReportReceive 64)) w
     in (data\<lparr>rx_transfer_handle := handle\<rparr>, w))"

definition APP_USB_HID_Tasks :: "usb_env \<Rightarrow> AppUSBHIDData \<times> world \<Rightarrow> AppUSBHIDData \<times> world" where
  "APP_USB_HID_Tasks env = (\<lambda>(data, w).
     case usb_state data of
       APP_USB_HID_STATE_INIT \<Rightarrow>
         (let (handle, w) = ask (usb_open env) (IO_USB USB_DEVICE_Open) w;
              data = data\<lparr>us_handle := handle\<rparr>
          in
          if us_handle data \<noteq> None then
            (data\<lparr>usb_state := APP_USB_HID_STATE_WAIT_FOR_CONFIGURATION\<rparr>,
             tell (IO_USB (USB_DEVICE_EventHandlerSet (us_handle data))) w)
          else (data, w))
     | APP_USB_HID_STATE_WAIT_FOR_CONFIGURATION \<Rightarrow>
         (if is_device_configured data then
            reportReceive env (data\<lparr>is_hid_data_received := False, is_hid_data_transmitted := True,
                                    usb_state := APP_USB_HID_STATE_MAIN_TASK\<rparr>, w)
          else (data, w))
     | APP_USB_HID_STATE_MAIN_TASK \<Rightarrow>
         (if \<not> is_device_configured data then
            (data\<lparr>usb_state := APP_USB_HID_STATE_WAIT_FOR_CONFIGURATION\<rparr>, w)
          else if is_hid_data_received data then
            reportReceive env (data\<lparr>is_hid_data_received := False\<rparr>, w)
          else (data, w))
     | APP_USB_HID_STATE_ERROR \<Rightarrow> (data, w))"

section \<open>Event handlers\<close>

datatype USB_DEVICE_HID_EVENT =
    USB_DEVICE_HID_EVENT_REPORT_SENT "u32 option"
  | USB_DEVICE_HID_EVENT_REPORT_RECEIVED "u32 option"
  | USB_DEVICE_HID_EVENT_SET_IDLE u8
  | USB_DEVICE_HID_EVENT_GET_IDLE
  | USB_DEVICE_HID_EVENT_OTHER

datatype USB_DEVICE_EVENT =
    USB_DEVICE_EVENT_RESET
  | USB_DEVICE_EVENT_DECONFIGURED
  | USB_DEVICE_EVENT_CONFIGURED u8
  | USB_DEVICE_EVENT_SUSPENDED
  | USB_DEVICE_EVENT_POWER_DETECTED
  | USB_DEVICE_EVENT_POWER_REMOVED
  | USB_DEVICE_EVENT_RESUMED
  | USB_DEVICE_EVENT_ERROR

definition APP_USB_DeviceHIDEventHandler ::
    "USB_DEVICE_HID_EVENT \<Rightarrow> AppUSBHIDData \<times> world \<Rightarrow> AppUSBHIDData \<times> world" where
  "APP_USB_DeviceHIDEventHandler event = (\<lambda>(data, w).
     case event of
       USB_DEVICE_HID_EVENT_REPORT_SENT handle \<Rightarrow>
         (if handle = tx_transfer_handle data then data\<lparr>is_hid_data_transmitted := True\<rparr> else data, w)
     | USB_DEVICE_HID_EVENT_REPORT_RECEIVED handle \<Rightarrow>
         (if handle = rx_transfer_handle data then data\<lparr>is_hid_data_received := True\<rparr> else data, w)
     | USB_DEVICE_HID_EVENT_SET_IDLE duration \<Rightarrow>
         (data\<lparr>idle_rate := duration\<rparr>, tell (IO_USB (USB_DEVICE_ControlStatus (us_handle data))) w)
     | USB_DEVICE_HID_EVENT_GET_IDLE \<Rightarrow>
         (data, tell (IO_USB (USB_DEVICE_ControlSend (us_handle data) (idle_rate data))) w)
     | USB_DEVICE_HID_EVENT_OTHER \<Rightarrow> (data, w))"

definition APP_USB_DeviceEventHandler ::
    "USB_DEVICE_EVENT \<Rightarrow> AppUSBHIDData \<times> world \<Rightarrow> AppUSBHIDData \<times> world" where
  "APP_USB_DeviceEventHandler event = (\<lambda>(data, w).
     let deconfigured = (data\<lparr>is_device_configured := False,
                              usb_state := APP_USB_HID_STATE_WAIT_FOR_CONFIGURATION\<rparr>, w) in
     case event of
       USB_DEVICE_EVENT_RESET \<Rightarrow> deconfigured
     | USB_DEVICE_EVENT_DECONFIGURED \<Rightarrow> deconfigured
     | USB_DEVICE_EVENT_CONFIGURED v \<Rightarrow>
         (data\<lparr>is_device_configured := True, configuration_value := v\<rparr>,
          tell (IO_USB USB_DEVICE_HID_EventHandlerSet) w)
     | USB_DEVICE_EVENT_SUSPENDED \<Rightarrow> (data, w)
     | USB_DEVICE_EVENT_POWER_DETECTED \<Rightarrow> (data, tell (IO_USB (USB_DEVICE_Attach (us_handle data))) w)
     | USB_DEVICE_EVENT_POWER_REMOVED \<Rightarrow> (data, tell (IO_USB (USB_DEVICE_Detach (us_handle data))) w)
     | USB_DEVICE_EVENT_RESUMED \<Rightarrow> (data, w)
     | USB_DEVICE_EVENT_ERROR \<Rightarrow> (data, w))"

section \<open>Runs\<close>

definition requests :: "io list \<Rightarrow> nat" where
  "requests es = length (filter (\<lambda>e. e = IO_USB (USB_DEVICE_HID_ReportReceive 64)) es)"

lemma requests_append [simp]: "requests (xs @ ys) = requests xs + requests ys"
  by (simp add: requests_def)

lemma requests_simps [simp]:
  "requests [] = 0"
  "requests (e # es) = (if e = IO_USB (USB_DEVICE_HID_ReportReceive 64) then 1 else 0) + requests es"
  by (simp_all add: requests_def)

text \<open>
  The states reachable by ticks and events, with the request the driver holds: a new one replaces
  it, and the driver reports data only for it. Device events come once the handler is registered,
  that is, after the state machine has left its initial state.
\<close>

inductive usb_reach :: "usb_env \<Rightarrow> AppUSBHIDData \<times> world \<Rightarrow> u32 option option \<Rightarrow> bool"
  for env :: usb_env where
  usb_start: "usb_reach env (APP_USB_HID_Initialize data, w) None"
| usb_tick: "usb_reach env s held \<Longrightarrow> s' = APP_USB_HID_Tasks env s \<Longrightarrow>
    usb_reach env s' (if requests (log (snd s)) < requests (log (snd s'))
                      then Some (rx_transfer_handle (fst s')) else held)"
| usb_data: "usb_reach env s (Some handle) \<Longrightarrow>
    usb_reach env (APP_USB_DeviceHIDEventHandler (USB_DEVICE_HID_EVENT_REPORT_RECEIVED handle) s) None"
| usb_hid: "usb_reach env s held \<Longrightarrow>
    event \<in> {USB_DEVICE_HID_EVENT_SET_IDLE d, USB_DEVICE_HID_EVENT_GET_IDLE, USB_DEVICE_HID_EVENT_OTHER,
             USB_DEVICE_HID_EVENT_REPORT_SENT h} \<Longrightarrow>
    usb_reach env (APP_USB_DeviceHIDEventHandler event s) held"
| usb_device: "usb_reach env s held \<Longrightarrow> usb_state (fst s) \<noteq> APP_USB_HID_STATE_INIT \<Longrightarrow>
    usb_reach env (APP_USB_DeviceEventHandler event s) held"

definition usb_inv :: "AppUSBHIDData \<Rightarrow> u32 option option \<Rightarrow> bool" where
  "usb_inv d held \<longleftrightarrow>
     (usb_state d = APP_USB_HID_STATE_MAIN_TASK \<longrightarrow>
        is_hid_data_received d \<or> held = Some (rx_transfer_handle d)) \<and>
     (held \<noteq> None \<longrightarrow> held = Some (rx_transfer_handle d)) \<and>
     usb_state d \<noteq> APP_USB_HID_STATE_ERROR"

lemma usb_inv_tick:
  assumes "usb_inv (fst s) held"
  shows "usb_inv (fst (APP_USB_HID_Tasks env s))
    (if requests (log (snd s)) < requests (log (snd (APP_USB_HID_Tasks env s)))
     then Some (rx_transfer_handle (fst (APP_USB_HID_Tasks env s))) else held)"
proof -
  obtain d w where s: "s = (d, w)" by (cases s)
  show ?thesis
    using assms
    by (cases "usb_state d")
      (auto simp: s usb_inv_def APP_USB_HID_Tasks_def reportReceive_def ask_split Let_def)
qed

lemma usb_inv_reach: "usb_reach env s held \<Longrightarrow> usb_inv (fst s) held"
proof (induction rule: usb_reach.induct)
  case (usb_start data w)
  show ?case by (simp add: usb_inv_def APP_USB_HID_Initialize_def)
next
  case (usb_tick s held s')
  then show ?case unfolding usb_tick.hyps(2) by (intro usb_inv_tick)
next
  case (usb_data s handle)
  then show ?case
    by (cases s) (auto simp: usb_inv_def APP_USB_DeviceHIDEventHandler_def)
next
  case (usb_hid s held event d h)
  then show ?case
    by (cases s) (auto simp: usb_inv_def APP_USB_DeviceHIDEventHandler_def split: if_splits)
next
  case (usb_device s held event)
  then show ?case
    by (cases s; cases event) (auto simp: usb_inv_def APP_USB_DeviceEventHandler_def Let_def)
qed


definition sample_usb :: usb_env where
  "sample_usb = \<lparr>usb_open = (\<lambda>_. Some 7), usb_receive_handle = (\<lambda>l. Some (of_nat (length l)))\<rparr>"

definition sample_usb_data :: AppUSBHIDData where
  "sample_usb_data = \<lparr>usb_state = APP_USB_HID_STATE_ERROR, us_handle = None, is_device_configured = True,
     tx_transfer_handle = None, rx_transfer_handle = None, configuration_value = 0,
     is_hid_data_received = False, is_hid_data_transmitted = False, idle_rate = 0\<rparr>"

text \<open>A run: opened, configured, and the first request placed.\<close>

definition sample_usb_run :: "AppUSBHIDData \<times> world" where
  "sample_usb_run = APP_USB_HID_Tasks sample_usb (APP_USB_DeviceEventHandler (USB_DEVICE_EVENT_CONFIGURED 1)
     (APP_USB_HID_Tasks sample_usb (APP_USB_HID_Initialize sample_usb_data, empty_world)))"

lemma sample_usb_state:
  "fst sample_usb_run = sample_usb_data\<lparr>usb_state := APP_USB_HID_STATE_MAIN_TASK, us_handle := Some 7,
     is_device_configured := True, rx_transfer_handle := Some 4, configuration_value := 1,
     is_hid_data_received := False, is_hid_data_transmitted := True\<rparr>"
  by (simp add: sample_usb_run_def sample_usb_def sample_usb_data_def APP_USB_HID_Tasks_def reportReceive_def
      APP_USB_HID_Initialize_def APP_USB_DeviceEventHandler_def ask_split empty_world_def Let_def)

lemma sample_usb_reach: "usb_reach sample_usb sample_usb_run (Some (Some 4))"
proof -
  let ?s1 = "APP_USB_HID_Tasks sample_usb (APP_USB_HID_Initialize sample_usb_data, empty_world)"
  have "usb_reach sample_usb ?s1 None"
    using usb_tick [OF usb_start [of sample_usb sample_usb_data empty_world] refl]
    by (simp add: APP_USB_HID_Tasks_def APP_USB_HID_Initialize_def sample_usb_def ask_split empty_world_def)
  then have "usb_reach sample_usb (APP_USB_DeviceEventHandler (USB_DEVICE_EVENT_CONFIGURED 1) ?s1) None"
    by (rule usb_device)
      (simp add: APP_USB_HID_Tasks_def APP_USB_HID_Initialize_def sample_usb_def ask_split)
  from usb_tick [OF this refl] have "usb_reach sample_usb sample_usb_run
      (if requests (log (snd (APP_USB_DeviceEventHandler (USB_DEVICE_EVENT_CONFIGURED 1) ?s1)))
          < requests (log (snd sample_usb_run))
       then Some (rx_transfer_handle (fst sample_usb_run)) else None)"
    by (simp only: sample_usb_run_def)
  moreover have "requests (log (snd (APP_USB_DeviceEventHandler (USB_DEVICE_EVENT_CONFIGURED 1) ?s1)))
      < requests (log (snd sample_usb_run))"
    by (simp add: sample_usb_run_def APP_USB_HID_Tasks_def APP_USB_HID_Initialize_def sample_usb_def
        APP_USB_DeviceEventHandler_def reportReceive_def ask_split empty_world_def Let_def)
  ultimately show ?thesis by (simp add: sample_usb_state)
qed


end
