(* ===== verification/App_Command_Task.thy ===== *)
theory App_Command_Task
  imports Harmony
begin

text \<open>
  The scheduler of console commands (\<open>app_command_task.c\<close>): one task at a time, which waits for
  its resource, is invoked once, and is then updated until it says that it is finished. Callbacks are
  names here, which the functions \<open>check\<close> and \<open>run\<close> interpret; the task data lives in the
  application's state, where \<open>task\<close> reads and \<open>set_task\<close> writes it. Locales state what a
  scheduler needs of that state, and what follows for a command that polls a resource.
\<close>

datatype AppCommandTaskCallbackMode =
    APP_COMMAND_TASK_MODE_CALLBACK_INVOKE
  | APP_COMMAND_TASK_MODE_CALLBACK_UPDATE

datatype AppCommandTaskCallbackResult =
    APP_COMMAND_TASK_RESULT_RUNNING
  | APP_COMMAND_TASK_RESULT_FINISHED

datatype AppCommandTaskState =
    APP_COMMAND_TASK_STATE_NONE
  | APP_COMMAND_TASK_STATE_WAIT_AVAILABLE
  | APP_COMMAND_TASK_STATE_RUNNING

text \<open>A console device; \<open>None\<close> is NULL.\<close>

type_synonym cmd_io = "nat option"

record ('t, 'c) AppCommandTaskData =
  task_state :: AppCommandTaskState
  task_callback :: "'t option"
  callback_cmd_io :: cmd_io
  callback_check_available :: "'c option"

definition appCmdTaskSetCallback ::
    "cmd_io \<Rightarrow> 't option \<Rightarrow> 'c option \<Rightarrow> ('t, 'c) AppCommandTaskData \<Rightarrow> ('t, 'c) AppCommandTaskData" where
  "appCmdTaskSetCallback cmd_io callback check data =
     data\<lparr>callback_cmd_io := cmd_io, task_callback := callback, callback_check_available := check\<rparr>"

definition checkCallbackResult ::
    "AppCommandTaskCallbackResult \<Rightarrow> ('t, 'c) AppCommandTaskData \<Rightarrow> ('t, 'c) AppCommandTaskData" where
  "checkCallbackResult result data =
     (case result of
        APP_COMMAND_TASK_RESULT_RUNNING \<Rightarrow> data\<lparr>task_state := APP_COMMAND_TASK_STATE_RUNNING\<rparr>
      | APP_COMMAND_TASK_RESULT_FINISHED \<Rightarrow>
          appCmdTaskSetCallback None None None (data\<lparr>task_state := APP_COMMAND_TASK_STATE_NONE\<rparr>))"

definition APP_Command_Task_Initialize :: "('t, 'c) AppCommandTaskData \<Rightarrow> ('t, 'c) AppCommandTaskData" where
  "APP_Command_Task_Initialize data =
     appCmdTaskSetCallback None None None (data\<lparr>task_state := APP_COMMAND_TASK_STATE_NONE\<rparr>)"

definition APP_Command_Task_IsBusy :: "('t, 'c) AppCommandTaskData \<Rightarrow> bool" where
  "APP_Command_Task_IsBusy data \<longleftrightarrow> task_state data \<noteq> APP_COMMAND_TASK_STATE_NONE"

definition APP_Command_Task_Schedule ::
    "cmd_io \<Rightarrow> 't \<Rightarrow> 'c \<Rightarrow> ('t, 'c) AppCommandTaskData \<times> world \<Rightarrow> ('t, 'c) AppCommandTaskData \<times> world" where
  "APP_Command_Task_Schedule cmd_io callback check = (\<lambda>(data, w).
     let w = SYS_ASSERT (task_state data = APP_COMMAND_TASK_STATE_NONE)
               ''Attempt to start task while another one is in process'' w;
         data = data\<lparr>task_state := APP_COMMAND_TASK_STATE_WAIT_AVAILABLE\<rparr>
     in (appCmdTaskSetCallback cmd_io (Some callback) (Some check) data, w))"

text \<open>Calling a NULL callback is undefined.\<close>

definition APP_Command_Task_Tasks ::
    "('c \<Rightarrow> 'a \<Rightarrow> bool) \<Rightarrow>
     ('t \<Rightarrow> cmd_io \<Rightarrow> AppCommandTaskCallbackMode \<Rightarrow> 'a \<Rightarrow> (AppCommandTaskCallbackResult \<times> 'a) option) \<Rightarrow>
     ('a \<Rightarrow> ('t, 'c) AppCommandTaskData) \<Rightarrow> (('t, 'c) AppCommandTaskData \<Rightarrow> 'a \<Rightarrow> 'a) \<Rightarrow> 'a \<Rightarrow> 'a option" where
  "APP_Command_Task_Tasks check run task set_task app =
     (case task_state (task app) of
        APP_COMMAND_TASK_STATE_NONE \<Rightarrow> Some app
      | APP_COMMAND_TASK_STATE_WAIT_AVAILABLE \<Rightarrow> do {
          available \<leftarrow> callback_check_available (task app);
          (if check available app then do {
             let app = set_task ((task app)\<lparr>task_state := APP_COMMAND_TASK_STATE_RUNNING\<rparr>) app;
             callback \<leftarrow> task_callback (task app);
             (result, app) \<leftarrow> run callback (callback_cmd_io (task app)) APP_COMMAND_TASK_MODE_CALLBACK_INVOKE app;
             Some (set_task (checkCallbackResult result (task app)) app)
           }
           else Some app)
        }
      | APP_COMMAND_TASK_STATE_RUNNING \<Rightarrow> do {
          callback \<leftarrow> task_callback (task app);
          (result, app) \<leftarrow> run callback (callback_cmd_io (task app)) APP_COMMAND_TASK_MODE_CALLBACK_UPDATE app;
          Some (set_task (checkCallbackResult result (task app)) app)
        })"

section \<open>Interfaces\<close>

text \<open>The state that holds the task data.\<close>

locale task_host =
  fixes task :: "'a \<Rightarrow> ('t, 'c) AppCommandTaskData"
    and set_task :: "('t, 'c) AppCommandTaskData \<Rightarrow> 'a \<Rightarrow> 'a"
  assumes task_set [simp]: "task (set_task t a) = t"
    and set_set [simp]: "set_task t (set_task u a) = set_task t a"
    and set_same [simp]: "set_task (task a) a = a"

text \<open>
  A command \<open>t\<close> with its check \<open>c\<close>: available while the resource is not busy; invoking it runs
  \<open>start\<close> and goes on; updating it finishes with \<open>finish\<close> once nothing is pending. Neither the
  resource nor the two actions look at the task data.
\<close>

locale polled_command = task_host task set_task
  for task :: "'a \<Rightarrow> ('t, 'c) AppCommandTaskData" and set_task +
  fixes check :: "'c \<Rightarrow> 'a \<Rightarrow> bool"
    and run :: "'t \<Rightarrow> cmd_io \<Rightarrow> AppCommandTaskCallbackMode \<Rightarrow> 'a \<Rightarrow> (AppCommandTaskCallbackResult \<times> 'a) option"
    and t :: 't and c :: 'c
    and busy :: "'a \<Rightarrow> bool" and pending :: "'a \<Rightarrow> bool"
    and start :: "cmd_io \<Rightarrow> 'a \<Rightarrow> 'a option" and finish :: "cmd_io \<Rightarrow> 'a \<Rightarrow> 'a option"
  assumes available: "check c a \<longleftrightarrow> \<not> busy a"
    and invoke: "\<not> busy a \<Longrightarrow> run t io APP_COMMAND_TASK_MODE_CALLBACK_INVOKE a =
      map_option (Pair APP_COMMAND_TASK_RESULT_RUNNING) (start io a)"
    and update_pending: "pending a \<Longrightarrow>
      run t io APP_COMMAND_TASK_MODE_CALLBACK_UPDATE a = Some (APP_COMMAND_TASK_RESULT_RUNNING, a)"
    and update_over: "\<not> pending a \<Longrightarrow> run t io APP_COMMAND_TASK_MODE_CALLBACK_UPDATE a =
      map_option (Pair APP_COMMAND_TASK_RESULT_FINISHED) (finish io a)"
    and busy_local: "busy (set_task u a) = busy a"
    and start_local: "start io (set_task u a) = map_option (set_task u) (start io a)"
    and start_task: "start io a = Some a' \<Longrightarrow> task a' = task a"
    and finish_task: "finish io a = Some a' \<Longrightarrow> task a' = task a"
begin

definition scheduled :: "cmd_io \<Rightarrow> AppCommandTaskState \<Rightarrow> 'a \<Rightarrow> bool" where
  "scheduled io st a \<longleftrightarrow> task a = \<lparr>task_state = st, task_callback = Some t, callback_cmd_io = io,
     callback_check_available = Some c\<rparr>"

text \<open>The task data when nothing is scheduled.\<close>

definition over :: "('t, 'c) AppCommandTaskData" where
  "over = \<lparr>task_state = APP_COMMAND_TASK_STATE_NONE, task_callback = None, callback_cmd_io = None,
     callback_check_available = None\<rparr>"

lemma waits:
  assumes "scheduled io APP_COMMAND_TASK_STATE_WAIT_AVAILABLE a" and "busy a"
  shows "APP_Command_Task_Tasks check run task set_task a = Some a"
  using assms by (simp add: APP_Command_Task_Tasks_def scheduled_def available)

lemma starts:
  assumes "scheduled io APP_COMMAND_TASK_STATE_WAIT_AVAILABLE a" and "\<not> busy a" and "start io a = Some a'"
  shows "\<exists>a''. APP_Command_Task_Tasks check run task set_task a = Some a'' \<and>
    scheduled io APP_COMMAND_TASK_STATE_RUNNING a'' \<and>
    a'' = set_task ((task a)\<lparr>task_state := APP_COMMAND_TASK_STATE_RUNNING\<rparr>) a'"
  using assms start_task [OF assms(3)]
  by (simp add: APP_Command_Task_Tasks_def scheduled_def available invoke busy_local start_local
      checkCallbackResult_def)

lemma polls:
  assumes "scheduled io APP_COMMAND_TASK_STATE_RUNNING a" and "pending a"
  shows "APP_Command_Task_Tasks check run task set_task a = Some a"
proof -
  have "checkCallbackResult APP_COMMAND_TASK_RESULT_RUNNING (task a) = task a"
    using assms(1) by (simp add: scheduled_def checkCallbackResult_def)
  moreover note set_same [of a]
  ultimately show ?thesis using assms
    by (simp add: APP_Command_Task_Tasks_def scheduled_def update_pending del: set_same)
qed

lemma finishes:
  assumes "scheduled io APP_COMMAND_TASK_STATE_RUNNING a" and "\<not> pending a" and "finish io a = Some a'"
  shows "APP_Command_Task_Tasks check run task set_task a = Some (set_task over a')"
  using assms finish_task [OF assms(3)]
  by (simp add: APP_Command_Task_Tasks_def scheduled_def update_over checkCallbackResult_def
      appCmdTaskSetCallback_def over_def)

lemma undefined_finish:
  assumes "scheduled io APP_COMMAND_TASK_STATE_RUNNING a" and "\<not> pending a" and "finish io a = None"
  shows "APP_Command_Task_Tasks check run task set_task a = None"
  using assms by (simp add: APP_Command_Task_Tasks_def scheduled_def update_over)

text \<open>
  A scheduled command whose resource stays busy does nothing, however often the scheduler runs.
\<close>

lemma waits_forever:
  assumes "scheduled io APP_COMMAND_TASK_STATE_WAIT_AVAILABLE a" and "busy a"
  shows "((\<lambda>s. Option.bind s (APP_Command_Task_Tasks check run task set_task)) ^^ n) (Some a) = Some a"
  by (induction n) (simp_all add: waits [OF assms])

end

end
