(* ===== verification/App_Data.thy ===== *)
theory App_Data
  imports App_Nixie App_Flash App_Power App_Usb_Hid App_Command_Task
begin

text \<open>
  The application's state (\<open>app.h\<close>) with the data of the command processor, and what all command
  handlers share (\<open>app_command.h\<close>): the arguments, the output to the console device that issued the
  command, the availability check and the scheduling of a task. A handler returns what the C function
  returns and the new state; \<open>None\<close> is undefined behaviour (an array index or an argument out of
  range, a NULL console device, an uninitialised variable).
\<close>

section \<open>State\<close>

datatype AppState = APP_STATE_GREETINGS | APP_STATE_RUN_SERVICES | APP_STATE_ERROR

text \<open>The callbacks that command handlers pass to the scheduler, and the availability checks.\<close>

datatype command_callback =
    performRTCOscillatorStart | performRTCOscillatorStop | performRTCOscillatorStatus
  | performRTCDateShow | performRTCDateSet
  | performRTCBatteryEnable | performRTCBatteryDisable | performRTCBatteryStatus
  | performRTCDump | performRTCRegisterRead | performRTCRegisterWrite
  | performNixieDisplay | performNixieFetch
  | performShiftRegisterSetEnabled | performShiftRegisterSetDisabled | performShiftRegisterSendData
  | performFlashSectors | performFlashFormat
  | performFetch

datatype command_check =
    performRTCCheckAvailable | performNixieCheckAvailable | performShiftRegisterCheckAvailable
  | performFlashCheckAvailable | performFetchCheckAvailable

type_synonym command_task = "(command_callback, command_check) AppCommandTaskData"

record AppCommandFetchData =
  fetch_url :: "char list"
  request_active :: bool

text \<open>The unions that drivers write into through pointers are in memory, at these addresses.\<close>

record AppCommandNixieData =
  nixie_private :: nat

record AppCommandRTCData =
  rtc_storage :: nat

record AppCommandShiftRegisterData =
  send_data :: "u8 list"
  send_num_bytes :: nat

record AppCommandData =
  command_task :: command_task
  command_fetch :: AppCommandFetchData
  command_nixie :: AppCommandNixieData
  command_rtc :: AppCommandRTCData
  command_shift_register :: AppCommandShiftRegisterData

record AppData =
  app_state :: AppState
  app_flash :: AppFlashData
  app_https_client :: "app_callback AppHTTPSClientData"
  app_network :: AppNetworkData
  app_nixie :: AppNixieData
  app_rtc :: AppRTCData
  app_shift_register :: AppShiftRegisterData
  app_usb_hid :: AppUSBHIDData
  app_command :: AppCommandData
  app_world :: world

text \<open>What the memory holds behind the three arrays that keep a URL.\<close>

record AppLayout =
  after_request_url :: chars
  after_nixie_request_url :: chars
  after_fetch_url :: chars

text \<open>The members of the unions.\<close>

definition nixie_display_value :: "AppData \<Rightarrow> nat" where
  "nixie_display_value app = nixie_private (command_nixie (app_command app))"

definition nixie_fetch_is_fetched :: "AppData \<Rightarrow> nat" where
  "nixie_fetch_is_fetched app = nixie_private (command_nixie (app_command app))"

definition nixie_fetch_value :: "AppData \<Rightarrow> nat" where
  "nixie_fetch_value app = nixie_private (command_nixie (app_command app)) + 1"

definition rtc_union :: "AppData \<Rightarrow> nat" where
  "rtc_union app = rtc_storage (command_rtc (app_command app))"

section \<open>Access\<close>

definition app_task :: "AppData \<Rightarrow> command_task" where
  "app_task app = command_task (app_command app)"

definition set_app_task :: "command_task \<Rightarrow> AppData \<Rightarrow> AppData" where
  "set_app_task t app = app\<lparr>app_command := (app_command app)\<lparr>command_task := t\<rparr>\<rparr>"

interpretation app_tasks: task_host app_task set_app_task
  by unfold_locales (simp_all add: app_task_def set_app_task_def)

definition on_world :: "(world \<Rightarrow> world) \<Rightarrow> AppData \<Rightarrow> AppData" where
  "on_world f app = app\<lparr>app_world := f (app_world app)\<rparr>"

definition app_mem :: "AppData \<Rightarrow> mem" where
  "app_mem app = mem (app_world app)"

lemma app_task_on_world [simp]: "app_task (on_world f app) = app_task app"
  by (simp add: app_task_def on_world_def)

lemma app_world_set_task [simp]: "app_world (set_app_task t app) = app_world app"
  by (simp add: set_app_task_def)

section \<open>Command output\<close>

definition COMMAND_PRINT :: "cmd_io \<Rightarrow> string \<Rightarrow> print_arg list \<Rightarrow> AppData \<Rightarrow> AppData option" where
  "COMMAND_PRINT cmd_io format args app = do {
     io \<leftarrow> cmd_io;
     Some (on_world (tell (IO_Cmd (Command_Print io format args))) app)
   }"

definition COMMAND_MESSAGE :: "cmd_io \<Rightarrow> string \<Rightarrow> AppData \<Rightarrow> AppData option" where
  "COMMAND_MESSAGE cmd_io message app = do {
     io \<leftarrow> cmd_io;
     Some (on_world (tell (IO_Cmd (Command_Message io message))) app)
   }"

lemma COMMAND_PRINT_some [simp]:
  "COMMAND_PRINT (Some io) format args app = Some (on_world (tell (IO_Cmd (Command_Print io format args))) app)"
  by (simp add: COMMAND_PRINT_def)

lemma COMMAND_MESSAGE_some [simp]:
  "COMMAND_MESSAGE (Some io) message app = Some (on_world (tell (IO_Cmd (Command_Message io message))) app)"
  by (simp add: COMMAND_MESSAGE_def)

text \<open>A line of a message, with its end of line; the usage texts are built from these.\<close>

definition usage_line :: "string \<Rightarrow> string" where
  "usage_line text = text @ crlf"

definition print_usage :: "cmd_io \<Rightarrow> string \<Rightarrow> string \<Rightarrow> AppData \<Rightarrow> (bool \<times> AppData) option" where
  "print_usage cmd_io argv0 text app = do {
     app \<leftarrow> COMMAND_PRINT cmd_io (usage_line ''Usage: %s command arguments ...'') [PStr argv0] app;
     app \<leftarrow> COMMAND_MESSAGE cmd_io text app;
     Some (True, app)
   }"

section \<open>Arguments\<close>

text \<open>\<open>argc\<close> is the length of the list \<open>argv\<close>; an argument past it is not there.\<close>

definition argument :: "string list \<Rightarrow> nat \<Rightarrow> string option" where
  "argument argv i = array_get argv i"

definition uint8_of_int :: "int \<Rightarrow> u8" where
  "uint8_of_int i = word_of_int i"

section \<open>Availability and scheduling\<close>

definition APP_Command_IsBusy :: "AppData \<Rightarrow> bool" where
  "APP_Command_IsBusy app \<longleftrightarrow> APP_Command_Task_IsBusy (app_task app)"

definition APP_Command_CheckAvailable :: "cmd_io \<Rightarrow> AppData \<Rightarrow> (bool \<times> AppData) option" where
  "APP_Command_CheckAvailable cmd_io app =
     (if APP_Command_IsBusy app then do {
        app \<leftarrow> COMMAND_MESSAGE cmd_io (usage_line ''Command processor is busy, try again later.'') app;
        Some (False, app)
      }
      else Some (True, app))"

text \<open>The tail shared by the handlers that schedule: the task, and success.\<close>

definition schedule :: "cmd_io \<Rightarrow> command_callback \<Rightarrow> command_check \<Rightarrow> AppData \<Rightarrow> bool \<times> AppData" where
  "schedule cmd_io callback check app =
     (let (t, w) = APP_Command_Task_Schedule cmd_io callback check (app_task app, app_world app)
      in (True, set_app_task t (app\<lparr>app_world := w\<rparr>)))"

lemma schedule_idle:
  assumes "\<not> APP_Command_IsBusy app"
  shows "schedule cmd_io callback check app = (True, set_app_task
    \<lparr>task_state = APP_COMMAND_TASK_STATE_WAIT_AVAILABLE, task_callback = Some callback,
     callback_cmd_io = cmd_io, callback_check_available = Some check\<rparr> app)"
  using assms
  by (simp add: schedule_def APP_Command_IsBusy_def APP_Command_Task_IsBusy_def APP_Command_Task_Schedule_def
      appCmdTaskSetCallback_def set_app_task_def app_task_def)

lemma busy_command_refused:
  assumes "APP_Command_IsBusy app"
  shows "APP_Command_CheckAvailable (Some io) app = Some (False, on_world (tell (IO_Cmd (Command_Message io
    (usage_line ''Command processor is busy, try again later.'')))) app)"
  using assms by (simp add: APP_Command_CheckAvailable_def)

end
