(* ===== verification/App_Command_Rtc.thy ===== *)
theory App_Command_Rtc
  imports App_Data
begin

text \<open>
  The \<open>rtc\<close> command (\<open>app_command_rtc.c\<close>). The functions that talk to the clock are those of
  \<open>Rtc_Mcp7940n\<close>; the buffers of the command are a union in memory, at \<open>rtc_union\<close>.
\<close>

definition days_of_week :: "string list" where
  "days_of_week = [''Mon'', ''Tue'', ''Wed'', ''Thu'', ''Fri'', ''Sat'', ''Sun'']"

definition months :: "string list" where
  "months = [''Jan'', ''Feb'', ''Mar'', ''Apr'', ''May'', ''Jun'',
             ''Jul'', ''Aug'', ''Sep'', ''Oct'', ''Nov'', ''Dec'']"

definition rtc_usage :: string where
  "rtc_usage =
     usage_line ''where 'command' is one of the following:'' @
     usage_line '''' @
     usage_line ''    oscillator <start|stop>'' @
     usage_line ''        This command will start or stop oscillator of the RTC module.'' @
     usage_line ''    oscillator status'' @
     usage_line ''        This command will report current status of oscillator.'' @
     usage_line '''' @
     ''    date'' @ [CHR 0x0A] @
     usage_line ''        This command will report current date and time.'' @
     usage_line '''' @
     usage_line ''    date <date-time>'' @
     usage_line ''        This command will set specified date and time to the RTC.'' @
     usage_line '''' @
     usage_line ''    battery <enable|disable>'' @
     usage_line ''        Enable or disable backup battery.'' @
     usage_line '''' @
     usage_line ''    battery status'' @
     usage_line ''        This command will report current status of backup battery.'' @
     usage_line '''' @
     usage_line ''    dump'' @
     usage_line ''        This command will dump all internal registers.'' @
     usage_line '''' @
     usage_line ''    register read <address>'' @
     usage_line ''        Read value of the given register.'' @
     usage_line '''' @
     usage_line ''    register write <address> <value>'' @
     usage_line ''        Write value of the given register.''"

definition appCmdRTCUsage :: "cmd_io \<Rightarrow> string \<Rightarrow> AppData \<Rightarrow> (bool \<times> AppData) option" where
  "appCmdRTCUsage cmd_io argv0 app = print_usage cmd_io argv0 rtc_usage app"

text \<open>Calls into the clock's driver.\<close>

definition app_rtc_handle :: "AppData \<Rightarrow> RTC_MCP7940N" where
  "app_rtc_handle app = rtc_handle (app_rtc app)"

definition on_rtc :: "(RTC_MCP7940N \<times> world \<Rightarrow> RTC_MCP7940N \<times> world) \<Rightarrow> AppData \<Rightarrow> AppData" where
  "on_rtc f app =
     (let (rtc, w) = f (app_rtc_handle app, app_world app)
      in app\<lparr>app_rtc := (app_rtc app)\<lparr>rtc_handle := rtc\<rparr>, app_world := w\<rparr>)"

section \<open>Tasks\<close>

definition rtc_available :: "AppData \<Rightarrow> bool" where
  "rtc_available app \<longleftrightarrow> \<not> RTC_MCP7940N_IsBusy (app_rtc_handle app)"

definition rtc_OscillatorStart ::
    "harmony \<Rightarrow> cmd_io \<Rightarrow> AppCommandTaskCallbackMode \<Rightarrow> AppData \<Rightarrow> (AppCommandTaskCallbackResult \<times> AppData) option" where
  "rtc_OscillatorStart env cmd_io mode app =
     (case mode of
        APP_COMMAND_TASK_MODE_CALLBACK_INVOKE \<Rightarrow>
          Some (APP_COMMAND_TASK_RESULT_RUNNING, on_rtc (RTC_MCP7940N_EnableOscillator (i2c env) True) app)
      | APP_COMMAND_TASK_MODE_CALLBACK_UPDATE \<Rightarrow>
          (if \<not> RTC_MCP7940N_IsBusy (app_rtc_handle app) then Some (APP_COMMAND_TASK_RESULT_FINISHED, app)
           else Some (APP_COMMAND_TASK_RESULT_RUNNING, app)))"

definition rtc_OscillatorStop ::
    "harmony \<Rightarrow> cmd_io \<Rightarrow> AppCommandTaskCallbackMode \<Rightarrow> AppData \<Rightarrow> (AppCommandTaskCallbackResult \<times> AppData) option" where
  "rtc_OscillatorStop env cmd_io mode app =
     (case mode of
        APP_COMMAND_TASK_MODE_CALLBACK_INVOKE \<Rightarrow>
          Some (APP_COMMAND_TASK_RESULT_RUNNING, on_rtc (RTC_MCP7940N_EnableOscillator (i2c env) False) app)
      | APP_COMMAND_TASK_MODE_CALLBACK_UPDATE \<Rightarrow>
          (if \<not> RTC_MCP7940N_IsBusy (app_rtc_handle app) then Some (APP_COMMAND_TASK_RESULT_FINISHED, app)
           else Some (APP_COMMAND_TASK_RESULT_RUNNING, app)))"

definition rtc_OscillatorStatus ::
    "harmony \<Rightarrow> cmd_io \<Rightarrow> AppCommandTaskCallbackMode \<Rightarrow> AppData \<Rightarrow> (AppCommandTaskCallbackResult \<times> AppData) option" where
  "rtc_OscillatorStatus env cmd_io mode app =
     (case mode of
        APP_COMMAND_TASK_MODE_CALLBACK_INVOKE \<Rightarrow>
          Some (APP_COMMAND_TASK_RESULT_RUNNING, on_rtc (RTC_MCP7940N_OscillatorStatus (i2c env) (rtc_union app)) app)
      | APP_COMMAND_TASK_MODE_CALLBACK_UPDATE \<Rightarrow>
          (if \<not> RTC_MCP7940N_IsBusy (app_rtc_handle app) then do {
             app \<leftarrow> COMMAND_PRINT cmd_io (usage_line ''Oscillator status: %s'')
               [PStr (if app_mem app (rtc_union app) \<noteq> 0 then ''ENABLED'' else ''DISABLED'')] app;
             Some (APP_COMMAND_TASK_RESULT_FINISHED, app)
           }
           else Some (APP_COMMAND_TASK_RESULT_RUNNING, app)))"

definition rtc_DateShow ::
    "harmony \<Rightarrow> cmd_io \<Rightarrow> AppCommandTaskCallbackMode \<Rightarrow> AppData \<Rightarrow> (AppCommandTaskCallbackResult \<times> AppData) option" where
  "rtc_DateShow env cmd_io mode app =
     (case mode of
        APP_COMMAND_TASK_MODE_CALLBACK_INVOKE \<Rightarrow>
          Some (APP_COMMAND_TASK_RESULT_RUNNING, on_rtc (RTC_MCP7940N_ReadDateAndTime (i2c env) (rtc_union app)) app)
      | APP_COMMAND_TASK_MODE_CALLBACK_UPDATE \<Rightarrow>
          (if \<not> RTC_MCP7940N_IsBusy (app_rtc_handle app) then do {
             let date_time = date_time_of_bytes (load_bytes (app_mem app) (rtc_union app) sizeof_DateTime);
             weekday \<leftarrow> array_get days_of_week (unat (day_of_week date_time));
             month_name \<leftarrow> array_get months (unat (month date_time));
             app \<leftarrow> COMMAND_PRINT cmd_io (usage_line ''%s %2d %s %d %2d:%02d:%02d'')
               [PStr weekday, PInt (uint (day date_time)), PStr month_name,
                PInt (uint (year date_time) + 2000), PInt (uint (hours date_time)),
                PInt (uint (minutes date_time)), PInt (uint (seconds date_time))] app;
             Some (APP_COMMAND_TASK_RESULT_FINISHED, app)
           }
           else Some (APP_COMMAND_TASK_RESULT_RUNNING, app)))"

definition rtc_DateSet ::
    "harmony \<Rightarrow> cmd_io \<Rightarrow> AppCommandTaskCallbackMode \<Rightarrow> AppData \<Rightarrow> (AppCommandTaskCallbackResult \<times> AppData) option" where
  "rtc_DateSet env cmd_io mode app =
     (case mode of
        APP_COMMAND_TASK_MODE_CALLBACK_INVOKE \<Rightarrow>
          Some (APP_COMMAND_TASK_RESULT_RUNNING, on_rtc (RTC_MCP7940N_WriteDateAndTime (i2c env) (rtc_union app)) app)
      | APP_COMMAND_TASK_MODE_CALLBACK_UPDATE \<Rightarrow>
          (if \<not> RTC_MCP7940N_IsBusy (app_rtc_handle app) then Some (APP_COMMAND_TASK_RESULT_FINISHED, app)
           else Some (APP_COMMAND_TASK_RESULT_RUNNING, app)))"

definition rtc_BatteryEnable ::
    "harmony \<Rightarrow> cmd_io \<Rightarrow> AppCommandTaskCallbackMode \<Rightarrow> AppData \<Rightarrow> (AppCommandTaskCallbackResult \<times> AppData) option" where
  "rtc_BatteryEnable env cmd_io mode app =
     (case mode of
        APP_COMMAND_TASK_MODE_CALLBACK_INVOKE \<Rightarrow>
          Some (APP_COMMAND_TASK_RESULT_RUNNING, on_rtc (RTC_MCP7940N_EnableBatteryBackup (i2c env) True) app)
      | APP_COMMAND_TASK_MODE_CALLBACK_UPDATE \<Rightarrow>
          (if \<not> RTC_MCP7940N_IsBusy (app_rtc_handle app) then Some (APP_COMMAND_TASK_RESULT_FINISHED, app)
           else Some (APP_COMMAND_TASK_RESULT_RUNNING, app)))"

definition rtc_BatteryDisable ::
    "harmony \<Rightarrow> cmd_io \<Rightarrow> AppCommandTaskCallbackMode \<Rightarrow> AppData \<Rightarrow> (AppCommandTaskCallbackResult \<times> AppData) option" where
  "rtc_BatteryDisable env cmd_io mode app =
     (case mode of
        APP_COMMAND_TASK_MODE_CALLBACK_INVOKE \<Rightarrow>
          Some (APP_COMMAND_TASK_RESULT_RUNNING, on_rtc (RTC_MCP7940N_EnableBatteryBackup (i2c env) False) app)
      | APP_COMMAND_TASK_MODE_CALLBACK_UPDATE \<Rightarrow>
          (if \<not> RTC_MCP7940N_IsBusy (app_rtc_handle app) then Some (APP_COMMAND_TASK_RESULT_FINISHED, app)
           else Some (APP_COMMAND_TASK_RESULT_RUNNING, app)))"

definition rtc_BatteryStatus ::
    "harmony \<Rightarrow> cmd_io \<Rightarrow> AppCommandTaskCallbackMode \<Rightarrow> AppData \<Rightarrow> (AppCommandTaskCallbackResult \<times> AppData) option" where
  "rtc_BatteryStatus env cmd_io mode app =
     (case mode of
        APP_COMMAND_TASK_MODE_CALLBACK_INVOKE \<Rightarrow>
          Some (APP_COMMAND_TASK_RESULT_RUNNING, on_rtc (RTC_MCP7940N_BatteryBackupStatus (i2c env) (rtc_union app)) app)
      | APP_COMMAND_TASK_MODE_CALLBACK_UPDATE \<Rightarrow>
          (if \<not> RTC_MCP7940N_IsBusy (app_rtc_handle app) then do {
             app \<leftarrow> COMMAND_PRINT cmd_io (usage_line ''Battery status: %s'')
               [PStr (if app_mem app (rtc_union app) \<noteq> 0 then ''ENABLED'' else ''DISABLED'')] app;
             Some (APP_COMMAND_TASK_RESULT_FINISHED, app)
           }
           else Some (APP_COMMAND_TASK_RESULT_RUNNING, app)))"

text \<open>The registers in rows of eight, from \<open>current_register\<close> on.\<close>

fun print_row :: "cmd_io \<Rightarrow> u8 list \<Rightarrow> AppData \<Rightarrow> AppData option" where
  "print_row cmd_io [] app = COMMAND_MESSAGE cmd_io crlf app"
| "print_row cmd_io (r # rs) app = do {
     app \<leftarrow> COMMAND_PRINT cmd_io '' %02x'' [PInt (uint r)] app;
     print_row cmd_io rs app
   }"

function printRegisters_from :: "cmd_io \<Rightarrow> nat \<Rightarrow> u8 list \<Rightarrow> AppData \<Rightarrow> AppData option" where
  "printRegisters_from cmd_io current_register [] app = Some app"
| "printRegisters_from cmd_io current_register (r # rs) app = do {
     app \<leftarrow> COMMAND_PRINT cmd_io ''%02x |'' [PInt (int current_register)] app;
     app \<leftarrow> print_row cmd_io (take 8 (r # rs)) app;
     printRegisters_from cmd_io (current_register + 8) (drop 8 (r # rs)) app
   }"
  by pat_completeness auto
termination
  by (relation "measure (\<lambda>(_, _, rs, _). length rs)") auto

definition printRegisters :: "cmd_io \<Rightarrow> u8 list \<Rightarrow> AppData \<Rightarrow> AppData option" where
  "printRegisters cmd_io registers app = printRegisters_from cmd_io 0 registers app"

definition rtc_Dump ::
    "harmony \<Rightarrow> cmd_io \<Rightarrow> AppCommandTaskCallbackMode \<Rightarrow> AppData \<Rightarrow> (AppCommandTaskCallbackResult \<times> AppData) option" where
  "rtc_Dump env cmd_io mode app =
     (case mode of
        APP_COMMAND_TASK_MODE_CALLBACK_INVOKE \<Rightarrow>
          Some (APP_COMMAND_TASK_RESULT_RUNNING, on_rtc (RTC_MCP7940N_ReadNumRegisters (i2c env) (rtc_union app) RTC_MCP7940N_NUM_REGISTERS) app)
      | APP_COMMAND_TASK_MODE_CALLBACK_UPDATE \<Rightarrow>
          (if \<not> RTC_MCP7940N_IsBusy (app_rtc_handle app) then do {
             app \<leftarrow> printRegisters cmd_io
               (load_bytes (app_mem app) (rtc_union app) RTC_MCP7940N_NUM_REGISTERS) app;
             Some (APP_COMMAND_TASK_RESULT_FINISHED, app)
           }
           else Some (APP_COMMAND_TASK_RESULT_RUNNING, app)))"

definition rtc_RegisterRead ::
    "harmony \<Rightarrow> cmd_io \<Rightarrow> AppCommandTaskCallbackMode \<Rightarrow> AppData \<Rightarrow> (AppCommandTaskCallbackResult \<times> AppData) option" where
  "rtc_RegisterRead env cmd_io mode app =
     (case mode of
        APP_COMMAND_TASK_MODE_CALLBACK_INVOKE \<Rightarrow>
          Some (APP_COMMAND_TASK_RESULT_RUNNING, on_rtc (RTC_MCP7940N_ReadRegister (i2c env) (app_mem app (rtc_union app)) (rtc_union app + 1)) app)
      | APP_COMMAND_TASK_MODE_CALLBACK_UPDATE \<Rightarrow>
          (if \<not> RTC_MCP7940N_IsBusy (app_rtc_handle app) then do {
             app \<leftarrow> COMMAND_PRINT cmd_io (usage_line ''Register value: 0x%02x.'')
               [PInt (uint (app_mem app (rtc_union app + 1)))] app;
             Some (APP_COMMAND_TASK_RESULT_FINISHED, app)
           }
           else Some (APP_COMMAND_TASK_RESULT_RUNNING, app)))"

definition rtc_RegisterWrite ::
    "harmony \<Rightarrow> cmd_io \<Rightarrow> AppCommandTaskCallbackMode \<Rightarrow> AppData \<Rightarrow> (AppCommandTaskCallbackResult \<times> AppData) option" where
  "rtc_RegisterWrite env cmd_io mode app =
     (case mode of
        APP_COMMAND_TASK_MODE_CALLBACK_INVOKE \<Rightarrow>
          Some (APP_COMMAND_TASK_RESULT_RUNNING, on_rtc (RTC_MCP7940N_WriteRegister (i2c env) (app_mem app (rtc_union app)) (app_mem app (rtc_union app + 1))) app)
      | APP_COMMAND_TASK_MODE_CALLBACK_UPDATE \<Rightarrow>
          (if \<not> RTC_MCP7940N_IsBusy (app_rtc_handle app) then Some (APP_COMMAND_TASK_RESULT_FINISHED, app)
           else Some (APP_COMMAND_TASK_RESULT_RUNNING, app)))"

section \<open>The date on the command line\<close>

text \<open>
  \<open>sscanf\<close> with \<open>%d\<close>: white space, a sign and digits; no digits is a failure. The numbers are
  unbounded here; converting one that does not fit an \<open>int\<close> is undefined in C.
\<close>

definition scan_int :: "string \<Rightarrow> (int \<times> string) option" where
  "scan_int s =
     (let s = dropWhile is_space s;
          (negative, s) = (case s of
              [] \<Rightarrow> (False, [])
            | c # cs \<Rightarrow> if c = CHR ''-'' then (True, cs) else if c = CHR ''+'' then (False, cs) else (False, s));
          digits = takeWhile is_digit s
      in if digits = [] then None
         else Some (if negative then - digits_value digits else digits_value digits, drop (length digits) s))"

text \<open>\<open>"%d:%d:%d"\<close>: the variables that are assigned; the others stay uninitialised.\<close>

definition scan_next :: "string \<Rightarrow> (int \<times> string) option" where
  "scan_next s = (case s of [] \<Rightarrow> None | c # cs \<Rightarrow> if c = CHR '':'' then scan_int cs else None)"

definition scan_time :: "string \<Rightarrow> int option \<times> int option \<times> int option" where
  "scan_time s =
     (case scan_int s of None \<Rightarrow> (None, None, None)
      | Some (hour, s) \<Rightarrow>
          (case scan_next s of None \<Rightarrow> (Some hour, None, None)
           | Some (minute, s) \<Rightarrow>
               (case scan_next s of None \<Rightarrow> (Some hour, Some minute, None)
                | Some (second, s) \<Rightarrow> (Some hour, Some minute, Some second))))"

text \<open>The loops that look a name up: the first index with that name, -1 when there is none.\<close>

fun name_index :: "string \<Rightarrow> string list \<Rightarrow> int \<Rightarrow> int" where
  "name_index name [] i = -1"
| "name_index name (n # ns) i = (if n = name then i else name_index name ns (i + 1))"

definition dateDecode :: "string list \<Rightarrow> (RTC_MCP7940N_DateTime option) option" where
  "dateDecode argv = do {
     day_of_week_name \<leftarrow> argument argv 2;
     day_text \<leftarrow> argument argv 3;
     month_name \<leftarrow> argument argv 4;
     year_text \<leftarrow> argument argv 5;
     time_text \<leftarrow> argument argv 6;
     let day = atoi day_text;
     let year = atoi year_text;
     let (hour, minute, second) = scan_time time_text;
     let day_of_week = name_index day_of_week_name days_of_week 0;
     let month = name_index month_name months 0;
     (if day_of_week < 0 \<or> day_of_week > 6 then Some None
      else if day < 0 \<or> day > 31 then Some None
      else if month < 0 \<or> month > 11 then Some None
      else if year < 2001 \<or> year > 2399 then Some None
      else do {
        hour \<leftarrow> hour;
        (if hour < 0 \<or> hour > 24 then Some None
         else do {
           minute \<leftarrow> minute;
           (if minute < 0 \<or> minute > 59 then Some None
            else do {
              second \<leftarrow> second;
              (if second < 0 \<or> second > 59 then Some None
               else Some (Some \<lparr>seconds = uint8_of_int second, minutes = uint8_of_int minute,
                 hours = uint8_of_int hour, day_of_week = uint8_of_int day_of_week,
                 day = uint8_of_int day, month = uint8_of_int month,
                 year = uint8_of_int (year - 2000)\<rparr>))
            })
         })
      })
   }"

section \<open>Subcommands\<close>

definition appCmdRTCOscillator :: "cmd_io \<Rightarrow> string list \<Rightarrow> AppData \<Rightarrow> (bool \<times> AppData) option" where
  "appCmdRTCOscillator cmd_io argv app = do {
     argv0 \<leftarrow> argument argv 0;
     (if length argv \<noteq> 3 then appCmdRTCUsage cmd_io argv0 app
      else do {
        verb \<leftarrow> argument argv 2;
        (if verb = ''start'' then Some (schedule cmd_io performRTCOscillatorStart performRTCCheckAvailable app)
         else if verb = ''stop'' then Some (schedule cmd_io performRTCOscillatorStop performRTCCheckAvailable app)
         else if verb = ''status'' then Some (schedule cmd_io performRTCOscillatorStatus performRTCCheckAvailable app)
         else appCmdRTCUsage cmd_io argv0 app)
      })
   }"

definition appCmdRTCDate :: "cmd_io \<Rightarrow> string list \<Rightarrow> AppData \<Rightarrow> (bool \<times> AppData) option" where
  "appCmdRTCDate cmd_io argv app =
     (if length argv = 2 then Some (schedule cmd_io performRTCDateShow performRTCCheckAvailable app)
      else if length argv = 7 then do {
        decoded \<leftarrow> dateDecode argv;
        (case decoded of
           Some date_time \<Rightarrow>
             Some (schedule cmd_io performRTCDateSet performRTCCheckAvailable
               (on_world (poke (rtc_union app) (bytes_of_date_time date_time)) app))
         | None \<Rightarrow> do {
             app \<leftarrow> COMMAND_MESSAGE cmd_io (usage_line ''Failed to parse date.'') app;
             app \<leftarrow> COMMAND_MESSAGE cmd_io (usage_line ''Expected format: ddd DD MMM YYYY HH:MM:SS.'') app;
             Some (True, app)
           })
      }
      else do {
        argv0 \<leftarrow> argument argv 0;
        appCmdRTCUsage cmd_io argv0 app
      })"

definition appCmdRTCBattery :: "cmd_io \<Rightarrow> string list \<Rightarrow> AppData \<Rightarrow> (bool \<times> AppData) option" where
  "appCmdRTCBattery cmd_io argv app = do {
     argv0 \<leftarrow> argument argv 0;
     (if length argv \<noteq> 3 then appCmdRTCUsage cmd_io argv0 app
      else do {
        verb \<leftarrow> argument argv 2;
        (if verb = ''enable'' then Some (schedule cmd_io performRTCBatteryEnable performRTCCheckAvailable app)
         else if verb = ''disable'' then Some (schedule cmd_io performRTCBatteryDisable performRTCCheckAvailable app)
         else if verb = ''status'' then Some (schedule cmd_io performRTCBatteryStatus performRTCCheckAvailable app)
         else appCmdRTCUsage cmd_io argv0 app)
      })
   }"

definition appCmdRTCDump :: "cmd_io \<Rightarrow> string list \<Rightarrow> AppData \<Rightarrow> (bool \<times> AppData) option" where
  "appCmdRTCDump cmd_io argv app =
     (if length argv \<noteq> 2 then do {
        argv0 \<leftarrow> argument argv 0;
        appCmdRTCUsage cmd_io argv0 app
      }
      else Some (schedule cmd_io performRTCDump performRTCCheckAvailable app))"

definition appCmdRTCRegister :: "cmd_io \<Rightarrow> string list \<Rightarrow> AppData \<Rightarrow> (bool \<times> AppData) option" where
  "appCmdRTCRegister cmd_io argv app = do {
     argv0 \<leftarrow> argument argv 0;
     (if length argv < 4 then appCmdRTCUsage cmd_io argv0 app
      else do {
        verb \<leftarrow> argument argv 2;
        address \<leftarrow> argument argv 3;
        (if length argv = 4 \<and> verb = ''read'' then
           Some (schedule cmd_io performRTCRegisterRead performRTCCheckAvailable
             (on_world (poke (rtc_union app) [uint8_of_int (atoi address)]) app))
         else if length argv = 5 \<and> verb = ''write'' then do {
           new \<leftarrow> argument argv 4;
           Some (schedule cmd_io performRTCRegisterWrite performRTCCheckAvailable
             (on_world (poke (rtc_union app) [uint8_of_int (atoi address), uint8_of_int (atoi new)]) app))
         }
         else appCmdRTCUsage cmd_io argv0 app)
      })
   }"

text \<open>\<open>memset\<close> over the whole union: its largest member is the dump of all registers.\<close>

definition APP_Command_RTC_Initialize :: "AppData \<Rightarrow> AppData" where
  "APP_Command_RTC_Initialize app =
     on_world (poke (rtc_union app) (replicate RTC_MCP7940N_NUM_REGISTERS 0)) app"

definition APP_Command_RTC :: "cmd_io \<Rightarrow> string list \<Rightarrow> AppData \<Rightarrow> (bool \<times> AppData) option" where
  "APP_Command_RTC cmd_io argv app = do {
     (available, app) \<leftarrow> APP_Command_CheckAvailable cmd_io app;
     (if \<not> available then Some (True, app)
      else do {
        argv0 \<leftarrow> argument argv 0;
        (if length argv = 1 then appCmdRTCUsage cmd_io argv0 app
         else do {
           command \<leftarrow> argument argv 1;
           (if command = ''oscillator'' then appCmdRTCOscillator cmd_io argv app
            else if command = ''date'' then appCmdRTCDate cmd_io argv app
            else if command = ''battery'' then appCmdRTCBattery cmd_io argv app
            else if command = ''dump'' then appCmdRTCDump cmd_io argv app
            else if command = ''register'' then appCmdRTCRegister cmd_io argv app
            else appCmdRTCUsage cmd_io argv0 app)
         })
      })
   }"

end
