(* ===== verification/App_Command_Nixie.thy ===== *)
theory App_Command_Nixie
  imports App_Data
begin

text \<open>
  The \<open>nixie\<close> command (\<open>app_command_nixie.c\<close>): showing a value, the switch of the periodic
  tasks, and fetching the value of the server. Its buffers are a union in memory, at
  \<open>nixie_display_value\<close>; \<open>nixie_fetch_is_fetched\<close> and \<open>nixie_fetch_value\<close> overlap it.
\<close>

definition nixie_usage :: string where
  "nixie_usage =
     usage_line ''where 'command' is one of the following:'' @
     usage_line '''' @
     usage_line ''    display <value>'' @
     usage_line ''        Display given number on nixie display.'' @
     usage_line ''    periodic'' @
     usage_line ''        Print status of periodic tasks.'' @
     usage_line ''    periodic <enable|disable>'' @
     usage_line ''        Enable or disable periodic tasks.'' @
     usage_line ''    fetch'' @
     usage_line ''        Fetch value from server and show it in the console.''"

definition appCmdNixieUsage :: "cmd_io \<Rightarrow> string \<Rightarrow> AppData \<Rightarrow> (bool \<times> AppData) option" where
  "appCmdNixieUsage cmd_io argv0 app = print_usage cmd_io argv0 nixie_usage app"

text \<open>Characters in memory.\<close>

definition bytes_of_chars :: "char list \<Rightarrow> u8 list" where
  "bytes_of_chars cs = map of_char cs"

definition chars_of_bytes :: "u8 list \<Rightarrow> char list" where
  "chars_of_bytes bs = map (\<lambda>b. char_of (unat b)) bs"

lemma length_bytes_of_chars [simp]: "length (bytes_of_chars cs) = length cs"
  by (simp add: bytes_of_chars_def)

lemma unat_of_char [simp]: "unat (of_char c :: u8) = of_char c"
proof -
  have "(of_char c :: u8) = of_nat (of_char c)" by (simp add: of_nat_of_char)
  moreover have "(of_char c :: nat) < 256" by simp
  ultimately show ?thesis by (simp add: unat_of_nat_u8)
qed

lemma chars_of_bytes_inverse [simp]: "chars_of_bytes (bytes_of_chars cs) = cs"
  by (induction cs) (simp_all add: chars_of_bytes_def bytes_of_chars_def)

section \<open>Tasks\<close>

definition nixie_available :: "AppData \<Rightarrow> bool" where
  "nixie_available app \<longleftrightarrow> \<not> APP_Nixie_IsBusy (app_nixie app)"

definition nixie_Display ::
    "cmd_io \<Rightarrow> AppCommandTaskCallbackMode \<Rightarrow> AppData \<Rightarrow> (AppCommandTaskCallbackResult \<times> AppData) option" where
  "nixie_Display cmd_io mode app =
     (case mode of
        APP_COMMAND_TASK_MODE_CALLBACK_INVOKE \<Rightarrow> do {
          (_, data) \<leftarrow> APP_Nixie_Display
            (chars_of_bytes (load_bytes (app_mem app) (nixie_display_value app) MAX_NIXIE_TUBES)) (app_nixie app);
          Some (APP_COMMAND_TASK_RESULT_RUNNING, app\<lparr>app_nixie := data\<rparr>)
        }
      | APP_COMMAND_TASK_MODE_CALLBACK_UPDATE \<Rightarrow> Some (APP_COMMAND_TASK_RESULT_FINISHED, app))"

definition NIXIE_DISPLAY_FORMAT :: string where
  "NIXIE_DISPLAY_FORMAT = ''%c%c%c%c''"

definition NIXIE_DISPLAY_VALUES :: "char list \<Rightarrow> print_arg list" where
  "NIXIE_DISPLAY_VALUES value =
     map (\<lambda>i. PChar (if value ! i = CHR 0x00 then CHR ''_'' else value ! i)) [3, 2, 1, 0]"

definition nixie_Fetch ::
    "cmd_io \<Rightarrow> AppCommandTaskCallbackMode \<Rightarrow> AppData \<Rightarrow> (AppCommandTaskCallbackResult \<times> AppData) option" where
  "nixie_Fetch cmd_io mode app =
     (case mode of
        APP_COMMAND_TASK_MODE_CALLBACK_INVOKE \<Rightarrow>
          (let (_, data, w) = APP_Nixie_Fetch (nixie_fetch_is_fetched app) (nixie_fetch_value app)
                                (app_nixie app, app_world app)
           in Some (APP_COMMAND_TASK_RESULT_RUNNING, app\<lparr>app_nixie := data, app_world := w\<rparr>))
      | APP_COMMAND_TASK_MODE_CALLBACK_UPDATE \<Rightarrow>
          (if \<not> APP_Nixie_IsBusy (app_nixie app) then do {
             app \<leftarrow> (if app_mem app (nixie_fetch_is_fetched app) \<noteq> 0 then
                 COMMAND_PRINT cmd_io (usage_line (''Value from server: '' @ NIXIE_DISPLAY_FORMAT))
                   (NIXIE_DISPLAY_VALUES
                     (chars_of_bytes (load_bytes (app_mem app) (nixie_fetch_value app) MAX_NIXIE_TUBES))) app
               else COMMAND_MESSAGE cmd_io (usage_line ''Error fetching value from server.'') app);
             Some (APP_COMMAND_TASK_RESULT_FINISHED, app)
           }
           else Some (APP_COMMAND_TASK_RESULT_RUNNING, app)))"

section \<open>Subcommands\<close>

text \<open>The array of the value is cleared before the copy and reversed after it.\<close>

definition appCmdNixieDisplay :: "cmd_io \<Rightarrow> string list \<Rightarrow> AppData \<Rightarrow> (bool \<times> AppData) option" where
  "appCmdNixieDisplay cmd_io argv app = do {
     argv0 \<leftarrow> argument argv 0;
     (if length argv \<noteq> 3 then appCmdNixieUsage cmd_io argv0 app
      else do {
        text \<leftarrow> argument argv 2;
        let value = replicate MAX_NIXIE_TUBES (CHR 0x00);
        value \<leftarrow> strncpy value (text @ [CHR 0x00]) MAX_NIXIE_TUBES;
        let value = reverse_bytes value;
        Some (schedule cmd_io performNixieDisplay performNixieCheckAvailable
          (on_world (poke (nixie_display_value app) (bytes_of_chars value)) app))
      })
   }"

definition appCmdNixiePeriodic :: "cmd_io \<Rightarrow> string list \<Rightarrow> AppData \<Rightarrow> (bool \<times> AppData) option" where
  "appCmdNixiePeriodic cmd_io argv app =
     (if length argv = 2 then do {
        let is_enabled = APP_Nixie_PeriodicTasksEnabled (app_nixie app);
        app \<leftarrow> COMMAND_PRINT cmd_io (usage_line ''Nixie periodic tasks %s.'')
          [PStr (if is_enabled then ''enabled'' else ''disabled'')] app;
        Some (True, app)
      }
      else do {
        argv0 \<leftarrow> argument argv 0;
        (if length argv \<noteq> 3 then appCmdNixieUsage cmd_io argv0 app
         else do {
           verb \<leftarrow> argument argv 2;
           (if verb = ''enable'' then
              Some (True, app\<lparr>app_nixie := APP_Nixie_PeriodicTasksSetEnabled True (app_nixie app)\<rparr>)
            else if verb = ''disable'' then
              Some (True, app\<lparr>app_nixie := APP_Nixie_PeriodicTasksSetEnabled False (app_nixie app)\<rparr>)
            else appCmdNixieUsage cmd_io argv0 app)
         })
      })"

definition appCmdNixieFetch :: "cmd_io \<Rightarrow> string list \<Rightarrow> AppData \<Rightarrow> (bool \<times> AppData) option" where
  "appCmdNixieFetch cmd_io argv app =
     (if length argv \<noteq> 2 then do {
        argv0 \<leftarrow> argument argv 0;
        appCmdNixieUsage cmd_io argv0 app
      }
      else Some (schedule cmd_io performNixieFetch performNixieCheckAvailable app))"

definition APP_Command_Nixie_Initialize :: "AppData \<Rightarrow> AppData" where
  "APP_Command_Nixie_Initialize app = app"

definition APP_Command_Nixie :: "cmd_io \<Rightarrow> string list \<Rightarrow> AppData \<Rightarrow> (bool \<times> AppData) option" where
  "APP_Command_Nixie cmd_io argv app = do {
     (available, app) \<leftarrow> APP_Command_CheckAvailable cmd_io app;
     (if \<not> available then Some (True, app)
      else do {
        argv0 \<leftarrow> argument argv 0;
        (if length argv = 1 then appCmdNixieUsage cmd_io argv0 app
         else do {
           command \<leftarrow> argument argv 1;
           (if command = ''display'' then appCmdNixieDisplay cmd_io argv app
            else if command = ''periodic'' then appCmdNixiePeriodic cmd_io argv app
            else if command = ''fetch'' then appCmdNixieFetch cmd_io argv app
            else appCmdNixieUsage cmd_io argv0 app)
         })
      })
   }"

end
