(* ===== verification/App_Command_Shift_Register.thy ===== *)
theory App_Command_Shift_Register
  imports App_Data
begin

text \<open>The \<open>shift_register\<close> command (\<open>app_command_shift_register.c\<close>).\<close>

definition shift_register_usage :: string where
  "shift_register_usage =
     usage_line ''where 'command' is one of the following:'' @
     usage_line '''' @
     usage_line ''    <enable|disable>'' @
     usage_line ''        Enable or disable shift register outputs.'' @
     usage_line ''    send <data>'' @
     usage_line ''        Send data to the shift register.'' @
     usage_line ''''"

definition appCmdShiftRegisterUsage :: "cmd_io \<Rightarrow> string \<Rightarrow> AppData \<Rightarrow> (bool \<times> AppData) option" where
  "appCmdShiftRegisterUsage cmd_io argv0 app = print_usage cmd_io argv0 shift_register_usage app"

section \<open>Tasks\<close>

definition shift_register_available :: "AppData \<Rightarrow> bool" where
  "shift_register_available app \<longleftrightarrow> \<not> APP_ShiftRegister_IsBusy (app_shift_register app)"

definition shift_register_SetEnabled ::
    "cmd_io \<Rightarrow> AppCommandTaskCallbackMode \<Rightarrow> AppData \<Rightarrow> (AppCommandTaskCallbackResult \<times> AppData) option" where
  "shift_register_SetEnabled cmd_io mode app =
     (case mode of
        APP_COMMAND_TASK_MODE_CALLBACK_INVOKE \<Rightarrow>
          Some (APP_COMMAND_TASK_RESULT_RUNNING, on_world (APP_ShiftRegister_SetEnabled True) app)
      | APP_COMMAND_TASK_MODE_CALLBACK_UPDATE \<Rightarrow> Some (APP_COMMAND_TASK_RESULT_FINISHED, app))"

definition shift_register_SetDisabled ::
    "cmd_io \<Rightarrow> AppCommandTaskCallbackMode \<Rightarrow> AppData \<Rightarrow> (AppCommandTaskCallbackResult \<times> AppData) option" where
  "shift_register_SetDisabled cmd_io mode app =
     (case mode of
        APP_COMMAND_TASK_MODE_CALLBACK_INVOKE \<Rightarrow>
          Some (APP_COMMAND_TASK_RESULT_RUNNING, on_world (APP_ShiftRegister_SetEnabled False) app)
      | APP_COMMAND_TASK_MODE_CALLBACK_UPDATE \<Rightarrow> Some (APP_COMMAND_TASK_RESULT_FINISHED, app))"

definition shift_register_SendData ::
    "cmd_io \<Rightarrow> AppCommandTaskCallbackMode \<Rightarrow> AppData \<Rightarrow> (AppCommandTaskCallbackResult \<times> AppData) option" where
  "shift_register_SendData cmd_io mode app =
     (case mode of
        APP_COMMAND_TASK_MODE_CALLBACK_INVOKE \<Rightarrow> do {
          sr \<leftarrow> APP_ShiftRegister_SendData (send_data (command_shift_register (app_command app)))
                  (send_num_bytes (command_shift_register (app_command app))) (app_shift_register app);
          Some (APP_COMMAND_TASK_RESULT_RUNNING, app\<lparr>app_shift_register := sr\<rparr>)
        }
      | APP_COMMAND_TASK_MODE_CALLBACK_UPDATE \<Rightarrow> Some (APP_COMMAND_TASK_RESULT_FINISHED, app))"

section \<open>Subcommands\<close>

definition commandShiftRegisterSetEnabledOrDisabled ::
    "cmd_io \<Rightarrow> string list \<Rightarrow> AppData \<Rightarrow> (bool \<times> AppData) option" where
  "commandShiftRegisterSetEnabledOrDisabled cmd_io argv app = do {
     argv0 \<leftarrow> argument argv 0;
     (if length argv \<noteq> 2 then appCmdShiftRegisterUsage cmd_io argv0 app
      else do {
        verb \<leftarrow> argument argv 1;
        (if verb = ''enable'' then
           Some (schedule cmd_io performShiftRegisterSetEnabled performShiftRegisterCheckAvailable app)
         else if verb = ''disable'' then
           Some (schedule cmd_io performShiftRegisterSetDisabled performShiftRegisterCheckAvailable app)
         else appCmdShiftRegisterUsage cmd_io argv0 app)
      })
   }"

text \<open>The loop that stores the arguments, over the indices given.\<close>

primrec store_arguments :: "string list \<Rightarrow> nat list \<Rightarrow> u8 list \<Rightarrow> u8 list option" where
  "store_arguments argv [] data = Some data"
| "store_arguments argv (i # is) data = do {
     text \<leftarrow> argument argv (i + 2);
     data \<leftarrow> array_set data i (uint8_of_int (atoi text));
     store_arguments argv is data
   }"

definition set_send :: "u8 list \<Rightarrow> nat \<Rightarrow> AppData \<Rightarrow> AppData" where
  "set_send data num_bytes app =
     app\<lparr>app_command := (app_command app)\<lparr>command_shift_register :=
       \<lparr>send_data = data, send_num_bytes = num_bytes\<rparr>\<rparr>\<rparr>"

definition commandShiftRegisterSendData :: "cmd_io \<Rightarrow> string list \<Rightarrow> AppData \<Rightarrow> (bool \<times> AppData) option" where
  "commandShiftRegisterSendData cmd_io argv app =
     (if length argv < 3 then do {
        argv0 \<leftarrow> argument argv 0;
        appCmdShiftRegisterUsage cmd_io argv0 app
      }
      else do {
        let num_bytes = min_zz (length argv - 2) SHIFT_REGISTER_MAX_DATA;
        data \<leftarrow> store_arguments argv [0..<num_bytes] (send_data (command_shift_register (app_command app)));
        Some (schedule cmd_io performShiftRegisterSendData performShiftRegisterCheckAvailable
          (set_send data num_bytes app))
      })"

definition APP_Command_ShiftRegister_Initialize :: "AppData \<Rightarrow> AppData" where
  "APP_Command_ShiftRegister_Initialize app = set_send (replicate SHIFT_REGISTER_MAX_DATA 0) 0 app"

text \<open>The results of the subcommands are not looked at.\<close>

definition APP_Command_ShiftRegister :: "cmd_io \<Rightarrow> string list \<Rightarrow> AppData \<Rightarrow> (bool \<times> AppData) option" where
  "APP_Command_ShiftRegister cmd_io argv app = do {
     (available, app) \<leftarrow> APP_Command_CheckAvailable cmd_io app;
     (if \<not> available then Some (True, app)
      else do {
        argv0 \<leftarrow> argument argv 0;
        (if length argv = 1 then appCmdShiftRegisterUsage cmd_io argv0 app
         else do {
           command \<leftarrow> argument argv 1;
           (if length argv = 2 \<and> command = ''enable'' then do {
              (_, app) \<leftarrow> commandShiftRegisterSetEnabledOrDisabled cmd_io argv app;
              Some (True, app)
            }
            else if length argv = 2 \<and> command = ''disable'' then do {
              (_, app) \<leftarrow> commandShiftRegisterSetEnabledOrDisabled cmd_io argv app;
              Some (True, app)
            }
            else if 2 \<le> length argv \<and> command = ''send'' then do {
              (_, app) \<leftarrow> commandShiftRegisterSendData cmd_io argv app;
              Some (True, app)
            }
            else appCmdShiftRegisterUsage cmd_io argv0 app)
         })
      })
   }"

end
