(* ===== verification/App_Command_Flash.thy ===== *)
theory App_Command_Flash
  imports App_Data
begin

text \<open>The \<open>flash\<close> command (\<open>app_command_flash.c\<close>).\<close>

definition flash_usage :: string where
  "flash_usage =
     usage_line ''where 'command' is one of the following:'' @
     usage_line '''' @
     usage_line ''    sectors'' @
     usage_line ''        Query information about number of total and free sectors.'' @
     usage_line '''' @
     usage_line ''    format'' @
     usage_line ''        Format the whole flash drive.''"

definition appCmdFlashUsage :: "cmd_io \<Rightarrow> string \<Rightarrow> AppData \<Rightarrow> (bool \<times> AppData) option" where
  "appCmdFlashUsage cmd_io argv0 app = print_usage cmd_io argv0 flash_usage app"

section \<open>Tasks\<close>

definition flash_available :: "AppData \<Rightarrow> bool" where
  "flash_available app \<longleftrightarrow> \<not> APP_Flash_IsBusy (app_flash app)"

definition flash_Sectors ::
    "harmony \<Rightarrow> cmd_io \<Rightarrow> AppCommandTaskCallbackMode \<Rightarrow> AppData \<Rightarrow> (AppCommandTaskCallbackResult \<times> AppData) option" where
  "flash_Sectors env cmd_io mode app =
     (case mode of
        APP_COMMAND_TASK_MODE_CALLBACK_INVOKE \<Rightarrow> do {
          let ((ok, total_sectors, free_sectors), w) = APP_Flash_DriveSectorGet (fs env) (app_world app);
          let app = app\<lparr>app_world := w\<rparr>;
          app \<leftarrow> (if ok then
              COMMAND_PRINT cmd_io (usage_line ''Total sectors: %d, free sectors: %d'')
                [PInt (sint total_sectors), PInt (sint free_sectors)] app
            else COMMAND_MESSAGE cmd_io (usage_line ''Error querying sector information from flash.'') app);
          Some (APP_COMMAND_TASK_RESULT_RUNNING, app)
        }
      | APP_COMMAND_TASK_MODE_CALLBACK_UPDATE \<Rightarrow> Some (APP_COMMAND_TASK_RESULT_FINISHED, app))"

definition flash_Format ::
    "harmony \<Rightarrow> cmd_io \<Rightarrow> AppCommandTaskCallbackMode \<Rightarrow> AppData \<Rightarrow> (AppCommandTaskCallbackResult \<times> AppData) option" where
  "flash_Format env cmd_io mode app =
     (case mode of
        APP_COMMAND_TASK_MODE_CALLBACK_INVOKE \<Rightarrow> do {
          let (ok, w) = APP_Flash_DriveFormat (fs env) (app_world app);
          let app = app\<lparr>app_world := w\<rparr>;
          app \<leftarrow> (if ok then COMMAND_MESSAGE cmd_io (usage_line ''Drive is formatted.'') app
            else COMMAND_MESSAGE cmd_io (usage_line ''Error formatting the drive.'') app);
          Some (APP_COMMAND_TASK_RESULT_RUNNING, app)
        }
      | APP_COMMAND_TASK_MODE_CALLBACK_UPDATE \<Rightarrow> Some (APP_COMMAND_TASK_RESULT_FINISHED, app))"

section \<open>Subcommands\<close>

definition appCmdFlashSectors :: "cmd_io \<Rightarrow> string list \<Rightarrow> AppData \<Rightarrow> (bool \<times> AppData) option" where
  "appCmdFlashSectors cmd_io argv app = do {
     argv0 \<leftarrow> argument argv 0;
     (if length argv \<noteq> 2 then appCmdFlashUsage cmd_io argv0 app
      else Some (schedule cmd_io performFlashSectors performFlashCheckAvailable app))
   }"

definition appCmdFlashFormat :: "cmd_io \<Rightarrow> string list \<Rightarrow> AppData \<Rightarrow> (bool \<times> AppData) option" where
  "appCmdFlashFormat cmd_io argv app = do {
     argv0 \<leftarrow> argument argv 0;
     (if length argv \<noteq> 2 then appCmdFlashUsage cmd_io argv0 app
      else Some (schedule cmd_io performFlashFormat performFlashCheckAvailable app))
   }"

definition APP_Command_Flash :: "cmd_io \<Rightarrow> string list \<Rightarrow> AppData \<Rightarrow> (bool \<times> AppData) option" where
  "APP_Command_Flash cmd_io argv app = do {
     (available, app) \<leftarrow> APP_Command_CheckAvailable cmd_io app;
     (if \<not> available then Some (True, app)
      else do {
        argv0 \<leftarrow> argument argv 0;
        (if length argv = 1 then appCmdFlashUsage cmd_io argv0 app
         else do {
           command \<leftarrow> argument argv 1;
           (if command = ''sectors'' then appCmdFlashSectors cmd_io argv app
            else if command = ''format'' then appCmdFlashFormat cmd_io argv app
            else appCmdFlashUsage cmd_io argv0 app)
         })
      })
   }"

end
