(* ===== verification/App_Command_Fetch.thy ===== *)
theory App_Command_Fetch
  imports App_Data
begin

text \<open>
  The \<open>fetch\<close> command (\<open>app_command_fetch.c\<close>): an HTTP(S) request whose response is printed
  on the console device of the scheduled task, byte by byte.
\<close>

definition appCmdFetchUsage :: "cmd_io \<Rightarrow> string \<Rightarrow> AppData \<Rightarrow> (bool \<times> AppData) option" where
  "appCmdFetchUsage cmd_io argv0 app = do {
     app \<leftarrow> COMMAND_PRINT cmd_io (usage_line ''Usage: %s <url>'') [PStr argv0] app;
     Some (True, app)
   }"

definition set_fetch :: "AppCommandFetchData \<Rightarrow> AppData \<Rightarrow> AppData" where
  "set_fetch data app = app\<lparr>app_command := (app_command app)\<lparr>command_fetch := data\<rparr>\<rparr>"

definition set_request_active :: "bool \<Rightarrow> AppData \<Rightarrow> AppData" where
  "set_request_active active app =
     set_fetch ((command_fetch (app_command app))\<lparr>request_active := active\<rparr>) app"

definition fetch_active :: "AppData \<Rightarrow> bool" where
  "fetch_active app \<longleftrightarrow> request_active (command_fetch (app_command app))"

section \<open>Callbacks of the HTTPS client\<close>

primrec fetch_bufferReceivedCallback :: "char list \<Rightarrow> AppData \<Rightarrow> AppData option" where
  "fetch_bufferReceivedCallback [] app = Some app"
| "fetch_bufferReceivedCallback (c # cs) app = do {
     app \<leftarrow> COMMAND_PRINT (callback_cmd_io (app_task app)) ''%c'' [PChar c] app;
     fetch_bufferReceivedCallback cs app
   }"

definition fetch_requestHandledCallback :: "AppData \<Rightarrow> AppData" where
  "fetch_requestHandledCallback app = set_request_active False app"

definition fetch_errorCallback :: "AppData \<Rightarrow> AppData" where
  "fetch_errorCallback app = set_request_active False app"

definition fetch_callbacks :: "app_callback AppHttpsClientCallbacks" where
  "fetch_callbacks = \<lparr>cb_buffer_received = Some Fetch_bufferReceivedCallback,
     cb_request_handled = Some Fetch_requestHandledCallback, cb_error = Some Fetch_errorCallback\<rparr>"

section \<open>The task and the command\<close>

definition fetch_Fetch ::
    "AppLayout \<Rightarrow> cmd_io \<Rightarrow> AppCommandTaskCallbackMode \<Rightarrow> AppData \<Rightarrow> (AppCommandTaskCallbackResult \<times> AppData) option" where
  "fetch_Fetch lay cmd_io mode app =
     (case mode of
        APP_COMMAND_TASK_MODE_CALLBACK_INVOKE \<Rightarrow> do {
          let app = set_request_active True app;
          (submitted, https) \<leftarrow> APP_HTTPS_Client_Request
            (array_chars (fetch_url (command_fetch (app_command app))) (after_fetch_url lay)) 0
            fetch_callbacks (app_https_client app);
          let app = app\<lparr>app_https_client := https\<rparr>;
          (if \<not> submitted then Some (APP_COMMAND_TASK_RESULT_FINISHED, app)
           else Some (APP_COMMAND_TASK_RESULT_RUNNING, app))
        }
      | APP_COMMAND_TASK_MODE_CALLBACK_UPDATE \<Rightarrow>
          (if \<not> fetch_active app then Some (APP_COMMAND_TASK_RESULT_FINISHED, app)
           else Some (APP_COMMAND_TASK_RESULT_RUNNING, app)))"

definition fetch_available :: "AppData \<Rightarrow> bool" where
  "fetch_available app \<longleftrightarrow> \<not> APP_HTTPS_Client_IsBusy (app_https_client app)"

definition appCmdFetch :: "cmd_io \<Rightarrow> string list \<Rightarrow> AppData \<Rightarrow> (bool \<times> AppData) option" where
  "appCmdFetch cmd_io argv app =
     (if length argv \<noteq> 2 then do {
        argv0 \<leftarrow> argument argv 0;
        appCmdFetchUsage cmd_io argv0 app
      }
      else do {
        url \<leftarrow> argument argv 1;
        (_, copy) \<leftarrow> safe_strncpy (literal url) (Some (fetch_url (command_fetch (app_command app)))) (Some 0) MAX_URL;
        Some (schedule cmd_io performFetch performFetchCheckAvailable
          (set_fetch ((command_fetch (app_command app))\<lparr>fetch_url := the copy\<rparr>) app))
      })"

definition APP_Command_Fetch_Initialize :: "AppData \<Rightarrow> AppData" where
  "APP_Command_Fetch_Initialize app =
     set_fetch \<lparr>fetch_url = replicate MAX_URL (CHR 0x00), request_active = False\<rparr> app"

definition APP_Command_Fetch :: "cmd_io \<Rightarrow> string list \<Rightarrow> AppData \<Rightarrow> (bool \<times> AppData) option" where
  "APP_Command_Fetch cmd_io argv app = do {
     (available, app) \<leftarrow> APP_Command_CheckAvailable cmd_io app;
     (if \<not> available then Some (True, app)
      else if length argv = 1 then do {
        argv0 \<leftarrow> argument argv 0;
        appCmdFetchUsage cmd_io argv0 app
      }
      else do {
        (_, app) \<leftarrow> appCmdFetch cmd_io argv app;
        Some (True, app)
      })
   }"

end
