(* ===== verification/App_Command_Board.thy ===== *)
theory App_Command_Board
  imports App_Data
begin

text \<open>
  The commands that act at once: \<open>debug\<close>, \<open>ntp\<close>, \<open>phy\<close>, \<open>power\<close> and
  \<open>iwsecurity\<close> (\<open>app_command_debug.c\<close>, \<open>app_command_ntp.c\<close>,
  \<open>app_command_phy.c\<close>, \<open>app_command_power.c\<close>, \<open>app_command_wifi.c\<close>). WolfSSL is
  built without \<open>DEBUG_WOLFSSL\<close>, as the repository's configuration has it.
\<close>

section \<open>debug\<close>

definition debug_usage :: string where
  "debug_usage =
     usage_line ''where 'command' is one of the following:'' @
     usage_line '''' @
     usage_line ''    wolfssl <enable|disable>'' @
     usage_line ''        Enable or disable debug and logging from WolfSSL.''"

definition appCmdDebugUsage :: "cmd_io \<Rightarrow> string \<Rightarrow> AppData \<Rightarrow> (bool \<times> AppData) option" where
  "appCmdDebugUsage cmd_io argv0 app = print_usage cmd_io argv0 debug_usage app"

definition appCmdDebugWolfSSL :: "cmd_io \<Rightarrow> string list \<Rightarrow> AppData \<Rightarrow> (bool \<times> AppData) option" where
  "appCmdDebugWolfSSL cmd_io argv app = do {
     app \<leftarrow> COMMAND_MESSAGE cmd_io (usage_line ''WolfSSL is compiled without debug support.'') app;
     Some (True, app)
   }"

definition APP_Command_Debug :: "cmd_io \<Rightarrow> string list \<Rightarrow> AppData \<Rightarrow> (bool \<times> AppData) option" where
  "APP_Command_Debug cmd_io argv app = do {
     (available, app) \<leftarrow> APP_Command_CheckAvailable cmd_io app;
     (if \<not> available then Some (True, app)
      else do {
        argv0 \<leftarrow> argument argv 0;
        (if length argv = 1 then appCmdDebugUsage cmd_io argv0 app
         else do {
           command \<leftarrow> argument argv 1;
           (if command = ''wolfssl'' then do {
              (_, app) \<leftarrow> appCmdDebugWolfSSL cmd_io argv app;
              Some (True, app)
            }
            else appCmdDebugUsage cmd_io argv0 app)
         })
      })
   }"

section \<open>ntp\<close>

text \<open>This command does not look whether the processor is busy.\<close>

definition ntp_usage :: string where
  "ntp_usage =
     usage_line ''where 'command' is one of the following:'' @
     usage_line '''' @
     usage_line ''    seconds <enable|disable>'' @
     usage_line ''        Obtains the current time from the SNTP module.''"

definition appCmdNTPUsage :: "cmd_io \<Rightarrow> string \<Rightarrow> AppData \<Rightarrow> (bool \<times> AppData) option" where
  "appCmdNTPUsage cmd_io argv0 app = print_usage cmd_io argv0 ntp_usage app"

definition appCmdNTPSeconds :: "harmony \<Rightarrow> cmd_io \<Rightarrow> string list \<Rightarrow> AppData \<Rightarrow> (bool \<times> AppData) option" where
  "appCmdNTPSeconds env cmd_io argv app =
     (if length argv \<noteq> 2 then do {
        argv0 \<leftarrow> argument argv 0;
        appCmdNTPUsage cmd_io argv0 app
      }
      else do {
        let (now, w) = ask (sntp_seconds (dns env)) (IO_TCPIP TCPIP_SNTP_UTCSecondsGet) (app_world app);
        let app = app\<lparr>app_world := w\<rparr>;
        app \<leftarrow> COMMAND_PRINT cmd_io (usage_line ''UTC seconds: %d'') [PInt (sint now)] app;
        Some (True, app)
      })"

definition APP_Command_NTP :: "harmony \<Rightarrow> cmd_io \<Rightarrow> string list \<Rightarrow> AppData \<Rightarrow> (bool \<times> AppData) option" where
  "APP_Command_NTP env cmd_io argv app = do {
     argv0 \<leftarrow> argument argv 0;
     (if length argv = 1 then appCmdNTPUsage cmd_io argv0 app
      else do {
        command \<leftarrow> argument argv 1;
        (if command = ''seconds'' then appCmdNTPSeconds env cmd_io argv app
         else appCmdNTPUsage cmd_io argv0 app)
      })
   }"

section \<open>phy\<close>

definition phy_usage :: string where
  "phy_usage =
     usage_line ''where 'command' is one of the following:'' @
     usage_line '''' @
     usage_line ''    up'' @
     usage_line ''        Enable PHY module.'' @
     usage_line ''    down'' @
     usage_line ''        Disable PHY module.''"

definition appCmdPhyUsage :: "cmd_io \<Rightarrow> string \<Rightarrow> AppData \<Rightarrow> (bool \<times> AppData) option" where
  "appCmdPhyUsage cmd_io argv0 app = print_usage cmd_io argv0 phy_usage app"

definition APP_Command_Phy :: "cmd_io \<Rightarrow> string list \<Rightarrow> AppData \<Rightarrow> (bool \<times> AppData) option" where
  "APP_Command_Phy cmd_io argv app = do {
     (available, app) \<leftarrow> APP_Command_CheckAvailable cmd_io app;
     (if \<not> available then Some (True, app)
      else do {
        argv0 \<leftarrow> argument argv 0;
        (if length argv = 1 then appCmdPhyUsage cmd_io argv0 app
         else do {
           command \<leftarrow> argument argv 1;
           (if command = ''up'' then Some (True, on_world APP_Network_PHY_Up app)
            else if command = ''down'' then Some (True, on_world APP_Network_PHY_Down app)
            else appCmdPhyUsage cmd_io argv0 app)
         })
      })
   }"

section \<open>power\<close>

definition power_usage :: string where
  "power_usage =
     usage_line ''where 'command' is one of the following:'' @
     usage_line '''' @
     usage_line ''    hv <enable|disable>'' @
     usage_line ''        Enable or disable high voltage power supply.''"

definition appCmdPowerUsage :: "cmd_io \<Rightarrow> string \<Rightarrow> AppData \<Rightarrow> (bool \<times> AppData) option" where
  "appCmdPowerUsage cmd_io argv0 app = print_usage cmd_io argv0 power_usage app"

definition appCmdPowerHV :: "cmd_io \<Rightarrow> string list \<Rightarrow> AppData \<Rightarrow> (bool \<times> AppData) option" where
  "appCmdPowerHV cmd_io argv app = do {
     argv0 \<leftarrow> argument argv 0;
     (if length argv \<noteq> 3 then appCmdPowerUsage cmd_io argv0 app
      else do {
        verb \<leftarrow> argument argv 2;
        (if verb = ''enable'' then do {
           let app = on_world (APP_Power_Enable APP_POWER_SUPPLY_HV True) app;
           app \<leftarrow> COMMAND_MESSAGE cmd_io (usage_line ''High voltage power supply has been enabled.'') app;
           Some (True, app)
         }
         else if verb = ''disable'' then do {
           let app = on_world (APP_Power_Enable APP_POWER_SUPPLY_HV False) app;
           app \<leftarrow> COMMAND_MESSAGE cmd_io (usage_line ''High voltage power supply has been disabled.'') app;
           Some (True, app)
         }
         else appCmdPowerUsage cmd_io argv0 app)
      })
   }"

definition APP_Command_Power :: "cmd_io \<Rightarrow> string list \<Rightarrow> AppData \<Rightarrow> (bool \<times> AppData) option" where
  "APP_Command_Power cmd_io argv app = do {
     (available, app) \<leftarrow> APP_Command_CheckAvailable cmd_io app;
     (if \<not> available then Some (True, app)
      else do {
        argv0 \<leftarrow> argument argv 0;
        (if length argv = 1 then appCmdPowerUsage cmd_io argv0 app
         else do {
           command \<leftarrow> argument argv 1;
           (if command = ''hv'' then appCmdPowerHV cmd_io argv app
            else appCmdPowerUsage cmd_io argv0 app)
         })
      })
   }"

section \<open>iwsecurity\<close>

text \<open>
  The context of the driver call has a key array of \<open>wep_key_size\<close> bytes; copying more into it is
  undefined. What the command prints goes to the system console.
\<close>

definition set_security ::
    "wifi_env \<Rightarrow> DRV_WIFI_SECURITY \<Rightarrow> string \<Rightarrow> nat \<Rightarrow> world \<Rightarrow> world option" where
  "set_security env security key len w =
     (if wep_key_size env < len then None
      else Some (tell (IO_WiFi (DRV_WIFI_SecurityWepSet security (of_nat len) (take len key))) w))"

definition IwSecurity_Set_None :: "world \<Rightarrow> world" where
  "IwSecurity_Set_None w = tell (IO_WiFi DRV_WIFI_SecurityOpenSet) w"

definition IwSecurity_Set_WEP :: "wifi_env \<Rightarrow> string \<Rightarrow> nat \<Rightarrow> world \<Rightarrow> world option" where
  "IwSecurity_Set_WEP env key len w =
     (if len = 10 then set_security env DRV_WIFI_SECURITY_WEP_40 key len w
      else if len = 26 then set_security env DRV_WIFI_SECURITY_WEP_104 key len w
      else Some w)"

definition IwSecurity_Set_WPA :: "wifi_env \<Rightarrow> string \<Rightarrow> nat \<Rightarrow> world \<Rightarrow> world option" where
  "IwSecurity_Set_WPA env key len w =
     (if 8 \<le> len \<and> len \<le> 63 then set_security env DRV_WIFI_SECURITY_WPA_WITH_PASS_PHRASE key len w
      else Some w)"

definition IwSecurity_Set_WPA2 :: "wifi_env \<Rightarrow> string \<Rightarrow> nat \<Rightarrow> world \<Rightarrow> world option" where
  "IwSecurity_Set_WPA2 env key len w =
     (if 8 \<le> len \<and> len \<le> 63 then set_security env DRV_WIFI_SECURITY_WPA2_WITH_PASS_PHRASE key len w
      else Some w)"

definition IwSecurity_Set_WPSPIN :: "wifi_env \<Rightarrow> string \<Rightarrow> nat \<Rightarrow> world \<Rightarrow> world option" where
  "IwSecurity_Set_WPSPIN env key len w =
     (if len = 8 then set_security env DRV_WIFI_SECURITY_WPS_PIN key len w else Some w)"

definition set_world :: "world option \<Rightarrow> AppData \<Rightarrow> (bool \<times> AppData) option" where
  "set_world w app = map_option (\<lambda>w. (True, app\<lparr>app_world := w\<rparr>)) w"

text \<open>The key of a PIN is the argument after the one whose length is checked.\<close>

definition APP_Command_IwSecurity :: "harmony \<Rightarrow> string list \<Rightarrow> AppData \<Rightarrow> (bool \<times> AppData) option" where
  "APP_Command_IwSecurity env argv app =
     (if length argv = 2 \<and> argument argv 1 = Some ''open'' then
        Some (True, on_world IwSecurity_Set_None app)
      else if length argv = 3 \<and> argument argv 1 = Some ''wep40'' then do {
        key \<leftarrow> argument argv 2;
        (if length key \<noteq> 10 then Some (False, app)
         else set_world (IwSecurity_Set_WEP (wifi env) key (length key) (app_world app)) app)
      }
      else if length argv = 3 \<and> argument argv 1 = Some ''wep104'' then do {
        key \<leftarrow> argument argv 2;
        (if length key \<noteq> 26 then Some (False, app)
         else set_world (IwSecurity_Set_WEP (wifi env) key (length key) (app_world app)) app)
      }
      else if length argv = 3 \<and> argument argv 1 = Some ''wpa'' then do {
        key \<leftarrow> argument argv 2;
        (if length key < 8 \<or> length key > 63 then Some (False, app)
         else set_world (IwSecurity_Set_WPA (wifi env) key (length key) (app_world app)) app)
      }
      else if length argv = 3 \<and> argument argv 1 = Some ''wpa2'' then do {
        key \<leftarrow> argument argv 2;
        (if length key < 8 \<or> length key > 63 then Some (False, app)
         else set_world (IwSecurity_Set_WPA2 (wifi env) key (length key) (app_world app)) app)
      }
      else if length argv = 3 \<and> argument argv 1 = Some ''pin'' then do {
        checked \<leftarrow> argument argv 2;
        (if length checked \<noteq> 8 then Some (False, app)
         else do {
           key \<leftarrow> argument argv 3;
           set_world (IwSecurity_Set_WPSPIN (wifi env) key (length checked) (app_world app)) app
         })
      }
      else Some (False, app))"

end
