(* ===== verification/App_Command.thy ===== *)
theory App_Command
  imports App_Command_Rtc App_Command_Nixie App_Command_Shift_Register App_Command_Flash
    App_Command_Fetch App_Command_Board
begin

text \<open>
  The command processor (\<open>app_command.c\<close>): the table of commands, the interpretation of the
  callback names of the scheduler, and the initialization and the tick of the whole.
\<close>

section \<open>Callbacks of the scheduler\<close>

definition check_available :: "command_check \<Rightarrow> AppData \<Rightarrow> bool" where
  "check_available c app =
     (case c of
        performRTCCheckAvailable \<Rightarrow> rtc_available app
      | performNixieCheckAvailable \<Rightarrow> nixie_available app
      | performShiftRegisterCheckAvailable \<Rightarrow> shift_register_available app
      | performFlashCheckAvailable \<Rightarrow> flash_available app
      | performFetchCheckAvailable \<Rightarrow> fetch_available app)"

definition run_callback ::
    "harmony \<Rightarrow> AppLayout \<Rightarrow> command_callback \<Rightarrow> cmd_io \<Rightarrow> AppCommandTaskCallbackMode \<Rightarrow> AppData \<Rightarrow>
     (AppCommandTaskCallbackResult \<times> AppData) option" where
  "run_callback env lay t =
     (case t of
        performRTCOscillatorStart \<Rightarrow> rtc_OscillatorStart env
      | performRTCOscillatorStop \<Rightarrow> rtc_OscillatorStop env
      | performRTCOscillatorStatus \<Rightarrow> rtc_OscillatorStatus env
      | performRTCDateShow \<Rightarrow> rtc_DateShow env
      | performRTCDateSet \<Rightarrow> rtc_DateSet env
      | performRTCBatteryEnable \<Rightarrow> rtc_BatteryEnable env
      | performRTCBatteryDisable \<Rightarrow> rtc_BatteryDisable env
      | performRTCBatteryStatus \<Rightarrow> rtc_BatteryStatus env
      | performRTCDump \<Rightarrow> rtc_Dump env
      | performRTCRegisterRead \<Rightarrow> rtc_RegisterRead env
      | performRTCRegisterWrite \<Rightarrow> rtc_RegisterWrite env
      | performNixieDisplay \<Rightarrow> nixie_Display
      | performNixieFetch \<Rightarrow> nixie_Fetch
      | performShiftRegisterSetEnabled \<Rightarrow> shift_register_SetEnabled
      | performShiftRegisterSetDisabled \<Rightarrow> shift_register_SetDisabled
      | performShiftRegisterSendData \<Rightarrow> shift_register_SendData
      | performFlashSectors \<Rightarrow> flash_Sectors env
      | performFlashFormat \<Rightarrow> flash_Format env
      | performFetch \<Rightarrow> fetch_Fetch lay)"

section \<open>The table\<close>

datatype command_function = cmdDebug | cmdFetch | cmdFlash | cmdIwsecurity | cmdNixie | cmdNTP
  | cmdPhy | cmdPower | cmdRTC | cmdShiftRegister

definition commands :: "(string \<times> command_function) list" where
  "commands =
     [(''debug'', cmdDebug), (''fetch'', cmdFetch), (''flash'', cmdFlash),
      (''iwsecurity'', cmdIwsecurity), (''nixie'', cmdNixie), (''ntp'', cmdNTP), (''phy'', cmdPhy),
      (''power'', cmdPower), (''rtc'', cmdRTC), (''shift_register'', cmdShiftRegister)]"

definition run_command ::
    "harmony \<Rightarrow> command_function \<Rightarrow> cmd_io \<Rightarrow> string list \<Rightarrow> AppData \<Rightarrow> (bool \<times> AppData) option" where
  "run_command env f cmd_io argv app =
     (case f of
        cmdDebug \<Rightarrow> APP_Command_Debug cmd_io argv app
      | cmdFetch \<Rightarrow> APP_Command_Fetch cmd_io argv app
      | cmdFlash \<Rightarrow> APP_Command_Flash cmd_io argv app
      | cmdIwsecurity \<Rightarrow> APP_Command_IwSecurity env argv app
      | cmdNixie \<Rightarrow> APP_Command_Nixie cmd_io argv app
      | cmdNTP \<Rightarrow> APP_Command_NTP env cmd_io argv app
      | cmdPhy \<Rightarrow> APP_Command_Phy cmd_io argv app
      | cmdPower \<Rightarrow> APP_Command_Power cmd_io argv app
      | cmdRTC \<Rightarrow> APP_Command_RTC cmd_io argv app
      | cmdShiftRegister \<Rightarrow> APP_Command_ShiftRegister cmd_io argv app)"

text \<open>
  Harmony's command processor calls the function of the table whose name is the first word of the
  line; a name that is not there is not the program's.
\<close>

definition dispatch :: "harmony \<Rightarrow> cmd_io \<Rightarrow> string list \<Rightarrow> AppData \<Rightarrow> (bool \<times> AppData) option" where
  "dispatch env cmd_io argv app = do {
     name \<leftarrow> argument argv 0;
     f \<leftarrow> map_of commands name;
     run_command env f cmd_io argv app
   }"

section \<open>Initialization and tick\<close>

definition APP_Command_Initialize :: "AppData \<Rightarrow> AppData" where
  "APP_Command_Initialize app =
     (let app = on_world (tell (IO_Cmd (SYS_CMD_ADDGRP (map fst commands)))) app;
          app = set_app_task (APP_Command_Task_Initialize (app_task app)) app;
          app = APP_Command_Fetch_Initialize app;
          app = APP_Command_Nixie_Initialize app;
          app = APP_Command_RTC_Initialize app
      in APP_Command_ShiftRegister_Initialize app)"

definition APP_Command_Tasks :: "harmony \<Rightarrow> AppLayout \<Rightarrow> AppData \<Rightarrow> AppData option" where
  "APP_Command_Tasks env lay =
     APP_Command_Task_Tasks check_available (run_callback env lay) app_task set_app_task"

section \<open>Every command polls\<close>

text \<open>
  The check of each callback, the resource it asks for, and what an update of the callback waits for.
  With them every callback of the program is a \<open>polled_command\<close>.
\<close>

fun check_of :: "command_callback \<Rightarrow> command_check" where
  "check_of performNixieDisplay = performNixieCheckAvailable"
| "check_of performNixieFetch = performNixieCheckAvailable"
| "check_of performShiftRegisterSetEnabled = performShiftRegisterCheckAvailable"
| "check_of performShiftRegisterSetDisabled = performShiftRegisterCheckAvailable"
| "check_of performShiftRegisterSendData = performShiftRegisterCheckAvailable"
| "check_of performFlashSectors = performFlashCheckAvailable"
| "check_of performFlashFormat = performFlashCheckAvailable"
| "check_of performFetch = performFetchCheckAvailable"
| "check_of _ = performRTCCheckAvailable"

fun resource_busy :: "command_check \<Rightarrow> AppData \<Rightarrow> bool" where
  "resource_busy performRTCCheckAvailable app = RTC_MCP7940N_IsBusy (app_rtc_handle app)"
| "resource_busy performNixieCheckAvailable app = APP_Nixie_IsBusy (app_nixie app)"
| "resource_busy performShiftRegisterCheckAvailable app = APP_ShiftRegister_IsBusy (app_shift_register app)"
| "resource_busy performFlashCheckAvailable app = APP_Flash_IsBusy (app_flash app)"
| "resource_busy performFetchCheckAvailable app = APP_HTTPS_Client_IsBusy (app_https_client app)"

fun still_pending :: "command_callback \<Rightarrow> AppData \<Rightarrow> bool" where
  "still_pending performNixieDisplay app = False"
| "still_pending performNixieFetch app = APP_Nixie_IsBusy (app_nixie app)"
| "still_pending performShiftRegisterSetEnabled app = False"
| "still_pending performShiftRegisterSetDisabled app = False"
| "still_pending performShiftRegisterSendData app = False"
| "still_pending performFlashSectors app = False"
| "still_pending performFlashFormat app = False"
| "still_pending performFetch app = fetch_active app"
| "still_pending _ app = RTC_MCP7940N_IsBusy (app_rtc_handle app)"

definition started :: "harmony \<Rightarrow> AppLayout \<Rightarrow> command_callback \<Rightarrow> cmd_io \<Rightarrow> AppData \<Rightarrow> AppData option" where
  "started env lay t io app = map_option snd (run_callback env lay t io APP_COMMAND_TASK_MODE_CALLBACK_INVOKE app)"

definition finished :: "harmony \<Rightarrow> AppLayout \<Rightarrow> command_callback \<Rightarrow> cmd_io \<Rightarrow> AppData \<Rightarrow> AppData option" where
  "finished env lay t io app = map_option snd (run_callback env lay t io APP_COMMAND_TASK_MODE_CALLBACK_UPDATE app)"

lemmas callback_defs = rtc_OscillatorStart_def rtc_OscillatorStop_def rtc_OscillatorStatus_def rtc_DateShow_def
  rtc_DateSet_def rtc_BatteryEnable_def rtc_BatteryDisable_def rtc_BatteryStatus_def rtc_Dump_def
  rtc_RegisterRead_def rtc_RegisterWrite_def nixie_Display_def nixie_Fetch_def shift_register_SetEnabled_def
  shift_register_SetDisabled_def shift_register_SendData_def flash_Sectors_def flash_Format_def fetch_Fetch_def

lemma check_available_busy: "check_available c app \<longleftrightarrow> \<not> resource_busy c app"
  by (cases c) (simp_all add: check_available_def rtc_available_def nixie_available_def
      shift_register_available_def flash_available_def fetch_available_def)

lemma https_set_request_active [simp]: "app_https_client (set_request_active b app) = app_https_client app"
  by (simp add: set_request_active_def set_fetch_def)

lemma pair_snd_option:
  "(\<And>r x. y = Some (r, x) \<Longrightarrow> r = c) \<Longrightarrow> y = map_option (Pair c) (map_option snd y)"
  by (cases y) auto

lemma invoke_runs:
  assumes "\<not> resource_busy (check_of t) app"
    and "run_callback env lay t io APP_COMMAND_TASK_MODE_CALLBACK_INVOKE app = Some (r, app')"
  shows "r = APP_COMMAND_TASK_RESULT_RUNNING"
  using assms
  by (cases t) (auto simp: run_callback_def callback_defs APP_HTTPS_Client_Request_def Let_def
      split: Option.bind_splits prod.splits if_splits)

lemma update_waits:
  assumes "still_pending t app"
  shows "run_callback env lay t io APP_COMMAND_TASK_MODE_CALLBACK_UPDATE app =
    Some (APP_COMMAND_TASK_RESULT_RUNNING, app)"
  using assms by (cases t) (auto simp: run_callback_def callback_defs)

lemma update_finishes:
  assumes "\<not> still_pending t app"
    and "run_callback env lay t io APP_COMMAND_TASK_MODE_CALLBACK_UPDATE app = Some (r, app')"
  shows "r = APP_COMMAND_TASK_RESULT_FINISHED"
  using assms
  by (cases t) (auto simp: run_callback_def callback_defs Let_def split: Option.bind_splits if_splits)

text \<open>Nothing a callback does reads or writes the task data.\<close>

lemma set_task_selectors [simp]:
  "app_nixie (set_app_task u app) = app_nixie app"
  "app_rtc (set_app_task u app) = app_rtc app"
  "app_flash (set_app_task u app) = app_flash app"
  "app_https_client (set_app_task u app) = app_https_client app"
  "app_shift_register (set_app_task u app) = app_shift_register app"
  "app_rtc_handle (set_app_task u app) = app_rtc_handle app"
  "rtc_union (set_app_task u app) = rtc_union app"
  "app_mem (set_app_task u app) = app_mem app"
  "nixie_display_value (set_app_task u app) = nixie_display_value app"
  "nixie_fetch_is_fetched (set_app_task u app) = nixie_fetch_is_fetched app"
  "nixie_fetch_value (set_app_task u app) = nixie_fetch_value app"
  "command_fetch (app_command (set_app_task u app)) = command_fetch (app_command app)"
  "command_shift_register (app_command (set_app_task u app)) = command_shift_register (app_command app)"
  by (simp_all add: set_app_task_def app_rtc_handle_def rtc_union_def app_mem_def nixie_display_value_def
      nixie_fetch_is_fetched_def nixie_fetch_value_def)

lemma set_task_commutes:
  "on_world f (set_app_task u app) = set_app_task u (on_world f app)"
  "on_rtc g (set_app_task u app) = set_app_task u (on_rtc g app)"
  "set_fetch d (set_app_task u app) = set_app_task u (set_fetch d app)"
  "set_request_active b (set_app_task u app) = set_app_task u (set_request_active b app)"
  "(set_app_task u app)\<lparr>app_world := w\<rparr> = set_app_task u (app\<lparr>app_world := w\<rparr>)"
  "(set_app_task u app)\<lparr>app_nixie := nix\<rparr> = set_app_task u (app\<lparr>app_nixie := nix\<rparr>)"
  "(set_app_task u app)\<lparr>app_https_client := https\<rparr> = set_app_task u (app\<lparr>app_https_client := https\<rparr>)"
  "(set_app_task u app)\<lparr>app_shift_register := sr\<rparr> = set_app_task u (app\<lparr>app_shift_register := sr\<rparr>)"
  by (simp_all add: on_world_def on_rtc_def set_fetch_def set_request_active_def set_app_task_def
      app_rtc_handle_def split: prod.splits)

lemma print_commutes:
  "COMMAND_PRINT io f as (set_app_task u app) = map_option (set_app_task u) (COMMAND_PRINT io f as app)"
  "COMMAND_MESSAGE io m (set_app_task u app) = map_option (set_app_task u) (COMMAND_MESSAGE io m app)"
  by (cases io; simp add: COMMAND_PRINT_def COMMAND_MESSAGE_def set_task_commutes)+

lemma invoke_local:
  "run_callback env lay t io APP_COMMAND_TASK_MODE_CALLBACK_INVOKE (set_app_task u app) =
   map_option (map_prod id (set_app_task u)) (run_callback env lay t io APP_COMMAND_TASK_MODE_CALLBACK_INVOKE app)"
  by (cases t) (auto simp: run_callback_def callback_defs set_task_commutes print_commutes Let_def
      option.map_comp comp_def split: Option.bind_splits prod.splits if_splits)

lemma app_task_updates [simp]:
  "app_task (app\<lparr>app_world := w\<rparr>) = app_task app"
  "app_task (app\<lparr>app_nixie := nix\<rparr>) = app_task app"
  "app_task (app\<lparr>app_https_client := https\<rparr>) = app_task app"
  "app_task (app\<lparr>app_shift_register := sr\<rparr>) = app_task app"
  "app_task (app\<lparr>app_flash := fl\<rparr>) = app_task app"
  "app_task (app\<lparr>app_network := nw\<rparr>) = app_task app"
  "app_task (app\<lparr>app_usb_hid := us\<rparr>) = app_task app"
  "app_task (app\<lparr>app_rtc := rt\<rparr>) = app_task app"
  "app_task (set_fetch d app) = app_task app"
  "app_task (set_request_active b app) = app_task app"
  "app_task (set_send bs n app) = app_task app"
  "app_task (on_rtc g app) = app_task app"
  by (simp_all add: app_task_def set_fetch_def set_request_active_def set_send_def on_rtc_def split: prod.splits)

lemma print_task:
  "COMMAND_PRINT io f as app = Some app' \<Longrightarrow> app_task app' = app_task app"
  "COMMAND_MESSAGE io m app = Some app' \<Longrightarrow> app_task app' = app_task app"
  by (cases io; auto simp: COMMAND_PRINT_def COMMAND_MESSAGE_def)+

lemma print_row_task: "print_row io rs app = Some app' \<Longrightarrow> app_task app' = app_task app"
  by (induction io rs app rule: print_row.induct)
    (auto dest: print_task split: Option.bind_splits)

lemma printRegisters_from_task: "printRegisters_from io n rs app = Some app' \<Longrightarrow> app_task app' = app_task app"
proof (induction io n rs app rule: printRegisters_from.induct)
  case (2 io n r rs app)
  from "2.prems" obtain a b where prt: "COMMAND_PRINT io ''%02x |'' [PInt (int n)] app = Some a"
    and row: "print_row io (take 8 (r # rs)) a = Some b"
    and rest: "printRegisters_from io (n + 8) (drop 8 (r # rs)) b = Some app'"
    by (auto simp del: take_Suc_Cons drop_Suc_Cons split: Option.bind_splits)
  show ?case using "2.IH" [OF prt row rest] print_task(1) [OF prt] print_row_task [OF row] by simp
qed simp

lemma callback_task:
  assumes "run_callback env lay t io mode app = Some (r, app')"
  shows "app_task app' = app_task app"
  using assms
  by (cases t; cases mode) (auto simp: run_callback_def callback_defs Let_def printRegisters_def
      dest: print_task printRegisters_from_task split: Option.bind_splits prod.splits if_splits)

interpretation command: polled_command app_task set_app_task check_available "run_callback env lay" t
    "check_of t" "resource_busy (check_of t)" "still_pending t" "started env lay t" "finished env lay t"
  for env lay t
proof unfold_locales
  fix io u and a a' :: AppData
  show "check_available (check_of t) a \<longleftrightarrow> \<not> resource_busy (check_of t) a"
    by (rule check_available_busy)
  show "run_callback env lay t io APP_COMMAND_TASK_MODE_CALLBACK_INVOKE a =
    map_option (Pair APP_COMMAND_TASK_RESULT_RUNNING) (started env lay t io a)"
    if "\<not> resource_busy (check_of t) a"
    unfolding started_def by (rule pair_snd_option) (rule invoke_runs [OF that])
  show "run_callback env lay t io APP_COMMAND_TASK_MODE_CALLBACK_UPDATE a = Some (APP_COMMAND_TASK_RESULT_RUNNING, a)"
    if "still_pending t a"
    by (rule update_waits [OF that])
  show "run_callback env lay t io APP_COMMAND_TASK_MODE_CALLBACK_UPDATE a =
    map_option (Pair APP_COMMAND_TASK_RESULT_FINISHED) (finished env lay t io a)"
    if "\<not> still_pending t a"
    unfolding finished_def by (rule pair_snd_option) (rule update_finishes [OF that])
  show "resource_busy (check_of t) (set_app_task u a) = resource_busy (check_of t) a"
    by (cases t) simp_all
  show "started env lay t io (set_app_task u a) = map_option (set_app_task u) (started env lay t io a)"
    by (cases "run_callback env lay t io APP_COMMAND_TASK_MODE_CALLBACK_INVOKE a")
      (simp_all add: started_def invoke_local)
  show "app_task a' = app_task a" if "started env lay t io a = Some a'"
    using that by (auto simp: started_def dest: callback_task)
  show "app_task a' = app_task a" if "finished env lay t io a = Some a'"
    using that by (auto simp: finished_def dest: callback_task)
qed

end
