(* ===== verification/App.thy ===== *)
theory App
  imports App_Command
begin

text \<open>
  The application (\<open>app.c\<close>): initialization in order, and the tick, which runs every service
  once. The HTTPS client calls the display or the \<open>fetch\<close> command back; both find their data in
  the application's state.
\<close>

section \<open>The HTTPS client's callbacks\<close>

definition call_nixie :: "(AppNixieData \<Rightarrow> AppNixieData option) \<Rightarrow> AppData \<Rightarrow> AppData option" where
  "call_nixie f app = map_option (\<lambda>data. app\<lparr>app_nixie := data\<rparr>) (f (app_nixie app))"

text \<open>A callback that is called with another event than its own does not occur in the program.\<close>

definition app_call :: "app_callback \<Rightarrow> callback_event \<Rightarrow> AppData \<times> world \<Rightarrow> (AppData \<times> world) option" where
  "app_call cb event = (\<lambda>(app, w). do {
     let app = app\<lparr>app_world := w\<rparr>;
     app \<leftarrow> (case (cb, event) of
         (Nixie_bufferReceivedCallback, Buffer_Received buffer) \<Rightarrow> call_nixie (bufferReceivedCallback buffer) app
       | (Nixie_requestHandledCallback, Request_Handled) \<Rightarrow> call_nixie requestHandledCallback app
       | (Nixie_errorCallback, Request_Error) \<Rightarrow> call_nixie (Some \<circ> errorCallback) app
       | (Fetch_bufferReceivedCallback, Buffer_Received buffer) \<Rightarrow> fetch_bufferReceivedCallback buffer app
       | (Fetch_requestHandledCallback, Request_Handled) \<Rightarrow> Some (fetch_requestHandledCallback app)
       | (Fetch_errorCallback, Request_Error) \<Rightarrow> Some (fetch_errorCallback app)
       | _ \<Rightarrow> None);
     Some (app, app_world app)
   })"

section \<open>Services on the application's state\<close>

definition network_service :: "harmony \<Rightarrow> AppData \<Rightarrow> AppData option" where
  "network_service env app = do {
     (data, w) \<leftarrow> APP_Network_Tasks env (app_network app, app_world app);
     Some (app\<lparr>app_network := data, app_world := w\<rparr>)
   }"

definition usb_service :: "harmony \<Rightarrow> AppData \<Rightarrow> AppData" where
  "usb_service env app =
     (let (data, w) = APP_USB_HID_Tasks (usb env) (app_usb_hid app, app_world app)
      in app\<lparr>app_usb_hid := data, app_world := w\<rparr>)"

definition rtc_service :: "harmony \<Rightarrow> AppData \<Rightarrow> AppData" where
  "rtc_service env app =
     (let (data, w) = APP_RTC_Tasks (i2c env) (app_rtc app, app_world app)
      in app\<lparr>app_rtc := data, app_world := w\<rparr>)"

definition flash_service :: "harmony \<Rightarrow> AppData \<Rightarrow> AppData" where
  "flash_service env app =
     (let (data, w) = APP_Flash_Tasks (fs env) (app_flash app, app_world app)
      in app\<lparr>app_flash := data, app_world := w\<rparr>)"

definition https_service :: "harmony \<Rightarrow> AppLayout \<Rightarrow> AppData \<Rightarrow> AppData option" where
  "https_service env lay app = do {
     (data, app, w) \<leftarrow> APP_HTTPS_Client_Tasks env (after_request_url lay) app_call
                         (app_https_client app, app, app_world app);
     Some (app\<lparr>app_https_client := data, app_world := w\<rparr>)
   }"

definition shift_register_service :: "AppData \<Rightarrow> AppData option" where
  "shift_register_service app = do {
     (data, w) \<leftarrow> APP_ShiftRegister_Tasks (app_shift_register app, app_world app);
     Some (app\<lparr>app_shift_register := data, app_world := w\<rparr>)
   }"

definition nixie_service :: "harmony \<Rightarrow> AppLayout \<Rightarrow> AppData \<Rightarrow> AppData option" where
  "nixie_service env lay app = do {
     (data, https, sr, w) \<leftarrow> APP_Nixie_Tasks env (after_nixie_request_url lay)
       (app_nixie app, app_https_client app, app_shift_register app, app_world app);
     Some (app\<lparr>app_nixie := data, app_https_client := https, app_shift_register := sr, app_world := w\<rparr>)
   }"

section \<open>app.c\<close>

definition appGreetings :: "AppData \<Rightarrow> AppData" where
  "appGreetings app =
     (let app = on_world (pin_Off STATUS_LED_1) app;
          app = on_world (pin_Off STATUS_LED_2) app;
          app = on_world (pin_Off STATUS_LED_3) app;
          app = on_world (pin_Off STATUS_LED_4) app
      in app\<lparr>app_state := APP_STATE_RUN_SERVICES\<rparr>)"

definition APP_Initialize_Real :: "harmony \<Rightarrow> AppData \<Rightarrow> AppData option" where
  "APP_Initialize_Real env app = do {
     let app = app\<lparr>app_state := APP_STATE_GREETINGS\<rparr>;
     let app = APP_Command_Initialize app;
     let (network, w) = APP_Network_Initialize (app_network app, app_world app);
     let app = app\<lparr>app_network := network, app_world := w\<rparr>;
     let app = app\<lparr>app_usb_hid := APP_USB_HID_Initialize (app_usb_hid app)\<rparr>;
     let (rtc, w) = APP_RTC_Initialize (i2c env) (app_rtc app, app_world app);
     let app = app\<lparr>app_rtc := rtc, app_world := w\<rparr>;
     let app = app\<lparr>app_flash := APP_Flash_Initialize (app_flash app)\<rparr>;
     let app = on_world APP_Power_Initialize app;
     let app = app\<lparr>app_https_client := APP_HTTPS_Client_Initialize (app_https_client app)\<rparr>;
     let (sr, w) = APP_ShiftRegister_Initialize (app_shift_register app, app_world app);
     let app = app\<lparr>app_shift_register := sr, app_world := w\<rparr>;
     (nixie, sr) \<leftarrow> APP_Nixie_Initialize (app_nixie app, app_shift_register app);
     Some (app\<lparr>app_nixie := nixie, app_shift_register := sr\<rparr>)
   }"

definition APP_Tasks_Real :: "harmony \<Rightarrow> AppLayout \<Rightarrow> AppData \<Rightarrow> AppData option" where
  "APP_Tasks_Real env lay app =
     (case app_state app of
        APP_STATE_GREETINGS \<Rightarrow> Some (appGreetings app)
      | APP_STATE_RUN_SERVICES \<Rightarrow> do {
          app \<leftarrow> network_service env app;
          let app = usb_service env app;
          let app = rtc_service env app;
          let app = flash_service env app;
          app \<leftarrow> https_service env lay app;
          app \<leftarrow> shift_register_service app;
          app \<leftarrow> nixie_service env lay app;
          app \<leftarrow> APP_Command_Tasks env lay app;
          Some (if \<not> APP_Command_IsBusy app then on_world (tell (IO_Cmd SYS_CMD_READY_TO_READ)) app else app)
        }
      | APP_STATE_ERROR \<Rightarrow> Some app)"

end
