(* ===== verification/App_Nixie_Stream.thy ===== *)
theory App_Nixie_Stream
  imports App_Nixie
begin

text \<open>
  The callbacks that receive the server's response: the relation between the bytes received so far
  and what the display keeps of them, that every chunk preserves it, and what the end of the response
  makes of it. The search itself is used through the interface \<open>substring_search\<close>.
\<close>

section \<open>Reading the value\<close>

text \<open>The display value of the text after the token: its leading digits, last digit last.\<close>

definition value_of :: "char list \<Rightarrow> char list" where
  "value_of rest = takeWhile is_digit (take MAX_NIXIE_TUBES rest)"

definition display_of :: "char list \<Rightarrow> char list" where
  "display_of rest = rev (value_of rest @ replicate (MAX_NIXIE_TUBES - length (value_of rest)) (CHR 0x00))"

lemma display_of_take: "take MAX_NIXIE_TUBES xs = take MAX_NIXIE_TUBES ys \<Longrightarrow> display_of xs = display_of ys"
  by (simp add: display_of_def value_of_def)

lemma length_display_of [simp]: "length (display_of rest) = MAX_NIXIE_TUBES"
proof -
  have "length (value_of rest) \<le> length (take MAX_NIXIE_TUBES rest)"
    unfolding value_of_def by (rule length_takeWhile_le)
  then show ?thesis by (simp add: display_of_def)
qed

lemma nul_not_digit [simp]: "\<not> is_digit (CHR 0x00)"
  by (simp add: is_digit_def)

lemma length_4: "length xs = 4 \<longleftrightarrow> (\<exists>a b c d. xs = [a, b, c, d])"
  by (auto simp: length_Suc_conv eval_nat_numeral)

lemma parse_digits:
  assumes "length buffer \<le> 4"
  shows "\<exists>index value. copy_digits 4 buffer 0 [a, b, c, d] = Some (index, value) \<and>
     clear_digits 4 index value = Some (rev (takeWhile is_digit buffer @
       replicate (4 - length (takeWhile is_digit buffer)) (CHR 0x00)))"
proof -
  from assms consider "buffer = []" | x where "buffer = [x]" | x y where "buffer = [x, y]"
    | x y z where "buffer = [x, y, z]" | x y z u where "buffer = [x, y, z, u]"
    by (cases buffer rule: list.exhaust [case_product list.exhaust])
      (auto simp: eval_nat_numeral le_Suc_eq length_Suc_conv)
  then show ?thesis
    by cases (simp_all add: clear_digits.simps nixie_sizes array_put_def array_set_def numeral_eq_Suc)
qed

text \<open>What the parsing leaves alone, and the configuration it relies on.\<close>

definition nixie_ready :: "char list \<Rightarrow> AppNixieData \<Rightarrow> bool" where
  "nixie_ready T data \<longleftrightarrow> T \<noteq> [] \<and> cstr (token data) = T \<and> token_len data = length T \<and>
     num_nixies data = MAX_NIXIE_TUBES \<and> length (display_value data) = MAX_NIXIE_TUBES \<and>
     length (cyclic_buffer data) = 2 * (MAX_NIXIE_TOKEN + MAX_NIXIE_TUBES) \<and>
     length T < MAX_NIXIE_TOKEN \<and> max_cyclic_buffer_len data = 2 * (length T + MAX_NIXIE_TUBES)"

lemma parseValueFromBuffer_value:
  assumes "nixie_ready T data"
  shows "parseValueFromBuffer buffer data =
     Some (data\<lparr>display_value := display_of buffer, is_value_parsed := True\<rparr>)"
proof -
  obtain a b c d where dv: "display_value data = [a, b, c, d]"
    using assms by (auto simp: nixie_ready_def nixie_sizes length_4)
  have taken: "take (min_zz (length buffer) 4) buffer = take 4 buffer" by (simp add: min_def)
  have "length (take 4 buffer) \<le> 4" by simp
  from parse_digits [OF this, of a b c d] obtain index v where
    "copy_digits 4 (take 4 buffer) 0 [a, b, c, d] = Some (index, v)"
    "clear_digits 4 index v = Some (display_of buffer)"
    by (auto simp: display_of_def value_of_def nixie_sizes)
  with taken show ?thesis using assms dv
    by (simp add: parseValueFromBuffer_def nixie_ready_def nixie_sizes Let_def)
qed

section \<open>The bytes received so far\<close>

text \<open>
  The relation between the bytes \<open>s\<close> received since the request and the state. Without the token
  in them, the last \<open>R\<close> of them are kept; with it, but without enough bytes after it, all from
  the token on; then the value is parsed and the rest is ignored.
\<close>

definition window_size :: "char list \<Rightarrow> nat" where
  "window_size T = length T + MAX_NIXIE_TUBES"

definition received_bytes :: "char list \<Rightarrow> char list \<Rightarrow> AppNixieData \<Rightarrow> bool" where
  "received_bytes T s data \<longleftrightarrow> nixie_ready T data \<and>
     (if is_value_parsed data
      then \<exists>p. first_occurrence s T p \<and> window_size T \<le> length s - p \<and>
             display_value data = display_of (drop (p + length T) s)
      else cyclic_buffer_len data \<le> window_size T \<and>
           ((\<forall>j. \<not> occurs_at s T j) \<and> cyclic_bytes data = drop (length s - window_size T) s \<and>
              cyclic_buffer_len data = min (length s) (window_size T)
            \<or> (\<exists>p. first_occurrence s T p \<and> length s - p < window_size T \<and>
                   cyclic_bytes data = drop p s \<and> cyclic_buffer_len data = length s - p)))"

text \<open>What the callbacks leave alone.\<close>

definition same_but_parsing :: "AppNixieData \<Rightarrow> AppNixieData \<Rightarrow> bool" where
  "same_but_parsing data data' \<longleftrightarrow> (\<exists>v c n b.
     data' = data\<lparr>display_value := v, cyclic_buffer := c, cyclic_buffer_len := n, is_value_parsed := b\<rparr> \<and>
     length c = length (cyclic_buffer data))"

lemma same_but_parsing_refl [simp]: "same_but_parsing data data"
proof -
  have "data = data\<lparr>display_value := display_value data, cyclic_buffer := cyclic_buffer data,
      cyclic_buffer_len := cyclic_buffer_len data, is_value_parsed := is_value_parsed data\<rparr>" by simp
  then show ?thesis unfolding same_but_parsing_def by blast
qed

text \<open>The bytes kept after the token: a prefix of the stream from the token on.\<close>

lemma kept_value:
  assumes "kept = take n (drop p s)" and "R \<le> length kept" and "R = k + MAX_NIXIE_TUBES"
  shows "display_of (drop k kept) = display_of (drop (p + k) s)"
proof (rule display_of_take)
  have "R \<le> n" using assms(1,2) by simp
  then show "take MAX_NIXIE_TUBES (drop k kept) = take MAX_NIXIE_TUBES (drop (p + k) s)"
    using assms(1,3) by (simp add: take_drop min_def add.commute)
qed

lemma last_bytes:
  assumes n: "n = min (length b) R" and k: "k = min (min (length s) R) (R - n)"
    and w: "w = drop (length s - R) s"
  shows "drop (length w - k) w @ drop (length b - n) b = drop (length (s @ b) - R) (s @ b)"
proof (cases "R \<le> length b")
  case True
  then show ?thesis using assms by simp
next
  case False
  then have "k = min (length s) (R - length b)" and "n = length b" using n k by auto
  then have "length s - R + (length w - k) = length s + length b - R" using w False by (auto simp: min_def)
  then show ?thesis using w \<open>n = length b\<close> False by (simp add: add.commute)
qed

text \<open>Writing and moving inside the array, seen on the bytes in use.\<close>

lemma array_write_used:
  assumes "i + length x \<le> length c"
  shows "\<exists>c'. array_write c i x = Some c' \<and> length c' = length c \<and> take (i + length x) c' = take i c @ x"
proof -
  have "min (length c) i = i" and "i + length x - i = length x" using assms by simp_all
  with assms show ?thesis by (simp add: array_write_def)
qed

lemma array_move_used:
  assumes "q \<le> n" and "n \<le> length c"
  shows "\<exists>c'. array_move c 0 q (n - q) = Some c' \<and> length c' = length c \<and>
     take (n - q) c' = drop q (take n c)"
  using assms by (auto simp: array_move_def array_write_def drop_take)

lemma move_and_fill:
  assumes "q \<le> n" and "n \<le> length c" and "n - q + length x \<le> length c"
  shows "\<exists>c1 c2. array_move c 0 q (n - q) = Some c1 \<and> array_write c1 (n - q) x = Some c2 \<and>
     length c1 = length c \<and> length c2 = length c \<and>
     take (n - q) c1 = drop q (take n c) \<and> take (n - q + length x) c2 = drop q (take n c) @ x"
proof -
  obtain c1 where c1: "array_move c 0 q (n - q) = Some c1" "length c1 = length c"
      "take (n - q) c1 = drop q (take n c)"
    using array_move_used [OF assms(1,2)] by blast
  moreover obtain c2 where "array_write c1 (n - q) x = Some c2" "length c2 = length c1"
      "take (n - q + length x) c2 = take (n - q) c1 @ x"
    using array_write_used [of "n - q" x c1] assms(3) c1(2) by auto
  ultimately show ?thesis by auto
qed

text \<open>The token is in the buffer \<open>u\<close>, which holds the first \<open>a\<close> bytes of the chunk \<open>b\<close> too.\<close>

lemma received_after_find:
  assumes ready: "nixie_ready T data" and unparsed: "\<not> is_value_parsed data"
    and c: "length c = length (cyclic_buffer data)" "take n c = take n (drop p s)" "n \<le> length (drop p s)"
    and short: "n < window_size T \<Longrightarrow> n = length (drop p s)"
    and first: "first_occurrence s T p"
    and data1: "data1 = data\<lparr>cyclic_buffer := c, cyclic_buffer_len := n\<rparr>"
  shows "\<exists>data'. (if cyclic_buffer_len data1 < token_len data1 + num_nixies data1 then Some data1
      else parseValueFromBuffer (drop (token_len data1) (cyclic_bytes data1)) data1) = Some data' \<and>
     received_bytes T s data' \<and> same_but_parsing data data'"
proof -
  have R: "token_len data1 + num_nixies data1 = window_size T" "token_len data1 = length T"
    using ready by (simp_all add: data1 nixie_ready_def window_size_def)
  have ready1: "nixie_ready T data1" using ready c(1) by (simp add: data1 nixie_ready_def)
  have bytes: "cyclic_bytes data1 = take n (drop p s)" using c(2) by (simp add: data1 cyclic_bytes_def)
  have same: "same_but_parsing data (data1\<lparr>display_value := v, is_value_parsed := b\<rparr>)" for v b
    unfolding same_but_parsing_def data1 using c(1)
    by (intro exI [of _ v] exI [of _ c] exI [of _ n] exI [of _ b]) simp
  show ?thesis
  proof (cases "n < window_size T")
    case True
    then have "received_bytes T s data1"
      using ready1 unparsed first short [OF True] bytes
      by (auto simp: received_bytes_def data1)
    moreover have "same_but_parsing data data1"
      using same [where v = "display_value data1" and b = "is_value_parsed data1"] by simp
    ultimately show ?thesis using True R by (simp add: data1)
  next
    case False
    let ?d = "data1\<lparr>display_value := display_of (drop (length T) (cyclic_bytes data1)), is_value_parsed := True\<rparr>"
    have "window_size T \<le> length (cyclic_bytes data1)" using False c(3) bytes by simp
    from kept_value [OF bytes this window_size_def]
    have "display_value ?d = display_of (drop (p + length T) s)" by simp
    moreover have "window_size T \<le> length s - p" using False c(3) by simp
    moreover have "nixie_ready T ?d" using ready1 by (simp add: nixie_ready_def)
    ultimately have "received_bytes T s ?d" using first by (auto simp: received_bytes_def)
    then show ?thesis using False R parseValueFromBuffer_value [OF ready1] same by (simp add: data1)
  qed
qed

lemma token_found_filled:
  assumes ready: "nixie_ready T data" and unparsed: "\<not> is_value_parsed data"
    and bytes: "cyclic_bytes data = u" and len: "cyclic_buffer_len data = length u"
    and full: "length u = 2 * window_size T" and a: "a < length b" and q: "0 < q" "q \<le> length u"
    and s: "drop p s = drop q u @ drop a b" and first: "first_occurrence s T p"
  shows "\<exists>data'. token_found b a q data = Some data' \<and> received_bytes T s data' \<and> same_but_parsing data data'"
proof -
  let ?c = "cyclic_buffer data"
  have room: "length u \<le> length ?c"
    using ready full by (simp add: nixie_ready_def window_size_def nixie_sizes)
  have used: "take (length u) ?c = u" using bytes len by (simp add: cyclic_bytes_def)
  define m where "m = min_zz q (length b - a)"
  define x where "x = take m (drop a b)"
  have lx: "length x = m" by (simp add: x_def m_def)
  have "length u - q + length x \<le> length ?c" using room q by (simp add: lx m_def)
  from move_and_fill [OF q(2) room this] obtain c1 c2 where
    c1: "array_move ?c 0 q (length u - q) = Some c1" "length c1 = length ?c" and
    c2: "array_write c1 (length u - q) x = Some c2" "length c2 = length ?c"
      "take (length u - q + m) c2 = drop q u @ x"
    using used lx by auto
  have "length u - q + m < window_size T \<Longrightarrow> length u - q + m = length (drop p s)"
    using q full unfolding s by (auto simp: m_def min_def split: if_splits)
  moreover have "take (length u - q + m) c2 = take (length u - q + m) (drop p s)"
    using c2(3) unfolding s by (simp add: x_def)
  moreover have "length u - q + m \<le> length (drop p s)"
    unfolding s by (simp add: m_def)
  moreover define d where "d = data\<lparr>cyclic_buffer := c2, cyclic_buffer_len := length u - q + m\<rparr>"
  ultimately obtain data' where
    "(if cyclic_buffer_len d < token_len d + num_nixies d then Some d
      else parseValueFromBuffer (drop (token_len d) (cyclic_bytes d)) d) = Some data'"
    "received_bytes T s data'" "same_but_parsing data data'"
    using received_after_find [OF ready unparsed _ _ _ _ first refl, of c2 "length u - q + m", folded d_def] c2(2) by blast
  moreover have "token_found b a q data =
      (if cyclic_buffer_len d < token_len d + num_nixies d then Some d
       else parseValueFromBuffer (drop (token_len d) (cyclic_bytes d)) d)"
    using c1 c2 q(1) a len m_def [symmetric] x_def [symmetric]
    by (simp add: token_found_def Let_def d_def del: min_zz_min)
  ultimately show ?thesis by auto
qed

lemma token_found_step:
  assumes ready: "nixie_ready T data" and unparsed: "\<not> is_value_parsed data"
    and bytes: "cyclic_bytes data = u" and len: "cyclic_buffer_len data = length u"
    and cap: "length u \<le> 2 * window_size T"
    and full: "a < length b \<Longrightarrow> length u = 2 * window_size T" and a: "a \<le> length b"
    and q: "q \<le> length u"
    and s: "drop p s = drop q u @ drop a b" and first: "first_occurrence s T p"
  shows "\<exists>data'. token_found b a q data = Some data' \<and> received_bytes T s data' \<and> same_but_parsing data data'"
proof -
  let ?c = "cyclic_buffer data"
  have room: "length u \<le> length ?c"
    using ready cap by (simp add: nixie_ready_def window_size_def nixie_sizes)
  have used: "take (length u) ?c = u" using bytes len by (simp add: cyclic_bytes_def)
  note find = received_after_find [OF ready unparsed _ _ _ _ first refl]
  show ?thesis
  proof (cases "q = 0")
    case True
    have same: "data\<lparr>cyclic_buffer := ?c, cyclic_buffer_len := length u\<rparr> = data"
      using len by (cases data) simp
    have "length u < window_size T \<Longrightarrow> length u = length (drop p s)"
      using full a True unfolding s by (cases "a < length b") auto
    moreover have "take (length u) ?c = take (length u) (drop p s)" using used True unfolding s by simp
    moreover have "length u \<le> length (drop p s)" using True unfolding s by simp
    ultimately have "\<exists>data'. (if cyclic_buffer_len data < token_len data + num_nixies data then Some data
        else parseValueFromBuffer (drop (token_len data) (cyclic_bytes data)) data) = Some data' \<and>
       received_bytes T s data' \<and> same_but_parsing data data'"
      using find [of ?c "length u"] unfolding same by simp
    then show ?thesis using True by (simp add: token_found_def)
  next
    case False
    show ?thesis
    proof (cases "length b = a")
      case True
      obtain c1 where c1: "array_move ?c 0 q (length u - q) = Some c1" "length c1 = length ?c"
          "take (length u - q) c1 = drop q u"
        using array_move_used [OF q room] used by auto
      show ?thesis
        using find [of c1 "length u - q"] c1 True False s len
        by (simp add: token_found_def)
    next
      case b: False
      then show ?thesis using token_found_filled [OF ready unparsed bytes len full _ _ q s first] a False by simp
    qed
  qed
qed

text \<open>The token is nowhere yet: the last bytes of the stream are kept.\<close>

lemma token_missing_step:
  assumes ready: "nixie_ready T data" and unparsed: "\<not> is_value_parsed data"
    and used: "take (length w) (cyclic_buffer data) = w" and len: "cyclic_buffer_len data = length w + a"
    and w: "w = drop (length s - window_size T) s"
    and missing: "\<forall>j. \<not> occurs_at (s @ b) T j"
  shows "\<exists>data'. token_missing b a data = Some data' \<and> received_bytes T (s @ b) data' \<and>
     same_but_parsing data data'"
proof -
  let ?c = "cyclic_buffer data" and ?R = "window_size T"
  define n where "n = min_zz (length b) ?R"
  define k where "k = min_zz (length w) (?R - n)"
  have R: "token_len data + num_nixies data = ?R"
    using ready by (simp add: nixie_ready_def window_size_def)
  have room: "2 * ?R \<le> length ?c"
    using ready by (simp add: nixie_ready_def window_size_def nixie_sizes)
  have lw: "length w = min (length s) ?R" by (simp add: w)
  have tail: "drop (length w - k) w @ drop (length b - n) b = drop (length (s @ b) - ?R) (s @ b)"
    by (rule last_bytes [OF _ _ w]) (simp_all add: n_def k_def lw)
  have "\<exists>c1. (if k = 0 then Some ?c else array_move ?c 0 (length w - k) k) = Some c1 \<and>
      length c1 = length ?c \<and> take k c1 = drop (length w - k) w"
  proof (cases "k = 0")
    case False
    have "length w \<le> length ?c" using lw room by simp
    moreover have "length w - (length w - k) = k" by (simp add: k_def)
    ultimately show ?thesis
      using array_move_used [of "length w - k" "length w" ?c] False used by auto
  qed simp
  then obtain c1 where c1: "(if k = 0 then Some ?c else array_move ?c 0 (length w - k) k) = Some c1"
      "length c1 = length ?c" "take k c1 = drop (length w - k) w" by blast
  define x where "x = drop (length b - n) b"
  have lx: "length x = n" by (simp add: x_def n_def)
  have "k + length x \<le> length c1" using room c1(2) by (simp add: lx n_def k_def)
  from array_write_used [OF this] obtain c2 where
    c2: "array_write c1 k x = Some c2" "length c2 = length ?c"
      "take (k + n) c2 = drop (length (s @ b) - ?R) (s @ b)"
    using c1(2,3) tail lx by (auto simp: x_def)
  let ?d = "data\<lparr>cyclic_buffer := c2, cyclic_buffer_len := n + k\<rparr>"
  have "token_missing b a data = Some ?d"
    using c1(1) c2(1) len R unfolding x_def
    by (cases "k = 0") (simp_all add: token_missing_def Let_def n_def [symmetric] k_def [symmetric] del: min_zz_min)
  moreover have "0 < ?R" by (simp add: window_size_def nixie_sizes)
  then have "n + k = min (length (s @ b)) ?R" unfolding n_def k_def min_zz_min length_append lw by arith
  then have "received_bytes T (s @ b) ?d"
    using ready unparsed missing c2
    by (auto simp: received_bytes_def nixie_ready_def cyclic_bytes_def add.commute)
  moreover have "same_but_parsing data ?d"
    unfolding same_but_parsing_def using c2(2)
    by (intro exI [of _ "display_value data"] exI [of _ c2] exI [of _ "n + k"] exI [of _ "is_value_parsed data"]) simp
  ultimately show ?thesis by blast
qed

text \<open>The token starts inside the chunk.\<close>

lemma token_in_buffer_step:
  assumes ready: "nixie_ready T data" and unparsed: "\<not> is_value_parsed data"
    and q: "q \<le> length b" and first: "first_occurrence (s @ b) T (length s + q)"
  shows "\<exists>data'. token_in_buffer b q data = Some data' \<and> received_bytes T (s @ b) data' \<and>
     same_but_parsing data data'"
proof -
  have R: "token_len data + num_nixies data = window_size T" "token_len data = length T"
    using ready by (simp_all add: nixie_ready_def window_size_def)
  have room: "2 * window_size T \<le> length (cyclic_buffer data)"
    using ready by (simp add: nixie_ready_def window_size_def nixie_sizes)
  show ?thesis
  proof (cases "window_size T \<le> length b - q")
    case True
    let ?d = "data\<lparr>display_value := display_of (drop (q + length T) b), is_value_parsed := True\<rparr>"
    have "nixie_ready T ?d" using ready by (simp add: nixie_ready_def)
    then have "received_bytes T (s @ b) ?d"
      using True first by (auto simp: received_bytes_def intro!: exI [of _ "length s + q"])
    moreover have "same_but_parsing data ?d"
      unfolding same_but_parsing_def
      by (intro exI [of _ "display_of (drop (q + length T) b)"] exI [of _ "cyclic_buffer data"]
          exI [of _ "cyclic_buffer_len data"] exI [of _ True]) (cases data, simp)
    moreover have "token_in_buffer b q data = Some ?d"
      using True R parseValueFromBuffer_value [OF ready] by (simp add: token_in_buffer_def)
    ultimately show ?thesis by blast
  next
    case False
    then have "0 + length (drop q b) \<le> length (cyclic_buffer data)" using room by simp
    from array_write_used [OF this] obtain c where
      c: "array_write (cyclic_buffer data) 0 (drop q b) = Some c" "length c = length (cyclic_buffer data)"
        "take (length b - q) c = drop q b" by auto
    let ?d = "data\<lparr>cyclic_buffer := c, cyclic_buffer_len := length b - q\<rparr>"
    have "received_bytes T (s @ b) ?d"
      using False ready unparsed first c
      by (auto simp: received_bytes_def nixie_ready_def cyclic_bytes_def intro!: exI [of _ "length s + q"])
    moreover have "same_but_parsing data ?d"
      unfolding same_but_parsing_def using c(2)
      by (intro exI [of _ "display_value data"] exI [of _ c] exI [of _ "length b - q"]
          exI [of _ "is_value_parsed data"]) simp
    moreover have "token_in_buffer b q data = Some ?d"
      using False R c(1) by (simp add: token_in_buffer_def)
    ultimately show ?thesis by blast
  qed
qed

section \<open>One chunk\<close>

lemma window_size_bounds:
  assumes "nixie_ready T data"
  shows "0 < window_size T" "length T \<le> window_size T" "2 * window_size T \<le> length (cyclic_buffer data)"
    "2 * window_size T < 2 ^ 32" "max_cyclic_buffer_len data = 2 * window_size T" "T \<noteq> []"
    "cstr (token data) = T"
  using assms by (simp_all add: nixie_ready_def window_size_def nixie_sizes)

lemma same_but_parsing_trans:
  "same_but_parsing a b \<Longrightarrow> same_but_parsing b c \<Longrightarrow> same_but_parsing a c"
  unfolding same_but_parsing_def by fastforce

text \<open>After the value nothing is looked at.\<close>

lemma chunk_after_value:
  assumes rel: "received_bytes T s data" and parsed: "is_value_parsed data"
  shows "bufferReceivedCallback b data = Some data \<and> received_bytes T (s @ b) data"
proof -
  obtain p where p: "first_occurrence s T p" "window_size T \<le> length s - p"
      "display_value data = display_of (drop (p + length T) s)" and ready: "nixie_ready T data"
    using rel parsed by (auto simp: received_bytes_def)
  have "display_of (drop (p + length T) (s @ b)) = display_of (drop (p + length T) s)"
    by (rule display_of_take) (use p(2) in \<open>simp add: window_size_def\<close>)
  then have "received_bytes T (s @ b) data"
    using parsed p ready first_occurrence_append [OF p(1), of b]
    by (auto simp: received_bytes_def intro!: exI [of _ p])
  then show ?thesis using parsed by (simp add: bufferReceivedCallback_def)
qed

text \<open>What a chunk does before the value: as much as fits is appended, then the token is searched for.\<close>

definition search_chunk :: "char list \<Rightarrow> nat \<Rightarrow> char list \<Rightarrow> char list \<Rightarrow> AppNixieData \<Rightarrow> AppNixieData option" where
  "search_chunk b a T u d = (case memmem u T of
     Some q \<Rightarrow> token_found b a q d
   | None \<Rightarrow> (case memmem b T of None \<Rightarrow> token_missing b a d | Some q \<Rightarrow> token_in_buffer b q d))"

definition appended_to :: "char list \<Rightarrow> nat \<Rightarrow> char list \<Rightarrow> char list \<Rightarrow> AppNixieData \<Rightarrow> bool" where
  "appended_to T a b w d \<longleftrightarrow> nixie_ready T d \<and> \<not> is_value_parsed d \<and> length w \<le> window_size T \<and>
     a = min (length b) (2 * window_size T - length w) \<and> cyclic_bytes d = w @ take a b \<and>
     cyclic_buffer_len d = length w + a \<and> take (length w) (cyclic_buffer d) = w"

lemma chunk_appended:
  assumes rel: "received_bytes T s data" and unparsed: "\<not> is_value_parsed data"
  obtains a d where "appended_to T a b (cyclic_bytes data) d" and "same_but_parsing data d"
    and "bufferReceivedCallback b data = search_chunk b a T (cyclic_bytes data @ take a b) d"
proof -
  have ready: "nixie_ready T data" using rel by (simp add: received_bytes_def)
  let ?R = "window_size T" and ?c = "cyclic_buffer data"
  note bounds = window_size_bounds [OF ready]
  define w where "w = cyclic_bytes data"
  define a where "a = min_zz (length b) (sz_sub (max_cyclic_buffer_len data) (cyclic_buffer_len data))"
  have small: "cyclic_buffer_len data \<le> ?R" using rel unparsed by (simp add: received_bytes_def)
  then have lw: "length w = cyclic_buffer_len data" using bounds(3) by (simp add: w_def cyclic_bytes_def)
  have a: "a = min (length b) (2 * ?R - length w)"
    using small bounds(4,5) by (simp add: a_def lw sz_sub_exact)
  have lx: "length (take a b) = a" by (simp add: a)
  have room: "length w + length (take a b) \<le> length ?c" using small bounds(3) by (simp add: lw a)
  from array_write_used [OF this] obtain c where
    c: "array_write ?c (length w) (take a b) = Some c" "length c = length ?c" "take (length w + a) c = w @ take a b"
    using lw unfolding lx by (auto simp: w_def cyclic_bytes_def)
  define d where "d = data\<lparr>cyclic_buffer := c, cyclic_buffer_len := length w + a\<rparr>"
  have ready': "nixie_ready T d" using ready c(2) by (simp add: d_def nixie_ready_def)
  have bytes': "cyclic_bytes d = w @ take a b" using c(3) by (simp add: d_def cyclic_bytes_def)
  have "take (length w) (cyclic_buffer d) = w" using arg_cong [OF c(3), of "take (length w)"] by (simp add: d_def)
  then have "appended_to T a b w d"
    using ready' bytes' a small unparsed by (simp add: appended_to_def d_def lw)
  moreover have "same_but_parsing data d"
    unfolding same_but_parsing_def d_def using c(2)
    by (intro exI [of _ "display_value data"] exI [of _ c] exI [of _ "length w + a"]
        exI [of _ "is_value_parsed data"]) simp
  moreover have "bufferReceivedCallback b data = search_chunk b a T (w @ take a b) d"
  proof -
    have appended: "array_write ?c (cyclic_buffer_len data)
        (take (min_zz (length b) (sz_sub (max_cyclic_buffer_len data) (cyclic_buffer_len data))) b) = Some c"
      using c(1) by (simp only: a_def lw)
    have extended: "data\<lparr>cyclic_buffer := c, cyclic_buffer_len := cyclic_buffer_len data +
        min_zz (length b) (sz_sub (max_cyclic_buffer_len data) (cyclic_buffer_len data))\<rparr> = d"
      by (simp only: d_def a_def lw)
    have searched: "strstr_len (cyclic_bytes d) (token d) = memmem (w @ take a b) T"
        "strstr_len b (token d) = memmem b T"
      using bytes' window_size_bounds(7) [OF ready'] by (simp_all add: strstr_len_def)
    show ?thesis
      unfolding bufferReceivedCallback_def Let_def appended bind.bind_lunit extended searched search_chunk_def a_def
      using unparsed by (simp del: min_zz_min)
  qed
  ultimately show thesis using that by (simp add: w_def)
qed

text \<open>The token has begun before the chunk: it stands at the beginning of the cyclic buffer.\<close>

lemma chunk_after_token:
  assumes d: "appended_to T a b w d" and p: "first_occurrence s T p" and w: "w = drop p s"
  shows "\<exists>data'. search_chunk b a T (w @ take a b) d = Some data' \<and> received_bytes T (s @ b) data' \<and> same_but_parsing d data'"
proof -
  have facts: "nixie_ready T d" "\<not> is_value_parsed d" "cyclic_bytes d = w @ take a b" "cyclic_buffer_len d = length (w @ take a b)"
    "length (w @ take a b) \<le> 2 * window_size T" "a < length b \<Longrightarrow> length (w @ take a b) = 2 * window_size T" "a \<le> length b"
    using d by (auto simp: appended_to_def)
  have "memmem (w @ take a b) T = Some 0"
    unfolding w by (rule memmem.waiting_found [OF window_size_bounds(6) [OF facts(1)] p])
  moreover have "drop p (s @ b) = drop 0 (w @ take a b) @ drop a b"
    using p occurs_at_in_range [of s T p] by (simp add: w first_occurrence_def)
  from token_found_step [OF facts _ this first_occurrence_append [OF p]]
  have "\<exists>data'. token_found b a 0 d = Some data' \<and> received_bytes T (s @ b) data' \<and> same_but_parsing d data'" by simp
  ultimately show ?thesis by (simp add: search_chunk_def)
qed

text \<open>No token has begun before the chunk: it ends in the cyclic buffer, begins in the chunk, or is not there.\<close>

lemma chunk_before_token:
  assumes d: "appended_to T a b w d" and no: "\<And>j. \<not> occurs_at s T j" and w: "w = drop (length s - window_size T) s"
  shows "\<exists>data'. search_chunk b a T (w @ take a b) d = Some data' \<and> received_bytes T (s @ b) data' \<and> same_but_parsing d data'"
proof -
  let ?R = "window_size T"
  have facts: "nixie_ready T d" "\<not> is_value_parsed d" "cyclic_bytes d = w @ take a b" "cyclic_buffer_len d = length (w @ take a b)"
    "length (w @ take a b) \<le> 2 * ?R" "a < length b \<Longrightarrow> length (w @ take a b) = 2 * ?R" "a \<le> length b"
    using d by (auto simp: appended_to_def)
  note bounds = window_size_bounds [OF facts(1)]
  have keep: "length T \<le> ?R \<or> length s \<le> ?R" using bounds(2) by simp
  have ahead: "length T \<le> a \<or> length b \<le> a" using bounds(2) d by (auto simp: appended_to_def)
  show ?thesis
  proof (cases "memmem (w @ take a b) T")
    case (Some q)
    have first: "first_occurrence (s @ b) T (length s - ?R + q)"
      by (rule memmem.window_found [OF bounds(6) no keep Some [unfolded w]])
    have q: "q \<le> length (w @ take a b)"
      using memmem.search_found [OF bounds(6) Some] occurs_at_in_range [of "w @ take a b" T q]
      by (simp add: first_occurrence_def)
    have split: "drop q (u @ v) = drop q u @ v" if "q \<le> length u" for u v :: "char list" using that by simp
    have "drop (length s - ?R + q) (s @ b) = drop q (drop (length s - ?R) (s @ b))" by (simp add: add.commute)
    also have "\<dots> = drop q ((w @ take a b) @ drop a b)" by (simp add: w)
    also have "\<dots> = drop q (w @ take a b) @ drop a b" by (rule split [OF q])
    finally have "drop (length s - ?R + q) (s @ b) = drop q (w @ take a b) @ drop a b" .
    from token_found_step [OF facts q this first] show ?thesis using Some by (simp add: search_chunk_def)
  next
    case None
    note missing = None [unfolded w]
    show ?thesis
    proof (cases "memmem b T")
      case (Some q)
      have first: "first_occurrence (s @ b) T (length s + q)"
        by (rule memmem.chunk_found [OF bounds(6) no keep missing ahead Some])
      have "q \<le> length b"
        using memmem.search_found [OF bounds(6) Some] occurs_at_in_range [of b T q]
        by (simp add: first_occurrence_def)
      from token_in_buffer_step [OF facts(1,2) this first] show ?thesis
        using None Some by (simp add: search_chunk_def)
    next
      case missing': None
      have "\<forall>j. \<not> occurs_at (s @ b) T j"
        using memmem.chunk_missing [OF bounds(6) no keep missing ahead missing'] by blast
      moreover have "take (length w) (cyclic_buffer d) = w" "cyclic_buffer_len d = length w + a"
        using d by (simp_all add: appended_to_def)
      ultimately show ?thesis
        using token_missing_step [OF facts(1,2) _ _ w] None missing' by (simp add: search_chunk_def)
    qed
  qed
qed

lemma chunk_step:
  assumes rel: "received_bytes T s data"
  shows "\<exists>data'. bufferReceivedCallback b data = Some data' \<and> received_bytes T (s @ b) data' \<and>
     same_but_parsing data data'"
proof (cases "is_value_parsed data")
  case True
  with chunk_after_value [OF rel] show ?thesis by auto
next
  case False
  obtain a d where d: "appended_to T a b (cyclic_bytes data) d" "same_but_parsing data d"
    and step: "bufferReceivedCallback b data = search_chunk b a T (cyclic_bytes data @ take a b) d"
    using chunk_appended [OF rel False] by blast
  have "\<exists>data'. search_chunk b a T (cyclic_bytes data @ take a b) d = Some data' \<and> received_bytes T (s @ b) data' \<and>
     same_but_parsing d data'"
  proof (cases "\<forall>j. \<not> occurs_at s T j")
    case True
    then have "cyclic_bytes data = drop (length s - window_size T) s"
      using rel False by (auto simp: received_bytes_def first_occurrence_def)
    with True show ?thesis by (intro chunk_before_token [OF d(1)]) auto
  next
    case later: False
    then obtain p where "first_occurrence s T p" "cyclic_bytes data = drop p s"
      using rel False by (auto simp: received_bytes_def)
    then show ?thesis by (rule chunk_after_token [OF d(1)])
  qed
  then show ?thesis using d(2) same_but_parsing_trans unfolding step by blast
qed

section \<open>The whole response\<close>

primrec receive_chunks :: "char list list \<Rightarrow> AppNixieData \<Rightarrow> AppNixieData option" where
  "receive_chunks [] data = Some data"
| "receive_chunks (b # bs) data = Option.bind (bufferReceivedCallback b data) (receive_chunks bs)"

definition receive_response :: "char list list \<Rightarrow> AppNixieData \<Rightarrow> AppNixieData option" where
  "receive_response chunks data = Option.bind (receive_chunks chunks data) requestHandledCallback"

lemma chunks_step:
  assumes "received_bytes T s data"
  shows "\<exists>data'. receive_chunks bs data = Some data' \<and> received_bytes T (s @ concat bs) data' \<and>
     same_but_parsing data data'"
  using assms
proof (induction bs arbitrary: s data)
  case (Cons b bs)
  obtain d where d: "bufferReceivedCallback b data = Some d" "received_bytes T (s @ b) d"
      "same_but_parsing data d"
    using chunk_step [OF Cons.prems] by blast
  from Cons.IH [OF d(2)] d(1,3) show ?case using same_but_parsing_trans by auto
qed simp

text \<open>The state in which a request is submitted.\<close>

definition request_begun :: "char list \<Rightarrow> AppNixieData \<Rightarrow> bool" where
  "request_begun T data \<longleftrightarrow> nixie_ready T data \<and> \<not> is_value_parsed data \<and> cyclic_buffer_len data = 0"

lemma received_nothing: "request_begun T data \<Longrightarrow> received_bytes T [] data"
  by (auto simp: request_begun_def received_bytes_def cyclic_bytes_def nixie_ready_def occurs_at_def
      first_occurrence_def)

definition same_but_outcome :: "AppNixieData \<Rightarrow> AppNixieData \<Rightarrow> bool" where
  "same_but_outcome data data' \<longleftrightarrow> (\<exists>st v b.
     data' = data\<lparr>nixie_state := st, display_value := v, is_value_parsed := b\<rparr> \<and> length v = MAX_NIXIE_TUBES)"

lemma same_outcome_value [simp]:
  "length v = MAX_NIXIE_TUBES \<Longrightarrow>
     same_but_outcome data (data\<lparr>display_value := v, is_value_parsed := b, nixie_state := st\<rparr>)"
  unfolding same_but_outcome_def by (intro exI [of _ st] exI [of _ v] exI [of _ b]) simp

lemma same_outcome_state [simp]:
  "length (display_value data) = MAX_NIXIE_TUBES \<Longrightarrow> same_but_outcome data (data\<lparr>nixie_state := st\<rparr>)"
  using same_outcome_value [where v = "display_value data" and data = data and st = st and b = "is_value_parsed data"]
  by simp

lemma request_handled:
  assumes rel: "received_bytes T s data"
  shows "\<exists>data'. requestHandledCallback data = Some data' \<and>
     same_but_outcome data data' \<and>
     (case memmem s T of
        Some p \<Rightarrow> nixie_state data' = APP_NIXIE_STATE_SHUFFLE_SERVER_VALUE \<and>
          display_value data' = display_of (drop (p + length T) s)
      | None \<Rightarrow> nixie_state data' = APP_NIXIE_STATE_IDLE \<and> display_value data' = display_value data)"
proof -
  have ready: "nixie_ready T data" using rel by (simp add: received_bytes_def)
  note bounds = window_size_bounds [OF ready]
  have own: "length (display_value data) = MAX_NIXIE_TUBES" using ready by (simp add: nixie_ready_def)
  have look: "strstr_len (cyclic_bytes data) (token data) = memmem (cyclic_bytes data) T"
    using bounds(7) by (simp add: strstr_len_def)
  consider (parsed) p where "is_value_parsed data" "first_occurrence s T p"
      "display_value data = display_of (drop (p + length T) s)"
    | (waiting) p where "\<not> is_value_parsed data" "first_occurrence s T p" "cyclic_bytes data = drop p s"
    | (missing) "\<not> is_value_parsed data" "\<forall>j. \<not> occurs_at s T j"
        "cyclic_bytes data = drop (length s - window_size T) s"
    using rel by (auto simp: received_bytes_def split: if_splits)
  then show ?thesis
  proof cases
    case parsed
    then have "memmem s T = Some p" by (simp add: memmem.search_iff [OF bounds(6)])
    with parsed own show ?thesis by (simp add: requestHandledCallback_def)
  next
    case waiting
    then have "memmem s T = Some p" by (simp add: memmem.search_iff [OF bounds(6)])
    moreover have "memmem (drop p s) T = Some 0"
      using memmem.waiting_found [OF bounds(6) waiting(2), of "[]"] by simp
    moreover have "token_len data = length T" using ready by (simp add: nixie_ready_def)
    ultimately show ?thesis
      using waiting look parseValueFromBuffer_value [OF ready] same_outcome_value
      by (simp add: requestHandledCallback_def add.commute)
  next
    case missing
    let ?o = "length s - window_size T"
    have "\<not> occurs_at (drop ?o s) T j" for j
      using missing(2) occurs_at_drop [of ?o "?o + j" s T] by simp
    then have "memmem (drop ?o s) T = None"
      using memmem.search_found [OF bounds(6), of "drop ?o s"]
      by (cases "memmem (drop ?o s) T") (auto simp: first_occurrence_def)
    moreover have "memmem s T = None"
      using missing(2) memmem.search_found [OF bounds(6), of s]
      by (cases "memmem s T") (auto simp: first_occurrence_def)
    ultimately show ?thesis
      using missing look own by (simp add: requestHandledCallback_def)
  qed
qed

lemma response_received:
  assumes "request_begun T data"
  shows "\<exists>data1 data'. same_but_parsing data data1 \<and> same_but_outcome data1 data' \<and>
     receive_response chunks data = Some data' \<and>
     (case memmem (concat chunks) T of
        Some p \<Rightarrow> nixie_state data' = APP_NIXIE_STATE_SHUFFLE_SERVER_VALUE \<and>
          display_value data' = display_of (drop (p + length T) (concat chunks))
      | None \<Rightarrow> nixie_state data' = APP_NIXIE_STATE_IDLE \<and> display_value data' = display_value data1)"
proof -
  obtain d where d: "receive_chunks chunks data = Some d" "received_bytes T (concat chunks) d"
      "same_but_parsing data d"
    using chunks_step [OF received_nothing [OF assms], of chunks] by auto
  obtain d' where "requestHandledCallback d = Some d'" "same_but_outcome d d'"
      "case memmem (concat chunks) T of
        Some p \<Rightarrow> nixie_state d' = APP_NIXIE_STATE_SHUFFLE_SERVER_VALUE \<and>
          display_value d' = display_of (drop (p + length T) (concat chunks))
      | None \<Rightarrow> nixie_state d' = APP_NIXIE_STATE_IDLE \<and> display_value d' = display_value d"
    using request_handled [OF d(2)] by blast
  with d show ?thesis unfolding receive_response_def by (intro exI conjI) (assumption, simp_all)
qed

text \<open>A chunk only counts by its bytes: what is kept does not show how they were cut.\<close>

lemma first_occurrence_memmem:
  assumes "T \<noteq> []"
  shows "memmem s T = Some p \<longleftrightarrow> first_occurrence s T p"
    and "memmem s T = None \<longleftrightarrow> (\<forall>j. \<not> occurs_at s T j)"
  using memmem.search_iff [OF assms] memmem.search_missing [OF assms]
  by (auto simp: first_occurrence_def) (metis first_occurrence_def not_Some_eq occurs_first_exists)

end
