(* ===== verification/App_Nixie_Display.thy ===== *)
theory App_Nixie_Display
  imports App_Nixie_Stream
begin

text \<open>
  What initialization of the Nixie display establishes, and what decoding and encoding light: the
  register state as a set of lit bits, the wires of each symbol of each tube, and the lemmas that the
  wires of the symbols displayed are the bits lit.
\<close>

section \<open>Initialization\<close>

text \<open>The arrays of the record have the sizes the header declares.\<close>

definition nixie_sized :: "AppNixieData \<Rightarrow> bool" where
  "nixie_sized data \<longleftrightarrow> length (nixie_types data) = MAX_NIXIE_TUBES \<and>
     length (cathode_mapping data) = MAX_NIXIE_TUBES \<and>
     (\<forall>tube \<in> set (cathode_mapping data). length tube = MAX_NIXIE_CATHODE) \<and>
     length (nixie_request_url data) = MAX_URL \<and> length (token data) = MAX_NIXIE_TOKEN \<and>
     length (cyclic_buffer data) = 2 * (MAX_NIXIE_TOKEN + MAX_NIXIE_TUBES) \<and>
     length (display_value data) = MAX_NIXIE_TUBES \<and> length (cathodes data) = MAX_NIXIE_TUBES \<and>
     length (register_shift_state data) = NUM_NIXIE_SHIFT_REGISTERS"

lemma string_at_literal: "CHR 0x00 \<notin> set s \<Longrightarrow> string_at (literal s) 0 s"
  by (auto simp: string_at_def literal_def array_chars_def chars_at_def nth_append intro!: nth_equalityI)

lemma safe_strncpy_string:
  assumes "string_at m p s" and "length s < max_copy" and "max_copy \<le> length d"
  shows "safe_strncpy m (Some d) (Some p) max_copy = Some (True, Some (s @ CHR 0x00 # drop (Suc (length s)) d))"
proof -
  have "safe_strnlen m p (max_copy - 1) = length s"
    using assms(2) safe_strnlen_string_at [OF assms(1), of "max_copy - 1"] by simp
  then show ?thesis
    using safe_strncpy_content [of max_copy d m p] assms by (simp add: string_at_def)
qed

text \<open>The wiring of all tubes, and what a tube's row holds once it is set.\<close>

definition wiring :: "(nat \<times> int \<times> int) list list" where
  "wiring = [wiring_J2, wiring_J3, wiring_J4, wiring_J5]"

definition wire_tube :: "(nat \<times> int \<times> int) list \<Rightarrow> NixieCathodeBit list \<Rightarrow> NixieCathodeBit list" where
  "wire_tube wires tube = fold (\<lambda>(c, y, k) t. t[c := \<lparr>bit_byte = y, bit_bit = k\<rparr>]) wires tube"

lemma length_wire_tube [simp]: "length (wire_tube wires tube) = length tube"
  unfolding wire_tube_def by (induction wires arbitrary: tube) auto

lemma wire_fold:
  assumes "\<forall>(c, y, k) \<in> set wires. c < length tube"
  shows "fold (\<lambda>(c, y, k) acc. Option.bind acc (\<lambda>t. array_set t c \<lparr>bit_byte = y, bit_bit = k\<rparr>)) wires (Some tube)
    = Some (wire_tube wires tube)"
  using assms
proof (induction wires arbitrary: tube)
  case (Cons x wires)
  then show ?case by (cases x) (auto simp: array_set_in wire_tube_def)
qed (simp add: wire_tube_def)

lemma set_wiring_row:
  assumes "n < length mapping" and "\<forall>(c, y, k) \<in> set wires. c < length (mapping ! n)"
  shows "set_wiring mapping n wires = Some (mapping[n := wire_tube wires (mapping ! n)])"
  using wire_fold [OF assms(2)] assms(1) by (simp add: set_wiring_def array_simps)

lemma wire_tube_nth:
  assumes "distinct (map fst wires)" and "(c, y, k) \<in> set wires" and "c < length tube"
  shows "wire_tube wires tube ! c = \<lparr>bit_byte = y, bit_bit = k\<rparr>"
  using assms
proof (induction wires arbitrary: tube rule: rev_induct)
  case (snoc x xs)
  show ?case
  proof (cases "x = (c, y, k)")
    case True
    then show ?thesis using snoc.prems by (simp add: wire_tube_def flip: length_wire_tube [of xs tube])
  next
    case False
    then obtain c' y' k' where x: "x = (c', y', k')" "c' \<noteq> c" "(c, y, k) \<in> set xs" 
      using snoc.prems by (cases x) (force simp: image_iff)
    then show ?thesis using snoc by (simp add: wire_tube_def)
  qed
qed simp

lemmas wirings = wiring_J2_def wiring_J3_def wiring_J4_def wiring_J5_def

lemma all_tubes: "(\<forall>t < MAX_NIXIE_TUBES. P t) \<longleftrightarrow> P 0 \<and> P 1 \<and> P 2 \<and> P 3"
  by (auto simp: nixie_sizes less_Suc_eq numeral_eq_Suc)

lemma wiring_bounds:
  "\<forall>t < MAX_NIXIE_TUBES. \<forall>(c, y, k) \<in> set (wiring ! t). c < 12 \<and> 0 \<le> y \<and> y < 6 \<and> 0 \<le> k \<and> k < 8"
  unfolding all_tubes by (simp add: wiring_def wirings)

lemma wiring_in_range:
  "t < MAX_NIXIE_TUBES \<Longrightarrow> (c, y, k) \<in> set (wiring ! t) \<Longrightarrow>
     c < 12 \<and> 0 \<le> y \<and> y < 6 \<and> 0 \<le> k \<and> k < 8"
  using wiring_bounds by blast

lemma wiring_distinct: "\<forall>t < MAX_NIXIE_TUBES. distinct (map fst (wiring ! t))"
  unfolding all_tubes by (simp add: wiring_def wirings)

lemma wired_row:
  assumes "t < MAX_NIXIE_TUBES" and "length tube = 12"
  shows "\<forall>(c, y, k) \<in> set (wiring ! t). wire_tube (wiring ! t) tube ! c = \<lparr>bit_byte = y, bit_bit = k\<rparr>"
  using assms wiring_in_range [OF assms(1)] wiring_distinct by (fastforce intro!: wire_tube_nth)

text \<open>What initialization establishes.\<close>

definition nixie_configured :: "AppNixieData \<Rightarrow> bool" where
  "nixie_configured data \<longleftrightarrow> nixie_sized data \<and> nixie_ready NIXIE_TOKEN data \<and>
     num_shift_registers data = NUM_NIXIE_SHIFT_REGISTERS \<and>
     nixie_types data = replicate MAX_NIXIE_TUBES NIXIE_TYPE_IN12A \<and>
     (\<forall>t < MAX_NIXIE_TUBES. \<forall>(c, y, k) \<in> set (wiring ! t).
        cathode_mapping data ! t ! c = \<lparr>bit_byte = y, bit_bit = k\<rparr>) \<and>
     cstr (nixie_request_url data) = NIXIE_REQUEST_URL"

lemma nixie_initialize:
  assumes sized: "nixie_sized data" and sr: "length (sr_data sr) = SHIFT_REGISTER_MAX_DATA"
  shows "\<exists>data'. APP_Nixie_Initialize (data, sr) =
      Some (data', sr\<lparr>sr_data := replicate 6 0, sr_num_bytes := 6,
                     sr_state := APP_SHIFT_REGISTER_STATE_TRANSMIT_BEGIN\<rparr>) \<and>
    nixie_configured data' \<and> nixie_state data' = APP_NIXIE_STATE_IDLE \<and>
    display_value_out data' = None \<and> periodic_next_time data' = 0 \<and> periodic_tasks_enabled data'"
proof -
  obtain t0 t1 t2 t3 where rows: "cathode_mapping data = [t0, t1, t2, t3]"
      "length t0 = 12" "length t1 = 12" "length t2 = 12" "length t3 = 12"
    using sized by (auto simp: nixie_sized_def nixie_sizes length_4)
  obtain x0 x1 x2 x3 where types: "nixie_types data = [x0, x1, x2, x3]"
    using sized by (auto simp: nixie_sized_def nixie_sizes length_4)
  let ?url = "NIXIE_REQUEST_URL @ CHR 0x00 # drop (Suc (length NIXIE_REQUEST_URL)) (nixie_request_url data)"
  let ?tok = "NIXIE_TOKEN @ CHR 0x00 # drop (Suc (length NIXIE_TOKEN)) (token data)"
  have url: "safe_strncpy (literal NIXIE_REQUEST_URL) (Some (nixie_request_url data)) (Some 0) MAX_URL =
      Some (True, Some ?url)"
    using sized by (intro safe_strncpy_string string_at_literal)
      (simp_all add: NIXIE_REQUEST_URL_def https_sizes nixie_sized_def)
  have tok: "safe_strncpy (literal NIXIE_TOKEN) (Some (token data)) (Some 0) MAX_NIXIE_TOKEN =
      Some (True, Some ?tok)"
    using sized by (intro safe_strncpy_string string_at_literal)
      (simp_all add: NIXIE_TOKEN_def nixie_sizes nixie_sized_def)
  have ctok: "cstr ?tok = NIXIE_TOKEN" and curl: "cstr ?url = NIXIE_REQUEST_URL"
    by (simp_all add: NIXIE_TOKEN_def NIXIE_REQUEST_URL_def cstr_def)
  let ?rows = "[wire_tube wiring_J2 t0, wire_tube wiring_J3 t1, wire_tube wiring_J4 t2, wire_tube wiring_J5 t3]"
  let ?data = "data\<lparr>nixie_state := APP_NIXIE_STATE_IDLE, display_value_out := None,
      periodic_tasks_enabled := True, periodic_next_time := 0, task_from_periodic := False,
      num_nixies := 4, nixie_types := replicate 4 NIXIE_TYPE_IN12A, cathode_mapping := ?rows,
      nixie_request_url := ?url, token := ?tok, token_len := length NIXIE_TOKEN,
      max_cyclic_buffer_len := 2 * (length NIXIE_TOKEN + 4), num_shift_registers := 6,
      register_shift_state := replicate 6 0\<rparr>"
  have "APP_Nixie_Initialize (data, sr) =
      Some (?data, sr\<lparr>sr_data := replicate 6 0, sr_num_bytes := 6,
                     sr_state := APP_SHIFT_REGISTER_STATE_TRANSMIT_BEGIN\<rparr>)"
    using rows types url tok ctok
    by (simp add: APP_Nixie_Initialize_def add_tube_def set_wiring_row wirings array_simps
        APP_ShiftRegister_SendData_def SHIFT_REGISTER_MAX_DATA_def nixie_sizes Let_def eval_nat_numeral)
  moreover have row0: "\<forall>(c, y, k) \<in> set (wiring ! 0). wire_tube (wiring ! 0) t0 ! c = \<lparr>bit_byte = y, bit_bit = k\<rparr>"
    and row1: "\<forall>(c, y, k) \<in> set (wiring ! 1). wire_tube (wiring ! 1) t1 ! c = \<lparr>bit_byte = y, bit_bit = k\<rparr>"
    and row2: "\<forall>(c, y, k) \<in> set (wiring ! 2). wire_tube (wiring ! 2) t2 ! c = \<lparr>bit_byte = y, bit_bit = k\<rparr>"
    and row3: "\<forall>(c, y, k) \<in> set (wiring ! 3). wire_tube (wiring ! 3) t3 ! c = \<lparr>bit_byte = y, bit_bit = k\<rparr>"
    by (rule wired_row; simp add: nixie_sizes rows)+
  have "\<forall>t < MAX_NIXIE_TUBES. \<forall>(c, y, k) \<in> set (wiring ! t). ?rows ! t ! c = \<lparr>bit_byte = y, bit_bit = k\<rparr>"
    using row0 row1 row2 row3 unfolding all_tubes by (simp add: wiring_def)
  then have "nixie_configured ?data"
    using sized rows ctok curl
    by (simp add: nixie_configured_def nixie_sized_def nixie_ready_def nixie_sizes https_sizes
        NIXIE_TOKEN_def NIXIE_REQUEST_URL_def)
  ultimately show ?thesis by auto
qed

section \<open>Bits\<close>

text \<open>
  The lit bits of the register state, as shift register index and bit within it; the array holds
  the registers in reverse order.
\<close>

definition lit :: "u8 list \<Rightarrow> (int \<times> int) set" where
  "lit regs = {(y, k). 0 \<le> y \<and> y < 6 \<and> 0 \<le> k \<and> k < 8 \<and> bit (regs ! nat (5 - y)) (nat k)}"

lemma lit_none: "lit (replicate 6 0) = {}"
  by (auto simp: lit_def)

lemma bit_mask_in_range:
  assumes "0 \<le> k" and "k < 8"
  shows "\<exists>bm. bit_mask k = Some bm \<and> (\<forall>j < 8. bit bm j \<longleftrightarrow> j = nat k)"
  using assms by (auto simp: bit_mask_def bit_simps)

lemma lit_set_bit:
  assumes "length regs = 6" and "0 \<le> y" "y < 6" and "0 \<le> k" "k < 8"
    and "\<forall>j < 8. bit bm j \<longleftrightarrow> j = nat k"
  shows "lit (regs[nat (5 - y) := regs ! nat (5 - y) OR bm]) = insert (y, k) (lit regs)"
proof (rule set_eqI)
  fix z :: "int \<times> int"
  obtain a b where z: "z = (a, b)" by (cases z)
  have "nat (5 - y) = nat (5 - a) \<longleftrightarrow> y = a" if "0 \<le> a" "a < 6" using that assms(2,3) by auto
  moreover have "nat b = nat k \<longleftrightarrow> b = k" if "0 \<le> b" using that assms(4) by auto
  moreover have "nat b < 8" if "0 \<le> b" "b < 8" using that by auto
  ultimately show "z \<in> lit (regs[nat (5 - y) := regs ! nat (5 - y) OR bm]) \<longleftrightarrow> z \<in> insert (y, k) (lit regs)"
    using assms by (auto simp: z lit_def nth_list_update bit_or_iff)
qed

section \<open>From the value to the bits\<close>

text \<open>The wire of each symbol of a tube, in the order of the source's table.\<close>

definition symbol_wires :: "nat \<Rightarrow> (char \<times> int \<times> int) list" where
  "symbol_wires t = zip ''0987654321'' (map snd (wiring ! t))"

definition shown_symbol :: "AppNixieData \<Rightarrow> nat \<Rightarrow> char" where
  "shown_symbol data t = display_value data ! (MAX_NIXIE_TUBES - t - 1)"

lemma digit_cases: "is_digit ch \<longleftrightarrow> ch \<in> set ''0123456789''"
proof
  assume "is_digit ch"
  then have n: "(of_char ch :: nat) \<in> {48..57}" by (simp add: is_digit_def)
  have "{48..57::nat} = {48, 49, 50, 51, 52, 53, 54, 55, 56, 57}"
    by (rule set_eqI, simp, presburger)
  with n have "char_of (of_char ch :: nat) \<in> char_of ` {48, 49, 50, 51, 52, 53, 54, 55, 56, 57 :: nat}"
    by blast
  also have "char_of ` {48, 49, 50, 51, 52, 53, 54, 55, 56, 57 :: nat} = set ''0123456789''"
    by (auto simp: char_of_def bit_iff_odd)
  finally show "ch \<in> set ''0123456789''" by simp
qed (auto simp: is_digit_def)

lemma symbol_wires_cathode:
  assumes "t < MAX_NIXIE_TUBES"
  shows "(ch, y, k) \<in> set (symbol_wires t) \<longleftrightarrow>
     IN12A_SymbolToCathodeIndex ch \<noteq> -1 \<and> (nat (IN12A_SymbolToCathodeIndex ch), y, k) \<in> set (wiring ! t)"
proof (cases "is_digit ch")
  case True
  then have "ch \<in> set ''0123456789''" by (simp only: digit_cases)
  moreover have "\<forall>t < MAX_NIXIE_TUBES. \<forall>ch \<in> set ''0123456789''. (ch, y, k) \<in> set (symbol_wires t) \<longleftrightarrow>
     IN12A_SymbolToCathodeIndex ch \<noteq> -1 \<and> (nat (IN12A_SymbolToCathodeIndex ch), y, k) \<in> set (wiring ! t)"
    unfolding all_tubes
    by (simp add: symbol_wires_def wiring_def wirings IN12A_SymbolToCathodeIndex_def is_digit_def digit_value_def)
  ultimately show ?thesis using assms by blast
next
  case False
  then have "ch \<notin> set ''0987654321''" by (auto simp: digit_cases)
  then have "(ch, y, k) \<notin> set (symbol_wires t)"
    unfolding symbol_wires_def by (meson in_set_zipE)
  moreover have "IN12A_SymbolToCathodeIndex ch = -1"
    using False by (auto simp: IN12A_SymbolToCathodeIndex_def is_digit_def)
  ultimately show ?thesis by simp
qed

lemma decode_configured:
  assumes "nixie_configured data"
  shows "decodeDisplayValue data = Some (data\<lparr>
      cathodes := map (\<lambda>t. IN12A_SymbolToCathodeIndex (shown_symbol data t)) [0..<MAX_NIXIE_TUBES],
      nixie_state := APP_NIXIE_STATE_ENCODE_SHIFT_REGISTER\<rparr>)"
proof -
  obtain a b c d where "display_value data = [a, b, c, d]"
    using assms by (auto simp: nixie_configured_def nixie_sized_def nixie_sizes length_4)
  moreover obtain w x y z where "cathodes data = [w, x, y, z]"
    using assms by (auto simp: nixie_configured_def nixie_sized_def nixie_sizes length_4)
  ultimately show ?thesis using assms
    by (simp add: decodeDisplayValue_def nixie_configured_def nixie_ready_def nixie_sizes eval_nat_numeral
        array_at_def array_simps nixieSymbolToCathodeIndex_def shown_symbol_def)
qed

text \<open>The bits that the tubes of a list ask for.\<close>

definition asked_bits :: "AppNixieData \<Rightarrow> nat list \<Rightarrow> (int \<times> int) set" where
  "asked_bits data tubes = {(y, k). \<exists>t \<in> set tubes. cathodes data ! t \<noteq> -1 \<and>
     (nat (cathodes data ! t), y, k) \<in> set (wiring ! t)}"

definition wired_cathode :: "nat \<Rightarrow> int \<Rightarrow> bool" where
  "wired_cathode t c \<longleftrightarrow> c = -1 \<or> 0 \<le> c \<and> nat c \<in> fst ` set (wiring ! t)"

lemma wire_unique:
  assumes "t < MAX_NIXIE_TUBES" and "(c, y, k) \<in> set (wiring ! t)" and "(c, y', k') \<in> set (wiring ! t)"
  shows "(y, k) = (y', k')"
  using assms wiring_distinct by (metis eq_key_imp_eq_value)

lemma encode_tubes_lights:
  assumes "nixie_configured data" and "\<forall>t \<in> set tubes. t < MAX_NIXIE_TUBES \<and> wired_cathode t (cathodes data ! t)"
    and "length (cathodes data) = MAX_NIXIE_TUBES"
  shows "\<exists>regs. encode_tubes tubes (data, w) = Some (data\<lparr>register_shift_state := regs\<rparr>, w) \<and>
     length regs = 6 \<and> lit regs = lit (register_shift_state data) \<union> asked_bits data tubes"
  using assms
proof (induction tubes arbitrary: data)
  case Nil
  then show ?case
    by (intro exI [of _ "register_shift_state data"])
      (simp add: asked_bits_def nixie_configured_def nixie_sized_def nixie_sizes)
next
  case (Cons t ts)
  have t: "t < MAX_NIXIE_TUBES" "wired_cathode t (cathodes data ! t)" using Cons.prems by auto
  then have look: "array_get (cathodes data) t = Some (cathodes data ! t)"
    using Cons.prems(3) by (simp add: array_simps)
  show ?case
  proof (cases "cathodes data ! t = -1")
    case True
    then have "asked_bits data (t # ts) = asked_bits data ts" by (auto simp: asked_bits_def)
    then show ?thesis using Cons.IH [of data] Cons.prems True look by auto
  next
    case False
    define c where "c = nat (cathodes data ! t)"
    obtain y k where wire: "(c, y, k) \<in> set (wiring ! t)"
      using t(2) False by (auto simp: wired_cathode_def c_def)
    have c: "c < 12" "0 \<le> y" "y < 6" "0 \<le> k" "k < 8" using wiring_in_range [OF t(1) wire] by auto
    have len: "length (cathode_mapping data) = 4" "length (cathode_mapping data ! t) = 12"
        "length (register_shift_state data) = 6" "num_shift_registers data = 6"
      using Cons.prems(1) t(1) by (simp_all add: nixie_configured_def nixie_sized_def nixie_sizes)
    have cell: "cathode_mapping data ! t ! c = \<lparr>bit_byte = y, bit_bit = k\<rparr>"
      using Cons.prems(1) t(1) wire by (auto simp: nixie_configured_def)
    have row: "array_get (cathode_mapping data) t = Some (cathode_mapping data ! t)"
      using t(1) len by (simp add: array_simps nixie_sizes)
    have pin: "array_at (cathode_mapping data ! t) (cathodes data ! t) = Some \<lparr>bit_byte = y, bit_bit = k\<rparr>"
      using t(2) False len(2) c(1) cell
      by (auto simp: array_at_def wired_cathode_def array_simps c_def)
    obtain bm where bm: "bit_mask k = Some bm" "\<forall>j < 8. bit bm j \<longleftrightarrow> j = nat k"
      using bit_mask_in_range [OF c(4,5)] by blast
    define regs where "regs = (register_shift_state data)[nat (5 - y) :=
        register_shift_state data ! nat (5 - y) OR bm]"
    have lit: "lit regs = insert (y, k) (lit (register_shift_state data))"
      unfolding regs_def by (rule lit_set_bit [OF len(3) c(2-5) bm(2)])
    have index: "6 - y - 1 = 5 - y" "0 \<le> 5 - y" "nat (5 - y) < 6" using c(2,3) by auto
    have step: "encode_tubes (t # ts) (data, w) = encode_tubes ts (data\<lparr>register_shift_state := regs\<rparr>, w)"
      using look row pin False bm(1) len(3,4) c(2-5) index
      by (simp add: array_at_def array_put_def array_simps Let_def regs_def)
    let ?data = "data\<lparr>register_shift_state := regs\<rparr>"
    have "nixie_configured ?data"
      using Cons.prems(1) by (simp add: nixie_configured_def nixie_sized_def nixie_ready_def regs_def)
    then obtain regs' where regs': "encode_tubes ts (?data, w) = Some (?data\<lparr>register_shift_state := regs'\<rparr>, w)"
        "length regs' = 6" "lit regs' = lit regs \<union> asked_bits ?data ts"
      using Cons.IH [of ?data] Cons.prems(2,3) by auto
    have only: "(c, y', k') \<in> set (wiring ! t) \<longleftrightarrow> y' = y \<and> k' = k" for y' k'
      using wire wire_unique [OF t(1) wire, of y' k'] by blast
    have "asked_bits data (t # ts) = insert (y, k) (asked_bits ?data ts)"
      using only False by (auto simp: asked_bits_def c_def [symmetric])
    then show ?thesis using step regs' lit by auto
  qed
qed

text \<open>All forty wires are different.\<close>

lemma wires_distinct: "distinct (concat (map (map snd) wiring))"
  by (simp add: wiring_def wirings)

end
