(* ===== verification/Nixie_Proofs.thy ===== *)
theory Nixie_Proofs
  imports App_Nixie_Display
begin

text \<open>
  The properties of the Nixie display: the value found in a response however it is cut into chunks,
  the digits it lights, the sequence of ticks in between, and that no tick leaves its arrays.
\<close>

section \<open>From the response to the tubes\<close>

text \<open>Four digits, zeros in front.\<close>

definition padded :: "char list \<Rightarrow> char list" where
  "padded v = replicate (MAX_NIXIE_TUBES - length v) (CHR ''0'') @ v"

lemma value_of_bounds:
  "length (value_of rest) \<le> 4" "ch \<in> set (value_of rest) \<Longrightarrow> ch \<noteq> CHR 0x00"
  using length_takeWhile_le [of is_digit "take MAX_NIXIE_TUBES rest"]
  by (auto simp: value_of_def nixie_sizes dest: set_takeWhileD)

lemma upto_4: "length v \<le> 4 \<Longrightarrow> v = [] \<or> (\<exists>a. v = [a]) \<or> (\<exists>a b. v = [a, b]) \<or> (\<exists>a b c. v = [a, b, c]) \<or>
    (\<exists>a b c d. v = [a, b, c, d])"
  by (cases v rule: list.exhaust [case_product list.exhaust])
    (auto simp: eval_nat_numeral le_Suc_eq length_Suc_conv)

lemma shuffle_pads:
  assumes "num_nixies data = 4" and "display_value data = display_of rest"
  shows "shuffleServerValueDigits (data, w) =
    (case display_value_out data of
       None \<Rightarrow> Some (data\<lparr>display_value := rev (padded (value_of rest)),
                        nixie_state := APP_NIXIE_STATE_BEGIN_DISPLAY_SEQUENCE\<rparr>, w)
     | Some out \<Rightarrow> do {
         fetched \<leftarrow> is_fetched_out data;
         Some (data\<lparr>display_value := rev (padded (value_of rest)), nixie_state := APP_NIXIE_STATE_IDLE,
                    display_value_out := None, is_fetched_out := None\<rparr>,
               poke fetched [1] (poke out (map of_char (rev (padded (value_of rest)))) w))
       })"
proof -
  define v where "v = value_of rest"
  have v: "length v \<le> 4" "\<forall>ch \<in> set v. ch \<noteq> CHR 0x00" using value_of_bounds by (auto simp: v_def)
  have shown: "display_value data = rev (v @ replicate (4 - length v) (CHR 0x00))"
    using assms(2) by (simp add: display_of_def v_def nixie_sizes)
  have same: "data\<lparr>display_value := display_value data\<rparr> = data" by (cases data) simp
  have "(do {
      num_leading_null \<leftarrow> leading_null (display_value data) [0..<num_nixies data];
      (if num_leading_null = 0 then Some data
       else do {
         moved \<leftarrow> array_move (display_value data) 0 num_leading_null (num_nixies data - num_leading_null);
         filled \<leftarrow> fill_zeros (num_nixies data) [0..<num_leading_null] moved;
         Some (data\<lparr>display_value := filled\<rparr>)
       })
    }) = Some (data\<lparr>display_value := rev (padded v)\<rparr>)"
    using upto_4 [OF v(1)] v(2) shown assms(1) same
    by (elim disjE exE)
      (simp_all add: padded_def nixie_sizes eval_nat_numeral array_move_def array_write_def
        array_put_def array_simps)
  then obtain k where "leading_null (display_value data) [0..<num_nixies data] = Some k"
    "(if k = 0 then Some data
       else do {
         moved \<leftarrow> array_move (display_value data) 0 k (num_nixies data - k);
         filled \<leftarrow> fill_zeros (num_nixies data) [0..<k] moved;
         Some (data\<lparr>display_value := filled\<rparr>)
       }) = Some (data\<lparr>display_value := rev (padded v)\<rparr>)"
    by (auto simp: bind_eq_Some_conv)
  then show ?thesis
    by (simp add: shuffleServerValueDigits_def v_def split: option.split)
qed

section \<open>The display sequence\<close>

lemma cathode_wired:
  assumes "t < MAX_NIXIE_TUBES"
  shows "wired_cathode t (IN12A_SymbolToCathodeIndex ch)"
proof (cases "is_digit ch")
  case True
  then have "ch \<in> set ''0123456789''" by (simp only: digit_cases)
  moreover have "\<forall>t < MAX_NIXIE_TUBES. \<forall>ch \<in> set ''0123456789''. wired_cathode t (IN12A_SymbolToCathodeIndex ch)"
    unfolding all_tubes
    by (simp add: wired_cathode_def wiring_def wirings IN12A_SymbolToCathodeIndex_def is_digit_def digit_value_def)
  ultimately show ?thesis using assms by blast
next
  case False
  then show ?thesis by (auto simp: wired_cathode_def IN12A_SymbolToCathodeIndex_def is_digit_def)
qed

definition shown_wires :: "(nat \<Rightarrow> char) \<Rightarrow> (int \<times> int) set" where
  "shown_wires symbol = {(y, k). \<exists>t < MAX_NIXIE_TUBES. (symbol t, y, k) \<in> set (symbol_wires t)}"

lemma encode_configured:
  assumes conf: "nixie_configured data"
    and cath: "cathodes data = map (\<lambda>t. IN12A_SymbolToCathodeIndex (symbol t)) [0..<MAX_NIXIE_TUBES]"
  shows "\<exists>regs. encodeShiftRegister (data, w) = Some (data\<lparr>register_shift_state := regs,
      nixie_state := APP_NIXIE_STATE_WRITE_SHIFT_REGISTER\<rparr>, w) \<and>
    length regs = 6 \<and> lit regs = shown_wires symbol"
proof -
  let ?data = "data\<lparr>register_shift_state := replicate 6 0\<rparr>"
  have "nixie_configured ?data"
    using conf by (simp add: nixie_configured_def nixie_sized_def nixie_ready_def nixie_sizes)
  moreover have "\<forall>t \<in> set [0..<MAX_NIXIE_TUBES]. t < MAX_NIXIE_TUBES \<and> wired_cathode t (cathodes ?data ! t)"
    using cathode_wired by (simp add: cath)
  moreover have "length (cathodes ?data) = MAX_NIXIE_TUBES" by (simp add: cath)
  ultimately obtain regs where regs: "encode_tubes [0..<MAX_NIXIE_TUBES] (?data, w) =
        Some (?data\<lparr>register_shift_state := regs\<rparr>, w)"
      "length regs = 6" "lit regs = lit (register_shift_state ?data) \<union> asked_bits ?data [0..<MAX_NIXIE_TUBES]"
    using encode_tubes_lights by blast
  have "asked_bits ?data [0..<MAX_NIXIE_TUBES] = shown_wires symbol"
    by (auto simp: asked_bits_def shown_wires_def cath symbol_wires_cathode)
  moreover have "num_nixies data = MAX_NIXIE_TUBES"
    using conf by (simp add: nixie_configured_def nixie_ready_def)
  ultimately show ?thesis using regs
    by (intro exI [of _ regs]) (simp add: encodeShiftRegister_def nixie_sizes lit_none Let_def)
qed

text \<open>Different symbols, or the same on different tubes, have different wires.\<close>

lemma symbol_wires_unique:
  assumes "t < MAX_NIXIE_TUBES" "(ch, y, k) \<in> set (symbol_wires t)"
    and "t' < MAX_NIXIE_TUBES" "(ch', y, k) \<in> set (symbol_wires t')"
  shows "t = t' \<and> ch = ch'"
proof -
  let ?owners = "concat (map (\<lambda>t. map (\<lambda>(ch, w). (w, t, ch)) (symbol_wires t)) [0..<MAX_NIXIE_TUBES])"
  have "map fst ?owners = concat (map (map snd) wiring)"
    by (simp add: symbol_wires_def wiring_def wirings nixie_sizes eval_nat_numeral)
  then have "distinct (map fst ?owners)" using wires_distinct by (simp only:)
  moreover have "((y, k), t, ch) \<in> set ?owners" "((y, k), t', ch') \<in> set ?owners"
    using assms by force+
  ultimately have "(t, ch) = (t', ch')" by (rule eq_key_imp_eq_value)
  then show ?thesis by simp
qed

lemma shown_wires_exact:
  assumes "t < MAX_NIXIE_TUBES" and "(ch, y, k) \<in> set (symbol_wires t)"
  shows "(y, k) \<in> shown_wires symbol \<longleftrightarrow> symbol t = ch"
proof
  assume "(y, k) \<in> shown_wires symbol"
  then obtain t' where "t' < MAX_NIXIE_TUBES" "(symbol t', y, k) \<in> set (symbol_wires t')"
    by (auto simp: shown_wires_def)
  from symbol_wires_unique [OF assms this] show "symbol t = ch" by blast
next
  assume "symbol t = ch"
  then show "(y, k) \<in> shown_wires symbol" using assms by (auto simp: shown_wires_def)
qed

section \<open>Runs\<close>

primrec nixie_ticks ::
    "harmony \<Rightarrow> chars \<Rightarrow> nat \<Rightarrow>
     AppNixieData \<times> app_callback AppHTTPSClientData \<times> AppShiftRegisterData \<times> world \<Rightarrow>
     (AppNixieData \<times> app_callback AppHTTPSClientData \<times> AppShiftRegisterData \<times> world) option" where
  "nixie_ticks env after 0 s = Some s"
| "nixie_ticks env after (Suc n) s = Option.bind (APP_Nixie_Tasks env after s) (nixie_ticks env after n)"

lemma nixie_configured_display:
  "nixie_configured data \<Longrightarrow> length v = MAX_NIXIE_TUBES \<Longrightarrow>
     nixie_configured (data\<lparr>display_value := v, nixie_state := st\<rparr>)"
  by (simp add: nixie_configured_def nixie_sized_def nixie_ready_def)

text \<open>Four ticks from a value to display to an idle display with the data handed on.\<close>

lemma display_sequence:
  assumes conf: "nixie_configured data" and "nixie_state data = APP_NIXIE_STATE_BEGIN_DISPLAY_SEQUENCE"
    and free: "\<not> APP_ShiftRegister_IsBusy sr"
  shows "\<exists>data' regs. nixie_ticks env after 4 (data, https, sr, w) =
      Some (data', https, sr\<lparr>sr_data := regs, sr_num_bytes := 6,
                           sr_state := APP_SHIFT_REGISTER_STATE_TRANSMIT_BEGIN\<rparr>, w) \<and>
    nixie_state data' = APP_NIXIE_STATE_IDLE \<and> length regs = 6 \<and> lit regs = shown_wires (shown_symbol data)"
proof -
  let ?d1 = "data\<lparr>nixie_state := APP_NIXIE_STATE_DECODE_DISPLAY_VALUE\<rparr>"
  have c1: "nixie_configured ?d1"
    using conf by (simp add: nixie_configured_def nixie_sized_def nixie_ready_def)
  have shown: "shown_symbol ?d1 = shown_symbol data" by (rule ext) (simp add: shown_symbol_def)
  let ?cs = "map (\<lambda>t. IN12A_SymbolToCathodeIndex (shown_symbol data t)) [0..<MAX_NIXIE_TUBES]"
  let ?d2 = "?d1\<lparr>cathodes := ?cs, nixie_state := APP_NIXIE_STATE_ENCODE_SHIFT_REGISTER\<rparr>"
  have decode: "decodeDisplayValue ?d1 = Some ?d2" using decode_configured [OF c1] by (simp add: shown)
  have c2: "nixie_configured ?d2"
    using conf by (simp add: nixie_configured_def nixie_sized_def nixie_ready_def)
  obtain regs where regs: "encodeShiftRegister (?d2, w) = Some (?d2\<lparr>register_shift_state := regs,
      nixie_state := APP_NIXIE_STATE_WRITE_SHIFT_REGISTER\<rparr>, w)" "length regs = 6"
      "lit regs = shown_wires (shown_symbol data)"
    using encode_configured [OF c2, of "shown_symbol data" w] by auto
  let ?d3 = "?d2\<lparr>register_shift_state := regs, nixie_state := APP_NIXIE_STATE_WRITE_SHIFT_REGISTER\<rparr>"
  have "num_shift_registers data = 6" using conf by (simp add: nixie_configured_def nixie_sizes)
  then have send: "writeShiftRegister (?d3, sr) = Some (?d3\<lparr>nixie_state := APP_NIXIE_STATE_IDLE\<rparr>,
      sr\<lparr>sr_data := regs, sr_num_bytes := 6, sr_state := APP_SHIFT_REGISTER_STATE_TRANSMIT_BEGIN\<rparr>)"
    using free regs(2)
    by (simp add: writeShiftRegister_def APP_ShiftRegister_SendData_def SHIFT_REGISTER_MAX_DATA_def)
  have "nixie_ticks env after 4 (data, https, sr, w) =
      Some (?d3\<lparr>nixie_state := APP_NIXIE_STATE_IDLE\<rparr>, https, sr\<lparr>sr_data := regs, sr_num_bytes := 6,
        sr_state := APP_SHIFT_REGISTER_STATE_TRANSMIT_BEGIN\<rparr>, w)"
    using assms(2) decode regs(1) send by (simp add: APP_Nixie_Tasks_def numeral_eq_Suc)
  with regs show ?thesis by (intro exI conjI) (assumption, simp_all)
qed

lemma configured_after_response:
  assumes conf: "nixie_configured data" and parse: "same_but_parsing data d" and outcome: "same_but_outcome d d'"
  shows "nixie_configured d' \<and> display_value_out d' = display_value_out data"
proof -
  obtain v c n b where d: "d = data\<lparr>display_value := v, cyclic_buffer := c, cyclic_buffer_len := n,
      is_value_parsed := b\<rparr>" "length c = length (cyclic_buffer data)"
    using parse by (auto simp: same_but_parsing_def)
  obtain st v' b' where d': "d' = d\<lparr>nixie_state := st, display_value := v', is_value_parsed := b'\<rparr>"
      "length v' = MAX_NIXIE_TUBES"
    using outcome by (auto simp: same_but_outcome_def)
  show ?thesis using conf d(2) d'(2)
    by (simp add: d'(1) d(1) nixie_configured_def nixie_sized_def nixie_ready_def)
qed

section \<open>Samples\<close>

definition blank_nixie :: AppNixieData where
  "blank_nixie = \<lparr>nixie_state = APP_NIXIE_STATE_ERROR, periodic_tasks_enabled = False, periodic_next_time = 7,
     task_from_periodic = False, num_nixies = 0, nixie_types = replicate 4 NIXIE_TYPE_IN12B,
     cathode_mapping = replicate 4 (replicate 12 \<lparr>bit_byte = 0, bit_bit = 0\<rparr>), num_shift_registers = 0,
     nixie_request_url = replicate 128 (CHR 0x00), token = replicate 64 (CHR 0x00), token_len = 0,
     is_value_parsed = False, cyclic_buffer = replicate 136 (CHR 0x00), cyclic_buffer_len = 0,
     max_cyclic_buffer_len = 0, display_value = replicate 4 (CHR 0x00), cathodes = replicate 4 0,
     register_shift_state = replicate 6 0, display_value_out = None, is_fetched_out = None\<rparr>"

lemma blank_nixie_sized: "nixie_sized blank_nixie"
  by (simp add: nixie_sized_def blank_nixie_def nixie_sizes https_sizes)

definition sample_nixie :: AppNixieData where
  "sample_nixie = (fst (the (APP_Nixie_Initialize (blank_nixie, sample_shift_data))))
     \<lparr>is_value_parsed := False, cyclic_buffer_len := 0\<rparr>"

lemma sample_nixie_configured:
  "nixie_configured sample_nixie" "display_value_out sample_nixie = None" "request_begun NIXIE_TOKEN sample_nixie"
  "nixie_state sample_nixie = APP_NIXIE_STATE_IDLE"
proof -
  have "length (sr_data sample_shift_data) = SHIFT_REGISTER_MAX_DATA"
    by (simp add: sample_shift_data_def SHIFT_REGISTER_MAX_DATA_def)
  from nixie_initialize [OF blank_nixie_sized this] obtain d where
    "fst (the (APP_Nixie_Initialize (blank_nixie, sample_shift_data))) = d" "nixie_configured d"
    "nixie_state d = APP_NIXIE_STATE_IDLE" "display_value_out d = None"
    by auto
  then show "nixie_configured sample_nixie" "display_value_out sample_nixie = None"
    "request_begun NIXIE_TOKEN sample_nixie" "nixie_state sample_nixie = APP_NIXIE_STATE_IDLE"
    by (simp_all add: sample_nixie_def nixie_configured_def nixie_sized_def nixie_ready_def request_begun_def)
qed

section \<open>Properties\<close>

lemma finds_value:
  assumes "request_begun T data"
  shows "\<exists>data'. receive_response chunks data = Some data' \<and>
    (\<forall>p. first_occurrence (concat chunks) T p \<longrightarrow>
       nixie_state data' = APP_NIXIE_STATE_SHUFFLE_SERVER_VALUE \<and>
       display_value data' = display_of (drop (p + length T) (concat chunks))) \<and>
    ((\<forall>j. \<not> occurs_at (concat chunks) T j) \<longrightarrow> nixie_state data' = APP_NIXIE_STATE_IDLE)"
proof -
  have "T \<noteq> []" using assms by (simp add: request_begun_def nixie_ready_def)
  note search = first_occurrence_memmem [OF this, of "concat chunks", symmetric]
  from response_received [OF assms, of chunks] show ?thesis
    unfolding search by (auto split: option.splits)
qed

text \<open>
  C8: However the network cuts the response into chunks, the display finds the value: if the token
  occurs in the bytes received, the display value is the (at most four) digits after its first
  occurrence, last digit first, and the response ends in the state that shows it; if it does not,
  the response ends idle. No chunk makes the program write outside its buffers.
\<close>

theorem nixie_finds_value_in_chunks:
  assumes "request_begun T data"
  shows "\<exists>data'. receive_response chunks data = Some data' \<and>
    (\<forall>p. first_occurrence (concat chunks) T p \<longrightarrow>
       nixie_state data' = APP_NIXIE_STATE_SHUFFLE_SERVER_VALUE \<and>
       display_value data' = display_of (drop (p + length T) (concat chunks))) \<and>
    ((\<forall>j. \<not> occurs_at (concat chunks) T j) \<longrightarrow> nixie_state data' = APP_NIXIE_STATE_IDLE)"
  by (rule finds_value [OF assms])

lemma nixie_finds_value_in_chunks_witness:
  "\<exists>data'. receive_response [''>Open Ta'', ''sks (4'', ''2)''] sample_nixie = Some data' \<and>
     nixie_state data' = APP_NIXIE_STATE_SHUFFLE_SERVER_VALUE \<and>
     display_value data' = [CHR 0x00, CHR 0x00, CHR ''2'', CHR ''4'']"
proof -
  have "first_occurrence (concat [''>Open Ta'', ''sks (4'', ''2)'']) NIXIE_TOKEN 0"
    by (simp add: first_occurrence_def occurs_at_def NIXIE_TOKEN_def)
  moreover have "display_of (drop (0 + length NIXIE_TOKEN) (concat [''>Open Ta'', ''sks (4'', ''2)'']))
      = [CHR 0x00, CHR 0x00, CHR ''2'', CHR ''4'']"
    by (simp add: display_of_def value_of_def NIXIE_TOKEN_def nixie_sizes is_digit_def eval_nat_numeral)
  ultimately show ?thesis
    using nixie_finds_value_in_chunks [OF sample_nixie_configured(3), of "[''>Open Ta'', ''sks (4'', ''2)'']"]
    by metis
qed




definition sample_https_client :: "app_callback AppHTTPSClientData" where
  "sample_https_client = \<lparr>ip_mode_config = APP_HTTPS_CLIENT_IP_MODE_IPV4, https_state = APP_HTTPS_CLIENT_STATE_IDLE,
     https_callbacks = nixie_callbacks, request_url = replicate 128 (CHR 0x00), https_timeout = 0,
     https_scheme = replicate 6 (CHR 0x00), https_host = replicate 32 (CHR 0x00), https_port = 0,
     https_path = replicate 64 (CHR 0x00), dns_query_ip_mode = APP_HTTPS_CLIENT_IP_MODE_IPV4,
     ip_mode = APP_HTTPS_CLIENT_IP_MODE_IPV4, ip_address = [], https_socket = None,
     network_buffer = replicate 256 (CHR 0x00)\<rparr>"


text \<open>
  Initialization establishes the configuration the other properties assume: whatever the record
  held, the display has four IN-12A tubes wired as the table says, six shift registers, a token and a
  URL that are terminated strings, buffers of the right size for the token, no value to hand out, the
  idle state, and it has the shift registers cleared.
\<close>

theorem nixie_initializes:
  assumes "nixie_sized data" and "length (sr_data sr) = SHIFT_REGISTER_MAX_DATA"
  shows "\<exists>data'. APP_Nixie_Initialize (data, sr) =
      Some (data', sr\<lparr>sr_data := replicate 6 0, sr_num_bytes := 6,
                     sr_state := APP_SHIFT_REGISTER_STATE_TRANSMIT_BEGIN\<rparr>) \<and>
    nixie_configured data' \<and> nixie_state data' = APP_NIXIE_STATE_IDLE \<and>
    display_value_out data' = None \<and> periodic_next_time data' = 0 \<and> periodic_tasks_enabled data'"
  by (rule nixie_initialize [OF assms])

lemma nixie_initializes_witness:
  "\<exists>data'. APP_Nixie_Initialize (blank_nixie, sample_shift_data) =
      Some (data', sample_shift_data\<lparr>sr_data := replicate 6 0, sr_num_bytes := 6,
                     sr_state := APP_SHIFT_REGISTER_STATE_TRANSMIT_BEGIN\<rparr>) \<and> nixie_configured data'"
  using nixie_initializes [OF blank_nixie_sized, of sample_shift_data]
  by (auto simp: sample_shift_data_def SHIFT_REGISTER_MAX_DATA_def)





section \<open>Every tick\<close>

definition nixie_ok :: "AppNixieData \<Rightarrow> bool" where
  "nixie_ok data \<longleftrightarrow> nixie_configured data \<and> (display_value_out data \<noteq> None \<longrightarrow> is_fetched_out data \<noteq> None) \<and>
     (nixie_state data = APP_NIXIE_STATE_ENCODE_SHIFT_REGISTER \<longrightarrow>
        (\<forall>t < MAX_NIXIE_TUBES. wired_cathode t (cathodes data ! t)))"

text \<open>Fields that the invariant does not read.\<close>

lemma nixie_ok_control:
  assumes "nixie_ok data" and "st \<noteq> APP_NIXIE_STATE_ENCODE_SHIFT_REGISTER"
  shows "nixie_ok (data\<lparr>nixie_state := st\<rparr>)"
    "nixie_ok (data\<lparr>nixie_state := st, task_from_periodic := b\<rparr>)"
    "nixie_ok (data\<lparr>nixie_state := st, task_from_periodic := b, periodic_next_time := n\<rparr>)"
    "nixie_ok (data\<lparr>nixie_state := st, periodic_next_time := n\<rparr>)"
    "nixie_ok (data\<lparr>nixie_state := st, is_value_parsed := v, cyclic_buffer_len := l\<rparr>)"
  using assms by (simp_all add: nixie_ok_def nixie_configured_def nixie_sized_def nixie_ready_def)

lemma shuffle_any:
  assumes ok: "nixie_ok data"
  shows "\<exists>data' w'. shuffleServerValueDigits (data, w) = Some (data', w') \<and> nixie_ok data'"
proof -
  have n: "num_nixies data = 4" and len: "length (display_value data) = 4"
    using ok by (simp_all add: nixie_ok_def nixie_configured_def nixie_ready_def nixie_sizes)
  obtain a b c d where dv: "display_value data = [a, b, c, d]" using len by (auto simp: length_4)
  then have same: "data\<lparr>display_value := [a, b, c, d]\<rparr> = data" by (cases data) simp
  let ?k = "length (takeWhile (\<lambda>c. c = CHR 0x00) [a, b, c, d])"
  let ?v = "drop ?k [a, b, c, d] @ replicate ?k (CHR ''0'')"
  have "leading_null (display_value data) [0..<num_nixies data] = Some ?k \<and> length ?v = 4 \<and>
      (if ?k = 0 then Some data
       else do {
         moved \<leftarrow> array_move (display_value data) 0 ?k (num_nixies data - ?k);
         filled \<leftarrow> fill_zeros (num_nixies data) [0..<?k] moved;
         Some (data\<lparr>display_value := filled\<rparr>)
       }) = Some (data\<lparr>display_value := ?v\<rparr>)"
    using n dv same
    by (cases "a = CHR 0x00"; cases "b = CHR 0x00"; cases "c = CHR 0x00"; cases "d = CHR 0x00")
      (simp_all add: eval_nat_numeral array_move_def array_write_def array_put_def array_simps)
  then obtain k v where kv: "leading_null (display_value data) [0..<num_nixies data] = Some k" "length v = 4"
    "(if k = 0 then Some data
       else do {
         moved \<leftarrow> array_move (display_value data) 0 k (num_nixies data - k);
         filled \<leftarrow> fill_zeros (num_nixies data) [0..<k] moved;
         Some (data\<lparr>display_value := filled\<rparr>)
       }) = Some (data\<lparr>display_value := v\<rparr>)"
    by blast
  show ?thesis
  proof (cases "display_value_out data")
    case None
    moreover have "nixie_ok (data\<lparr>display_value := v, nixie_state := APP_NIXIE_STATE_BEGIN_DISPLAY_SEQUENCE\<rparr>)"
      using ok kv(2) by (simp add: nixie_ok_def nixie_configured_def nixie_sized_def nixie_ready_def nixie_sizes)
    ultimately show ?thesis using kv by (auto simp: shuffleServerValueDigits_def)
  next
    case (Some out')
    then obtain f where "is_fetched_out data = Some f" using ok by (auto simp: nixie_ok_def)
    moreover have "nixie_ok (data\<lparr>display_value := v, nixie_state := APP_NIXIE_STATE_IDLE,
        display_value_out := None, is_fetched_out := None\<rparr>)"
      using ok kv(2) by (simp add: nixie_ok_def nixie_configured_def nixie_sized_def nixie_ready_def nixie_sizes)
    ultimately show ?thesis using kv Some by (auto simp: shuffleServerValueDigits_def Let_def)
  qed
qed

lemma periodic_ok:
  assumes "nixie_ok data" and "nixie_state data = APP_NIXIE_STATE_IDLE"
  shows "nixie_ok (fst (performPeriodicTasks env (data, w)))"
  using assms nixie_ok_control [OF assms(1), of APP_NIXIE_STATE_BEGIN_HTTP_REQUEST]
  by (simp add: performPeriodicTasks_def schedulePeriodicTask_def ask_split Let_def split_beta)

lemma request_ok:
  assumes ok: "nixie_ok data" and "nixie_state data = APP_NIXIE_STATE_WAIT_HTTPS_CLIENT"
    and "length (request_url https) = MAX_URL"
  shows "\<exists>data' https'. waitHttpsClientAndSendRequest after (data, https) = Some (data', https') \<and>
     nixie_ok data' \<and> length (request_url https') = MAX_URL"
proof (cases "APP_HTTPS_Client_IsBusy https")
  case True
  then show ?thesis using assms by (simp add: waitHttpsClientAndSendRequest_def)
next
  case False
  let ?m = "array_chars (nixie_request_url data) after"
  have "safe_strncpy ?m (Some (request_url https)) (Some 0) MAX_URL =
      Some (True, Some (chars_at ?m 0 (safe_strnlen ?m 0 (MAX_URL - 1)) @ CHR 0x00 #
        drop (Suc (safe_strnlen ?m 0 (MAX_URL - 1))) (request_url https)))"
    by (rule safe_strncpy_content) (simp_all add: assms(3) https_sizes)
  moreover have "safe_strnlen ?m 0 (MAX_URL - 1) \<le> MAX_URL - 1" by (rule safe_strnlen_le)
  moreover have "nixie_ok (data\<lparr>is_value_parsed := False, cyclic_buffer_len := 0,
      nixie_state := APP_NIXIE_STATE_WAIT_HTTPS_RESPONSE\<rparr>)"
    using ok by (simp add: nixie_ok_def nixie_configured_def nixie_sized_def nixie_ready_def)
  ultimately show ?thesis using False assms(3)
    by (simp add: waitHttpsClientAndSendRequest_def APP_HTTPS_Client_Request_def Let_def https_sizes)
qed

lemma encode_ok:
  assumes ok: "nixie_ok data" and state: "nixie_state data = APP_NIXIE_STATE_ENCODE_SHIFT_REGISTER"
  shows "\<exists>data'. encodeShiftRegister (data, w) = Some (data', w) \<and> nixie_ok data'"
proof -
  have conf: "nixie_configured data" using ok by (simp add: nixie_ok_def)
  let ?data = "data\<lparr>register_shift_state := replicate 6 0\<rparr>"
  have "nixie_configured ?data"
    using conf by (simp add: nixie_configured_def nixie_sized_def nixie_ready_def nixie_sizes)
  moreover have "\<forall>t \<in> set [0..<MAX_NIXIE_TUBES]. t < MAX_NIXIE_TUBES \<and> wired_cathode t (cathodes ?data ! t)"
    using ok state by (simp add: nixie_ok_def)
  moreover have "length (cathodes ?data) = MAX_NIXIE_TUBES"
    using conf by (simp add: nixie_configured_def nixie_sized_def)
  ultimately obtain regs where regs: "encode_tubes [0..<MAX_NIXIE_TUBES] (?data, w) =
      Some (?data\<lparr>register_shift_state := regs\<rparr>, w)" "length regs = 6"
    using encode_tubes_lights by blast
  have "nixie_ok (data\<lparr>register_shift_state := regs, nixie_state := APP_NIXIE_STATE_WRITE_SHIFT_REGISTER\<rparr>)"
    using ok regs(2) by (simp add: nixie_ok_def nixie_configured_def nixie_sized_def nixie_ready_def nixie_sizes)
  moreover have "num_nixies data = 4" using conf by (simp add: nixie_configured_def nixie_ready_def nixie_sizes)
  ultimately show ?thesis using regs(1) by (simp add: encodeShiftRegister_def nixie_sizes Let_def)
qed

lemma nixie_tick_ok:
  assumes ok: "nixie_ok data" and url: "length (request_url https) = MAX_URL"
  shows "\<exists>data' https' sr' w'. APP_Nixie_Tasks env after (data, https, sr, w) = Some (data', https', sr', w') \<and>
     nixie_ok data' \<and> length (request_url https') = MAX_URL"
proof -
  have conf: "nixie_configured data" using ok by (simp add: nixie_ok_def)
  note control = nixie_ok_control [OF ok]
  show ?thesis
  proof (cases "nixie_state data")
    case APP_NIXIE_STATE_IDLE
    have "nixie_ok (data\<lparr>task_from_periodic := False\<rparr>)"
      using ok by (simp add: nixie_ok_def nixie_configured_def nixie_sized_def nixie_ready_def)
    then have "nixie_ok (fst (performPeriodicTasks env (data\<lparr>task_from_periodic := False\<rparr>, w)))"
      by (rule periodic_ok) (simp add: APP_NIXIE_STATE_IDLE)
    then show ?thesis using APP_NIXIE_STATE_IDLE url
      by (cases "performPeriodicTasks env (data\<lparr>task_from_periodic := False\<rparr>, w)")
        (simp add: APP_Nixie_Tasks_def)
  next
    case APP_NIXIE_STATE_ERROR
    then show ?thesis using url control
      by (simp add: APP_Nixie_Tasks_def schedulePeriodicTask_def ask_split Let_def)
  next
    case APP_NIXIE_STATE_BEGIN_HTTP_REQUEST
    then show ?thesis using url control by (simp add: APP_Nixie_Tasks_def)
  next
    case APP_NIXIE_STATE_WAIT_HTTPS_CLIENT
    from request_ok [OF ok this url, of after] show ?thesis
      using APP_NIXIE_STATE_WAIT_HTTPS_CLIENT by (auto simp: APP_Nixie_Tasks_def)
  next
    case APP_NIXIE_STATE_WAIT_HTTPS_RESPONSE
    then show ?thesis using url ok by (simp add: APP_Nixie_Tasks_def)
  next
    case APP_NIXIE_STATE_SHUFFLE_SERVER_VALUE
    then show ?thesis using url shuffle_any [OF ok, of w] by (auto simp: APP_Nixie_Tasks_def)
  next
    case APP_NIXIE_STATE_BEGIN_DISPLAY_SEQUENCE
    then show ?thesis using url control by (simp add: APP_Nixie_Tasks_def)
  next
    case APP_NIXIE_STATE_DECODE_DISPLAY_VALUE
    have "nixie_ok (data\<lparr>cathodes := map (\<lambda>t. IN12A_SymbolToCathodeIndex (shown_symbol data t)) [0..<MAX_NIXIE_TUBES],
        nixie_state := APP_NIXIE_STATE_ENCODE_SHIFT_REGISTER\<rparr>)"
      using ok cathode_wired by (simp add: nixie_ok_def nixie_configured_def nixie_sized_def nixie_ready_def)
    then show ?thesis using APP_NIXIE_STATE_DECODE_DISPLAY_VALUE url decode_configured [OF conf]
      by (simp add: APP_Nixie_Tasks_def)
  next
    case APP_NIXIE_STATE_ENCODE_SHIFT_REGISTER
    from encode_ok [OF ok this, of w] show ?thesis
      using APP_NIXIE_STATE_ENCODE_SHIFT_REGISTER url by (auto simp: APP_Nixie_Tasks_def)
  next
    case APP_NIXIE_STATE_WRITE_SHIFT_REGISTER
    have "length (register_shift_state data) = 6"
      using conf by (simp add: nixie_configured_def nixie_sized_def nixie_sizes)
    then show ?thesis using APP_NIXIE_STATE_WRITE_SHIFT_REGISTER url ok control
      by (simp add: APP_Nixie_Tasks_def writeShiftRegister_def APP_ShiftRegister_SendData_def SHIFT_REGISTER_MAX_DATA_def)
  qed
qed

text \<open>
  C20: No tick of the display leaves its arrays or follows a missing pointer, whatever state it is in
  and whatever the network and the timer answer: from a configured display whose cathodes are wired
  ones when they are about to be encoded, every tick yields such a display again.
\<close>

theorem nixie_tick_memory_safe:
  assumes "nixie_ok data" and "length (request_url https) = MAX_URL"
  shows "\<exists>data' https' sr' w'. APP_Nixie_Tasks env after (data, https, sr, w) = Some (data', https', sr', w') \<and>
     nixie_ok data' \<and> length (request_url https') = MAX_URL"
  by (rule nixie_tick_ok [OF assms])

lemma nixie_tick_memory_safe_witness:
  "\<exists>data' https' sr' w'. APP_Nixie_Tasks sample_harmony (\<lambda>_. CHR 0x00)
     (sample_nixie, sample_https_client, sample_shift_data, empty_world) = Some (data', https', sr', w') \<and> nixie_ok data'"
proof -
  have "nixie_ok sample_nixie" using sample_nixie_configured by (simp add: nixie_ok_def)
  moreover have "length (request_url sample_https_client) = MAX_URL"
    by (simp add: sample_https_client_def https_sizes)
  ultimately show ?thesis
    using nixie_tick_memory_safe [of sample_nixie sample_https_client sample_harmony "\<lambda>_. CHR 0x00"
        sample_shift_data empty_world] by blast
qed

end
