(* ===== verification/Https_Proofs.thy ===== *)
theory Https_Proofs
  imports App_Https_Client
begin

text \<open>
  What the HTTPS client promises: no tick writes outside its arrays; the request that goes out is
  the one for the URL asked for; its user is notified of the end of a request exactly once, with
  the one exception that the code has; and what becomes of the fall-back from IPv6 to IPv4.
\<close>

section \<open>Memory safety\<close>

definition well_sized :: "'cb AppHTTPSClientData \<Rightarrow> bool" where
  "well_sized data \<longleftrightarrow> length (request_url data) = MAX_URL \<and> length (https_scheme data) = MAX_URL_SCHEME \<and>
     length (https_host data) = MAX_URL_HOST \<and> length (https_path data) = MAX_URL_PATH \<and>
     length (network_buffer data) = HTTPS_CLIENT_NETWORK_BUFFER_SIZE"

lemma parse_step_safe:
  assumes "well_sized data"
  shows "\<exists>data'. pasreRequestURL after_url data = Some data' \<and> well_sized data'"
proof -
  let ?out = "\<lparr>url_scheme = (Some (https_scheme data), MAX_URL_SCHEME),
        url_user = (None, 0), url_password = (None, 0),
        url_host = (Some (https_host data), MAX_URL_HOST),
        url_port = Some (https_port data),
        url_path = (None, 0), url_query = (None, 0), url_fragment = (None, 0),
        url_path_suffix = (Some (https_path data), MAX_URL_PATH)\<rparr> :: url_outputs"
  have "outputs_fit ?out"
    using assms by (simp add: outputs_fit_def buffer_fits_def well_sized_def)
  from url_parse_safe [OF this, of "array_chars (request_url data) after_url" 0]
  obtain ok out where run: "urlParseGetParts (array_chars (request_url data) after_url) 0 ?out = Some (ok, out)"
    and shape: "outputs_same_shape ?out out"
    by auto
  have "length (the (fst (url_scheme out))) = MAX_URL_SCHEME" "length (the (fst (url_host out))) = MAX_URL_HOST"
    "length (the (fst (url_path_suffix out))) = MAX_URL_PATH"
    using shape assms by (auto simp: outputs_same_shape_def same_shape_def well_sized_def)
  then show ?thesis
    using run assms by (simp add: pasreRequestURL_def well_sized_def enterErrorState_def Let_def)
qed

lemma safe_snprintf_total:
  assumes "length buffer = n" and "0 < n"
  shows "\<exists>k b. safe_snprintf buffer n (Some s) = Some (k, b) \<and> length b = n"
  using assms
  by (cases n) (auto simp: safe_snprintf_def safe_vsnprintf_def vsnprintf_def array_write_def array_set_def
      min_def split: if_splits)

lemma send_step_safe:
  assumes "well_sized data"
  shows "\<exists>data' w'. sendRequest env (data, w) = Some (data', w') \<and> well_sized data'"
proof -
  obtain k b where "safe_snprintf (network_buffer data) HTTPS_CLIENT_NETWORK_BUFFER_SIZE
      (Some (request_text (cstr (https_path data)) (cstr (https_host data)))) = Some (k, b)"
    "length b = HTTPS_CLIENT_NETWORK_BUFFER_SIZE"
    using safe_snprintf_total [of "network_buffer data" HTTPS_CLIENT_NETWORK_BUFFER_SIZE
      "request_text (cstr (https_path data)) (cstr (https_host data))"] assms
    by (auto simp: well_sized_def https_sizes)
  then show ?thesis
    using assms by (auto simp: sendRequest_def ask_split Let_def well_sized_def enterErrorState_def)
qed

lemma call_if_total:
  assumes "\<And>cb e s. call cb e s \<noteq> None"
  shows "\<exists>s'. call_if call cb e s = Some s'"
  using assms by (auto simp: call_if_def split: option.splits)

lemma response_step_safe:
  assumes "well_sized data" and total: "\<And>cb e s. call cb e s \<noteq> None"
    and "\<And>l. length (socket_read env l) \<le> HTTPS_CLIENT_NETWORK_BUFFER_SIZE"
  shows "\<exists>data' u' w'. waitForResponse env call (data, u, w) = Some (data', u', w') \<and> well_sized data'"
proof -
  have stored: "\<exists>b. array_write (network_buffer data) 0 (socket_read env l) = Some b \<and> length b = 256" for l
  proof -
    have "0 + length (socket_read env l) \<le> length (network_buffer data)"
      using assms(1) assms(3) [of l] by (simp add: well_sized_def)
    from array_write_in [OF this] have ok: "\<exists>b. array_write (network_buffer data) 0 (socket_read env l) = Some b"
      by blast
    have "length (network_buffer data) = 256" using assms(1) by (simp add: well_sized_def https_sizes)
    with ok show ?thesis using array_write_length by metis
  qed
  let ?w = "tell (IO_Pres (NET_PRES_SocketReadIsReady (https_socket data))) w"
  show ?thesis
  proof (cases "socket_read_ready env (log ?w) = 0")
    case True
    let ?w1 = "tell (IO_Pres (NET_PRES_SocketWasReset (https_socket data))) ?w"
    obtain u' w' where "call_if call (cb_request_handled (https_callbacks data)) Request_Handled
        (u, ?w1) = Some (u', w')"
      using call_if_total [of call "cb_request_handled (https_callbacks data)" Request_Handled "(u, ?w1)"] total
      by auto
    then show ?thesis
      using True assms(1)
      by (cases "socket_was_reset env (log ?w1)")
        (simp_all add: waitForResponse_def ask_split Let_def well_sized_def)
  next
    case False
    let ?read = "IO_Pres (NET_PRES_SocketRead (https_socket data) HTTPS_CLIENT_NETWORK_BUFFER_SIZE)"
    obtain b where b: "array_write (network_buffer data) 0 (socket_read env (log ?w @ [?read])) = Some b"
      "length b = 256"
      using stored by blast
    obtain u' w' where "call_if call (cb_buffer_received (https_callbacks data))
        (Buffer_Received (socket_read env (log ?w @ [?read]))) (u, tell ?read ?w) = Some (u', w')"
      using call_if_total [of call "cb_buffer_received (https_callbacks data)"
        "Buffer_Received (socket_read env (log ?w @ [?read]))" "(u, tell ?read ?w)"] total
      by auto
    then show ?thesis
      using False assms(1) b by (auto simp: waitForResponse_def ask_split Let_def well_sized_def https_sizes)
  qed
qed



section \<open>The request\<close>

lemma safe_snprintf_fits:
  assumes "length buffer = n" and "length s < n" and "CHR 0x00 \<notin> set s"
  shows "\<exists>b. safe_snprintf buffer n (Some s) = Some (int (length s), b) \<and> cstr b = s"
  using assms
  by (cases n) (auto simp: safe_snprintf_def safe_vsnprintf_def vsnprintf_def array_write_def
      array_set_def list_update_append min_def)

lemma length_request_text: "length (request_text path host) = 44 + length path + length host"
  by (simp add: request_text_def crlf_def)

lemma nul_notin_request_text:
  "CHR 0x00 \<notin> set path \<Longrightarrow> CHR 0x00 \<notin> set host \<Longrightarrow> CHR 0x00 \<notin> set (request_text path host)"
  by (auto simp: request_text_def crlf_def)

text \<open>
  C28: The request fits its buffer and is sent whole: once the socket takes data, the client writes
  exactly the GET request for the host and path of the URL, and goes on to wait for the response
  if and only if the socket took every byte of it.
\<close>

theorem https_sends_whole_request:
  assumes "well_sized data" and "https_state data = APP_HTTPS_CLIENT_STATE_SEND_REQUEST"
    and "CHR 0x00 \<in> set (https_path data)" and "CHR 0x00 \<in> set (https_host data)"
    and "socket_write_ready (pres env) (log w @ [IO_Pres (NET_PRES_SocketWriteIsReady (https_socket data) 256 256)]) \<noteq> 0"
  shows "\<exists>data' w'. APP_HTTPS_Client_Tasks env after_url call (data, u, w) = Some (data', u, w') \<and>
    log w' = log w @ [IO_Pres (NET_PRES_SocketWriteIsReady (https_socket data) 256 256),
      IO_Pres (NET_PRES_SocketWrite (https_socket data)
        (request_text (cstr (https_path data)) (cstr (https_host data))))] \<and>
    (https_state data' = APP_HTTPS_CLIENT_STATE_WAIT_FOR_RESPONSE \<longleftrightarrow>
       unat (socket_write (pres env) (log w')) =
         length (request_text (cstr (https_path data)) (cstr (https_host data))))"
proof -
  let ?text = "request_text (cstr (https_path data)) (cstr (https_host data))"
  have short: "length (cstr xs) < length xs" if "CHR 0x00 \<in> set xs" for xs
    using that by (induction xs) (auto simp: cstr_def)
  have "length (cstr (https_path data)) < 64" "length (cstr (https_host data)) < 32"
    using short [OF assms(3)] short [OF assms(4)] assms(1) by (simp_all add: well_sized_def https_sizes)
  then have len: "length ?text < 256" by (simp add: length_request_text)
  obtain b where b: "safe_snprintf (network_buffer data) 256 (Some ?text) = Some (int (length ?text), b)"
    "cstr b = ?text"
    using safe_snprintf_fits [OF _ len, of "network_buffer data"] assms(1)
      nul_notin_request_text [OF nul_notin_cstr nul_notin_cstr]
    by (auto simp: well_sized_def https_sizes)
  have count: "(n :: u16) = word_of_int (int (length ?text)) \<longleftrightarrow> unat n = length ?text" for n
    using len by (auto simp: word_unat_eq_iff unat_of_nat)
  show ?thesis
    using assms(2,5) b count
    by (simp add: APP_HTTPS_Client_Tasks_def sendRequest_def https_sizes ask_split Let_def keep_user_def
        enterErrorState_def)
qed

section \<open>Notifications\<close>

text \<open>A client that records what it is told.\<close>

definition record_call :: "'cb \<Rightarrow> callback_event \<Rightarrow> callback_event list \<times> world \<Rightarrow>
    (callback_event list \<times> world) option" where
  "record_call cb event s = Some (fst s @ [event], snd s)"

definition completions :: "callback_event list \<Rightarrow> nat" where
  "completions es = length (filter (\<lambda>e. e = Request_Handled \<or> e = Request_Error) es)"

definition all_callbacks :: "'cb AppHTTPSClientData \<Rightarrow> bool" where
  "all_callbacks data \<longleftrightarrow> cb_buffer_received (https_callbacks data) \<noteq> None \<and>
     cb_request_handled (https_callbacks data) \<noteq> None \<and> cb_error (https_callbacks data) \<noteq> None"

definition notified_inv :: "'cb AppHTTPSClientData \<times> callback_event list \<times> world \<Rightarrow> bool" where
  "notified_inv = (\<lambda>(data, u, w). all_callbacks data \<and>
     completions u = (if https_state data \<in> {APP_HTTPS_CLIENT_STATE_IDLE, APP_HTTPS_CLIENT_STATE_CLOSE_CONNECTION}
                      then 1 else 0))"

lemma completions_simps [simp]:
  "completions [] = 0" "completions (xs @ ys) = completions xs + completions ys"
  "completions (Buffer_Received b # es) = completions es"
  "completions (Request_Handled # es) = Suc (completions es)"
  "completions (Request_Error # es) = Suc (completions es)"
  by (simp_all add: completions_def)

lemma parse_callbacks:
  "pasreRequestURL after_url data = Some data' \<Longrightarrow> https_callbacks data' = https_callbacks data \<and>
     https_state data' \<in> {APP_HTTPS_CLIENT_STATE_ERROR, APP_HTTPS_CLIENT_STATE_PROCESS_REQUEST}"
  by (auto simp: pasreRequestURL_def bind_eq_Some_conv Let_def enterErrorState_def split: if_splits)

lemma notified_tick:
  assumes "notified_inv s" and "\<forall>l. socket_encrypt (pres env) l"
    and "APP_HTTPS_Client_Tasks env after_url record_call s = Some s'"
  shows "notified_inv s'"
proof -
  obtain data u w where s: "s = (data, u, w)" by (metis prod_cases3)
  show ?thesis
  proof (cases "https_state data")
    case APP_HTTPS_CLIENT_STATE_PARSE_REQUEST_URL
    then show ?thesis using assms(1,3) parse_callbacks [of after_url data]
      by (auto simp: s notified_inv_def APP_HTTPS_Client_Tasks_def bind_eq_Some_conv all_callbacks_def)
  next
    case APP_HTTPS_CLIENT_STATE_SEND_REQUEST
    then show ?thesis using assms(1,3)
      by (auto simp: s notified_inv_def APP_HTTPS_Client_Tasks_def bind_eq_Some_conv all_callbacks_def
          sendRequest_def ask_split Let_def keep_user_def enterErrorState_def split: if_splits)
  next
    case APP_HTTPS_CLIENT_STATE_WAIT_FOR_RESPONSE
    then show ?thesis using assms(1,3)
      by (auto simp: s notified_inv_def APP_HTTPS_Client_Tasks_def bind_eq_Some_conv all_callbacks_def
          waitForResponse_def ask_split Let_def call_if_def record_call_def split: if_splits)
  next
    case APP_HTTPS_CLIENT_STATE_ERROR
    then show ?thesis using assms(1,3)
      by (auto simp: s notified_inv_def APP_HTTPS_Client_Tasks_def bind_eq_Some_conv all_callbacks_def
          handleError_def call_if_def record_call_def)
  qed (use assms in \<open>auto simp: s notified_inv_def APP_HTTPS_Client_Tasks_def keep_user_def ask_split Let_def
      waitForNetworkAvailable_def processRequest_def checkDNSResolveStatus_def startNetworkConnection_def
      waitNetworkConnection_def closeNetworkConnection_def waitForSSLConnect_def enterErrorState_def all_callbacks_def
      checkNetworkIsAvailable_def split: TCPIP_DNS_RESULT.splits AppHTTPSClientIPMode.splits\<close>)
qed


primrec https_ticks ::
    "harmony \<Rightarrow> chars \<Rightarrow> ('cb \<Rightarrow> callback_event \<Rightarrow> 'u \<times> world \<Rightarrow> ('u \<times> world) option) \<Rightarrow> nat \<Rightarrow>
     'cb AppHTTPSClientData \<times> 'u \<times> world \<Rightarrow> ('cb AppHTTPSClientData \<times> 'u \<times> world) option" where
  "https_ticks env after_url call 0 s = Some s"
| "https_ticks env after_url call (Suc n) s =
     do { s \<leftarrow> https_ticks env after_url call n s; APP_HTTPS_Client_Tasks env after_url call s }"

lemma notified_ticks:
  assumes "notified_inv s" and "\<forall>l. socket_encrypt (pres env) l"
    and "https_ticks env after_url record_call n s = Some s'"
  shows "notified_inv s'"
  using assms(3)
  by (induction n arbitrary: s') (auto simp: bind_eq_Some_conv assms(1) intro: notified_tick [OF _ assms(2)])

lemma accepted_request:
  assumes "APP_HTTPS_Client_Request m url callbacks data0 = Some (True, data)"
  shows "https_state data = APP_HTTPS_CLIENT_STATE_BEGIN_SEQUENCE" and "https_callbacks data = callbacks"
  using assms by (auto simp: APP_HTTPS_Client_Request_def bind_eq_Some_conv split: if_splits)


lemma https_prefix:
  assumes "take 8 (request_url data) = ''https://''"
  shows "STREQ_LEN (array_chars (request_url data) after_url) 0 ''https://'' 8"
proof -
  have "8 \<le> length (request_url data)"
    using arg_cong [OF assms, of length] by (simp split: if_splits)
  then have "chars_at (array_chars (request_url data) after_url) 0 8 = take 8 (request_url data)"
    by (intro nth_equalityI) (simp_all add: array_chars_def)
  then show ?thesis using assms by (simp add: STREQ_LEN_def)
qed

text \<open>
  A request for an https URL whose encryption the socket layer refuses to start ends in
  silence: two ticks after the connection is up the client is idle, its socket closed, and no
  callback was called.
\<close>

theorem https_refused_encryption_is_silent:
  assumes "https_state data = APP_HTTPS_CLIENT_STATE_WAIT_FOR_CONNECTION"
    and "take 8 (request_url data) = ''https://''"
    and "\<forall>l. socket_is_connected (pres env) l" and "\<forall>l. \<not> socket_encrypt (pres env) l"
  shows "\<exists>data' w'. https_ticks env after_url call 2 (data, u, w) = Some (data', u, w') \<and>
    \<not> APP_HTTPS_Client_IsBusy data' \<and> last (log w') = IO_Pres (NET_PRES_SocketClose (https_socket data))"
  using https_prefix [OF assms(2), of after_url] assms(1,3,4)
  by (simp add: numeral_2_eq_2 APP_HTTPS_Client_Tasks_def keep_user_def waitNetworkConnection_def
      closeNetworkConnection_def APP_HTTPS_Client_IsBusy_def ask_split Let_def)

section \<open>Name resolution\<close>

text \<open>
  C37: The promised fall-back to IPv4 never connects: when the lookup of the IPv6 address fails
  and the lookup of the IPv4 address is started, the client goes on asking for the IPv6 result,
  so that it has not started a connection after any number of ticks, even if every question for
  the IPv4 address would be answered.
\<close>

theorem https_ipv4_fallback_never_connects:
  assumes "https_state data = APP_HTTPS_CLIENT_STATE_WAIT_ON_DNS"
    and "dns_query_ip_mode data = APP_HTTPS_CLIENT_IP_MODE_IPV6"
    and "\<forall>l. dns_is_resolved (dns env) (l @ [IO_TCPIP (TCPIP_DNS_IsResolved (cstr (https_host data)) IP_ADDRESS_TYPE_IPV6)])
           = TCPIP_DNS_RES_FAILED"
    and "https_ticks env after_url call n (data, u, w) = Some (data', u', w')"
  shows "https_state data' \<in> {APP_HTTPS_CLIENT_STATE_WAIT_ON_DNS, APP_HTTPS_CLIENT_STATE_ERROR,
    APP_HTTPS_CLIENT_STATE_IDLE} \<and> dns_query_ip_mode data' = APP_HTTPS_CLIENT_IP_MODE_IPV6 \<and>
    https_host data' = https_host data"
  using assms(4)
proof (induction n arbitrary: data' u' w')
  case 0
  then show ?case using assms(1,2) by simp
next
  case (Suc n)
  then obtain d u1 w1 where prev: "https_ticks env after_url call n (data, u, w) = Some (d, u1, w1)"
    and step: "APP_HTTPS_Client_Tasks env after_url call (d, u1, w1) = Some (data', u', w')"
    by (auto simp: bind_eq_Some_conv)
  show ?case using Suc.IH [OF prev] step assms(3)
    by (auto simp: APP_HTTPS_Client_Tasks_def checkDNSResolveStatus_def ask_split Let_def keep_user_def
        enterErrorState_def handleError_def bind_eq_Some_conv split: if_splits)
qed

section \<open>Sample values and witnesses\<close>

definition sample_https :: "nat AppHTTPSClientData" where
  "sample_https = \<lparr>ip_mode_config = APP_HTTPS_CLIENT_IP_MODE_IPV4, https_state = APP_HTTPS_CLIENT_STATE_IDLE,
     https_callbacks = \<lparr>cb_buffer_received = Some 0, cb_request_handled = Some 1, cb_error = Some 2\<rparr>,
     request_url = replicate 128 (CHR 0x00), https_timeout = 0, https_scheme = replicate 6 (CHR 0x00),
     https_host = replicate 32 (CHR 0x00), https_port = 0, https_path = replicate 64 (CHR 0x00),
     dns_query_ip_mode = APP_HTTPS_CLIENT_IP_MODE_IPV4, ip_mode = APP_HTTPS_CLIENT_IP_MODE_IPV4,
     ip_address = [], https_socket = None, network_buffer = replicate 256 (CHR 0x00)\<rparr>"

lemma sample_https_sized: "well_sized (sample_https\<lparr>https_state := s\<rparr>)"
  by (simp add: well_sized_def sample_https_def https_sizes)

lemma record_call_total: "\<forall>cb e s. record_call cb e s \<noteq> None"
  by (simp add: record_call_def)


lemma https_sends_whole_request_witness:
  "\<exists>data' w'. APP_HTTPS_Client_Tasks sample_harmony (\<lambda>_. CHR 0x00) record_call
     (sample_https\<lparr>https_state := APP_HTTPS_CLIENT_STATE_SEND_REQUEST, https_path := ''/p'' @ replicate 62 (CHR 0x00)\<rparr>,
      [], empty_world) = Some (data', [], w') \<and>
     last (log w') = IO_Pres (NET_PRES_SocketWrite None (request_text ''/p'' []))"
proof -
  let ?data = "sample_https\<lparr>https_state := APP_HTTPS_CLIENT_STATE_SEND_REQUEST,
    https_path := ''/p'' @ replicate 62 (CHR 0x00)\<rparr>"
  have "well_sized ?data" by (simp add: well_sized_def sample_https_def https_sizes)
  moreover have texts: "cstr (https_path ?data) = ''/p''" "cstr (https_host ?data) = []"
    by (simp_all add: cstr_def sample_https_def)
  ultimately show ?thesis
    using https_sends_whole_request [of ?data sample_harmony empty_world "\<lambda>_. CHR 0x00" record_call "[]"]
    unfolding texts by (force simp: sample_https_def sample_harmony_def)
qed

lemma https_refused_encryption_is_silent_witness:
  "\<exists>data' w'. https_ticks (sample_harmony\<lparr>pres := (pres sample_harmony)\<lparr>socket_encrypt := \<lambda>_. False\<rparr>\<rparr>)
     (\<lambda>_. CHR 0x00) record_call 2
     (sample_https\<lparr>https_state := APP_HTTPS_CLIENT_STATE_WAIT_FOR_CONNECTION,
        request_url := ''https://example.com'' @ replicate 109 (CHR 0x00)\<rparr>, [], empty_world) =
     Some (data', [], w') \<and> \<not> APP_HTTPS_Client_IsBusy data'"
  using https_refused_encryption_is_silent
    [of "sample_https\<lparr>https_state := APP_HTTPS_CLIENT_STATE_WAIT_FOR_CONNECTION,
        request_url := ''https://example.com'' @ replicate 109 (CHR 0x00)\<rparr>"
     "sample_harmony\<lparr>pres := (pres sample_harmony)\<lparr>socket_encrypt := \<lambda>_. False\<rparr>\<rparr>"
     "\<lambda>_. CHR 0x00" record_call "[]" empty_world]
  by (force simp: sample_harmony_def)

definition sample_request :: "nat AppHTTPSClientData" where
  "sample_request = sample_https\<lparr>request_url := ''x'' @ replicate 127 (CHR 0x00),
     https_state := APP_HTTPS_CLIENT_STATE_BEGIN_SEQUENCE\<rparr>"

lemma sample_request_accepted:
  "APP_HTTPS_Client_Request (array_chars ''x'' (\<lambda>_. CHR 0x00)) 0 (https_callbacks sample_https) sample_https =
     Some (True, sample_request)"
proof -
  have "string_at (array_chars (''x'' @ CHR 0x00 # []) (\<lambda>_. CHR 0x00)) 0 ''x''"
    by (rule string_at_array_chars) simp
  then have s: "string_at (array_chars ''x'' (\<lambda>_. CHR 0x00)) 0 ''x''"
    by (simp add: string_at_def array_chars_def chars_at_Suc)
  have "safe_strnlen (array_chars ''x'' (\<lambda>_. CHR 0x00)) 0 127 = 1"
    using safe_strnlen_string_at [OF s, of 127] by simp
  moreover have "chars_at (array_chars ''x'' (\<lambda>_. CHR 0x00)) 0 1 = ''x''"
    by (simp add: chars_at_Suc array_chars_def)
  moreover have "CHR 0x00 # replicate 126 (CHR 0x00) = replicate 127 (CHR 0x00)"
    by (simp add: numeral_eq_Suc)
  ultimately show ?thesis
    by (simp add: APP_HTTPS_Client_Request_def APP_HTTPS_Client_IsBusy_def sample_https_def
        sample_request_def safe_strncpy_content https_sizes)
qed

lemma sample_no_colon: "strstr (array_chars (''x'' @ replicate 127 (CHR 0x00)) (\<lambda>_. CHR 0x00)) 0 '':'' = None"
proof -
  have "string_at (array_chars (''x'' @ CHR 0x00 # replicate 126 (CHR 0x00)) (\<lambda>_. CHR 0x00)) 0 ''x''"
    by (rule string_at_array_chars) simp
  moreover have "replicate 127 (CHR 0x00) = CHR 0x00 # replicate 126 (CHR 0x00)"
    by (simp add: numeral_eq_Suc)
  ultimately have "string_from (array_chars (''x'' @ replicate 127 (CHR 0x00)) (\<lambda>_. CHR 0x00)) 0 = ''x''"
    using strlen_bounded by fastforce
  then show ?thesis
    by (simp add: strstr_def memmem_def memmem_from.simps)
qed

lemma sample_request_run:
  "\<exists>data' w'. https_ticks sample_harmony (\<lambda>_. CHR 0x00) record_call 4 (sample_request, [], empty_world) =
     Some (data', [Request_Error], w') \<and> \<not> APP_HTTPS_Client_IsBusy data'"
  using sample_no_colon
  by (simp add: eval_nat_numeral APP_HTTPS_Client_Tasks_def sample_request_def sample_https_def ask_split Let_def
      keep_user_def waitForNetworkAvailable_def checkNetworkIsAvailable_def pasreRequestURL_def
      urlParseGetParts_def enterErrorState_def handleError_def call_if_def record_call_def
      APP_HTTPS_Client_IsBusy_def https_sizes del: replicate_Suc)


lemma https_ipv4_fallback_never_connects_witness:
  "\<exists>data' w'. https_ticks (sample_harmony\<lparr>dns := (dns sample_harmony)\<lparr>dns_is_resolved := \<lambda>_. TCPIP_DNS_RES_FAILED\<rparr>\<rparr>)
     (\<lambda>_. CHR 0x00) record_call 1 (sample_https\<lparr>https_state := APP_HTTPS_CLIENT_STATE_WAIT_ON_DNS,
       dns_query_ip_mode := APP_HTTPS_CLIENT_IP_MODE_IPV6\<rparr>, [], empty_world) = Some (data', [], w') \<and>
     dns_query_ip_mode data' = APP_HTTPS_CLIENT_IP_MODE_IPV6"
proof -
  let ?env = "sample_harmony\<lparr>dns := (dns sample_harmony)\<lparr>dns_is_resolved := \<lambda>_. TCPIP_DNS_RES_FAILED\<rparr>\<rparr>"
  let ?data = "sample_https\<lparr>https_state := APP_HTTPS_CLIENT_STATE_WAIT_ON_DNS,
    dns_query_ip_mode := APP_HTTPS_CLIENT_IP_MODE_IPV6\<rparr>"
  obtain data' w' where run: "https_ticks ?env (\<lambda>_. CHR 0x00) record_call 1 (?data, [], empty_world) = Some (data', [], w')"
    by (simp add: APP_HTTPS_Client_Tasks_def checkDNSResolveStatus_def ask_split Let_def keep_user_def
        sample_harmony_def)
  have "\<forall>l. dns_is_resolved (dns ?env) (l @ [IO_TCPIP (TCPIP_DNS_IsResolved (cstr (https_host ?data)) IP_ADDRESS_TYPE_IPV6)])
      = TCPIP_DNS_RES_FAILED"
    by simp
  from https_ipv4_fallback_never_connects [OF _ _ this run] run show ?thesis by auto
qed

section \<open>The request's URL\<close>

text \<open>A URL that fits is copied into the request.\<close>

lemma request_taken:
  assumes "well_sized data0" and "\<not> APP_HTTPS_Client_IsBusy data0" and url: "string_at m url text" and len: "length text < MAX_URL"
  shows "APP_HTTPS_Client_Request m url callbacks data0 = Some (True, data0\<lparr>
    request_url := text @ CHR 0x00 # drop (Suc (length text)) (request_url data0), https_callbacks := callbacks,
    https_state := APP_HTTPS_CLIENT_STATE_BEGIN_SEQUENCE\<rparr>)"
proof -
  have nlen: "safe_strnlen m url 127 = length text"
    using safe_strnlen_string_at [OF url, of 127] len by (simp add: MAX_URL_def)
  have "chars_at m url (length text) = text" using url by (simp add: string_at_def)
  then have "safe_strncpy m (Some (request_url data0)) (Some url) MAX_URL =
      Some (True, Some (text @ CHR 0x00 # drop (Suc (length text)) (request_url data0)))"
    using safe_strncpy_content [of 128 "request_url data0" m url] assms(1) nlen
    by (simp add: MAX_URL_def well_sized_def)
  then show ?thesis using assms(2) by (simp add: APP_HTTPS_Client_Request_def)
qed

text \<open>The parsing step cuts the parts of the URL into the client's arrays.\<close>

lemma request_parsed:
  assumes sized: "well_sized data" and s: "string_at (array_chars (request_url data) after_url) 0 (scheme @ ''://'' @ rest)"
    and len: "length (scheme @ ''://'' @ rest) < MAX_URL" and scheme: "CHR '':'' \<notin> set scheme" and long: "3 \<le> length rest"
  shows "\<exists>data'. pasreRequestURL after_url data = Some data' \<and>
    https_state data' = APP_HTTPS_CLIENT_STATE_PROCESS_REQUEST \<and>
    (let u = url_spec scheme rest (default_port (scheme @ ''://'' @ rest) (https_port data))
     in cstr (https_host data') = take 31 (part_host u) \<and> https_port data' = part_port u \<and>
        cstr (https_path data') = take 63 (part_path_suffix u))"
proof -
  let ?m = "array_chars (request_url data) after_url"
  let ?out = "\<lparr>url_scheme = (Some (https_scheme data), MAX_URL_SCHEME), url_user = (None, 0), url_password = (None, 0),
        url_host = (Some (https_host data), MAX_URL_HOST), url_port = Some (https_port data),
        url_path = (None, 0), url_query = (None, 0), url_fragment = (None, 0),
        url_path_suffix = (Some (https_path data), MAX_URL_PATH)\<rparr> :: url_outputs"
  have "all_sized ?out" "outputs_fit ?out"
    using sized by (simp_all add: all_sized_def sized_def outputs_fit_def buffer_fits_def well_sized_def https_sizes)
  from url_parse_text [OF s _ scheme long this(1)] len obtain out' where
    run: "urlParseGetParts ?m 0 ?out = Some (True, out')"
    and holds: "outputs_hold ?out out' (url_spec (cut_to (url_scheme ?out) scheme) rest
      (default_port (scheme @ ''://'' @ rest) (https_port data)))"
    by (auto simp: MAX_URL_def)
  from url_parse_safe [OF \<open>outputs_fit ?out\<close>, of ?m 0] run have "outputs_same_shape ?out out'" by auto
  then have "fst (url_host out') \<noteq> None" "fst (url_path_suffix out') \<noteq> None"
    by (auto simp: outputs_same_shape_def same_shape_def)
  then have texts: "cstr (the (fst (url_host out'))) = text_of (url_host out')"
    "cstr (the (fst (url_path_suffix out'))) = text_of (url_path_suffix out')"
    by (auto simp: text_of_def)
  have "pasreRequestURL after_url data = Some (data\<lparr>https_scheme := the (fst (url_scheme out')),
      https_host := the (fst (url_host out')), https_port := the (url_port out'),
      https_path := the (fst (url_path_suffix out')), https_state := APP_HTTPS_CLIENT_STATE_PROCESS_REQUEST\<rparr>)"
    using run by (simp add: pasreRequestURL_def Let_def)
  then show ?thesis using holds by (simp add: texts outputs_hold_def Let_def cut_to_def url_spec_def https_sizes)
qed

text \<open>
  C27: From a request to the connection parameters: a request for a URL \<open>scheme://rest\<close> that fits
  its buffer, made while the client is idle, is taken up, and the parsing step ends with the URL's
  host, port and path suffix, each cut to its array.
\<close>

theorem https_request_parsed:
  assumes "well_sized data0" and "\<not> APP_HTTPS_Client_IsBusy data0"
    and url: "string_at m url (scheme @ ''://'' @ rest)" and len: "length (scheme @ ''://'' @ rest) < MAX_URL"
    and scheme: "CHR '':'' \<notin> set scheme" and long: "3 \<le> length rest"
  shows "\<exists>data data'. APP_HTTPS_Client_Request m url callbacks data0 = Some (True, data) \<and>
    pasreRequestURL after_url data = Some data' \<and>
    https_state data' = APP_HTTPS_CLIENT_STATE_PROCESS_REQUEST \<and>
    (let u = url_spec scheme rest (default_port (scheme @ ''://'' @ rest) (https_port data0))
     in cstr (https_host data') = take 31 (part_host u) \<and> https_port data' = part_port u \<and>
        cstr (https_path data') = take 63 (part_path_suffix u))"
proof -
  let ?text = "scheme @ ''://'' @ rest"
  let ?data = "data0\<lparr>request_url := ?text @ CHR 0x00 # drop (Suc (length ?text)) (request_url data0),
    https_callbacks := callbacks, https_state := APP_HTTPS_CLIENT_STATE_BEGIN_SEQUENCE\<rparr>"
  have "well_sized ?data" using assms(1) len by (simp add: well_sized_def)
  moreover have "string_at (array_chars (request_url ?data) after_url) 0 ?text"
    using url string_at_array_chars [of ?text "drop (Suc (length ?text)) (request_url data0)" after_url] by (simp add: string_at_def)
  ultimately show ?thesis using request_taken [OF assms(1,2) url len, of callbacks] request_parsed [OF _ _ len scheme long, of ?data after_url]
    by simp
qed


lemma https_request_parsed_witness:
  "\<exists>data data'. APP_HTTPS_Client_Request (array_chars ((''https'' @ ''://'' @ ''api.example.com/v'') @ [CHR 0x00]) (\<lambda>_. CHR 0x00)) 0
     (https_callbacks sample_https) sample_https = Some (True, data) \<and>
   pasreRequestURL (\<lambda>_. CHR 0x00) data = Some data' \<and> cstr (https_host data') = ''api.example.com'' \<and>
   https_port data' = 443 \<and> cstr (https_path data') = ''/v''"
proof -
  have s: "string_at (array_chars ((''https'' @ ''://'' @ ''api.example.com/v'') @ [CHR 0x00]) (\<lambda>_. CHR 0x00)) 0
      (''https'' @ ''://'' @ ''api.example.com/v'')"
    by (rule string_at_array_chars) simp
  have spec: "part_host (url_spec ''https'' ''api.example.com/v'' d) = ''api.example.com''"
    "part_port (url_spec ''https'' ''api.example.com/v'' d) = d"
    "part_path_suffix (url_spec ''https'' ''api.example.com/v'' d) = ''/v''" for d
    by (simp_all add: url_spec_def Let_def in_authority_def port_value_def host_port_def credentials_def
      text_before_def)
  have sized: "well_sized sample_https" "\<not> APP_HTTPS_Client_IsBusy sample_https"
    by (simp_all add: well_sized_def sample_https_def https_sizes APP_HTTPS_Client_IsBusy_def)
  have "length (''https'' @ ''://'' @ ''api.example.com/v'') < MAX_URL" "CHR '':'' \<notin> set ''https''"
    "3 \<le> length ''api.example.com/v''"
    by (simp_all add: https_sizes)
  from https_request_parsed [OF sized s this, of "https_callbacks sample_https" "\<lambda>_. CHR 0x00"]
  show ?thesis by (auto simp: spec Let_def default_port_def)
qed

end
