(* ===== verification/App_Invariant.thy ===== *)
theory App_Invariant
  imports App Nixie_Proofs Https_Proofs
begin

text \<open>
  The invariant of the whole application, \<open>app_ok\<close>: every component's own invariant, and what ties
  them together. A request of the HTTPS client that is under way belongs to the display, which then waits
  for the response, or to the \<open>fetch\<close> command, whose task then runs; the task of the command processor has
  a console device and its own check; the bytes for the shift registers are one to six while they wait.
  Each service of the tick of the application is shown to succeed and to keep the invariant.
\<close>

section \<open>The HTTPS client and what it calls back\<close>

lemma https_tick_user:
  assumes sized: "well_sized data"
    and small: "\<forall>l. length (socket_read (pres env) l) \<le> HTTPS_CLIENT_NETWORK_BUFFER_SIZE"
    and received: "\<And>bytes w. https_state data = APP_HTTPS_CLIENT_STATE_WAIT_FOR_RESPONSE \<Longrightarrow>
      \<exists>u' w'. call_if call (cb_buffer_received (https_callbacks data)) (Buffer_Received bytes) (u, w) = Some (u', w') \<and> R u'"
    and handled: "\<And>w. https_state data = APP_HTTPS_CLIENT_STATE_WAIT_FOR_RESPONSE \<Longrightarrow>
      \<exists>u' w'. call_if call (cb_request_handled (https_callbacks data)) Request_Handled (u, w) = Some (u', w') \<and> E u'"
    and failed: "\<And>w. https_state data = APP_HTTPS_CLIENT_STATE_ERROR \<Longrightarrow>
      \<exists>u' w'. call_if call (cb_error (https_callbacks data)) Request_Error (u, w) = Some (u', w') \<and> E u'"
  shows "\<exists>data' u' w'. APP_HTTPS_Client_Tasks env after_url call (data, u, w) = Some (data', u', w') \<and>
    well_sized data' \<and> https_callbacks data' = https_callbacks data \<and>
    (u' = u \<and> (https_state data \<in> {APP_HTTPS_CLIENT_STATE_IDLE, APP_HTTPS_CLIENT_STATE_CLOSE_CONNECTION} \<longrightarrow>
        https_state data' = APP_HTTPS_CLIENT_STATE_IDLE) \<or>
     https_state data = APP_HTTPS_CLIENT_STATE_WAIT_FOR_RESPONSE \<and>
        https_state data' = APP_HTTPS_CLIENT_STATE_WAIT_FOR_RESPONSE \<and> R u' \<or>
     https_state data' \<in> {APP_HTTPS_CLIENT_STATE_IDLE, APP_HTTPS_CLIENT_STATE_CLOSE_CONNECTION} \<and> E u')"
proof (cases "https_state data")
  case APP_HTTPS_CLIENT_STATE_PARSE_REQUEST_URL
  obtain d where d: "pasreRequestURL after_url data = Some d" "well_sized d"
    using parse_step_safe [OF sized, of after_url] by blast
  with APP_HTTPS_CLIENT_STATE_PARSE_REQUEST_URL parse_callbacks [OF d(1)] show ?thesis
    by (simp add: APP_HTTPS_Client_Tasks_def)
next
  case APP_HTTPS_CLIENT_STATE_SEND_REQUEST
  obtain d v where d: "sendRequest (pres env) (data, w) = Some (d, v)" "well_sized d"
    using send_step_safe [OF sized, of "pres env" w] by blast
  moreover have "https_callbacks d = https_callbacks data"
    using d(1) by (auto simp: sendRequest_def ask_split Let_def enterErrorState_def split: if_splits Option.bind_splits)
  ultimately show ?thesis using APP_HTTPS_CLIENT_STATE_SEND_REQUEST
    by (simp add: APP_HTTPS_Client_Tasks_def keep_user_def)
next
  case APP_HTTPS_CLIENT_STATE_ERROR
  from failed [OF this, of w] obtain u' w' where
    "call_if call (cb_error (https_callbacks data)) Request_Error (u, w) = Some (u', w')" "E u'" by blast
  with APP_HTTPS_CLIENT_STATE_ERROR sized show ?thesis
    by (simp add: APP_HTTPS_Client_Tasks_def handleError_def well_sized_def)
next
  case waiting: APP_HTTPS_CLIENT_STATE_WAIT_FOR_RESPONSE
  let ?w = "tell (IO_Pres (NET_PRES_SocketReadIsReady (https_socket data))) w"
  show ?thesis
  proof (cases "socket_read_ready (pres env) (log ?w) = 0")
    case True
    let ?w1 = "tell (IO_Pres (NET_PRES_SocketWasReset (https_socket data))) ?w"
    from handled [OF waiting, of ?w1] obtain u' w' where
      "call_if call (cb_request_handled (https_callbacks data)) Request_Handled (u, ?w1) = Some (u', w')" "E u'" by blast
    with True waiting sized show ?thesis
      by (cases "socket_was_reset (pres env) (log ?w1)")
        (simp_all add: APP_HTTPS_Client_Tasks_def waitForResponse_def ask_split Let_def well_sized_def)
  next
    case False
    let ?read = "IO_Pres (NET_PRES_SocketRead (https_socket data) HTTPS_CLIENT_NETWORK_BUFFER_SIZE)"
    let ?bytes = "socket_read (pres env) (log ?w @ [?read])"
    have "length ?bytes \<le> length (network_buffer data)" using sized small by (simp add: well_sized_def)
    then obtain b where b: "array_write (network_buffer data) 0 ?bytes = Some b" "length b = length (network_buffer data)"
      using array_write_length by (metis add_0 array_write_def)
    from received [OF waiting, of ?bytes "tell ?read ?w"] obtain u' w' where
      "call_if call (cb_buffer_received (https_callbacks data)) (Buffer_Received ?bytes) (u, tell ?read ?w) = Some (u', w')" "R u'"
      by blast
    with False waiting sized b show ?thesis
      by (simp add: APP_HTTPS_Client_Tasks_def waitForResponse_def ask_split Let_def well_sized_def)
  qed
qed (use sized in \<open>auto simp: APP_HTTPS_Client_Tasks_def keep_user_def well_sized_def ask_split Let_def
      waitForNetworkAvailable_def processRequest_def checkDNSResolveStatus_def startNetworkConnection_def
      waitNetworkConnection_def closeNetworkConnection_def waitForSSLConnect_def enterErrorState_def
      checkNetworkIsAvailable_def split: TCPIP_DNS_RESULT.splits AppHTTPSClientIPMode.splits\<close>)

section \<open>The display\<close>

lemma nixie_tick_https:
  assumes "APP_Nixie_Tasks env after (data, https, sr, w) = Some (data', https', sr', w')"
  shows "https' = https \<and> (nixie_state data = APP_NIXIE_STATE_WAIT_HTTPS_RESPONSE \<longrightarrow> data' = data) \<or>
    https_state https = APP_HTTPS_CLIENT_STATE_IDLE \<and> nixie_state data = APP_NIXIE_STATE_WAIT_HTTPS_CLIENT \<and>
    nixie_state data' = APP_NIXIE_STATE_WAIT_HTTPS_RESPONSE \<and> \<not> is_value_parsed data' \<and> cyclic_buffer_len data' = 0 \<and>
    (\<exists>url. https' = https\<lparr>request_url := url, https_callbacks := nixie_callbacks,
       https_state := APP_HTTPS_CLIENT_STATE_BEGIN_SEQUENCE\<rparr>)"
  using assms
  by (cases "nixie_state data")
    (auto simp: APP_Nixie_Tasks_def waitHttpsClientAndSendRequest_def APP_HTTPS_Client_Request_def
      APP_HTTPS_Client_IsBusy_def Let_def split: Option.bind_splits if_splits prod.splits)

lemma nixie_tick_sr:
  assumes "APP_Nixie_Tasks env after (data, https, sr, w) = Some (data', https', sr', w')" and "nixie_ok data"
    and "sr_ok sr"
  shows "sr_ok sr'"
proof (cases "nixie_state data = APP_NIXIE_STATE_WRITE_SHIFT_REGISTER")
  case True
  have "length (register_shift_state data) = SHIFT_REGISTER_MAX_DATA" "num_shift_registers data = 6"
    using assms(2) by (simp_all add: nixie_ok_def nixie_configured_def nixie_sized_def nixie_sizes SHIFT_REGISTER_MAX_DATA_def)
  with True assms sr_send_ok [of "register_shift_state data" 6 sr] show ?thesis
    by (auto simp: APP_Nixie_Tasks_def writeShiftRegister_def SHIFT_REGISTER_MAX_DATA_def split: if_splits Option.bind_splits)
next
  case False
  then show ?thesis using assms
    by (cases "nixie_state data") (auto simp: APP_Nixie_Tasks_def Let_def split: Option.bind_splits prod.splits if_splits)
qed

section \<open>The invariant of the application\<close>

text \<open>
  A request of the display or of the \<open>fetch\<close> command is under way: whoever is called back waits
  for it.
\<close>

definition fetching :: "AppData \<Rightarrow> bool" where
  "fetching app \<longleftrightarrow> task_state (app_task app) = APP_COMMAND_TASK_STATE_RUNNING \<and>
     task_callback (app_task app) = Some performFetch \<and> fetch_active app"

definition quiet_https :: "app_callback AppHTTPSClientData \<Rightarrow> bool" where
  "quiet_https data \<longleftrightarrow>
     https_state data \<in> {APP_HTTPS_CLIENT_STATE_IDLE, APP_HTTPS_CLIENT_STATE_CLOSE_CONNECTION}"

definition displaying :: "AppNixieData \<Rightarrow> bool" where
  "displaying data \<longleftrightarrow> nixie_state data = APP_NIXIE_STATE_WAIT_HTTPS_RESPONSE \<and>
     (\<exists>s. received_bytes NIXIE_TOKEN s data)"

definition talking :: "AppData \<Rightarrow> bool" where
  "talking app \<longleftrightarrow> quiet_https (app_https_client app) \<or>
     https_callbacks (app_https_client app) = nixie_callbacks \<and> displaying (app_nixie app) \<or>
     https_callbacks (app_https_client app) = fetch_callbacks \<and> fetching app"

definition task_ok :: "command_task \<Rightarrow> bool" where
  "task_ok t \<longleftrightarrow> task_state t = APP_COMMAND_TASK_STATE_NONE \<or>
     (\<exists>io cb. task_callback t = Some cb \<and> callback_cmd_io t = Some io \<and>
        callback_check_available t = Some (check_of cb))"

definition send_ok :: "AppData \<Rightarrow> bool" where
  "send_ok app \<longleftrightarrow> length (send_data (command_shift_register (app_command app))) = SHIFT_REGISTER_MAX_DATA \<and>
     (APP_Command_IsBusy app \<and> task_callback (app_task app) = Some performShiftRegisterSendData \<longrightarrow>
        1 \<le> send_num_bytes (command_shift_register (app_command app)) \<and>
        send_num_bytes (command_shift_register (app_command app)) \<le> SHIFT_REGISTER_MAX_DATA)"

definition app_ok :: "AppData \<Rightarrow> bool" where
  "app_ok app \<longleftrightarrow> network_inv (app_network app) \<and> well_sized (app_https_client app) \<and>
     sr_ok (app_shift_register app) \<and> nixie_ok (app_nixie app) \<and> talking app \<and> task_ok (app_task app) \<and>
     send_ok app \<and> length (fetch_url (command_fetch (app_command app))) = MAX_URL"

lemmas app_ok_defs = app_ok_def talking_def fetching_def send_ok_def APP_Command_IsBusy_def fetch_active_def

text \<open>The invariant does not look at the world, the clock, the flash, USB or the state of the application.\<close>

lemma app_ok_frame [simp]:
  "app_ok (app\<lparr>app_world := w\<rparr>) = app_ok app"
  "app_ok (app\<lparr>app_rtc := rt\<rparr>) = app_ok app"
  "app_ok (app\<lparr>app_flash := fl\<rparr>) = app_ok app"
  "app_ok (app\<lparr>app_usb_hid := us\<rparr>) = app_ok app"
  "app_ok (app\<lparr>app_state := st\<rparr>) = app_ok app"
  by (simp_all add: app_ok_defs app_task_def)

lemma app_ok_on_world [simp]: "app_ok (on_world f app) = app_ok app"
  by (simp add: on_world_def)

lemma app_ok_on_rtc [simp]: "app_ok (on_rtc f app) = app_ok app"
  by (simp add: app_ok_defs app_task_def on_rtc_def split: prod.splits)

lemma app_ok_if [simp]: "app_ok (if b then on_world f app else app) = app_ok app"
  by simp

section \<open>Services\<close>

lemma network_service_ok:
  assumes "\<forall>l. num_networks (net env) l \<le> 2" and "app_ok app"
  shows "\<exists>app'. network_service env app = Some app' \<and> app_ok app'"
proof -
  obtain data w where "APP_Network_Tasks env (app_network app, app_world app) = Some (data, w)" "network_inv data"
    using network_inv_tick [OF assms(1), of "app_network app" "app_world app"] assms(2) by (auto simp: app_ok_def)
  with assms(2) show ?thesis by (simp add: network_service_def app_ok_defs app_task_def)
qed

lemma usb_service_ok: "app_ok app \<Longrightarrow> app_ok (usb_service env app)"
  by (simp add: usb_service_def split: prod.splits)

lemma rtc_service_ok: "app_ok app \<Longrightarrow> app_ok (rtc_service env app)"
  by (simp add: rtc_service_def split: prod.splits)

lemma flash_service_ok: "app_ok app \<Longrightarrow> app_ok (flash_service env app)"
  by (simp add: flash_service_def split: prod.splits)

lemma shift_register_service_ok:
  assumes "app_ok app"
  shows "\<exists>app'. shift_register_service app = Some app' \<and> app_ok app'"
proof -
  obtain data w where "APP_ShiftRegister_Tasks (app_shift_register app, app_world app) = Some (data, w)" "sr_ok data"
    using sr_tick_ok [of "app_shift_register app" "app_world app"] assms by (auto simp: app_ok_def)
  with assms show ?thesis by (simp add: shift_register_service_def app_ok_defs app_task_def)
qed

lemma fetch_prints:
  assumes "callback_cmd_io (app_task app) = Some io"
  shows "\<exists>f. fetch_bufferReceivedCallback bytes app = Some (on_world f app)"
  using assms
proof (induction bytes arbitrary: app)
  case Nil
  have "app = on_world id app" by (simp add: on_world_def)
  then show ?case by (metis fetch_bufferReceivedCallback.simps(1))
next
  case (Cons b bytes)
  let ?g = "tell (IO_Cmd (Command_Print io ''%c'' [PChar b]))"
  obtain f where "fetch_bufferReceivedCallback bytes (on_world ?g app) = Some (on_world f (on_world ?g app))"
    using Cons.IH [of "on_world ?g app"] Cons.prems by auto
  moreover have "on_world f (on_world ?g app) = on_world (f \<circ> ?g) app" by (simp add: on_world_def)
  ultimately show ?case using Cons.prems by (auto intro!: exI [of _ "f \<circ> ?g"])
qed

lemma display_receives:
  assumes "nixie_ok data" and "displaying data"
  shows "\<exists>data'. bufferReceivedCallback bytes data = Some data' \<and> nixie_ok data' \<and> displaying data'"
proof -
  obtain s where s: "received_bytes NIXIE_TOKEN s data" using assms(2) by (auto simp: displaying_def)
  from chunk_step [OF s, of bytes] obtain data' where
    step: "bufferReceivedCallback bytes data = Some data'" "received_bytes NIXIE_TOKEN (s @ bytes) data'"
      "same_but_parsing data data'" by blast
  obtain v c n b where d: "data' = data\<lparr>display_value := v, cyclic_buffer := c, cyclic_buffer_len := n,
      is_value_parsed := b\<rparr>" "length c = length (cyclic_buffer data)"
    using step(3) by (auto simp: same_but_parsing_def)
  have "length v = MAX_NIXIE_TUBES"
    using step(2) by (auto simp: received_bytes_def nixie_ready_def d(1))
  then have "nixie_ok data'"
    using assms(1) d(2)
    by (simp add: d(1) nixie_ok_def nixie_configured_def nixie_sized_def nixie_ready_def)
  moreover have "displaying data'" using assms(2) step(2) by (auto simp: displaying_def d(1))
  ultimately show ?thesis using step(1) by blast
qed

lemma display_handles:
  assumes "nixie_ok data" and "displaying data"
  shows "\<exists>data'. requestHandledCallback data = Some data' \<and> nixie_ok data'"
proof -
  obtain s where s: "received_bytes NIXIE_TOKEN s data" using assms(2) by (auto simp: displaying_def)
  from request_handled [OF s] obtain data' where
    step: "requestHandledCallback data = Some data'" "same_but_outcome data data'" and
    st: "nixie_state data' \<noteq> APP_NIXIE_STATE_ENCODE_SHIFT_REGISTER" by (auto split: option.splits)
  obtain st' v b where d: "data' = data\<lparr>nixie_state := st', display_value := v, is_value_parsed := b\<rparr>"
    "length v = MAX_NIXIE_TUBES" using step(2) by (auto simp: same_but_outcome_def)
  have "nixie_ok data'"
    using assms(1) d(2) st
    by (simp add: d(1) nixie_ok_def nixie_configured_def nixie_sized_def nixie_ready_def)
  with step(1) show ?thesis by blast
qed

lemma display_fails: "nixie_ok data \<Longrightarrow> nixie_ok (errorCallback data)"
  unfolding errorCallback_def by (rule nixie_ok_control) simp_all


text \<open>The invariant without the client's own data.\<close>

definition rest_ok :: "AppData \<Rightarrow> bool" where
  "rest_ok app \<longleftrightarrow> network_inv (app_network app) \<and> sr_ok (app_shift_register app) \<and> nixie_ok (app_nixie app) \<and>
     task_ok (app_task app) \<and> send_ok app \<and> length (fetch_url (command_fetch (app_command app))) = MAX_URL"

lemma app_ok_rest: "app_ok app \<longleftrightarrow> rest_ok app \<and> well_sized (app_https_client app) \<and> talking app"
  by (auto simp: app_ok_def rest_ok_def)

lemma rest_ok_frame [simp]:
  "rest_ok (app\<lparr>app_world := w\<rparr>) = rest_ok app"
  "rest_ok (app\<lparr>app_https_client := https\<rparr>) = rest_ok app"
  "rest_ok (on_world f app) = rest_ok app"
  "rest_ok (set_request_active b app) = rest_ok app"
  by (simp_all add: rest_ok_def send_ok_def APP_Command_IsBusy_def app_task_def on_world_def
      set_request_active_def set_fetch_def)

lemma rest_ok_nixie: "rest_ok app \<Longrightarrow> nixie_ok data \<Longrightarrow> rest_ok (app\<lparr>app_nixie := data\<rparr>)"
  by (simp add: rest_ok_def send_ok_def APP_Command_IsBusy_def app_task_def)

lemma fetching_frame [simp]:
  "fetching (app\<lparr>app_world := w\<rparr>) = fetching app"
  "fetching (app\<lparr>app_https_client := https\<rparr>) = fetching app"
  "fetching (app\<lparr>app_nixie := data\<rparr>) = fetching app"
  "fetching (app\<lparr>app_shift_register := sr\<rparr>) = fetching app"
  "fetching (on_world f app) = fetching app"
  by (simp_all add: fetching_def fetch_active_def app_task_def on_world_def)

text \<open>The callbacks of a request under way.\<close>

definition requester :: "AppData \<Rightarrow> app_callback AppHttpsClientCallbacks \<Rightarrow> bool" where
  "requester app cbs \<longleftrightarrow> cbs = nixie_callbacks \<and> displaying (app_nixie app) \<or> cbs = fetch_callbacks \<and> fetching app"

lemma talking_requester:
  "talking app \<longleftrightarrow> quiet_https (app_https_client app) \<or> requester app (https_callbacks (app_https_client app))"
  by (auto simp: talking_def requester_def)

lemma app_call_receives:
  assumes "rest_ok app" and "requester app cbs"
  shows "\<exists>app' w'. call_if app_call (cb_buffer_received cbs) (Buffer_Received bytes) (app, w) = Some (app', w') \<and>
    rest_ok app' \<and> requester app' cbs"
  using assms(2) unfolding requester_def [of app]
proof (elim disjE conjE)
  assume cbs: "cbs = nixie_callbacks" and "displaying (app_nixie app)"
  with assms(1) obtain data where data: "bufferReceivedCallback bytes (app_nixie app) = Some data" "nixie_ok data"
    "displaying data" using display_receives [of "app_nixie app" bytes] by (auto simp: rest_ok_def)
  let ?app = "app\<lparr>app_world := w, app_nixie := data\<rparr>"
  have "call_if app_call (cb_buffer_received cbs) (Buffer_Received bytes) (app, w) = Some (?app, w)"
    using data(1) by (simp add: cbs call_if_def nixie_callbacks_def app_call_def call_nixie_def)
  moreover have "rest_ok ?app" using assms(1) rest_ok_nixie [OF _ data(2), of "app\<lparr>app_world := w\<rparr>"] by simp
  moreover have "requester ?app cbs" using data(3) by (simp add: cbs requester_def)
  ultimately show ?thesis by blast
next
  assume cbs: "cbs = fetch_callbacks" and fetch: "fetching app"
  then obtain io where "callback_cmd_io (app_task app) = Some io"
    using assms(1) by (auto simp: rest_ok_def task_ok_def fetching_def)
  then obtain f where f: "fetch_bufferReceivedCallback bytes (app\<lparr>app_world := w\<rparr>) = Some (on_world f (app\<lparr>app_world := w\<rparr>))"
    using fetch_prints [of "app\<lparr>app_world := w\<rparr>" io bytes] by auto
  let ?app = "on_world f (app\<lparr>app_world := w\<rparr>)"
  have "call_if app_call (cb_buffer_received cbs) (Buffer_Received bytes) (app, w) = Some (?app, app_world ?app)"
    using f by (simp add: cbs call_if_def fetch_callbacks_def app_call_def)
  moreover have "rest_ok ?app" "requester ?app cbs" using assms(1) fetch by (simp_all add: cbs requester_def)
  ultimately show ?thesis by blast
qed

lemma app_call_handles:
  assumes "rest_ok app" and "requester app cbs"
  shows "\<exists>app' w'. call_if app_call (cb_request_handled cbs) Request_Handled (app, w) = Some (app', w') \<and> rest_ok app'"
  using assms(2) unfolding requester_def
proof (elim disjE conjE)
  assume cbs: "cbs = nixie_callbacks" and "displaying (app_nixie app)"
  with assms(1) obtain data where "requestHandledCallback (app_nixie app) = Some data" "nixie_ok data"
    using display_handles [of "app_nixie app"] by (auto simp: rest_ok_def)
  then show ?thesis using assms(1) cbs rest_ok_nixie [of "app\<lparr>app_world := w\<rparr>" data]
    by (simp add: call_if_def nixie_callbacks_def app_call_def call_nixie_def)
next
  assume "cbs = fetch_callbacks"
  then show ?thesis using assms(1)
    by (simp add: call_if_def fetch_callbacks_def app_call_def fetch_requestHandledCallback_def Let_def)
qed

lemma app_call_fails:
  assumes "rest_ok app" and "requester app cbs"
  shows "\<exists>app' w'. call_if app_call (cb_error cbs) Request_Error (app, w) = Some (app', w') \<and> rest_ok app'"
  using assms(2) unfolding requester_def
proof (elim disjE conjE)
  assume cbs: "cbs = nixie_callbacks"
  have "nixie_ok (errorCallback (app_nixie app))" using assms(1) by (intro display_fails) (simp add: rest_ok_def)
  then show ?thesis using assms(1) cbs rest_ok_nixie [of "app\<lparr>app_world := w\<rparr>" "errorCallback (app_nixie app)"]
    by (simp add: call_if_def nixie_callbacks_def app_call_def call_nixie_def)
next
  assume "cbs = fetch_callbacks"
  then show ?thesis using assms(1)
    by (simp add: call_if_def fetch_callbacks_def app_call_def fetch_errorCallback_def Let_def)
qed

lemma https_service_ok:
  assumes small: "\<forall>l. length (socket_read (pres env) l) \<le> HTTPS_CLIENT_NETWORK_BUFFER_SIZE" and ok: "app_ok app"
  shows "\<exists>app'. https_service env lay app = Some app' \<and> app_ok app'"
proof -
  let ?data = "app_https_client app"
  have rest: "rest_ok app" and sized: "well_sized ?data" and talk: "talking app" using ok by (simp_all add: app_ok_rest)
  have active: "requester app (https_callbacks ?data)" if "\<not> quiet_https ?data"
    using talk that by (simp add: talking_requester)
  have ready: "requester app (https_callbacks ?data)"
    if "https_state ?data = APP_HTTPS_CLIENT_STATE_WAIT_FOR_RESPONSE \<or> https_state ?data = APP_HTTPS_CLIENT_STATE_ERROR"
    using that by (auto intro: active simp: quiet_https_def)
  from https_tick_user [OF sized small, of app_call app "\<lambda>u. rest_ok u \<and> requester u (https_callbacks ?data)" rest_ok
      "after_request_url lay" "app_world app"]
  obtain data u w where run: "APP_HTTPS_Client_Tasks env (after_request_url lay) app_call (?data, app, app_world app) = Some (data, u, w)"
    and d: "well_sized data" "https_callbacks data = https_callbacks ?data"
    and cases: "u = app \<and> (https_state ?data \<in> {APP_HTTPS_CLIENT_STATE_IDLE, APP_HTTPS_CLIENT_STATE_CLOSE_CONNECTION} \<longrightarrow>
        https_state data = APP_HTTPS_CLIENT_STATE_IDLE) \<or> rest_ok u \<and> requester u (https_callbacks ?data) \<or>
      quiet_https data \<and> rest_ok u"
    using app_call_receives [OF rest ready] app_call_handles [OF rest ready] app_call_fails [OF rest ready]
    unfolding quiet_https_def by blast
  have "rest_ok u" using cases rest by auto
  moreover have "quiet_https data \<or> requester u (https_callbacks data)"
    using cases active d(2) by (auto simp: quiet_https_def)
  ultimately have "app_ok (u\<lparr>app_https_client := data, app_world := w\<rparr>)"
    using d(1) by (simp add: app_ok_rest talking_requester requester_def)
  with run show ?thesis by (simp add: https_service_def)
qed

lemma nixie_service_ok:
  assumes ok: "app_ok app"
  shows "\<exists>app'. nixie_service env lay app = Some app' \<and> app_ok app'"
proof -
  let ?https = "app_https_client app" and ?data = "app_nixie app" and ?sr = "app_shift_register app"
  have rest: "rest_ok app" and sized: "well_sized ?https" and talk: "talking app" and nix: "nixie_ok ?data" and sr: "sr_ok ?sr"
    using ok by (simp_all add: app_ok_rest rest_ok_def)
  have "length (request_url ?https) = MAX_URL" using sized by (simp add: well_sized_def)
  from nixie_tick_ok [OF nix this, of env "after_nixie_request_url lay" ?sr "app_world app"]
  obtain data https sr' w where run: "APP_Nixie_Tasks env (after_nixie_request_url lay) (?data, ?https, ?sr, app_world app) =
      Some (data, https, sr', w)" and nix': "nixie_ok data" and url: "length (request_url https) = MAX_URL" by blast
  have sr': "sr_ok sr'" using nixie_tick_sr [OF run nix sr] .
  let ?app = "app\<lparr>app_nixie := data, app_https_client := https, app_shift_register := sr', app_world := w\<rparr>"
  have "rest_ok ?app" using rest nix' sr'
    by (simp add: rest_ok_def send_ok_def APP_Command_IsBusy_def app_task_def)
  moreover from nixie_tick_https [OF run] have "well_sized https \<and> talking ?app"
  proof (elim disjE conjE exE)
    assume "https = ?https" "nixie_state ?data = APP_NIXIE_STATE_WAIT_HTTPS_RESPONSE \<longrightarrow> data = ?data"
    then show ?thesis using talk sized
      by (auto simp: talking_def displaying_def)
  next
    fix url'
    assume "\<not> is_value_parsed data" "cyclic_buffer_len data = 0" "nixie_state data = APP_NIXIE_STATE_WAIT_HTTPS_RESPONSE"
      and https: "https = ?https\<lparr>request_url := url', https_callbacks := nixie_callbacks,
        https_state := APP_HTTPS_CLIENT_STATE_BEGIN_SEQUENCE\<rparr>"
    then have "request_begun NIXIE_TOKEN data"
      using nix' by (simp add: request_begun_def nixie_ok_def nixie_configured_def)
    from received_nothing [OF this] have "displaying data"
      using \<open>nixie_state data = APP_NIXIE_STATE_WAIT_HTTPS_RESPONSE\<close> by (auto simp: displaying_def)
    then show ?thesis using sized url by (simp add: https talking_def well_sized_def)
  qed
  ultimately have "app_ok ?app" by (simp add: app_ok_rest)
  with run show ?thesis by (simp add: nixie_service_def)
qed

end
