(* ===== verification/App_Lines.thy ===== *)
theory App_Lines
  imports App_Invariant
begin

text \<open>
  The command processor and the invariant of the application: a tick of the scheduler keeps it, and so
  does every line of the console; every line returns but for \<open>iwsecurity\<close> and \<open>rtc date\<close>.
\<close>

section \<open>The command processor\<close>

abbreviation task_in :: "AppCommandTaskState \<Rightarrow> nat \<Rightarrow> command_callback \<Rightarrow> command_task" where
  "task_in st io t \<equiv> \<lparr>task_state = st, task_callback = Some t, callback_cmd_io = Some io,
     callback_check_available = Some (check_of t)\<rparr>"

lemma task_ok_cases:
  assumes "task_ok u"
  obtains "task_state u = APP_COMMAND_TASK_STATE_NONE"
  | io t where "u = task_in APP_COMMAND_TASK_STATE_WAIT_AVAILABLE io t"
  | io t where "u = task_in APP_COMMAND_TASK_STATE_RUNNING io t"
proof (cases "task_state u")
  case APP_COMMAND_TASK_STATE_WAIT_AVAILABLE
  then obtain io t where "u = task_in APP_COMMAND_TASK_STATE_WAIT_AVAILABLE io t"
    using assms by (cases u) (auto simp: task_ok_def)
  then show ?thesis by (rule that(2))
next
  case APP_COMMAND_TASK_STATE_RUNNING
  then obtain io t where "u = task_in APP_COMMAND_TASK_STATE_RUNNING io t"
    using assms by (cases u) (auto simp: task_ok_def)
  then show ?thesis by (rule that(3))
qed (rule that(1))

text \<open>The task may change when no request of the \<open>fetch\<close> command is under way.\<close>

lemma task_change_ok:
  assumes "app_ok app" and "\<not> fetching app \<or> quiet_https (app_https_client app)" and "task_ok u"
    and "task_state u \<noteq> APP_COMMAND_TASK_STATE_NONE \<Longrightarrow> task_callback u = Some performShiftRegisterSendData \<Longrightarrow>
      1 \<le> send_num_bytes (command_shift_register (app_command app)) \<and>
      send_num_bytes (command_shift_register (app_command app)) \<le> SHIFT_REGISTER_MAX_DATA"
  shows "app_ok (set_app_task u app)"
proof -
  have "app_network (set_app_task u app) = app_network app" by (simp add: set_app_task_def)
  moreover have "talking (set_app_task u app)"
    using assms(1,2) by (auto simp: app_ok_def talking_def)
  moreover have "send_ok (set_app_task u app)"
    using assms(1,4) by (auto simp: app_ok_def send_ok_def APP_Command_IsBusy_def APP_Command_Task_IsBusy_def)
  ultimately show ?thesis using assms(1,3) by (simp add: app_ok_def)
qed

lemma not_fetching [simp]:
  "app_task app = task_in APP_COMMAND_TASK_STATE_WAIT_AVAILABLE io t \<Longrightarrow> \<not> fetching app"
  "app_task app = task_in st io t \<Longrightarrow> t \<noteq> performFetch \<Longrightarrow> \<not> fetching app"
  by (simp_all add: fetching_def)

lemma app_ok_nixie:
  assumes "app_ok app" and "nixie_ok data" and "\<not> displaying (app_nixie app)"
  shows "app_ok (app\<lparr>app_nixie := data\<rparr>)"
  using assms by (auto simp: app_ok_def talking_def send_ok_def APP_Command_IsBusy_def app_task_def
      fetching_def fetch_active_def)

lemma idle_not_displaying: "\<not> APP_Nixie_IsBusy data \<Longrightarrow> \<not> displaying data"
  by (simp add: APP_Nixie_IsBusy_def displaying_def)

lemma nixie_display_ok:
  assumes "nixie_ok data" and "length v = MAX_NIXIE_TUBES"
  shows "\<exists>b data'. APP_Nixie_Display v data = Some (b, data') \<and> nixie_ok data'"
proof (cases "APP_Nixie_IsBusy data")
  case False
  obtain x where x: "strncpy (replicate MAX_NIXIE_TUBES (CHR 0x00)) v MAX_NIXIE_TUBES = Some x"
    using assms(2) length_takeWhile_le [of "\<lambda>c. c \<noteq> CHR 0x00" v]
    by (auto simp: strncpy_def cstr_def array_write_def Let_def)
  then have "length x = MAX_NIXIE_TUBES"
    by (auto simp: strncpy_def Let_def split: if_splits dest: array_write_length)
  then have "nixie_ok (data\<lparr>display_value := x, nixie_state := APP_NIXIE_STATE_BEGIN_DISPLAY_SEQUENCE\<rparr>)"
    using assms(1) by (simp add: nixie_ok_def nixie_configured_def nixie_sized_def nixie_ready_def)
  moreover have "APP_Nixie_Display v data = Some (True, data\<lparr>display_value := x,
      nixie_state := APP_NIXIE_STATE_BEGIN_DISPLAY_SEQUENCE\<rparr>)"
    using x False by (simp add: APP_Nixie_Display_def)
  ultimately show ?thesis by blast
qed (use assms in \<open>auto simp: APP_Nixie_Display_def\<close>)

lemma nixie_fetch_ok:
  assumes "nixie_ok data"
  shows "nixie_ok (fst (snd (APP_Nixie_Fetch p q (data, w))))"
  using assms by (auto simp: APP_Nixie_Fetch_def Let_def nixie_ok_def nixie_configured_def nixie_sized_def nixie_ready_def)

text \<open>What starting a task other than \<open>fetch\<close> leaves alone.\<close>

definition task_local :: "AppData \<Rightarrow> AppData \<Rightarrow> bool" where
  "task_local app app' \<longleftrightarrow> app_ok app' \<and> app_task app' = app_task app \<and>
     command_shift_register (app_command app') = command_shift_register (app_command app)"

lemma task_local_running:
  assumes ok: "app_ok app" and task: "app_task app = task_in APP_COMMAND_TASK_STATE_WAIT_AVAILABLE io t"
    and keeps: "task_local app app'"
  shows "app_ok (set_app_task (task_in APP_COMMAND_TASK_STATE_RUNNING io t) app')"
proof -
  have "t = performShiftRegisterSendData \<Longrightarrow>
      1 \<le> send_num_bytes (command_shift_register (app_command app)) \<and>
      send_num_bytes (command_shift_register (app_command app)) \<le> SHIFT_REGISTER_MAX_DATA"
    using ok task by (simp add: app_ok_def send_ok_def APP_Command_IsBusy_def APP_Command_Task_IsBusy_def)
  moreover have "task_ok (task_in APP_COMMAND_TASK_STATE_RUNNING io t)" by (simp add: task_ok_def)
  ultimately show ?thesis using keeps task unfolding task_local_def by (intro task_change_ok) (auto simp: fetching_def)
qed

lemma started_fetch:
  assumes ok: "app_ok app" and free: "\<not> resource_busy (check_of performFetch) app"
  shows "\<exists>app'. started env lay performFetch (Some io) app = Some app' \<and>
    app_ok (set_app_task (task_in APP_COMMAND_TASK_STATE_RUNNING io performFetch) app')"
proof -
  let ?m = "array_chars (fetch_url (command_fetch (app_command app))) (after_fetch_url lay)"
  have "length (request_url (app_https_client app)) = MAX_URL" using ok by (simp add: app_ok_def well_sized_def)
  then obtain copy where copy: "safe_strncpy ?m (Some (request_url (app_https_client app))) (Some 0) MAX_URL = Some (True, Some copy)"
    "length copy = MAX_URL"
    using safe_strncpy_content [of MAX_URL "request_url (app_https_client app)" ?m 0] safe_strnlen_le [of ?m 0 "MAX_URL - 1"]
    by (simp add: https_sizes)
  let ?https = "(app_https_client app)\<lparr>request_url := copy, https_callbacks := fetch_callbacks,
      https_state := APP_HTTPS_CLIENT_STATE_BEGIN_SEQUENCE\<rparr>"
  let ?app = "(set_request_active True app)\<lparr>app_https_client := ?https\<rparr>"
  have "\<not> APP_HTTPS_Client_IsBusy (app_https_client app)" using free by simp
  then have "started env lay performFetch (Some io) app = Some ?app"
    using copy(1) by (simp add: started_def run_callback_def fetch_Fetch_def APP_HTTPS_Client_Request_def
        set_request_active_def set_fetch_def Let_def)
  moreover have "task_ok (task_in APP_COMMAND_TASK_STATE_RUNNING io performFetch)" by (simp add: task_ok_def)
  then have "app_ok (set_app_task (task_in APP_COMMAND_TASK_STATE_RUNNING io performFetch) ?app)"
    using ok copy(2)
    by (simp add: app_ok_def talking_def fetching_def send_ok_def well_sized_def fetch_active_def
        set_request_active_def set_fetch_def set_app_task_def app_task_def)
  ultimately show ?thesis by blast
qed

lemma started_nixie:
  assumes ok: "app_ok app" and free: "\<not> resource_busy (check_of t) app" and t: "t \<in> {performNixieDisplay, performNixieFetch}"
  shows "\<exists>app'. started env lay t (Some io) app = Some app' \<and> task_local app app'"
proof (cases "t = performNixieDisplay")
  case True
  have "\<not> displaying (app_nixie app)" using free True by (intro idle_not_displaying) simp
  moreover have "length (chars_of_bytes (load_bytes (app_mem app) (nixie_display_value app) MAX_NIXIE_TUBES)) =
      MAX_NIXIE_TUBES" by (simp add: chars_of_bytes_def)
  from nixie_display_ok [OF _ this, of "app_nixie app"] obtain b data where "APP_Nixie_Display
      (chars_of_bytes (load_bytes (app_mem app) (nixie_display_value app) MAX_NIXIE_TUBES)) (app_nixie app) = Some (b, data)"
    "nixie_ok data"
    using ok by (auto simp: app_ok_def)
  ultimately show ?thesis using True app_ok_nixie [OF ok, of data]
    by (simp add: started_def run_callback_def nixie_Display_def task_local_def app_task_def)
next
  case False
  then have t: "t = performNixieFetch" using t by simp
  obtain b data w where fetch: "APP_Nixie_Fetch (nixie_fetch_is_fetched app) (nixie_fetch_value app)
      (app_nixie app, app_world app) = (b, data, w)" by (metis prod_cases3)
  then have "nixie_ok data"
    using nixie_fetch_ok [of "app_nixie app" "nixie_fetch_is_fetched app" "nixie_fetch_value app" "app_world app"] ok
    by (simp add: app_ok_def)
  moreover have "\<not> displaying (app_nixie app)" using free t by (intro idle_not_displaying) simp
  ultimately show ?thesis using t fetch app_ok_nixie [OF ok, of data]
    by (simp add: started_def run_callback_def nixie_Fetch_def task_local_def app_task_def)
qed

lemma started_send:
  assumes ok: "app_ok app" and task: "app_task app = task_in APP_COMMAND_TASK_STATE_WAIT_AVAILABLE io performShiftRegisterSendData"
  shows "\<exists>app'. started env lay performShiftRegisterSendData (Some io) app = Some app' \<and> task_local app app'"
proof -
  let ?send = "command_shift_register (app_command app)"
  have "length (send_data ?send) = SHIFT_REGISTER_MAX_DATA" "1 \<le> send_num_bytes ?send" "send_num_bytes ?send \<le> SHIFT_REGISTER_MAX_DATA"
    using ok task by (simp_all add: app_ok_def send_ok_def APP_Command_IsBusy_def APP_Command_Task_IsBusy_def)
  from sr_send_ok [OF this, of "app_shift_register app"] obtain sr where
    "APP_ShiftRegister_SendData (send_data ?send) (send_num_bytes ?send) (app_shift_register app) = Some sr" "sr_ok sr" by blast
  moreover from this have "app_ok (app\<lparr>app_shift_register := sr\<rparr>)"
    using ok by (simp add: app_ok_def talking_def send_ok_def APP_Command_IsBusy_def app_task_def fetching_def fetch_active_def)
  ultimately show ?thesis
    by (simp add: started_def run_callback_def shift_register_SendData_def task_local_def app_task_def)
qed

lemma started_ok:
  assumes ok: "app_ok app" and task: "app_task app = task_in APP_COMMAND_TASK_STATE_WAIT_AVAILABLE io t"
    and free: "\<not> resource_busy (check_of t) app"
  shows "\<exists>app'. started env lay t (Some io) app = Some app' \<and>
    app_ok (set_app_task (task_in APP_COMMAND_TASK_STATE_RUNNING io t) app')"
proof (cases "t = performFetch")
  case True
  with started_fetch [OF ok] free show ?thesis by blast
next
  case False
  consider "t \<in> {performNixieDisplay, performNixieFetch}" | "t = performShiftRegisterSendData"
    | "t \<notin> {performFetch, performNixieDisplay, performNixieFetch, performShiftRegisterSendData}" using False by blast
  then have "\<exists>app'. started env lay t (Some io) app = Some app' \<and> task_local app app'"
  proof cases
    case 1
    then show ?thesis by (rule started_nixie [OF ok free])
  next
    case 2
    with started_send [OF ok] task show ?thesis by simp
  next
    case 3
    then show ?thesis using ok
      by (cases t) (simp_all add: started_def run_callback_def callback_defs on_rtc_def on_world_def Let_def
          task_local_def app_task_def split: prod.split)
  qed
  with task_local_running [OF ok task] show ?thesis by blast
qed


lemma on_world_twice: "on_world f (on_world g app) = on_world (f \<circ> g) app"
  by (simp add: on_world_def)

lemma print_row_total: "\<exists>f. print_row (Some io) rs app = Some (on_world f app)"
  by (induction "Some io" rs app rule: print_row.induct) (auto simp: on_world_twice)

lemma printRegisters_total: "\<exists>f. printRegisters_from (Some io) n rs app = Some (on_world f app)"
proof (induction "Some io" n rs app rule: printRegisters_from.induct)
  case (1 n app)
  have "app = on_world id app" by (simp add: on_world_def)
  then show ?case by (metis printRegisters_from.simps(1))
next
  case (2 n r rs app)
  let ?a = "on_world (tell (IO_Cmd (Command_Print io ''%02x |'' [PInt (int n)]))) app"
  obtain f where row: "print_row (Some io) (take 8 (r # rs)) ?a = Some (on_world f ?a)"
    using print_row_total by blast
  obtain g where "printRegisters_from (Some io) (n + 8) (drop 8 (r # rs)) (on_world f ?a) = Some (on_world g (on_world f ?a))"
    using "2.hyps" [OF _ row] by auto
  with row show ?case by (auto simp: on_world_twice simp del: take_Suc_Cons drop_Suc_Cons)
qed

lemma finished_total:
  assumes "app_ok app" and "\<not> still_pending t app" and "t \<noteq> performRTCDateShow"
  shows "\<exists>app'. finished env lay t (Some io) app = Some app' \<and> app_ok app' \<and> (fetching app' \<longrightarrow> fetching app)"
proof (cases "t = performRTCDump")
  case True
  obtain f where "printRegisters_from (Some io) 0 (load_bytes (app_mem app) (rtc_union app) RTC_MCP7940N_NUM_REGISTERS) app =
      Some (on_world f app)" using printRegisters_total by blast
  with True assms show ?thesis
    by (simp add: finished_def run_callback_def rtc_Dump_def printRegisters_def)
next
  case False
  with assms show ?thesis
    by (cases t) (simp_all add: finished_def run_callback_def callback_defs Let_def)
qed

lemma date_show_finished:
  assumes "app_ok app" and "finished env lay performRTCDateShow (Some io) app = Some app'"
    and "\<not> still_pending performRTCDateShow app"
  shows "app_ok app' \<and> (fetching app' \<longrightarrow> fetching app)"
  using assms by (auto simp: finished_def run_callback_def rtc_DateShow_def Let_def split: Option.bind_splits)

lemma finished_ok:
  assumes ok: "app_ok app" and task: "app_task app = task_in APP_COMMAND_TASK_STATE_RUNNING io t"
    and over: "\<not> still_pending t app" and u: "task_state u = APP_COMMAND_TASK_STATE_NONE"
  shows "(\<exists>app'. finished env lay t (Some io) app = Some app' \<and> app_ok (set_app_task u app')) \<or>
    finished env lay t (Some io) app = None \<and> t = performRTCDateShow"
proof -
  have "\<not> fetching app" using task over by (cases "t = performFetch") (simp_all add: fetching_def)
  then have "app_ok (set_app_task u app')" if "app_ok app'" "fetching app' \<longrightarrow> fetching app" for app'
    using u that task_change_ok [where u = u] by (auto simp: task_ok_def)
  then show ?thesis
    using finished_total [OF ok over, of env lay io] date_show_finished [OF ok, of env lay io] over
    by (cases "t = performRTCDateShow"; cases "finished env lay t (Some io) app") auto
qed

lemma command_tasks_ok:
  assumes ok: "app_ok app"
  shows "(\<exists>app'. APP_Command_Tasks env lay app = Some app' \<and> app_ok app') \<or>
    APP_Command_Tasks env lay app = None \<and> task_callback (app_task app) = Some performRTCDateShow"
proof -
  have "task_ok (app_task app)" using ok by (simp add: app_ok_def)
  then show ?thesis
  proof (cases rule: task_ok_cases)
    case 1
    then show ?thesis using ok by (simp add: APP_Command_Tasks_def APP_Command_Task_Tasks_def)
  next
    case (2 io t)
    then have scheduled: "command.scheduled t (Some io) APP_COMMAND_TASK_STATE_WAIT_AVAILABLE app"
      by (simp add: command.scheduled_def)
    show ?thesis
    proof (cases "resource_busy (check_of t) app")
      case True
      from command.waits [OF scheduled this] ok show ?thesis by (simp add: APP_Command_Tasks_def)
    next
      case False
      from started_ok [OF ok 2 False] obtain app' where app': "started env lay t (Some io) app = Some app'"
        "app_ok (set_app_task (task_in APP_COMMAND_TASK_STATE_RUNNING io t) app')" by blast
      from command.starts [OF scheduled False app'(1)] app'(2) 2 show ?thesis by (simp add: APP_Command_Tasks_def)
    qed
  next
    case (3 io t)
    then have scheduled: "command.scheduled t (Some io) APP_COMMAND_TASK_STATE_RUNNING app"
      by (simp add: command.scheduled_def)
    show ?thesis
    proof (cases "still_pending t app")
      case True
      from command.polls [OF scheduled this] ok show ?thesis by (simp add: APP_Command_Tasks_def)
    next
      case False
      have "task_state (command.over :: command_task) = APP_COMMAND_TASK_STATE_NONE" by (simp add: command.over_def)
      note result = finished_ok [OF ok 3 False this, of env lay]
      show ?thesis
      proof (cases "finished env lay t (Some io) app")
        case None
        with result have "t = performRTCDateShow" by simp
        with command.undefined_finish [OF scheduled False None] 3 show ?thesis by (simp add: APP_Command_Tasks_def)
      next
        case (Some app')
        with result have "app_ok (set_app_task command.over app')" by simp
        with command.finishes [OF scheduled False Some] show ?thesis by (simp add: APP_Command_Tasks_def)
      qed
    qed
  qed
qed

lemmas usage_defs = appCmdRTCUsage_def appCmdNixieUsage_def appCmdShiftRegisterUsage_def appCmdFlashUsage_def
  appCmdFetchUsage_def appCmdDebugUsage_def appCmdNTPUsage_def appCmdPhyUsage_def appCmdPowerUsage_def

section \<open>Lines and the invariant\<close>

lemma busy_frame [simp]:
  "APP_Command_IsBusy (on_world f app) = APP_Command_IsBusy app"
  "APP_Command_IsBusy (set_fetch d app) = APP_Command_IsBusy app"
  "APP_Command_IsBusy (set_send bs n app) = APP_Command_IsBusy app"
  by (simp_all add: APP_Command_IsBusy_def)

lemma idle_not_fetching: "\<not> APP_Command_IsBusy app \<Longrightarrow> \<not> fetching app"
  by (simp add: APP_Command_IsBusy_def APP_Command_Task_IsBusy_def fetching_def)

lemma schedule_ok:
  assumes "schedule (Some io) t c b = (r, app')" and "c = check_of t" and "app_ok b" and "\<not> APP_Command_IsBusy b"
    and "t = performShiftRegisterSendData \<Longrightarrow> 1 \<le> send_num_bytes (command_shift_register (app_command b)) \<and>
      send_num_bytes (command_shift_register (app_command b)) \<le> SHIFT_REGISTER_MAX_DATA"
  shows "app_ok app'"
proof -
  have "app' = set_app_task (task_in APP_COMMAND_TASK_STATE_WAIT_AVAILABLE io t) b"
    using assms(1,2) schedule_idle [OF assms(4)] by simp
  then show ?thesis
    using assms(3,5) idle_not_fetching [OF assms(4)] by (auto intro!: task_change_ok simp: task_ok_def)
qed

lemma print_usage_some [simp]:
  "print_usage (Some io) a t app = Some (True, on_world (tell (IO_Cmd (Command_Message io t)))
     (on_world (tell (IO_Cmd (Command_Print io (usage_line ''Usage: %s command arguments ...'') [PStr a]))) app))"
  by (simp add: print_usage_def)

lemma check_some:
  "APP_Command_CheckAvailable (Some io) app = (if APP_Command_IsBusy app then
     Some (False, on_world (tell (IO_Cmd (Command_Message io (usage_line ''Command processor is busy, try again later.'')))) app)
   else Some (True, app))"
  by (simp add: APP_Command_CheckAvailable_def)

lemma line_rtc_ok:
  assumes "app_ok app" and "APP_Command_RTC (Some io) argv app = Some (r, app')"
  shows "app_ok app'"
  using assms
  by (auto simp: APP_Command_RTC_def appCmdRTCOscillator_def appCmdRTCDate_def appCmdRTCBattery_def
      appCmdRTCDump_def appCmdRTCRegister_def usage_defs Let_def check_some
      intro: schedule_ok split: if_splits Option.bind_splits option.splits prod.splits)

lemma line_flash_ok:
  assumes "app_ok app" and "APP_Command_Flash (Some io) argv app = Some (r, app')"
  shows "app_ok app'"
  using assms
  by (auto simp: APP_Command_Flash_def appCmdFlashSectors_def appCmdFlashFormat_def usage_defs check_some
      intro: schedule_ok split: if_splits Option.bind_splits option.splits prod.splits)

lemma periodic_switch_ok:
  assumes "app_ok app"
  shows "app_ok (app\<lparr>app_nixie := APP_Nixie_PeriodicTasksSetEnabled b (app_nixie app)\<rparr>)"
proof -
  let ?data = "APP_Nixie_PeriodicTasksSetEnabled b (app_nixie app)"
  have "nixie_ok ?data" "displaying ?data = displaying (app_nixie app)" if "nixie_ok (app_nixie app)"
    using that by (simp_all add: APP_Nixie_PeriodicTasksSetEnabled_def nixie_ok_def nixie_configured_def
        nixie_sized_def nixie_ready_def displaying_def received_bytes_def cyclic_bytes_def)
  then show ?thesis using assms
    by (auto simp: app_ok_def talking_def send_ok_def APP_Command_IsBusy_def app_task_def fetching_def fetch_active_def)
qed

lemma line_nixie_ok:
  assumes "app_ok app" and "APP_Command_Nixie (Some io) argv app = Some (r, app')"
  shows "app_ok app'"
  using assms
  by (auto simp: APP_Command_Nixie_def appCmdNixieDisplay_def appCmdNixiePeriodic_def appCmdNixieFetch_def
      usage_defs Let_def check_some periodic_switch_ok
      intro: schedule_ok split: if_splits Option.bind_splits option.splits prod.splits)

lemma set_fetch_ok:
  "app_ok app \<Longrightarrow> length url = MAX_URL \<Longrightarrow> app_ok (set_fetch ((command_fetch (app_command app))\<lparr>fetch_url := url\<rparr>) app)"
  by (simp add: app_ok_defs set_fetch_def app_task_def)

lemma line_fetch_ok:
  assumes ok: "app_ok app" and run: "APP_Command_Fetch (Some io) argv app = Some (r, app')"
  shows "app_ok app'"
proof -
  have "length (the copy) = MAX_URL"
    if "safe_strncpy m (Some (fetch_url (command_fetch (app_command app)))) (Some 0) MAX_URL = Some (b, copy)" for m b copy
    using ok that safe_strncpy_content [of MAX_URL "fetch_url (command_fetch (app_command app))" m 0]
      safe_strnlen_le [of m 0 "MAX_URL - 1"] by (auto simp: app_ok_def https_sizes)
  then show ?thesis using ok run
    by (auto simp: APP_Command_Fetch_def appCmdFetch_def usage_defs Let_def check_some set_fetch_ok
        intro: schedule_ok split: if_splits Option.bind_splits option.splits prod.splits)
qed

lemma store_arguments_length: "store_arguments argv is data = Some data' \<Longrightarrow> length data' = length data"
  by (induction "is" arbitrary: data) (auto dest: array_set_length split: Option.bind_splits)

lemma set_send_ok:
  "app_ok app \<Longrightarrow> \<not> APP_Command_IsBusy app \<Longrightarrow> length bs = SHIFT_REGISTER_MAX_DATA \<Longrightarrow> app_ok (set_send bs n app)"
  by (simp add: app_ok_defs set_send_def app_task_def)

lemma set_send_send [simp]: "command_shift_register (app_command (set_send bs n app)) = \<lparr>send_data = bs, send_num_bytes = n\<rparr>"
  by (simp add: set_send_def)

lemma schedule_send_ok:
  assumes "schedule (Some io) performShiftRegisterSendData performShiftRegisterCheckAvailable
      (set_send bs (min_zz (length argv - 2) SHIFT_REGISTER_MAX_DATA) app) = (r, app')"
    and "\<not> length argv < 3" and "app_ok app" and "\<not> APP_Command_IsBusy app"
    and "length bs = length (send_data (command_shift_register (app_command app)))"
  shows "app_ok app'"
proof (rule schedule_ok [OF assms(1)])
  have "length (send_data (command_shift_register (app_command app))) = SHIFT_REGISTER_MAX_DATA"
    using assms(3) by (simp add: app_ok_def send_ok_def)
  then show "app_ok (set_send bs (min_zz (length argv - 2) SHIFT_REGISTER_MAX_DATA) app)"
    using assms by (intro set_send_ok) simp_all
qed (use assms in \<open>auto simp: SHIFT_REGISTER_MAX_DATA_def min_zz_def\<close>)

lemma line_shift_register_ok:
  assumes ok: "app_ok app" and run: "APP_Command_ShiftRegister (Some io) argv app = Some (r, app')"
  shows "app_ok app'"
  using run ok
  by (auto simp: APP_Command_ShiftRegister_def commandShiftRegisterSetEnabledOrDisabled_def
      commandShiftRegisterSendData_def usage_defs check_some Let_def simp del: min_zz_min
      dest: store_arguments_length intro: schedule_ok schedule_send_ok
      split: if_splits Option.bind_splits option.splits prod.splits)

lemma line_board_ok:
  assumes "app_ok app"
  shows "APP_Command_Debug (Some io) argv app = Some (r, app') \<Longrightarrow> app_ok app'"
    "APP_Command_NTP env (Some io) argv app = Some (r, app') \<Longrightarrow> app_ok app'"
    "APP_Command_Phy (Some io) argv app = Some (r, app') \<Longrightarrow> app_ok app'"
    "APP_Command_Power (Some io) argv app = Some (r, app') \<Longrightarrow> app_ok app'"
    "APP_Command_IwSecurity env argv app = Some (r, app') \<Longrightarrow> app_ok app'"
  using assms
  by (auto simp: APP_Command_Debug_def appCmdDebugWolfSSL_def APP_Command_NTP_def appCmdNTPSeconds_def
      APP_Command_Phy_def APP_Command_Power_def appCmdPowerHV_def APP_Command_IwSecurity_def set_world_def
      usage_defs Let_def check_some split: if_splits Option.bind_splits option.splits prod.splits)

lemma dispatch_ok:
  assumes "app_ok app" and "dispatch env (Some io) argv app = Some (r, app')"
  shows "app_ok app'"
proof -
  obtain f where "run_command env f (Some io) argv app = Some (r, app')"
    using assms(2) by (auto simp: dispatch_def split: Option.bind_splits)
  then show ?thesis using assms(1)
    by (cases f) (auto simp: run_command_def intro: line_rtc_ok line_flash_ok line_nixie_ok line_fetch_ok
      line_shift_register_ok line_board_ok)
qed

section \<open>Lines return\<close>

text \<open>The argument list of a line, by its length.\<close>

lemma argument_simps [simp]:
  "argument (a # as) 0 = Some a"
  "argument (a # b # bs) (Suc 0) = Some b"
  "argument (a # b # c # cs) 2 = Some c"
  "argument (a # b # c # d # ds) 3 = Some d"
  "argument (a # b # c # d # e # es) 4 = Some e"
  by (simp_all add: argument_def array_get_def)

lemma strncpy_line: "\<exists>v. strncpy (replicate MAX_NIXIE_TUBES (CHR 0x00)) (s @ [CHR 0x00]) MAX_NIXIE_TUBES = Some v"
proof -
  have "CHR 0x00 \<notin> set (cstr (take MAX_NIXIE_TUBES (s @ [CHR 0x00])))" by (rule nul_notin_cstr)
  moreover have "cstr (take MAX_NIXIE_TUBES (s @ [CHR 0x00])) \<noteq> s @ [CHR 0x00]"
    using calculation by (metis in_set_conv_decomp)
  moreover have "length (cstr (take MAX_NIXIE_TUBES (s @ [CHR 0x00]))) \<le> MAX_NIXIE_TUBES"
    using length_takeWhile_le [of "\<lambda>c. c \<noteq> CHR 0x00" "take MAX_NIXIE_TUBES (s @ [CHR 0x00])"] by (simp add: cstr_def)
  moreover have "length (cstr (take MAX_NIXIE_TUBES (s @ [CHR 0x00]))) \<noteq> Suc (length s)"
  proof
    assume len: "length (cstr (take MAX_NIXIE_TUBES (s @ [CHR 0x00]))) = Suc (length s)"
    then have "length s < MAX_NIXIE_TUBES" using calculation(3) by simp
    then have "take MAX_NIXIE_TUBES (s @ [CHR 0x00]) = s @ [CHR 0x00]" by simp
    with len have "takeWhile (\<lambda>c. c \<noteq> CHR 0x00) (s @ [CHR 0x00]) = s @ [CHR 0x00]"
      unfolding cstr_def by (metis length_append_singleton takeWhile_eq_take take_all order_refl)
    with calculation(2) \<open>take _ _ = _\<close> show False by (simp add: cstr_def)
  qed
  ultimately show ?thesis by (simp add: strncpy_def array_write_def Let_def)
qed

lemma store_arguments_total:
  assumes "\<forall>i \<in> set is. i + 2 < length argv \<and> i < length data"
  shows "\<exists>data'. store_arguments argv is data = Some data'"
  using assms
proof (induction "is" arbitrary: data)
  case (Cons i "is")
  then have "argument argv (i + 2) = Some (argv ! (i + 2))" by (simp add: argument_def array_get_def)
  moreover have "array_set data i x = Some (data[i := x])" for x using Cons.prems by (simp add: array_set_def)
  ultimately show ?case using Cons.IH [of "data[i := uint8_of_int (atoi (argv ! (i + 2)))]"] Cons.prems by simp
qed simp

lemma send_line_total:
  assumes "app_ok app" and "2 < length argv"
  shows "\<exists>data. store_arguments argv [0..<min_zz (length argv - 2) SHIFT_REGISTER_MAX_DATA]
    (send_data (command_shift_register (app_command app))) = Some data"
  using assms by (intro store_arguments_total) (auto simp: app_ok_def send_ok_def min_zz_def)

lemma arguments_cases:
  obtains "args = []" | a where "args = [a]" | a b where "args = [a, b]" | a b c where "args = [a, b, c]"
    | a b c d ds where "args = a # b # c # d # ds"
  by (metis neq_Nil_conv)

lemma returns_nixie: "APP_Command_Nixie (Some io) (name # args) app \<noteq> None"
proof (cases args rule: arguments_cases)
  case (3 a b)
  obtain v where "strncpy (replicate MAX_NIXIE_TUBES (CHR 0x00)) (b @ [CHR 0x00]) MAX_NIXIE_TUBES = Some v"
    using strncpy_line by blast
  then show ?thesis
    by (simp del: not_None_eq add: 3 APP_Command_Nixie_def check_some usage_defs appCmdNixieDisplay_def appCmdNixiePeriodic_def
        appCmdNixieFetch_def Let_def)
qed (simp_all del: not_None_eq add: APP_Command_Nixie_def check_some usage_defs appCmdNixieDisplay_def appCmdNixiePeriodic_def
    appCmdNixieFetch_def Let_def)

lemma returns_fetch:
  assumes "app_ok app"
  shows "APP_Command_Fetch (Some io) (name # args) app \<noteq> None"
proof -
  have "length (fetch_url (command_fetch (app_command app))) = MAX_URL" using assms by (simp add: app_ok_def)
  then show ?thesis using safe_strncpy_content [of MAX_URL "fetch_url (command_fetch (app_command app))"]
    by (cases args rule: arguments_cases) (simp_all del: not_None_eq add: APP_Command_Fetch_def check_some usage_defs appCmdFetch_def
        https_sizes split_beta)
qed

lemma returns_shift_register:
  assumes "app_ok app"
  shows "APP_Command_ShiftRegister (Some io) (name # args) app \<noteq> None"
proof (cases "length args < 2")
  case True
  then show ?thesis
    by (cases args rule: arguments_cases) (simp_all del: not_None_eq add: APP_Command_ShiftRegister_def check_some usage_defs
        commandShiftRegisterSetEnabledOrDisabled_def commandShiftRegisterSendData_def split_beta)
next
  case False
  then obtain data where "store_arguments (name # args) [0..<min_zz (length (name # args) - 2) SHIFT_REGISTER_MAX_DATA]
      (send_data (command_shift_register (app_command app))) = Some data"
    using send_line_total [OF assms, of "name # args"] by auto
  with False show ?thesis
    by (cases args rule: arguments_cases) (auto simp del: not_None_eq min_zz_min simp add: APP_Command_ShiftRegister_def check_some usage_defs
        commandShiftRegisterSendData_def Let_def split_beta)
qed

lemma returns_flash: "APP_Command_Flash (Some io) (name # args) app \<noteq> None"
  by (cases args) (simp_all del: not_None_eq add: APP_Command_Flash_def check_some usage_defs appCmdFlashSectors_def
      appCmdFlashFormat_def)

lemma returns_board:
  "APP_Command_Debug (Some io) (name # args) app \<noteq> None"
  "APP_Command_NTP env (Some io) (name # args) app \<noteq> None"
  "APP_Command_Phy (Some io) (name # args) app \<noteq> None"
  by (cases args; simp del: not_None_eq add: APP_Command_Debug_def appCmdDebugWolfSSL_def APP_Command_NTP_def appCmdNTPSeconds_def
      APP_Command_Phy_def check_some usage_defs Let_def split_beta)+

lemma returns_power: "APP_Command_Power (Some io) (name # args) app \<noteq> None"
  by (cases args rule: arguments_cases) (simp_all del: not_None_eq add: APP_Command_Power_def appCmdPowerHV_def check_some usage_defs Let_def)

lemma returns_rtc:
  assumes "take 1 args \<noteq> [''date'']"
  shows "APP_Command_RTC (Some io) (name # args) app \<noteq> None"
  using assms
  by (cases args rule: arguments_cases) (simp_all del: not_None_eq add: APP_Command_RTC_def check_some usage_defs
      appCmdRTCOscillator_def appCmdRTCBattery_def appCmdRTCDump_def appCmdRTCRegister_def)

lemma dispatch_returns:
  assumes "app_ok app" and "name \<in> fst ` set commands" and "name \<noteq> ''iwsecurity''"
    and "name = ''rtc'' \<Longrightarrow> take 1 args \<noteq> [''date'']"
  shows "dispatch env (Some io) (name # args) app \<noteq> None"
proof -
  obtain f where f: "map_of commands name = Some f" using assms(2) by (metis map_of_eq_None_iff not_None_eq)
  have "f = cmdIwsecurity \<longrightarrow> name = ''iwsecurity''" "f = cmdRTC \<longrightarrow> name = ''rtc''"
    using f by (auto simp: commands_def split: if_splits)
  with f assms(3,4) show ?thesis
    by (cases f) (simp_all add: dispatch_def run_command_def returns_nixie returns_fetch [OF assms(1)]
        returns_shift_register [OF assms(1)] returns_flash returns_board returns_power returns_rtc
        del: not_None_eq)
qed

end
