(* ===== verification/App_Steps.thy ===== *)
theory App_Steps
  imports App_Lines
begin

text \<open>
  The application as a transition system: a tick of the main loop, a line of the console, an event of the
  USB device. The invariant holds after initialization and in every reachable state, so no tick leaves an
  array or follows a missing pointer, up to the table lookups of \<open>rtc date\<close>.
\<close>

section \<open>What a tick leaves alone\<close>

lemma https_user:
  assumes "APP_HTTPS_Client_Tasks env after_url call (data, u, w) = Some (data', u', w')"
    and "\<And>cb e u w u' w'. Some cb \<in> {cb_buffer_received (https_callbacks data),
        cb_request_handled (https_callbacks data), cb_error (https_callbacks data)} \<Longrightarrow>
      call cb e (u, w) = Some (u', w') \<Longrightarrow> P u \<Longrightarrow> P u'" and "P u"
  shows "P u'"
proof -
  have "P u'" if "call_if call c e (u, w) = Some (u', w')" "P u"
    "c \<in> {cb_buffer_received (https_callbacks data), cb_request_handled (https_callbacks data),
       cb_error (https_callbacks data)}" for c e u w u' w'
  proof (cases c)
    case (Some cb)
    with that(1) have "call cb e (u, w) = Some (u', w')" by (simp add: call_if_def)
    from assms(2) [OF _ this that(2)] that(3) Some show ?thesis by auto
  qed (use that in \<open>simp add: call_if_def\<close>)
  with assms(1,3) show ?thesis
    by (cases "https_state data") (auto simp: APP_HTTPS_Client_Tasks_def waitForResponse_def handleError_def
      keep_user_def ask_split Let_def split: Option.bind_splits if_splits prod.splits)
qed

lemma fetch_received_frame:
  "fetch_bufferReceivedCallback bytes app = Some app' \<Longrightarrow> app_task app' = app_task app \<and> app_flash app' = app_flash app"
proof (induction bytes arbitrary: app)
  case (Cons b bytes)
  then show ?case by (cases "callback_cmd_io (app_task app)") (auto simp: COMMAND_PRINT_def on_world_def app_task_def)
qed simp

lemma app_call_frame:
  "app_call cb e (app, w) = Some (app', w') \<Longrightarrow> app_task app' = app_task app \<and> app_flash app' = app_flash app"
  by (cases cb; cases e) (auto simp: app_call_def call_nixie_def fetch_requestHandledCallback_def
      fetch_errorCallback_def set_request_active_def set_fetch_def app_task_def Let_def
      dest: fetch_received_frame split: Option.bind_splits)

lemma services_task [simp]:
  "app_task (usb_service env app) = app_task app" "app_flash (usb_service env app) = app_flash app"
  "app_task (rtc_service env app) = app_task app" "app_flash (rtc_service env app) = app_flash app"
  "app_task (flash_service env app) = app_task app"
  by (simp_all add: usb_service_def rtc_service_def flash_service_def split: prod.split)

lemma service_task:
  "network_service env app = Some app' \<Longrightarrow> app_task app' = app_task app \<and> app_flash app' = app_flash app"
  "https_service env lay app = Some app' \<Longrightarrow> app_task app' = app_task app \<and> app_flash app' = app_flash app"
  "shift_register_service app = Some app' \<Longrightarrow> app_task app' = app_task app \<and> app_flash app' = app_flash app"
  "nixie_service env lay app = Some app' \<Longrightarrow> app_task app' = app_task app \<and> app_flash app' = app_flash app"
proof -
  show "https_service env lay app = Some app' \<Longrightarrow> app_task app' = app_task app \<and> app_flash app' = app_flash app"
    using https_user [where call = app_call and P = "\<lambda>u. app_task u = app_task app \<and> app_flash u = app_flash app"]
      app_call_frame by (auto simp: https_service_def split: Option.bind_splits)
qed (auto simp: network_service_def shift_register_service_def nixie_service_def split: Option.bind_splits)

section \<open>The tick\<close>

definition good_env :: "harmony \<Rightarrow> bool" where
  "good_env env \<longleftrightarrow> (\<forall>l. num_networks (net env) l \<le> 2) \<and>
     (\<forall>l. length (socket_read (pres env) l) \<le> HTTPS_CLIENT_NETWORK_BUFFER_SIZE)"

lemma tick_ok:
  assumes env: "good_env env" and ok: "app_ok app"
  shows "(\<exists>app'. APP_Tasks_Real env lay app = Some app' \<and> app_ok app') \<or>
    APP_Tasks_Real env lay app = None \<and> task_callback (app_task app) = Some performRTCDateShow"
proof (cases "app_state app")
  case APP_STATE_RUN_SERVICES
  obtain a1 where a1: "network_service env app = Some a1" "app_ok a1"
    using network_service_ok [OF env [unfolded good_env_def, THEN conjunct1] ok] by blast
  let ?a2 = "flash_service env (rtc_service env (usb_service env a1))"
  have a2: "app_ok ?a2" using a1(2) by (simp add: usb_service_ok rtc_service_ok flash_service_ok)
  obtain a3 where a3: "https_service env lay ?a2 = Some a3" "app_ok a3"
    using https_service_ok [OF env [unfolded good_env_def, THEN conjunct2] a2] by blast
  obtain a4 where a4: "shift_register_service a3 = Some a4" "app_ok a4"
    using shift_register_service_ok [OF a3(2)] by blast
  obtain a5 where a5: "nixie_service env lay a4 = Some a5" "app_ok a5"
    using nixie_service_ok [OF a4(2)] by blast
  have task: "app_task a5 = app_task app"
    using service_task(4) [OF a5(1)] service_task(3) [OF a4(1)] service_task(2) [OF a3(1)] service_task(1) [OF a1(1)]
    by simp
  show ?thesis using command_tasks_ok [OF a5(2), of env lay] APP_STATE_RUN_SERVICES a1(1) a3(1) a4(1) a5(1) task
    by (auto simp: APP_Tasks_Real_def)
qed (use ok in \<open>simp_all add: APP_Tasks_Real_def appGreetings_def Let_def\<close>)

text \<open>
  A step of the application: a tick of the main loop, a line from a console device, or an event of the
  USB device.
\<close>

inductive app_step :: "harmony \<Rightarrow> AppLayout \<Rightarrow> AppData \<Rightarrow> AppData \<Rightarrow> bool" for env lay where
  app_tick: "APP_Tasks_Real env lay a = Some a' \<Longrightarrow> app_step env lay a a'"
| app_line: "dispatch env (Some io) argv a = Some (r, a') \<Longrightarrow> app_step env lay a a'"
| app_hid_event: "APP_USB_DeviceHIDEventHandler hid (app_usb_hid a, app_world a) = (d, w) \<Longrightarrow>
    app_step env lay a (a\<lparr>app_usb_hid := d, app_world := w\<rparr>)"
| app_device_event: "APP_USB_DeviceEventHandler event (app_usb_hid a, app_world a) = (d, w) \<Longrightarrow>
    app_step env lay a (a\<lparr>app_usb_hid := d, app_world := w\<rparr>)"

lemma step_ok:
  assumes "good_env env" and "app_step env lay a a'" and "app_ok a"
  shows "app_ok a'"
  using assms(2)
proof cases
  case app_tick
  from tick_ok [OF assms(1,3), of lay] app_tick show ?thesis by auto
next
  case (app_line io argv r)
  then show ?thesis using dispatch_ok [OF assms(3)] by blast
qed (use assms(3) in simp_all)

lemma reach_ok:
  assumes "good_env env" and "(app_step env lay)\<^sup>*\<^sup>* a b" and "app_ok a"
  shows "app_ok b"
  using assms(2,3) by (induction rule: rtranclp_induct) (auto intro: step_ok [OF assms(1)])

section \<open>Initialization\<close>

text \<open>The arrays of the application have the sizes they are declared with.\<close>

definition allocated :: "AppData \<Rightarrow> bool" where
  "allocated app \<longleftrightarrow> nixie_sized (app_nixie app) \<and> well_sized (app_https_client app) \<and>
     length (sr_data (app_shift_register app)) = SHIFT_REGISTER_MAX_DATA \<and>
     length (was_net_up (app_network app)) = 2 \<and> length (last_ip (app_network app)) = 2"

lemma command_initialize:
  fixes app :: AppData
  defines "a \<equiv> APP_Command_Initialize app"
  shows "app_nixie a = app_nixie app" "app_https_client a = app_https_client app" "app_rtc a = app_rtc app"
    "app_shift_register a = app_shift_register app" "app_network a = app_network app"
    "app_state a = app_state app" "app_flash a = app_flash app" "app_usb_hid a = app_usb_hid app"
    "task_state (app_task a) = APP_COMMAND_TASK_STATE_NONE" "task_callback (app_task a) = None"
    "length (send_data (command_shift_register (app_command a))) = SHIFT_REGISTER_MAX_DATA"
    "length (fetch_url (command_fetch (app_command a))) = MAX_URL"
  by (simp_all add: a_def APP_Command_Initialize_def APP_Command_Fetch_Initialize_def APP_Command_Nixie_Initialize_def
      APP_Command_RTC_Initialize_def APP_Command_ShiftRegister_Initialize_def APP_Command_Task_Initialize_def
      appCmdTaskSetCallback_def set_app_task_def app_task_def set_fetch_def set_send_def on_world_def Let_def
      rtc_union_def)

text \<open>The display after initialization: idle, and its first periodic request is due.\<close>

definition starts_idle :: "AppNixieData \<Rightarrow> bool" where
  "starts_idle data \<longleftrightarrow> nixie_state data = APP_NIXIE_STATE_IDLE \<and> display_value_out data = None \<and>
     periodic_next_time data = 0 \<and> periodic_tasks_enabled data"

lemma initialize_ok:
  assumes "allocated app"
  shows "\<exists>app'. APP_Initialize_Real env app = Some app' \<and> app_ok app' \<and> \<not> APP_Command_IsBusy app' \<and>
    app_state app' = APP_STATE_GREETINGS \<and> nixie_configured (app_nixie app') \<and>
    flash_state (app_flash app') = APP_FLASH_STATE_REGISTER_MEDIA \<and>
    \<not> APP_HTTPS_Client_IsBusy (app_https_client app') \<and> task_callback (app_task app') = None \<and>
    ip_mode_config (app_https_client app') = APP_HTTPS_CLIENT_IP_MODE_IPV4 \<and> starts_idle (app_nixie app')"
proof -
  define a where "a = APP_Command_Initialize (app\<lparr>app_state := APP_STATE_GREETINGS\<rparr>)"
  note keep = command_initialize [of "app\<lparr>app_state := APP_STATE_GREETINGS\<rparr>", folded a_def, simplified]
  obtain nw w1 where nw: "APP_Network_Initialize (app_network a, app_world a) = (nw, w1)" by (metis surj_pair)
  obtain rtc w2 where rtc: "APP_RTC_Initialize (i2c env) (app_rtc a, w1) = (rtc, w2)" by (metis surj_pair)
  obtain sr w3 where sr: "APP_ShiftRegister_Initialize (app_shift_register a, APP_Power_Initialize w2) = (sr, w3)"
    by (metis surj_pair)
  have "length (sr_data sr) = SHIFT_REGISTER_MAX_DATA"
    using assms sr by (auto simp: allocated_def keep APP_ShiftRegister_Initialize_def Let_def)
  moreover have "nixie_sized (app_nixie a)" using assms by (simp add: allocated_def keep)
  moreover define sr' where "sr' = sr\<lparr>sr_data := replicate 6 0, sr_num_bytes := 6,
                     sr_state := APP_SHIFT_REGISTER_STATE_TRANSMIT_BEGIN\<rparr>"
  ultimately obtain nix where nix: "APP_Nixie_Initialize (app_nixie a, sr) = Some (nix, sr')"
    "nixie_configured nix" "nixie_state nix = APP_NIXIE_STATE_IDLE" "display_value_out nix = None"
    "starts_idle nix" using nixie_initialize by (metis starts_idle_def)
  have "sr_ok sr'" by (simp add: sr'_def sr_ok_def SHIFT_REGISTER_MAX_DATA_def)
  moreover have "network_inv nw"
    using assms nw by (auto simp: allocated_def keep network_inv_def APP_Network_Initialize_def WIFI_DHCP_WAIT_THRESHOLD_def)
  moreover have "well_sized (APP_HTTPS_Client_Initialize (app_https_client a))"
    using assms by (simp add: allocated_def keep APP_HTTPS_Client_Initialize_def well_sized_def)
  moreover have "nixie_ok nix" using nix by (simp add: nixie_ok_def)
  moreover define b where "b = a\<lparr>app_network := nw, app_usb_hid := APP_USB_HID_Initialize (app_usb_hid a),
      app_rtc := rtc, app_flash := APP_Flash_Initialize (app_flash a),
      app_https_client := APP_HTTPS_Client_Initialize (app_https_client a),
      app_nixie := nix, app_shift_register := sr', app_world := w3\<rparr>"
  moreover have "app_task b = app_task a" by (simp add: b_def app_task_def)
  ultimately have "app_ok b" "\<not> APP_Command_IsBusy b" "app_state b = APP_STATE_GREETINGS"
    "nixie_configured (app_nixie b)" "flash_state (app_flash b) = APP_FLASH_STATE_REGISTER_MEDIA"
    "\<not> APP_HTTPS_Client_IsBusy (app_https_client b)" "task_callback (app_task b) = None"
    "ip_mode_config (app_https_client b) = APP_HTTPS_CLIENT_IP_MODE_IPV4" "starts_idle (app_nixie b)"
    using nix(2,5) keep
    by (simp_all add: app_ok_def talking_def quiet_https_def task_ok_def send_ok_def APP_Command_IsBusy_def
        APP_Command_Task_IsBusy_def APP_HTTPS_Client_Initialize_def APP_HTTPS_Client_IsBusy_def APP_Flash_Initialize_def)
  moreover have "APP_Initialize_Real env app = Some b"
    using nw rtc sr nix(1)
    by (simp add: APP_Initialize_Real_def Let_def a_def [symmetric] on_world_def b_def)
  ultimately show ?thesis by blast
qed

section \<open>A sample\<close>

definition sample_app :: AppData where
  "sample_app = \<lparr>app_state = APP_STATE_ERROR,
     app_flash = \<lparr>flash_state = APP_FLASH_STATE_ERROR, format_attempted = True\<rparr>,
     app_https_client = sample_https_client, app_network = network_at_reset, app_nixie = blank_nixie,
     app_rtc = \<lparr>rtc_handle = \<lparr>rtc_state = RTC_MCP7940N_STATE_NONE, next_task = RTC_MCP7940N_TASK_NONE,
       i2c_handle = None, i2c_buffer_handle = None, rtc_private = 64\<rparr>\<rparr>,
     app_shift_register = sample_shift_data, app_usb_hid = sample_usb_data,
     app_command = \<lparr>command_task = \<lparr>task_state = APP_COMMAND_TASK_STATE_NONE, task_callback = None,
         callback_cmd_io = None, callback_check_available = None\<rparr>,
       command_fetch = \<lparr>fetch_url = replicate 128 (CHR 0x00), request_active = False\<rparr>,
       command_nixie = \<lparr>nixie_private = 128\<rparr>, command_rtc = \<lparr>rtc_storage = 192\<rparr>,
       command_shift_register = \<lparr>send_data = replicate 6 0, send_num_bytes = 0\<rparr>\<rparr>,
     app_world = empty_world\<rparr>"

definition sample_layout :: AppLayout where
  "sample_layout = \<lparr>after_request_url = (\<lambda>_. CHR 0x00), after_nixie_request_url = (\<lambda>_. CHR 0x00),
     after_fetch_url = (\<lambda>_. CHR 0x00)\<rparr>"

lemma sample_allocated: "allocated sample_app"
  by (simp add: allocated_def sample_app_def blank_nixie_sized well_sized_def sample_https_client_def https_sizes
      sample_shift_data_def SHIFT_REGISTER_MAX_DATA_def network_at_reset_def)

lemma sample_env_good: "\<forall>l. num_networks (net sample_harmony) l \<le> 2"
    "\<forall>l. length (socket_read (pres sample_harmony) l) \<le> HTTPS_CLIENT_NETWORK_BUFFER_SIZE"
  by (simp_all add: sample_harmony_def HTTPS_CLIENT_NETWORK_BUFFER_SIZE_def)

section \<open>Properties\<close>



text \<open>
  C19: Initialization succeeds and establishes the invariant of the application: the command processor
  and the HTTPS client are idle, the display is wired, the flash is about to be registered.
\<close>

theorem application_initializes:
  assumes "allocated app"
  shows "\<exists>app'. APP_Initialize_Real env app = Some app' \<and> app_ok app' \<and> \<not> APP_Command_IsBusy app' \<and>
    app_state app' = APP_STATE_GREETINGS \<and> nixie_configured (app_nixie app') \<and>
    flash_state (app_flash app') = APP_FLASH_STATE_REGISTER_MEDIA \<and>
    \<not> APP_HTTPS_Client_IsBusy (app_https_client app')"
  using initialize_ok [OF assms, of env] by auto

lemma application_initializes_witness:
  "\<exists>a. APP_Initialize_Real sample_harmony sample_app = Some a \<and> app_ok a \<and> \<not> APP_Command_IsBusy a"
  using application_initializes [OF sample_allocated, of sample_harmony] by blast

end
