(* ===== verification/App_Console.thy ===== *)
theory App_Console
  imports App_Steps
begin

text \<open>
  The console of the running application: what a busy processor does with lines, the two ways in which the
  processor locks for good, and whole commands from the line to what they show.
\<close>

section \<open>A busy processor\<close>

lemma busy_check: "APP_Command_IsBusy app \<Longrightarrow> APP_Command_CheckAvailable (Some io) app = Some (False, on_world
    (tell (IO_Cmd (Command_Message io (usage_line ''Command processor is busy, try again later.'')))) app)"
  by (simp add: check_some)

lemma busy_line:
  assumes "APP_Command_IsBusy app" and "map_of commands name = Some f" and "f \<noteq> cmdIwsecurity" and "f \<noteq> cmdNTP"
  shows "dispatch env (Some io) (name # args) app = Some (True, on_world
    (tell (IO_Cmd (Command_Message io (usage_line ''Command processor is busy, try again later.'')))) app)"
  using assms
  by (cases f) (simp_all add: dispatch_def argument_def array_get_def run_command_def busy_check APP_Command_Debug_def
      APP_Command_Fetch_def APP_Command_Flash_def APP_Command_Nixie_def APP_Command_Phy_def APP_Command_Power_def
      APP_Command_RTC_def APP_Command_ShiftRegister_def)

lemma world_only:
  "APP_Command_NTP env (Some io) argv app = Some (r, app') \<Longrightarrow> \<exists>w. app' = app\<lparr>app_world := w\<rparr>"
  "APP_Command_IwSecurity env argv app = Some (r, app') \<Longrightarrow> \<exists>w. app' = app\<lparr>app_world := w\<rparr>"
proof -
  have same: "\<exists>w. app = app\<lparr>app_world := w\<rparr>" for app :: AppData by (rule exI [of _ "app_world app"]) simp
  show "APP_Command_NTP env (Some io) argv app = Some (r, app') \<Longrightarrow> \<exists>w. app' = app\<lparr>app_world := w\<rparr>"
    by (auto simp: APP_Command_NTP_def appCmdNTPSeconds_def usage_defs Let_def on_world_def
        split: if_splits Option.bind_splits prod.splits)
  show "APP_Command_IwSecurity env argv app = Some (r, app') \<Longrightarrow> \<exists>w. app' = app\<lparr>app_world := w\<rparr>"
    by (auto simp: APP_Command_IwSecurity_def set_world_def on_world_def same split: if_splits Option.bind_splits)
qed

lemma busy_line_world:
  assumes "APP_Command_IsBusy app" and "dispatch env (Some io) argv app = Some (r, app')"
  shows "\<exists>w. app' = app\<lparr>app_world := w\<rparr>"
proof -
  obtain name args f where argv: "argv = name # args" and f: "map_of commands name = Some f"
    and run: "run_command env f (Some io) argv app = Some (r, app')"
    using assms(2) by (cases argv) (auto simp: dispatch_def argument_def array_get_def split: Option.bind_splits)
  show ?thesis
  proof (cases "f = cmdIwsecurity \<or> f = cmdNTP")
    case True
    then show ?thesis using run world_only by (auto simp: run_command_def)
  next
    case False
    then show ?thesis using busy_line [OF assms(1) f, of env io args] assms(2) by (auto simp: argv on_world_def)
  qed
qed

section \<open>Ticks\<close>

text \<open>What a tick runs before the command processor.\<close>

definition run_services :: "harmony \<Rightarrow> AppLayout \<Rightarrow> AppData \<Rightarrow> AppData option" where
  "run_services env lay app = do {
     app \<leftarrow> network_service env app;
     app \<leftarrow> https_service env lay (flash_service env (rtc_service env (usb_service env app)));
     app \<leftarrow> shift_register_service app;
     nixie_service env lay app
   }"

lemma run_tick:
  "app_state app = APP_STATE_RUN_SERVICES \<Longrightarrow> APP_Tasks_Real env lay app = do {
     app \<leftarrow> run_services env lay app;
     app \<leftarrow> APP_Command_Tasks env lay app;
     Some (if \<not> APP_Command_IsBusy app then on_world (tell (IO_Cmd SYS_CMD_READY_TO_READ)) app else app)
   }"
  by (simp add: APP_Tasks_Real_def run_services_def)

lemma run_services_task: "run_services env lay app = Some app' \<Longrightarrow> app_task app' = app_task app"
  by (auto simp: run_services_def dest!: service_task split: Option.bind_splits)

section \<open>Locks\<close>

text \<open>
  A property of the application that keeps the command processor busy: the services keep it, the scheduler
  does nothing under it, and it does not look at the world, the USB device or the state of the application.
\<close>

locale console_lock =
  fixes env :: harmony and lay :: AppLayout and locked :: "AppData \<Rightarrow> bool"
  assumes busy: "locked a \<Longrightarrow> APP_Command_IsBusy a"
    and stuck: "locked a \<Longrightarrow> APP_Command_Tasks env lay a = Some a"
    and services: "locked a \<Longrightarrow> run_services env lay a = Some b \<Longrightarrow> locked b"
    and frame: "locked (a\<lparr>app_world := w\<rparr>) = locked a" "locked (a\<lparr>app_usb_hid := d\<rparr>) = locked a"
      "locked (a\<lparr>app_state := st\<rparr>) = locked a"
begin

lemma tick:
  assumes "locked a" and "APP_Tasks_Real env lay a = Some b"
  shows "locked b"
proof (cases "app_state a")
  case APP_STATE_RUN_SERVICES
  then obtain c where c: "run_services env lay a = Some c"
    using assms(2) by (auto simp: run_tick split: Option.bind_splits)
  from services [OF assms(1) this] have "locked c" .
  with assms(2) APP_STATE_RUN_SERVICES c stuck [OF this] busy [OF this] show ?thesis by (simp add: run_tick)
qed (use assms in \<open>auto simp: APP_Tasks_Real_def appGreetings_def Let_def on_world_def frame\<close>)

lemma step:
  assumes "locked a" and "app_step env lay a b"
  shows "locked b"
  using assms(2)
proof cases
  case app_tick
  with assms(1) show ?thesis by (rule tick)
next
  case (app_line io argv r)
  from busy_line_world [OF busy [OF assms(1)] this] assms(1) show ?thesis by (auto simp: frame)
qed (use assms(1) in \<open>simp_all add: frame\<close>)

lemma forever:
  assumes "(app_step env lay)\<^sup>*\<^sup>* a b" and "locked a"
  shows "APP_Command_IsBusy b"
proof -
  have "locked b" using assms by (induction rule: rtranclp_induct) (auto intro: step)
  then show ?thesis by (rule busy)
qed

end

subsection \<open>Waiting for a flash that failed\<close>

definition waits_for_flash :: "nat \<Rightarrow> command_callback \<Rightarrow> AppData \<Rightarrow> bool" where
  "waits_for_flash io t app \<longleftrightarrow> check_of t = performFlashCheckAvailable \<and>
     app_task app = task_in APP_COMMAND_TASK_STATE_WAIT_AVAILABLE io t \<and> APP_Flash_IsError (app_flash app)"

lemma waiting_busy: "waits_for_flash io t app \<Longrightarrow> APP_Command_IsBusy app"
  by (simp add: waits_for_flash_def APP_Command_IsBusy_def APP_Command_Task_IsBusy_def)

lemma flash_service_error: "APP_Flash_IsError (app_flash app) \<Longrightarrow> app_flash (flash_service env app) = app_flash app"
  by (simp add: flash_service_def APP_Flash_Tasks_def APP_Flash_IsError_def)

lemma flash_wait_services:
  assumes "waits_for_flash io t a" and "run_services env lay a = Some b"
  shows "waits_for_flash io t b"
proof -
  obtain a1 a3 a4 where run: "network_service env a = Some a1"
    "https_service env lay (flash_service env (rtc_service env (usb_service env a1))) = Some a3"
    "shift_register_service a3 = Some a4" "nixie_service env lay a4 = Some b"
    using assms(2) by (auto simp: run_services_def split: Option.bind_splits)
  have "app_flash (flash_service env (rtc_service env (usb_service env a1))) = app_flash a"
    using assms(1) service_task(1) [OF run(1)] by (subst flash_service_error) (simp_all add: waits_for_flash_def)
  then have "app_flash b = app_flash a"
    using service_task(4) [OF run(4)] service_task(3) [OF run(3)] service_task(2) [OF run(2)] by simp
  then show ?thesis using assms(1) run_services_task [OF assms(2)] by (simp add: waits_for_flash_def)
qed

lemma flash_wait_stuck:
  assumes "waits_for_flash io t a"
  shows "APP_Command_Tasks env lay a = Some a"
proof -
  have "command.scheduled t (Some io) APP_COMMAND_TASK_STATE_WAIT_AVAILABLE a"
    using assms unfolding waits_for_flash_def command.scheduled_def by (elim conjE)
  moreover have "resource_busy (check_of t) a"
    using assms by (simp add: waits_for_flash_def APP_Flash_IsError_def APP_Flash_IsBusy_def)
  ultimately show ?thesis unfolding APP_Command_Tasks_def by (rule command.waits)
qed

interpretation flash_wait: console_lock env lay "waits_for_flash io t" for env lay io t
  by unfold_locales (fact waiting_busy flash_wait_stuck flash_wait_services |
    auto simp: waits_for_flash_def app_task_def)+

subsection \<open>A request that nobody answers\<close>

text \<open>
  The task of the \<open>fetch\<close> command waits for its request, but the HTTPS client will not call it back.
\<close>

definition abandoned :: "nat \<Rightarrow> AppData \<Rightarrow> bool" where
  "abandoned io app \<longleftrightarrow> app_task app = task_in APP_COMMAND_TASK_STATE_RUNNING io performFetch \<and> fetch_active app \<and>
     (quiet_https (app_https_client app) \<or> https_callbacks (app_https_client app) = nixie_callbacks)"

lemma abandoned_busy: "abandoned io a \<Longrightarrow> APP_Command_IsBusy a"
  by (simp add: abandoned_def APP_Command_IsBusy_def APP_Command_Task_IsBusy_def)

lemma abandoned_stuck:
  assumes "abandoned io a"
  shows "APP_Command_Tasks env lay a = Some a"
proof -
  have "command.scheduled performFetch (Some io) APP_COMMAND_TASK_STATE_RUNNING a"
    using assms unfolding abandoned_def command.scheduled_def by (elim conjE)
  moreover have "still_pending performFetch a" using assms by (simp add: abandoned_def)
  ultimately show ?thesis unfolding APP_Command_Tasks_def by (rule command.polls)
qed

lemma https_tick_callbacks:
  assumes "APP_HTTPS_Client_Tasks env after_url call (data, u, w) = Some (data', u', w')"
  shows "https_callbacks data' = https_callbacks data \<and> (quiet_https data \<longrightarrow> quiet_https data')"
  using assms
  by (cases "https_state data") (auto simp: APP_HTTPS_Client_Tasks_def keep_user_def ask_split Let_def
      waitForNetworkAvailable_def processRequest_def checkDNSResolveStatus_def startNetworkConnection_def
      waitNetworkConnection_def closeNetworkConnection_def waitForSSLConnect_def enterErrorState_def
      checkNetworkIsAvailable_def sendRequest_def waitForResponse_def handleError_def quiet_https_def
      dest: parse_callbacks split: TCPIP_DNS_RESULT.splits AppHTTPSClientIPMode.splits if_splits
        Option.bind_splits prod.splits)

lemma quiet_tick_user:
  assumes "APP_HTTPS_Client_Tasks env after_url call (data, u, w) = Some (data', u', w')" and "quiet_https data"
  shows "u' = u"
  using assms by (auto simp: quiet_https_def APP_HTTPS_Client_Tasks_def keep_user_def closeNetworkConnection_def)

lemma nixie_call_fetch:
  assumes "Some cb \<in> {cb_buffer_received nixie_callbacks, cb_request_handled nixie_callbacks, cb_error nixie_callbacks}"
    and "app_call cb e (app, w) = Some (app', w')"
  shows "fetch_active app' = fetch_active app"
  using assms by (cases e) (auto simp: nixie_callbacks_def app_call_def call_nixie_def fetch_active_def
      split: Option.bind_splits)

lemma abandoned_https:
  assumes "abandoned io a" and "https_service env lay a = Some b"
  shows "abandoned io b"
proof -
  obtain data u w where run: "APP_HTTPS_Client_Tasks env (after_request_url lay) app_call (app_https_client a, a, app_world a) =
      Some (data, u, w)" and b: "b = u\<lparr>app_https_client := data, app_world := w\<rparr>"
    using assms(2) by (auto simp: https_service_def split: Option.bind_splits)
  have "fetch_active u"
  proof (cases "quiet_https (app_https_client a)")
    case True
    from quiet_tick_user [OF run this] assms(1) show ?thesis by (simp add: abandoned_def)
  next
    case False
    then have "https_callbacks (app_https_client a) = nixie_callbacks" using assms(1) by (simp add: abandoned_def)
    with https_user [OF run, of fetch_active] nixie_call_fetch assms(1) show ?thesis
      unfolding abandoned_def by metis
  qed
  moreover have "app_task b = app_task a" using service_task(2) [OF assms(2)] by simp
  ultimately show ?thesis using https_tick_callbacks [OF run] assms(1)
    by (auto simp: abandoned_def b fetch_active_def)
qed

lemma abandoned_nixie:
  assumes "abandoned io a" and "nixie_service env lay a = Some b"
  shows "abandoned io b"
proof -
  obtain data https sr w where run: "APP_Nixie_Tasks env (after_nixie_request_url lay)
      (app_nixie a, app_https_client a, app_shift_register a, app_world a) = Some (data, https, sr, w)"
    and b: "b = a\<lparr>app_nixie := data, app_https_client := https, app_shift_register := sr, app_world := w\<rparr>"
    using assms(2) by (auto simp: nixie_service_def split: Option.bind_splits)
  have "https = app_https_client a \<or> https_callbacks https = nixie_callbacks"
    using nixie_tick_https [OF run] by auto
  then show ?thesis using assms(1) by (auto simp: b abandoned_def fetch_active_def)
qed

lemma abandoned_frame [simp]:
  "abandoned io (a\<lparr>app_world := w\<rparr>) = abandoned io a" "abandoned io (a\<lparr>app_usb_hid := us\<rparr>) = abandoned io a"
  "abandoned io (a\<lparr>app_state := st\<rparr>) = abandoned io a" "abandoned io (a\<lparr>app_network := nw\<rparr>) = abandoned io a"
  "abandoned io (a\<lparr>app_rtc := rt\<rparr>) = abandoned io a" "abandoned io (a\<lparr>app_flash := fl\<rparr>) = abandoned io a"
  "abandoned io (a\<lparr>app_shift_register := sr\<rparr>) = abandoned io a"
  by (simp_all add: abandoned_def fetch_active_def app_task_def)

lemma abandoned_services:
  assumes "abandoned io a" and "run_services env lay a = Some b"
  shows "abandoned io b"
proof -
  obtain a1 a3 a4 where run: "network_service env a = Some a1"
    "https_service env lay (flash_service env (rtc_service env (usb_service env a1))) = Some a3"
    "shift_register_service a3 = Some a4" "nixie_service env lay a4 = Some b"
    using assms(2) by (auto simp: run_services_def split: Option.bind_splits)
  have "abandoned io a1" using run(1) assms(1) by (auto simp: network_service_def split: Option.bind_splits)
  then have "abandoned io (flash_service env (rtc_service env (usb_service env a1)))"
    by (simp add: usb_service_def rtc_service_def flash_service_def split: prod.split)
  from abandoned_https [OF this run(2)] have "abandoned io a3" .
  then have "abandoned io a4" using run(3) by (auto simp: shift_register_service_def split: Option.bind_splits)
  then show ?thesis by (rule abandoned_nixie [OF _ run(4)])
qed

interpretation abandoned_fetch: console_lock env lay "abandoned io" for env lay io
  by unfold_locales (fact abandoned_busy abandoned_stuck abandoned_services | simp)+

lemma services_fetch:
  "network_service env app = Some app' \<Longrightarrow> app_https_client app' = app_https_client app \<and>
     app_command app' = app_command app"
  "app_https_client (flash_service env (rtc_service env (usb_service env app))) = app_https_client app"
  "app_command (flash_service env (rtc_service env (usb_service env app))) = app_command app"
  by (auto simp: network_service_def usb_service_def rtc_service_def flash_service_def
      split: Option.bind_splits prod.split)

lemma refused_encryption:
  assumes "https_state (app_https_client a) = APP_HTTPS_CLIENT_STATE_WAIT_FOR_CONNECTION"
    and "take 8 (request_url (app_https_client a)) = ''https://''"
    and "\<forall>l. socket_is_connected (pres env) l" and "\<forall>l. \<not> socket_encrypt (pres env) l"
    and "https_service env lay a = Some b"
  shows "\<exists>w. b = a\<lparr>app_https_client := (app_https_client a)\<lparr>https_state := APP_HTTPS_CLIENT_STATE_CLOSE_CONNECTION\<rparr>,
    app_world := w\<rparr>"
  using https_prefix [OF assms(2), of "after_request_url lay"] assms(1,3-5)
  by (auto simp: https_service_def APP_HTTPS_Client_Tasks_def waitNetworkConnection_def keep_user_def ask_split Let_def)

lemma refusal_abandons:
  assumes "app_task a = task_in APP_COMMAND_TASK_STATE_RUNNING io performFetch" and "fetch_active a"
    and "https_state (app_https_client a) = APP_HTTPS_CLIENT_STATE_WAIT_FOR_CONNECTION"
    and "take 8 (request_url (app_https_client a)) = ''https://''"
    and "\<forall>l. socket_is_connected (pres env) l" and "\<forall>l. \<not> socket_encrypt (pres env) l"
    and "https_service env lay a = Some b"
  shows "abandoned io b"
  using refused_encryption [OF assms(3-7)] assms(1,2) by (auto simp: abandoned_def quiet_https_def fetch_active_def)

lemma refused_fetch_tick:
  assumes "app_state a = APP_STATE_RUN_SERVICES"
    and "app_task a = task_in APP_COMMAND_TASK_STATE_RUNNING io performFetch" and "fetch_active a"
    and "https_state (app_https_client a) = APP_HTTPS_CLIENT_STATE_WAIT_FOR_CONNECTION"
    and "take 8 (request_url (app_https_client a)) = ''https://''"
    and "\<forall>l. socket_is_connected (pres env) l" and "\<forall>l. \<not> socket_encrypt (pres env) l"
    and "APP_Tasks_Real env lay a = Some b"
  shows "abandoned io b"
proof -
  obtain a5 where a5: "run_services env lay a = Some a5" using assms(1,8) by (auto simp: run_tick split: Option.bind_splits)
  obtain a1 a3 a4 where run: "network_service env a = Some a1"
    "https_service env lay (flash_service env (rtc_service env (usb_service env a1))) = Some a3"
    "shift_register_service a3 = Some a4" "nixie_service env lay a4 = Some a5"
    using a5 by (auto simp: run_services_def split: Option.bind_splits)
  have "app_https_client a1 = app_https_client a" "app_command a1 = app_command a"
    using services_fetch(1) [OF run(1)] by simp_all
  then have "abandoned io a3"
    using assms(2-7) by (intro refusal_abandons [OF _ _ _ _ _ _ run(2)])
      (simp_all add: services_fetch fetch_active_def app_task_def)
  then have "abandoned io a4" using run(3) by (auto simp: shift_register_service_def split: Option.bind_splits)
  then have last: "abandoned io a5" by (rule abandoned_nixie [OF _ run(4)])
  from assms(1,8) a5 abandoned_stuck [OF last] abandoned_busy [OF last] last show ?thesis by (simp add: run_tick)
qed

section \<open>The \<open>nixie display\<close> command\<close>

text \<open>The array of the command, and what the display makes of it.\<close>

definition display_argument :: "string \<Rightarrow> char list" where
  "display_argument text = take 4 text @ replicate (4 - length text) (CHR 0x00)"

definition displayed :: "string \<Rightarrow> char list" where
  "displayed text = (if 4 \<le> length text then rev (take 4 text) else replicate 4 (CHR 0x00))"

lemma length_display_argument [simp]: "length (display_argument text) = 4"
  by (simp add: display_argument_def)

lemma argument_copied:
  assumes "CHR 0x00 \<notin> set text"
  shows "strncpy (replicate MAX_NIXIE_TUBES (CHR 0x00)) (text @ [CHR 0x00]) MAX_NIXIE_TUBES = Some (display_argument text)"
proof (cases "4 \<le> length text")
  case True
  have "CHR 0x00 \<notin> set (take 4 text)" using assms by (auto dest: in_set_takeD)
  with True show ?thesis
    by (simp add: strncpy_def cstr_no_nul display_argument_def nixie_sizes array_write_def Let_def)
next
  case False
  then have "take 4 (text @ [CHR 0x00]) = text @ [CHR 0x00]" by simp
  with assms False show ?thesis
    by (simp add: strncpy_def display_argument_def nixie_sizes array_write_def Let_def)
qed

lemma argument_displayed:
  assumes "CHR 0x00 \<notin> set text"
  shows "strncpy (replicate MAX_NIXIE_TUBES (CHR 0x00)) (rev (display_argument text)) MAX_NIXIE_TUBES = Some (displayed text)"
proof (cases "4 \<le> length text")
  case True
  have "CHR 0x00 \<notin> set (take 4 text)" using assms by (auto dest: in_set_takeD)
  with True show ?thesis
    by (simp add: strncpy_def cstr_no_nul display_argument_def displayed_def nixie_sizes array_write_def Let_def)
next
  case False
  then obtain n where "4 - length text = Suc n" by (cases "4 - length text") auto
  then have "rev (display_argument text) = CHR 0x00 # replicate n (CHR 0x00) @ rev text" using False
    by (simp add: display_argument_def replicate_append_same)
  with False show ?thesis
    by (simp add: strncpy_def cstr_def displayed_def nixie_sizes array_write_def Let_def)
qed

lemma display_scheduled:
  assumes "\<not> APP_Command_IsBusy app" and "CHR 0x00 \<notin> set text"
  shows "dispatch env (Some io) [''nixie'', ''display'', text] app = Some (True,
    set_app_task (task_in APP_COMMAND_TASK_STATE_WAIT_AVAILABLE io performNixieDisplay)
      (on_world (poke (nixie_display_value app) (bytes_of_chars (rev (display_argument text)))) app))"
  using assms argument_copied [OF assms(2)]
  by (simp add: dispatch_def argument_def array_get_def commands_def run_command_def APP_Command_Nixie_def check_some
      appCmdNixieDisplay_def reverse_bytes_rev schedule_idle)

lemma display_started:
  assumes "\<not> APP_Nixie_IsBusy (app_nixie app)" and "CHR 0x00 \<notin> set text"
    and "load_bytes (app_mem app) (nixie_display_value app) MAX_NIXIE_TUBES = bytes_of_chars (rev (display_argument text))"
  shows "started env lay performNixieDisplay io app = Some (app\<lparr>app_nixie := (app_nixie app)
    \<lparr>display_value := displayed text, nixie_state := APP_NIXIE_STATE_BEGIN_DISPLAY_SEQUENCE\<rparr>\<rparr>)"
  using assms argument_displayed [OF assms(2)]
  by (simp add: started_def run_callback_def nixie_Display_def APP_Nixie_Display_def)

lemma display_runs:
  assumes "\<not> APP_Command_IsBusy app" and "\<not> APP_Nixie_IsBusy (app_nixie app)" and "CHR 0x00 \<notin> set text"
    and "dispatch env (Some io) [''nixie'', ''display'', text] app = Some (r, a)"
  shows "r \<and> (\<exists>b c. APP_Command_Tasks env lay a = Some b \<and> APP_Command_Tasks env lay b = Some c \<and>
    \<not> APP_Command_IsBusy c \<and> app_nixie c = (app_nixie app)\<lparr>display_value := displayed text,
      nixie_state := APP_NIXIE_STATE_BEGIN_DISPLAY_SEQUENCE\<rparr>)"
proof -
  let ?t = performNixieDisplay
  have a: "r" "a = set_app_task (task_in APP_COMMAND_TASK_STATE_WAIT_AVAILABLE io ?t)
      (on_world (poke (nixie_display_value app) (bytes_of_chars (rev (display_argument text)))) app)"
    using assms(4) display_scheduled [OF assms(1,3)] by simp_all
  have nix: "app_nixie a = app_nixie app" and addr: "nixie_display_value a = nixie_display_value app"
    by (simp_all add: a(2) on_world_def) (simp add: nixie_display_value_def)
  have mem: "load_bytes (app_mem a) (nixie_display_value app) MAX_NIXIE_TUBES = bytes_of_chars (rev (display_argument text))"
    by (simp add: a(2) app_mem_def on_world_def nixie_sizes load_store_same)
  have wait: "command.scheduled ?t (Some io) APP_COMMAND_TASK_STATE_WAIT_AVAILABLE a"
    unfolding command.scheduled_def by (simp add: a(2))
  let ?a' = "a\<lparr>app_nixie := (app_nixie app)\<lparr>display_value := displayed text,
      nixie_state := APP_NIXIE_STATE_BEGIN_DISPLAY_SEQUENCE\<rparr>\<rparr>"
  have free: "\<not> resource_busy (check_of ?t) a" using assms(2) by (simp add: nix)
  have "started env lay ?t (Some io) a = Some ?a'"
    using display_started [of a "text" env lay "Some io"] assms(2,3) mem by (simp add: nix addr)
  from command.starts [OF wait free this] obtain b where b: "APP_Command_Tasks env lay a = Some b"
    "command.scheduled ?t (Some io) APP_COMMAND_TASK_STATE_RUNNING b" "app_nixie b = app_nixie ?a'"
    by (auto simp: APP_Command_Tasks_def)
  have "finished env lay ?t (Some io) b = Some b" by (simp add: finished_def run_callback_def nixie_Display_def)
  from command.finishes [OF b(2) _ this] have c: "APP_Command_Tasks env lay b = Some (set_app_task command.over b)"
    by (simp add: APP_Command_Tasks_def)
  have "\<not> APP_Command_IsBusy (set_app_task command.over b)"
    by (simp add: APP_Command_IsBusy_def APP_Command_Task_IsBusy_def command.over_def)
  with a(1) b(1,3) c show ?thesis by (intro conjI exI [of _ b] exI [of _ "set_app_task command.over b"]) simp_all
qed

section \<open>What \<open>fetch\<close> prints\<close>

text \<open>The characters printed one by one on a device, and the bytes that the socket delivered.\<close>

fun printed :: "nat \<Rightarrow> io list \<Rightarrow> char list" where
  "printed io [] = []"
| "printed io (IO_Cmd (Command_Print d f [PChar c]) # es) = (if d = io \<and> f = ''%c'' then [c] else []) @ printed io es"
| "printed io (e # es) = printed io es"

fun received :: "harmony \<Rightarrow> io list \<Rightarrow> io list \<Rightarrow> char list" where
  "received env l [] = []"
| "received env l (IO_Pres (NET_PRES_SocketRead s n) # es) =
     socket_read (pres env) (l @ [IO_Pres (NET_PRES_SocketRead s n)]) @
     received env (l @ [IO_Pres (NET_PRES_SocketRead s n)]) es"
| "received env l (e # es) = received env (l @ [e]) es"

primrec https_services :: "harmony \<Rightarrow> AppLayout \<Rightarrow> nat \<Rightarrow> AppData \<Rightarrow> AppData option" where
  "https_services env lay 0 app = Some app"
| "https_services env lay (Suc n) app = Option.bind (https_service env lay app) (https_services env lay n)"

abbreviation prints :: "nat \<Rightarrow> char list \<Rightarrow> io list" where
  "prints io cs \<equiv> map (\<lambda>c. IO_Cmd (Command_Print io ''%c'' [PChar c])) cs"

lemma printed_append [simp]: "printed io (xs @ ys) = printed io xs @ printed io ys"
  by (induction io xs rule: printed.induct) auto

lemma received_append [simp]: "received env l (xs @ ys) = received env l xs @ received env (l @ xs) ys"
  by (induction env l xs rule: received.induct) auto

lemma printed_prints [simp]: "printed io (prints io cs) = cs"
  by (induction cs) auto

lemma received_prints [simp]: "received env l (prints io cs) = []"
  by (induction cs arbitrary: l) auto

lemma fetch_callback_prints:
  assumes "callback_cmd_io (app_task app) = Some io"
  shows "fetch_bufferReceivedCallback bytes app = Some (on_world (\<lambda>w. w\<lparr>log := log w @ prints io bytes\<rparr>) app)"
  using assms
proof (induction bytes arbitrary: app)
  case Nil
  then show ?case by (simp add: on_world_def)
next
  case (Cons b bytes)
  let ?a = "on_world (tell (IO_Cmd (Command_Print io ''%c'' [PChar b]))) app"
  from Cons.IH [of ?a] Cons.prems show ?case by (simp add: on_world_def tell_def)
qed

text \<open>A request of the \<open>fetch\<close> command whose response arrives, or that is over.\<close>

definition fetch_session :: "harmony \<Rightarrow> nat \<Rightarrow> io list \<Rightarrow> io list \<Rightarrow> AppData \<Rightarrow> bool" where
  "fetch_session env io l es app \<longleftrightarrow> app_task app = task_in APP_COMMAND_TASK_STATE_RUNNING io performFetch \<and>
     well_sized (app_https_client app) \<and> log (app_world app) = l @ es \<and> printed io es = received env l es \<and>
     (https_state (app_https_client app) = APP_HTTPS_CLIENT_STATE_WAIT_FOR_RESPONSE \<and> fetch_active app \<and>
        https_callbacks (app_https_client app) = fetch_callbacks \<or>
      quiet_https (app_https_client app) \<and> \<not> fetch_active app)"

lemma session_quiet:
  assumes "fetch_session env io l es a" and "quiet_https (app_https_client a)" and "\<not> fetch_active a"
  shows "\<exists>b es'. https_service env lay a = Some b \<and> fetch_session env io l es' b"
proof -
  let ?a = "a\<lparr>app_https_client := (app_https_client a)\<lparr>https_state := APP_HTTPS_CLIENT_STATE_IDLE\<rparr>\<rparr>"
  let ?close = "IO_Pres (NET_PRES_SocketClose (https_socket (app_https_client a)))"
  show ?thesis
  proof (cases "https_state (app_https_client a) = APP_HTTPS_CLIENT_STATE_IDLE")
    case True
    then have "https_service env lay a = Some a"
      by (simp add: https_service_def APP_HTTPS_Client_Tasks_def)
    with assms(1) show ?thesis by blast
  next
    case False
    then have "https_service env lay a = Some (?a\<lparr>app_world := tell ?close (app_world a)\<rparr>)"
      using assms(2) by (simp add: https_service_def APP_HTTPS_Client_Tasks_def quiet_https_def keep_user_def
          closeNetworkConnection_def)
    moreover have "fetch_session env io l (es @ [?close]) (?a\<lparr>app_world := tell ?close (app_world a)\<rparr>)"
      using assms by (simp add: fetch_session_def quiet_https_def well_sized_def fetch_active_def)
    ultimately show ?thesis by blast
  qed
qed

lemma session_waiting:
  assumes small: "\<forall>l. length (socket_read (pres env) l) \<le> HTTPS_CLIENT_NETWORK_BUFFER_SIZE"
    and session: "fetch_session env io l es a" and "https_callbacks (app_https_client a) = fetch_callbacks"
    and "https_state (app_https_client a) = APP_HTTPS_CLIENT_STATE_WAIT_FOR_RESPONSE" and "fetch_active a"
  shows "\<exists>b es'. https_service env lay a = Some b \<and> fetch_session env io l es' b"
proof -
  let ?data = "app_https_client a"
  let ?ready = "IO_Pres (NET_PRES_SocketReadIsReady (https_socket ?data))"
    and ?reset = "IO_Pres (NET_PRES_SocketWasReset (https_socket ?data))"
    and ?read = "IO_Pres (NET_PRES_SocketRead (https_socket ?data) HTTPS_CLIENT_NETWORK_BUFFER_SIZE)"
  have log: "log (app_world a) = l @ es" and io: "callback_cmd_io (app_task a) = Some io"
    using session by (simp_all add: fetch_session_def)
  let ?w = "tell ?ready (app_world a)"
  show ?thesis
  proof (cases "socket_read_ready (pres env) (log ?w) = 0")
    case empty: True
    let ?w' = "tell ?reset ?w"
    show ?thesis
    proof (cases "socket_was_reset (pres env) (log ?w')")
      case True
      let ?b = "set_request_active False (a\<lparr>app_world := ?w'\<rparr>)
        \<lparr>app_https_client := ?data\<lparr>https_state := APP_HTTPS_CLIENT_STATE_CLOSE_CONNECTION\<rparr>, app_world := ?w'\<rparr>"
      have "https_service env lay a = Some ?b"
        using empty True assms(3,4) by (simp add: https_service_def APP_HTTPS_Client_Tasks_def waitForResponse_def
            ask_split Let_def call_if_def fetch_callbacks_def app_call_def fetch_requestHandledCallback_def
            set_request_active_def set_fetch_def)
      moreover have "fetch_session env io l (es @ [?ready, ?reset]) ?b"
        using session log by (simp add: fetch_session_def quiet_https_def well_sized_def fetch_active_def
            set_request_active_def set_fetch_def app_task_def)
      ultimately show ?thesis by blast
    next
      case False
      then have "https_service env lay a = Some (a\<lparr>app_world := ?w'\<rparr>)"
        using empty assms(4) by (simp add: https_service_def APP_HTTPS_Client_Tasks_def waitForResponse_def ask_split Let_def)
      moreover have "fetch_session env io l (es @ [?ready, ?reset]) (a\<lparr>app_world := ?w'\<rparr>)"
        using session log by (simp add: fetch_session_def fetch_active_def)
      ultimately show ?thesis by blast
    qed
  next
    case False
    let ?bytes = "socket_read (pres env) (log ?w @ [?read])"
    have "length ?bytes \<le> length (network_buffer ?data)"
      using session small by (simp add: fetch_session_def well_sized_def)
    then obtain buf where buf: "array_write (network_buffer ?data) 0 ?bytes = Some buf"
      by (simp add: array_write_def)
    let ?w' = "(tell ?read ?w)\<lparr>log := log ?w @ [?read] @ prints io ?bytes\<rparr>"
    have "https_service env lay a = Some (a\<lparr>app_https_client := ?data\<lparr>network_buffer := buf\<rparr>, app_world := ?w'\<rparr>)"
      using False assms(3,4) buf fetch_callback_prints [of "a\<lparr>app_world := tell ?read ?w\<rparr>" io ?bytes] io
      by (simp add: https_service_def APP_HTTPS_Client_Tasks_def waitForResponse_def
            ask_split Let_def call_if_def fetch_callbacks_def app_call_def on_world_def)
    moreover have "fetch_session env io l (es @ [?ready, ?read] @ prints io ?bytes)
        (a\<lparr>app_https_client := ?data\<lparr>network_buffer := buf\<rparr>, app_world := ?w'\<rparr>)"
      using session log array_write_length [OF buf] assms(3-5)
      by (simp add: fetch_session_def well_sized_def fetch_active_def)
    ultimately show ?thesis by blast
  qed
qed

lemma session_runs:
  assumes "\<forall>l. length (socket_read (pres env) l) \<le> HTTPS_CLIENT_NETWORK_BUFFER_SIZE"
    and "fetch_session env io l es a"
  shows "\<exists>b es'. https_services env lay n a = Some b \<and> fetch_session env io l es' b"
  using assms(2)
proof (induction n arbitrary: a es)
  case (Suc n)
  have "\<exists>b es'. https_service env lay a = Some b \<and> fetch_session env io l es' b"
    using session_quiet [OF Suc.prems, of lay] session_waiting [OF assms(1) Suc.prems, of lay] Suc.prems
    unfolding fetch_session_def [of env io l es a] by argo
  then obtain b es' where "https_service env lay a = Some b" "fetch_session env io l es' b" by blast
  with Suc.IH [OF this(2)] show ?case by simp
qed auto

lemma session_over:
  assumes "fetch_session env io l es b" and "https_state (app_https_client b) \<noteq> APP_HTTPS_CLIENT_STATE_WAIT_FOR_RESPONSE"
  shows "\<exists>c. APP_Command_Tasks env lay b = Some c \<and> \<not> APP_Command_IsBusy c"
proof -
  have "command.scheduled performFetch (Some io) APP_COMMAND_TASK_STATE_RUNNING b"
    using assms(1) unfolding fetch_session_def command.scheduled_def by (elim conjE)
  moreover have over: "\<not> still_pending performFetch b" using assms by (auto simp: fetch_session_def)
  moreover have "finished env lay performFetch (Some io) b = Some b"
    using over by (simp add: finished_def run_callback_def fetch_Fetch_def)
  ultimately have "APP_Command_Tasks env lay b = Some (set_app_task command.over b)"
    unfolding APP_Command_Tasks_def by (rule command.finishes)
  then show ?thesis by (simp add: APP_Command_IsBusy_def APP_Command_Task_IsBusy_def command.over_def)
qed

section \<open>Samples\<close>

text \<open>A request of the \<open>fetch\<close> command under way, a socket layer that delivers twice, and one that refuses encryption.\<close>

definition fetching_from :: "AppHTTPSClientState \<Rightarrow> char list \<Rightarrow> AppData \<Rightarrow> AppData" where
  "fetching_from st url app = set_app_task (task_in APP_COMMAND_TASK_STATE_RUNNING 0 performFetch)
     ((set_request_active True app)\<lparr>app_state := APP_STATE_RUN_SERVICES, app_https_client := (app_https_client app)
        \<lparr>https_state := st, request_url := url, https_callbacks := fetch_callbacks\<rparr>\<rparr>)"

definition talking_harmony :: harmony where
  "talking_harmony = sample_harmony\<lparr>pres := (pres sample_harmony)\<lparr>socket_read_ready := \<lambda>l. if length l < 5 then 2 else 0,
     socket_read := \<lambda>_. ''ok''\<rparr>\<rparr>"

definition refusing_harmony :: harmony where
  "refusing_harmony = sample_harmony\<lparr>pres := (pres sample_harmony)\<lparr>socket_encrypt := \<lambda>_. False\<rparr>\<rparr>"

lemma fetching_from_simps [simp]:
  "app_task (fetching_from st url app) = task_in APP_COMMAND_TASK_STATE_RUNNING 0 performFetch"
  "fetch_active (fetching_from st url app)"
  "app_https_client (fetching_from st url app) =
     (app_https_client app)\<lparr>https_state := st, request_url := url, https_callbacks := fetch_callbacks\<rparr>"
  "app_state (fetching_from st url app) = APP_STATE_RUN_SERVICES"
  "app_world (fetching_from st url app) = app_world app"
  by (simp_all add: fetching_from_def fetch_active_def set_request_active_def set_fetch_def set_app_task_def app_task_def)

lemma fetching_from_ok:
  assumes "app_ok app" and "length url = MAX_URL"
  shows "app_ok (fetching_from st url app)"
proof -
  have "task_ok (task_in APP_COMMAND_TASK_STATE_RUNNING 0 performFetch)" by (simp add: task_ok_def)
  with assms show ?thesis
    by (simp add: app_ok_def talking_def fetching_def send_ok_def well_sized_def fetching_from_def
        set_request_active_def set_fetch_def fetch_active_def set_app_task_def app_task_def)
qed

section \<open>Properties\<close>

text \<open>
  C17: While a command is scheduled or runs, no line changes the application: \<open>ntp\<close> and
  \<open>iwsecurity\<close> only print and call the network stack, every other command answers that the processor is
  busy and succeeds.
\<close>

theorem busy_processor_refuses:
  assumes "APP_Command_IsBusy app" and "dispatch env (Some io) (name # args) app = Some (r, app')"
  shows "(\<exists>w. app' = app\<lparr>app_world := w\<rparr>) \<and> (name \<notin> {''ntp'', ''iwsecurity''} \<longrightarrow> r \<and> app' = on_world
    (tell (IO_Cmd (Command_Message io (usage_line ''Command processor is busy, try again later.'')))) app)"
proof -
  obtain f where f: "map_of commands name = Some f"
    using assms(2) by (auto simp: dispatch_def argument_def array_get_def split: Option.bind_splits)
  have "f \<noteq> cmdIwsecurity \<and> f \<noteq> cmdNTP" if "name \<notin> {''ntp'', ''iwsecurity''}"
    using f that by (auto simp: commands_def split: if_splits)
  then show ?thesis using busy_line_world [OF assms] busy_line [OF assms(1) f, of env io args] assms(2) by auto
qed

lemma busy_processor_refuses_witness:
  "\<exists>app'. dispatch sample_harmony (Some 1) [''power'']
      (set_app_task (task_in APP_COMMAND_TASK_STATE_WAIT_AVAILABLE 0 performRTCDump) sample_app) = Some (True, app') \<and>
    (\<exists>w. app' = set_app_task (task_in APP_COMMAND_TASK_STATE_WAIT_AVAILABLE 0 performRTCDump) sample_app\<lparr>app_world := w\<rparr>)"
proof -
  let ?app = "set_app_task (task_in APP_COMMAND_TASK_STATE_WAIT_AVAILABLE 0 performRTCDump) sample_app"
  have busy: "APP_Command_IsBusy ?app" by (simp add: APP_Command_IsBusy_def APP_Command_Task_IsBusy_def)
  have "map_of commands ''power'' = Some cmdPower" by (simp add: commands_def)
  from busy_line [OF busy this, of sample_harmony 1 "[]"] busy_processor_refuses [OF busy, of sample_harmony 1 "''power''" "[]"]
  show ?thesis by fastforce
qed

text \<open>
  C26: A \<open>flash\<close> command entered after the flash has failed locks the console for good: in every state
  that is reached from then on the processor is busy and refuses every command of another driver.
\<close>

theorem flash_error_locks_console:
  assumes "APP_Flash_IsError (app_flash a)" and "\<not> APP_Command_IsBusy a"
    and "argv = [''flash'', ''sectors''] \<or> argv = [''flash'', ''format'']"
    and "dispatch env (Some io) argv a = Some (r, b)" and "(app_step env lay)\<^sup>*\<^sup>* b c"
  shows "APP_Command_IsBusy c \<and> dispatch env (Some io') (''rtc'' # args) c = Some (True, on_world
    (tell (IO_Cmd (Command_Message io' (usage_line ''Command processor is busy, try again later.'')))) c)"
proof -
  have "waits_for_flash io performFlashSectors b \<or> waits_for_flash io performFlashFormat b"
    using assms(1-4) by (auto simp: dispatch_def argument_def array_get_def commands_def run_command_def
        APP_Command_Flash_def check_some appCmdFlashSectors_def appCmdFlashFormat_def schedule_idle waits_for_flash_def)
  then have "APP_Command_IsBusy c" using flash_wait.forever [OF assms(5)] by blast
  then show ?thesis by (simp add: busy_line commands_def)
qed

lemma flash_error_locks_console_witness:
  "\<exists>b. dispatch sample_harmony (Some 0) [''flash'', ''format''] (sample_app\<lparr>app_state := APP_STATE_GREETINGS\<rparr>) = Some (True, b) \<and>
     APP_Command_IsBusy (appGreetings b)"
proof -
  let ?a = "sample_app\<lparr>app_state := APP_STATE_GREETINGS\<rparr>"
  have error: "APP_Flash_IsError (app_flash ?a)" by (simp add: sample_app_def APP_Flash_IsError_def)
  have idle: "\<not> APP_Command_IsBusy ?a"
    by (simp add: sample_app_def APP_Command_IsBusy_def APP_Command_Task_IsBusy_def app_task_def)
  let ?b = "set_app_task (task_in APP_COMMAND_TASK_STATE_WAIT_AVAILABLE 0 performFlashFormat) ?a"
  have run: "dispatch sample_harmony (Some 0) [''flash'', ''format''] ?a = Some (True, ?b)"
    using idle by (simp add: dispatch_def argument_def array_get_def commands_def run_command_def
        APP_Command_Flash_def check_some appCmdFlashFormat_def schedule_idle)
  have "app_step sample_harmony sample_layout ?b (appGreetings ?b)"
    by (rule app_tick) (simp add: APP_Tasks_Real_def set_app_task_def)
  from flash_error_locks_console [OF error idle _ run r_into_rtranclp [of "app_step sample_harmony sample_layout", OF this]] run
  show ?thesis by simp
qed

text \<open>
  C25: A \<open>fetch\<close> of an https URL whose encryption the socket layer refuses locks the console for
  good: the client closes the connection without calling the command back, whose task waits forever.
\<close>

theorem refused_fetch_locks_console:
  assumes "app_state a = APP_STATE_RUN_SERVICES"
    and "app_task a = \<lparr>task_state = APP_COMMAND_TASK_STATE_RUNNING, task_callback = Some performFetch,
      callback_cmd_io = Some io, callback_check_available = Some performFetchCheckAvailable\<rparr>" and "fetch_active a"
    and "https_state (app_https_client a) = APP_HTTPS_CLIENT_STATE_WAIT_FOR_CONNECTION"
    and "take 8 (request_url (app_https_client a)) = ''https://''"
    and "\<forall>l. socket_is_connected (pres env) l" and "\<forall>l. \<not> socket_encrypt (pres env) l"
    and "APP_Tasks_Real env lay a = Some b" and "(app_step env lay)\<^sup>*\<^sup>* b c"
  shows "APP_Command_IsBusy c \<and> dispatch env (Some io') (''rtc'' # args) c = Some (True, on_world
    (tell (IO_Cmd (Command_Message io' (usage_line ''Command processor is busy, try again later.'')))) c)"
proof -
  have "abandoned io b"
    using assms(2) by (intro refused_fetch_tick [OF assms(1) _ assms(3-8)]) simp
  with assms(9) have "APP_Command_IsBusy c" by (rule abandoned_fetch.forever)
  then show ?thesis by (simp add: busy_line commands_def)
qed

lemma refused_fetch_locks_console_witness:
  "\<exists>a b. app_ok a \<and> APP_Tasks_Real refusing_harmony sample_layout a = Some b \<and> APP_Command_IsBusy b"
proof -
  obtain a0 where "app_ok a0" using initialize_ok [OF sample_allocated, of sample_harmony] by blast
  let ?url = "''https://nixie'' @ replicate 115 (CHR 0x00)"
  let ?a = "fetching_from APP_HTTPS_CLIENT_STATE_WAIT_FOR_CONNECTION ?url a0"
  have ok: "app_ok ?a" using fetching_from_ok [OF \<open>app_ok a0\<close>, of ?url] by (simp add: https_sizes)
  have env: "good_env refusing_harmony"
    by (simp add: good_env_def refusing_harmony_def sample_harmony_def)
  have "task_callback (app_task ?a) \<noteq> Some performRTCDateShow" by simp
  then obtain b where run: "APP_Tasks_Real refusing_harmony sample_layout ?a = Some b" using tick_ok [OF env ok, of sample_layout] by auto
  have "app_state ?a = APP_STATE_RUN_SERVICES" by simp
  moreover have "\<forall>l. socket_is_connected (pres refusing_harmony) l" "\<forall>l. \<not> socket_encrypt (pres refusing_harmony) l"
    by (simp_all add: refusing_harmony_def sample_harmony_def)
  ultimately show ?thesis
    using refused_fetch_locks_console [of ?a 0 refusing_harmony sample_layout b b] run ok
    by (intro exI [of _ ?a] exI [of _ b]) simp
qed

text \<open>
  C18: \<open>nixie display\<close> on an idle processor and an idle display hands the text to the display in two
  ticks of the scheduler and is then over. The display gets the first four characters, last one first; of
  a shorter text it gets nothing, for the reversal moves the terminator to the front.
\<close>

theorem nixie_display_command:
  assumes "\<not> APP_Command_IsBusy app" and "\<not> APP_Nixie_IsBusy (app_nixie app)" and "CHR 0x00 \<notin> set text"
    and "dispatch env (Some io) [''nixie'', ''display'', text] app = Some (r, a)"
  shows "r \<and> (\<exists>b c. APP_Command_Tasks env lay a = Some b \<and> APP_Command_Tasks env lay b = Some c \<and>
    \<not> APP_Command_IsBusy c \<and> nixie_state (app_nixie c) = APP_NIXIE_STATE_BEGIN_DISPLAY_SEQUENCE \<and>
    display_value (app_nixie c) = (if 4 \<le> length text then rev (take 4 text) else replicate 4 (CHR 0x00)))"
  using display_runs [OF assms, of lay] by (auto simp: displayed_def split: if_splits)

lemma nixie_display_command_witness:
  "\<exists>a b c. dispatch sample_harmony (Some 0) [''nixie'', ''display'', ''1234''] (sample_app\<lparr>app_nixie := sample_nixie\<rparr>) = Some (True, a) \<and>
     APP_Command_Tasks sample_harmony sample_layout a = Some b \<and> APP_Command_Tasks sample_harmony sample_layout b = Some c \<and>
     display_value (app_nixie c) = ''4321''"
proof -
  let ?a = "sample_app\<lparr>app_nixie := sample_nixie\<rparr>"
  have idle: "\<not> APP_Command_IsBusy ?a" "\<not> APP_Nixie_IsBusy (app_nixie ?a)" "CHR 0x00 \<notin> set ''1234''"
    by (simp_all add: sample_app_def APP_Command_IsBusy_def APP_Command_Task_IsBusy_def app_task_def
        APP_Nixie_IsBusy_def sample_nixie_configured)
  from nixie_display_command [where lay = sample_layout and env = sample_harmony and io = 0,
      OF idle display_scheduled [OF idle(1,3)]]
    display_scheduled [OF idle(1,3), of sample_harmony 0] show ?thesis by auto
qed

text \<open>
  C13: While the response to a \<open>fetch\<close> arrives, the bytes that the socket delivers are printed on the
  device that issued the command, every one and in order, whatever the socket answers; when the connection is
  over, the next tick of the scheduler ends the command.
\<close>

theorem fetch_prints_response:
  assumes "\<forall>l. length (socket_read (pres env) l) \<le> HTTPS_CLIENT_NETWORK_BUFFER_SIZE"
    and "well_sized (app_https_client a)"
    and "app_task a = \<lparr>task_state = APP_COMMAND_TASK_STATE_RUNNING, task_callback = Some performFetch,
      callback_cmd_io = Some io, callback_check_available = Some performFetchCheckAvailable\<rparr>" and "fetch_active a"
    and "https_state (app_https_client a) = APP_HTTPS_CLIENT_STATE_WAIT_FOR_RESPONSE"
    and "https_callbacks (app_https_client a) = fetch_callbacks"
  shows "\<exists>b es. https_services env lay n a = Some b \<and> log (app_world b) = log (app_world a) @ es \<and>
    printed io es = received env (log (app_world a)) es \<and>
    (https_state (app_https_client b) \<noteq> APP_HTTPS_CLIENT_STATE_WAIT_FOR_RESPONSE \<longrightarrow>
       (\<exists>c. APP_Command_Tasks env lay b = Some c \<and> \<not> APP_Command_IsBusy c))"
proof -
  have "fetch_session env io (log (app_world a)) [] a" using assms(2-6) by (simp add: fetch_session_def)
  from session_runs [OF assms(1) this] obtain b es where b: "https_services env lay n a = Some b"
    "fetch_session env io (log (app_world a)) es b" by blast
  from b(2) have "log (app_world b) = log (app_world a) @ es" "printed io es = received env (log (app_world a)) es"
    by (simp_all add: fetch_session_def)
  with b(1) session_over [OF b(2), of lay] show ?thesis by blast
qed

lemma fetch_prints_response_witness:
  "\<exists>b es. https_services talking_harmony sample_layout 3
      (fetching_from APP_HTTPS_CLIENT_STATE_WAIT_FOR_RESPONSE (replicate 128 (CHR 0x00)) sample_app) = Some b \<and>
     printed 0 es = received talking_harmony [] es"
proof -
  let ?a = "fetching_from APP_HTTPS_CLIENT_STATE_WAIT_FOR_RESPONSE (replicate 128 (CHR 0x00)) sample_app"
  have "\<forall>l. length (socket_read (pres talking_harmony) l) \<le> HTTPS_CLIENT_NETWORK_BUFFER_SIZE"
    by (simp add: talking_harmony_def https_sizes)
  moreover have "well_sized (app_https_client ?a)"
    by (simp add: well_sized_def sample_app_def sample_https_client_def https_sizes)
  moreover have "log (app_world ?a) = []" by (simp add: sample_app_def empty_world_def)
  ultimately show ?thesis
    using fetch_prints_response [where env = talking_harmony and a = ?a and io = 0 and n = 3 and lay = sample_layout] by auto
qed

end
