(* ===== verification/App_Frames.thy ===== *)
theory App_Frames
  imports App_Console
begin

text \<open>
  What one observer of the program's log sees of a tick of the main loop. A view of the world that does not
  look at networking (but for the client's polls of the name resolution), USB, the clock, the flash or the
  console is the same after each of these services, so it changes only where the HTTPS client talks to the
  network or the driver of the shift registers moves its pins.
\<close>

section \<open>Views that the services leave alone\<close>

locale world_view =
  fixes view :: "world \<Rightarrow> 'a"
  assumes view_tcpip [simp]: "\<forall>host ip. e1 \<noteq> TCPIP_DNS_IsResolved host ip \<Longrightarrow> view (tell (IO_TCPIP e1) w) = view w"
    and view_wifi [simp]: "view (tell (IO_WiFi e2) w) = view w"
    and view_tmr [simp]: "view (tell (IO_Tmr e3) w) = view w"
    and view_fs [simp]: "view (tell (IO_FS e4) w) = view w"
    and view_i2c [simp]: "view (tell (IO_I2C e5) w) = view w"
    and view_usb [simp]: "view (tell (IO_USB e6) w) = view w"
    and view_cmd [simp]: "view (tell (IO_Cmd e8) w) = view w"
    and view_tell_assert: "view (tell (IO_Assert m) w) = view w"
    and view_poke [simp]: "view (poke p bs w) = view w"
begin

lemma view_assert [simp]: "view (SYS_ASSERT b m w) = view w"
  by (simp add: SYS_ASSERT_def view_tell_assert)

lemma usb_view: "APP_USB_HID_Tasks env (d, w) = (d', w') \<Longrightarrow> view w' = view w"
  by (auto simp: APP_USB_HID_Tasks_def reportReceive_def ask_split Let_def split: AppUSBHIDState.splits if_splits)

lemma flash_view: "APP_Flash_Tasks env (d, w) = (d', w') \<Longrightarrow> view w' = view w"
  by (auto simp: APP_Flash_Tasks_def ask_split Let_def split: AppFlashState.splits if_splits prod.splits)

lemma view_pokes [simp]: "view (fold (\<lambda>(p, bs). poke p bs) ps w) = view w"
  by (induction ps arbitrary: w) auto

lemma status_view [simp]: "view (snd (i2c_transferStatusGet env rtc w)) = view w"
  by (simp add: i2c_transferStatusGet_def ask_split)

lemma ready_view [simp]: "view (snd (i2c_checkReadyForTransmit env rtc w)) = view w"
  by (simp add: i2c_checkReadyForTransmit_def split_beta)

lemma transmit_view [simp]: "view (snd (snd (i2c_transmit env rtc b n w))) = view w"
  by (simp add: i2c_transmit_def ask_split Let_def split_beta)

lemma rtc_view:
  assumes "APP_RTC_Tasks env (d, w) = (d', w')"
  shows "view w' = view w"
proof -
  have "view (snd (i2c_taskCheckStatus env (rtc, w))) = view w" for rtc
    by (simp add: i2c_taskCheckStatus_def task_oscillator_enableOrDisable_def task_oscillator_postStatusReceive_def
        task_battery_enableOrDisable_def task_battery_postStatusReceive_def task_datetime_convertToBCDAndTransmit_def
        task_datetime_convertFromBCD_def i2c_transmitUpdateSingleRegister_def Let_def split_beta
        split: DRV_I2C_BUFFER_EVENT.split RTC_MCP7940N_NextTask.split)
  then have "view (snd (APP_RTC_Tasks env (d, w))) = view w"
    by (simp add: APP_RTC_Tasks_def RTC_MCP7940N_Tasks_def Let_def split_beta split: RTC_MCP7940N_State.split)
  with assms show ?thesis by simp
qed

lemma interface_view [simp]:
  "view (APP_Network_TPCIP_IfModulesEnable env h w) = view w"
  "view (APP_Network_TCPIP_IfModulesDisable env h w) = view w"
  "view (APP_Network_TCPIP_IfaceDown h w) = view w"
  "view (APP_Network_TCPIP_IfaceUp env h w) = view w"
  by (simp_all add: APP_Network_TPCIP_IfModulesEnable_def APP_Network_TCPIP_IfModulesDisable_def
      APP_Network_TCPIP_IfaceDown_def APP_Network_TCPIP_IfaceUp_def ask_split Let_def)

lemma find_wifi_view [simp]: "view (snd (find_wifi env ns s)) = view (snd s)"
  by (induction ns arbitrary: s) (auto simp: ask_split Let_def split: prod.splits)

lemma enable_modules_view [simp]: "view (enable_modules env ns w) = view w"
  by (induction ns arbitrary: w) (simp_all add: ask_split Let_def)

lemma net_ready_view [simp]: "view (snd (any_net_ready env ns w)) = view w"
  by (induction ns arbitrary: w) (simp_all add: ask_split Let_def)

lemma watch_interfaces_view:
  "watch_interfaces env ns s = Some s' \<Longrightarrow> view (snd s') = view (snd s)"
proof (induction ns arbitrary: s)
  case (Cons n ns)
  then obtain t where t: "watch_interface env n s = Some t" "watch_interfaces env ns t = Some s'"
    by (auto split: Option.bind_splits)
  have "view (snd t) = view (snd s)"
    using t(1) by (cases s) (auto simp: watch_interface_def ask_split Let_def split: Option.bind_splits if_splits)
  with Cons.IH [OF t(2)] show ?case by simp
qed simp

lemma watch_addresses_view:
  "watch_addresses env ns s = Some s' \<Longrightarrow> view (snd s') = view (snd s)"
proof (induction ns arbitrary: s)
  case (Cons n ns)
  then obtain t where t: "watch_address env n s = Some t" "watch_addresses env ns t = Some s'"
    by (auto split: Option.bind_splits)
  have "view (snd t) = view (snd s)"
    using t(1) by (cases s) (auto simp: watch_address_def ask_split Let_def split: Option.bind_splits if_splits)
  with Cons.IH [OF t(2)] show ?case by simp
qed simp

lemma network_steps_view [simp]:
  "view (snd (snd (appNetworkTCPIPInitWait env s))) = view (snd s)"
  "view (snd (modules_enable env s)) = view (snd s)"
  "view (snd (wifi_config env s)) = view (snd s)"
  "view (snd (snd (handle_connection env status s))) = view (snd s)"
  "view (snd (configure_power_save env h s)) = view (snd s)"
  "view (snd (wait_for_address env s)) = view (snd s)"
  by (cases s; simp add: appNetworkTCPIPInitWait_def modules_enable_def wifi_config_def appNetworkWifiConfig_def
      appNetworkTCPIPModuleEnable_def handle_connection_def configure_power_save_def wait_for_address_def ask_split
      Let_def split_beta split: IWPRIV_CONNECTION.split)+

lemma network_view:
  assumes "APP_Network_Tasks env s = Some s'"
  shows "view (snd s') = view (snd s)"
proof (cases "network_state (fst s)")
  case APP_NETWORK_TCPIP_TRANSACT
  obtain d w where s: "s = (d, w)" by (cases s)
  obtain b d1 w1 where conn: "handle_connection env (wifi_connection (wifi env) (log w @ [IO_WiFi iwpriv_get_CONNSTATUS]))
      (d, tell (IO_WiFi iwpriv_get_CONNSTATUS) w) = (b, d1, w1)" by (metis prod_cases3)
  have w1: "view w1 = view w"
    using network_steps_view(4) [of env "wifi_connection (wifi env) (log w @ [IO_WiFi iwpriv_get_CONNSTATUS])"
        "(d, tell (IO_WiFi iwpriv_get_CONNSTATUS) w)"] conn by simp
  show ?thesis
  proof (cases b)
    case True
    then show ?thesis using assms APP_NETWORK_TCPIP_TRANSACT conn w1
      by (auto simp: s APP_Network_Tasks_def appNetworkRun_def ask_split Let_def)
  next
    case False
    then obtain ns t u where t: "watch_interfaces env ns (d1, tell (IO_TCPIP TCPIP_STACK_NumberOfNetworksGet) w1) = Some t"
      "watch_addresses env ns (configure_power_save env (wifi_net_handle d) t) = Some u" "s' = wait_for_address env u"
      using assms APP_NETWORK_TCPIP_TRANSACT conn
      by (auto simp: s APP_Network_Tasks_def appNetworkRun_def ask_split Let_def split: Option.bind_splits)
    then show ?thesis
      using watch_interfaces_view [OF t(1)] watch_addresses_view [OF t(2)] w1 by (simp add: s)
  qed
qed (use assms in \<open>auto simp: APP_Network_Tasks_def split_beta Let_def split: if_splits\<close>)

lemma fetch_callback_view:
  "fetch_bufferReceivedCallback bs app = Some app' \<Longrightarrow> view (app_world app') = view (app_world app)"
proof (induction bs arbitrary: app)
  case (Cons b bs)
  then show ?case by (cases "callback_cmd_io (app_task app)") (auto simp: COMMAND_PRINT_def on_world_def app_task_def)
qed simp

lemma app_call_view: "app_call cb e (app, w) = Some (app', w') \<Longrightarrow> view w' = view w"
  by (cases cb; cases e) (auto simp: app_call_def call_nixie_def fetch_requestHandledCallback_def
      fetch_errorCallback_def set_request_active_def set_fetch_def Let_def
      dest!: fetch_callback_view split: Option.bind_splits)

lemma encode_tubes_view: "encode_tubes ts s = Some s' \<Longrightarrow> view (snd s') = view (snd s)"
proof (induction ts arbitrary: s)
  case (Cons i ts)
  then show ?case by (cases s) (fastforce simp: Let_def split: Option.bind_splits if_splits)
qed simp

lemma periodic_view [simp]: "view (snd (performPeriodicTasks env (data, w))) = view w"
  by (simp add: performPeriodicTasks_def schedulePeriodicTask_def APP_Network_hasUsableInterface_def ask_split Let_def split_beta)

lemma nixie_view:
  assumes "APP_Nixie_Tasks env after (data, https, sr, w) = Some (data', https', sr', w')"
  shows "view w' = view w"
  using assms
  by (cases "nixie_state data") (auto simp: APP_Nixie_Tasks_def schedulePeriodicTask_def shuffleServerValueDigits_def
      encodeShiftRegister_def ask_split Let_def split_beta dest: encode_tubes_view
      split: Option.bind_splits option.splits)

end

section \<open>A tick of an idle console\<close>

definition idle_console :: "AppData \<Rightarrow> bool" where
  "idle_console a \<longleftrightarrow> app_ok a \<and> app_state a = APP_STATE_RUN_SERVICES \<and> \<not> APP_Command_IsBusy a"

lemma fetch_callback_world: "fetch_bufferReceivedCallback bs app = Some app' \<Longrightarrow> \<exists>w. app' = app\<lparr>app_world := w\<rparr>"
proof (induction bs arbitrary: app)
  case Nil
  then have "app' = app\<lparr>app_world := app_world app\<rparr>" by simp
  then show ?case by blast
next
  case (Cons b bs)
  then obtain io where "fetch_bufferReceivedCallback bs (on_world (tell (IO_Cmd (Command_Print io ''%c'' [PChar b]))) app) = Some app'"
    by (cases "callback_cmd_io (app_task app)") (auto simp: COMMAND_PRINT_def)
  from Cons.IH [OF this] show ?case by (auto simp: on_world_def)
qed

lemma app_call_keeps:
  "app_call cb e (app, w) = Some (app', w') \<Longrightarrow> app_shift_register app' = app_shift_register app \<and> app_state app' = app_state app"
  by (cases cb; cases e) (auto simp: app_call_def call_nixie_def fetch_requestHandledCallback_def
      fetch_errorCallback_def set_request_active_def set_fetch_def Let_def
      dest!: fetch_callback_world split: Option.bind_splits)

text \<open>
  The stages of a tick: \<open>p\<close> before the HTTPS client, \<open>q\<close> after it, then the shift registers and the display.
\<close>

context world_view
begin

lemma tick_stages:
  assumes env: "good_env env" and idle: "idle_console a"
  obtains p q d v b v' where "idle_console p" and "app_https_client p = app_https_client a" and "app_nixie p = app_nixie a"
    and "view (app_world p) = view (app_world a)"
    and "https_service env lay p = Some q" and "app_ok q"
    and "APP_ShiftRegister_Tasks (app_shift_register a, app_world q) = Some (d, v)"
    and "APP_Nixie_Tasks env (after_nixie_request_url lay) (app_nixie q, app_https_client q, d, v) =
      Some (app_nixie b, app_https_client b, app_shift_register b, v')"
    and "APP_Tasks_Real env lay a = Some b" and "idle_console b" and "view (app_world b) = view v"
proof -
  have ok: "app_ok a" and run: "app_state a = APP_STATE_RUN_SERVICES" and free: "\<not> APP_Command_IsBusy a"
    using idle by (simp_all add: idle_console_def)
  obtain a1 where a1: "network_service env a = Some a1" "app_ok a1"
    using network_service_ok [OF env [unfolded good_env_def, THEN conjunct1] ok] by blast
  let ?p = "flash_service env (rtc_service env (usb_service env a1))"
  have ok2: "app_ok ?p" using a1(2) by (simp add: usb_service_ok rtc_service_ok flash_service_ok)
  obtain q where q: "https_service env lay ?p = Some q" "app_ok q"
    using https_service_ok [OF env [unfolded good_env_def, THEN conjunct2] ok2] by blast
  obtain a4 where a4: "shift_register_service q = Some a4" "app_ok a4"
    using shift_register_service_ok [OF q(2)] by blast
  obtain a5 where a5: "nixie_service env lay a4 = Some a5" "app_ok a5"
    using nixie_service_ok [OF a4(2)] by blast
  let ?b = "on_world (tell (IO_Cmd SYS_CMD_READY_TO_READ)) a5"
  have keep1: "app_https_client a1 = app_https_client a" "app_nixie a1 = app_nixie a" "app_task a1 = app_task a"
    "app_shift_register a1 = app_shift_register a" "app_state a1 = app_state a" "view (app_world a1) = view (app_world a)"
    using a1(1) network_view service_task(1) [OF a1(1)] by (auto simp: network_service_def split: Option.bind_splits)
  have keep2: "app_https_client ?p = app_https_client a1" "app_nixie ?p = app_nixie a1" "app_task ?p = app_task a1"
    "app_shift_register ?p = app_shift_register a1" "app_state ?p = app_state a1" "view (app_world ?p) = view (app_world a1)"
    using usb_view rtc_view flash_view by (auto simp: usb_service_def rtc_service_def flash_service_def app_task_def split: prod.splits)
  have p: "idle_console ?p" using ok2 run free keep1 keep2 by (simp add: idle_console_def APP_Command_IsBusy_def)
  obtain data3 u w3 where h3: "APP_HTTPS_Client_Tasks env (after_request_url lay) app_call
      (app_https_client ?p, ?p, app_world ?p) = Some (data3, u, w3)" "q = u\<lparr>app_https_client := data3, app_world := w3\<rparr>"
    using q(1) by (auto simp: https_service_def split: Option.bind_splits)
  have "app_shift_register u = app_shift_register ?p \<and> app_state u = app_state ?p"
  proof (rule https_user [OF h3(1)])
    show "app_shift_register u' = app_shift_register ?p \<and> app_state u' = app_state ?p"
      if "app_call cb e (u, w) = Some (u', w')" "app_shift_register u = app_shift_register ?p \<and> app_state u = app_state ?p"
      for cb e u w u' w'
      using app_call_keeps [OF that(1)] that(2) by simp
  qed simp
  then have keep3: "app_shift_register q = app_shift_register a" "app_state q = APP_STATE_RUN_SERVICES"
    using keep1 keep2 run by (simp_all add: h3(2))
  obtain d v where sr: "APP_ShiftRegister_Tasks (app_shift_register a, app_world q) = Some (d, v)"
    "a4 = q\<lparr>app_shift_register := d, app_world := v\<rparr>"
    using a4(1) keep3(1) by (auto simp: shift_register_service_def split: Option.bind_splits)
  obtain v' where n5: "APP_Nixie_Tasks env (after_nixie_request_url lay)
      (app_nixie q, app_https_client q, d, v) = Some (app_nixie a5, app_https_client a5, app_shift_register a5, v')"
    "app_world a5 = v'" "app_state a5 = app_state q"
    using a5(1) by (auto simp: nixie_service_def sr(2) split: Option.bind_splits)
  have "app_task a5 = app_task a"
    using service_task(4) [OF a5(1)] service_task(3) [OF a4(1)] service_task(2) [OF q(1)] keep1 keep2 by simp
  then have busy: "\<not> APP_Command_IsBusy a5" using free by (simp add: APP_Command_IsBusy_def)
  then have "APP_Command_Tasks env lay a5 = Some a5"
    by (simp add: APP_Command_Tasks_def APP_Command_Task_Tasks_def APP_Command_IsBusy_def APP_Command_Task_IsBusy_def)
  then have tick: "APP_Tasks_Real env lay a = Some ?b"
    using run a1(1) q(1) a4(1) a5(1) busy by (simp add: APP_Tasks_Real_def)
  have b: "idle_console ?b" using a5(2) busy n5(3) keep3(2) by (simp add: idle_console_def) (simp add: on_world_def)
  have n: "APP_Nixie_Tasks env (after_nixie_request_url lay) (app_nixie q, app_https_client q, d, v) =
      Some (app_nixie ?b, app_https_client ?b, app_shift_register ?b, v')"
    using n5(1) by (simp add: on_world_def)
  have "view (app_world ?b) = view v" using nixie_view [OF n5(1)] n5(2) by (simp add: on_world_def)
  then show thesis using that [OF p _ _ _ q sr(1) n tick b] keep1 keep2 by simp
qed

text \<open>The same with the HTTPS client's own tick, which calls back into \<open>p\<close>.\<close>

lemma client_stages:
  assumes env: "good_env env" and idle: "idle_console a"
  obtains p data u w d v b v' where "app_nixie p = app_nixie a" and "view (app_world p) = view (app_world a)"
    and "APP_HTTPS_Client_Tasks env (after_request_url lay) app_call (app_https_client a, p, app_world p) = Some (data, u, w)"
    and "APP_ShiftRegister_Tasks (app_shift_register a, w) = Some (d, v)"
    and "APP_Nixie_Tasks env (after_nixie_request_url lay) (app_nixie u, data, d, v) =
      Some (app_nixie b, app_https_client b, app_shift_register b, v')"
    and "APP_Tasks_Real env lay a = Some b" and "idle_console b" and "view (app_world b) = view v"
proof -
  obtain p q d v b v' where t: "app_https_client p = app_https_client a" "app_nixie p = app_nixie a"
    "view (app_world p) = view (app_world a)" "https_service env lay p = Some q"
    "APP_ShiftRegister_Tasks (app_shift_register a, app_world q) = Some (d, v)"
    "APP_Nixie_Tasks env (after_nixie_request_url lay) (app_nixie q, app_https_client q, d, v) =
      Some (app_nixie b, app_https_client b, app_shift_register b, v')"
    "APP_Tasks_Real env lay a = Some b" "idle_console b" "view (app_world b) = view v"
    using tick_stages [OF env idle, of lay] by metis
  obtain data u w where h: "APP_HTTPS_Client_Tasks env (after_request_url lay) app_call
      (app_https_client a, p, app_world p) = Some (data, u, w)" "q = u\<lparr>app_https_client := data, app_world := w\<rparr>"
    using t(1,4) by (auto simp: https_service_def split: Option.bind_splits)
  show thesis using that [OF t(2,3) h(1) _ _ t(7-9)] t(5,6) by (simp add: h(2))
qed

end

end
