(* ===== verification/App_Tubes.thy ===== *)
theory App_Tubes
  imports App_Frames
begin

text \<open>
  From the display to the outputs of the shift registers, through the main loop: no other service drives the
  pins of the chain or looks at the data of the display while it shows a value, so the value is on the tubes
  after the ticks that the display and the shift register driver need by themselves.
\<close>

section \<open>Who drives the shift registers\<close>

text \<open>The chain of shift registers, driven by everything the program did so far.\<close>

definition chain_of :: "chain \<Rightarrow> world \<Rightarrow> chain" where
  "chain_of c w = chain_after c (log w)"

lemma chain_of_foreign [simp]:
  "chain_of c (tell (IO_TCPIP e1) w) = chain_of c w" "chain_of c (tell (IO_WiFi e2) w) = chain_of c w"
  "chain_of c (tell (IO_Tmr e3) w) = chain_of c w" "chain_of c (tell (IO_FS e4) w) = chain_of c w"
  "chain_of c (tell (IO_I2C e5) w) = chain_of c w" "chain_of c (tell (IO_USB e6) w) = chain_of c w"
  "chain_of c (tell (IO_Pres e7) w) = chain_of c w" "chain_of c (tell (IO_Cmd e8) w) = chain_of c w"
  "chain_of c (SYS_ASSERT b m w) = chain_of c w" "chain_of c (poke p bs w) = chain_of c w"
  by (simp_all add: chain_of_def SYS_ASSERT_def)

interpretation chain: world_view "chain_of c" for c
  by unfold_locales (simp_all add: chain_of_def)

lemma https_chain:
  assumes "APP_HTTPS_Client_Tasks env after_url call (data, u, w) = Some (data', u', w')"
    and "\<And>cb e u w u' w'. call cb e (u, w) = Some (u', w') \<Longrightarrow> chain_of c w' = chain_of c w"
  shows "chain_of c w' = chain_of c w"
proof -
  have "chain_of c w' = chain_of c w" if "call_if call cb e (u, w) = Some (u', w')" for cb e u w u' w'
    using that assms(2) by (auto simp: call_if_def split: option.splits)
  with assms(1) show ?thesis
    by (cases "https_state data") (auto simp: APP_HTTPS_Client_Tasks_def waitForResponse_def handleError_def
      waitForNetworkAvailable_def processRequest_def checkDNSResolveStatus_def startNetworkConnection_def
      waitNetworkConnection_def closeNetworkConnection_def waitForSSLConnect_def enterErrorState_def
      checkNetworkIsAvailable_def sendRequest_def keep_user_def ask_split Let_def
      split: Option.bind_splits if_splits prod.splits TCPIP_DNS_RESULT.splits AppHTTPSClientIPMode.splits)
qed

section \<open>A tick of an idle console\<close>

text \<open>
  What a tick does to the shift registers and the display, in its order, with the chain that is driven:
  the display starts from its data before the tick when no request is under way.
\<close>

lemma idle_tick:
  assumes env: "good_env env" and idle: "idle_console a"
  obtains b d v nix https https' v' where "APP_Tasks_Real env lay a = Some b" and "idle_console b"
    and "\<exists>w. chain_of c w = chain_of c (app_world a) \<and> APP_ShiftRegister_Tasks (app_shift_register a, w) = Some (d, v)"
    and "APP_Nixie_Tasks env (after_nixie_request_url lay) (nix, https, d, v) = Some (app_nixie b, https', app_shift_register b, v')"
    and "quiet_https (app_https_client a) \<Longrightarrow> nix = app_nixie a"
    and "chain_of c (app_world b) = chain_of c v"
proof -
  obtain p data u w d v b v' where t: "app_nixie p = app_nixie a" "chain_of c (app_world p) = chain_of c (app_world a)"
    "APP_HTTPS_Client_Tasks env (after_request_url lay) app_call (app_https_client a, p, app_world p) = Some (data, u, w)"
    "APP_ShiftRegister_Tasks (app_shift_register a, w) = Some (d, v)"
    "APP_Nixie_Tasks env (after_nixie_request_url lay) (app_nixie u, data, d, v) =
      Some (app_nixie b, app_https_client b, app_shift_register b, v')"
    "APP_Tasks_Real env lay a = Some b" "idle_console b" "chain_of c (app_world b) = chain_of c v"
    using chain.client_stages [OF env idle, of c lay] by metis
  have "chain_of c w = chain_of c (app_world a)"
    using https_chain [OF t(3), of c] chain.app_call_view [where c = c] by (auto simp: t(2))
  moreover have "app_nixie u = app_nixie a" if "quiet_https (app_https_client a)"
    using quiet_tick_user [OF t(3) that] by (simp add: t(1))
  ultimately show thesis using that [OF t(6,7) _ t(5) _ t(8)] t(4) by blast
qed

primrec app_ticks :: "harmony \<Rightarrow> AppLayout \<Rightarrow> nat \<Rightarrow> AppData \<Rightarrow> AppData option" where
  "app_ticks env lay 0 a = Some a"
| "app_ticks env lay (Suc n) a = Option.bind (APP_Tasks_Real env lay a) (app_ticks env lay n)"

lemma app_ticks_add: "app_ticks env lay (m + n) a = Option.bind (app_ticks env lay m a) (app_ticks env lay n)"
  by (induction m arbitrary: a) (auto split: Option.bind_split)

section \<open>From the value to the shift registers\<close>

lemma idle_quiet:
  assumes "idle_console a" and "nixie_state (app_nixie a) \<noteq> APP_NIXIE_STATE_WAIT_HTTPS_RESPONSE"
  shows "quiet_https (app_https_client a)"
  using assms by (auto simp: idle_console_def app_ok_def talking_def displaying_def fetching_def
      APP_Command_IsBusy_def APP_Command_Task_IsBusy_def)

text \<open>
  The display on its way to the shift registers, to show the symbols \<open>s\<close>: \<open>p\<close> steps before it writes.
\<close>

definition on_the_way :: "nat \<Rightarrow> (nat \<Rightarrow> char) \<Rightarrow> AppNixieData \<Rightarrow> bool" where
  "on_the_way p s d \<longleftrightarrow> nixie_configured d \<and> (case nixie_state d of
     APP_NIXIE_STATE_BEGIN_DISPLAY_SEQUENCE \<Rightarrow> p = 3 \<and> shown_symbol d = s
   | APP_NIXIE_STATE_DECODE_DISPLAY_VALUE \<Rightarrow> p = 2 \<and> shown_symbol d = s
   | APP_NIXIE_STATE_ENCODE_SHIFT_REGISTER \<Rightarrow>
       p = 1 \<and> cathodes d = map (\<lambda>t. IN12A_SymbolToCathodeIndex (s t)) [0..<MAX_NIXIE_TUBES]
   | APP_NIXIE_STATE_WRITE_SHIFT_REGISTER \<Rightarrow>
       p = 0 \<and> length (register_shift_state d) = 6 \<and> lit (register_shift_state d) = shown_wires s
   | _ \<Rightarrow> False)"

lemma configured_steps:
  assumes "nixie_configured d"
  shows "nixie_configured (d\<lparr>nixie_state := st\<rparr>)"
    and "length cs = MAX_NIXIE_TUBES \<Longrightarrow> nixie_configured (d\<lparr>cathodes := cs, nixie_state := st\<rparr>)"
    and "length rs = 6 \<Longrightarrow> nixie_configured (d\<lparr>register_shift_state := rs, nixie_state := st\<rparr>)"
  using assms by (simp_all add: nixie_configured_def nixie_sized_def nixie_ready_def nixie_sizes)

lemma on_the_way_step:
  assumes way: "on_the_way (Suc p) s d"
    and run: "APP_Nixie_Tasks env after (d, https, sr, w) = Some (d', https', sr', w')"
  shows "on_the_way p s d' \<and> sr' = sr"
proof -
  have conf: "nixie_configured d" using way by (simp add: on_the_way_def)
  consider "nixie_state d = APP_NIXIE_STATE_BEGIN_DISPLAY_SEQUENCE" "p = 2" "shown_symbol d = s"
    | "nixie_state d = APP_NIXIE_STATE_DECODE_DISPLAY_VALUE" "p = 1" "shown_symbol d = s"
    | "nixie_state d = APP_NIXIE_STATE_ENCODE_SHIFT_REGISTER" "p = 0"
      "cathodes d = map (\<lambda>t. IN12A_SymbolToCathodeIndex (s t)) [0..<MAX_NIXIE_TUBES]"
    using way by (auto simp: on_the_way_def split: AppNixieState.splits)
  then show ?thesis
  proof cases
    case 1
    have "shown_symbol (d\<lparr>nixie_state := APP_NIXIE_STATE_DECODE_DISPLAY_VALUE\<rparr>) = s"
      using 1(3) by (simp add: shown_symbol_def fun_eq_iff)
    then show ?thesis using run 1(1,2) configured_steps(1) [OF conf] by (auto simp: APP_Nixie_Tasks_def on_the_way_def)
  next
    case 2
    then show ?thesis using run decode_configured [OF conf] configured_steps(2) [OF conf]
      by (auto simp: APP_Nixie_Tasks_def on_the_way_def)
  next
    case 3
    obtain regs where "encodeShiftRegister (d, w) = Some (d\<lparr>register_shift_state := regs,
        nixie_state := APP_NIXIE_STATE_WRITE_SHIFT_REGISTER\<rparr>, w)" "length regs = 6" "lit regs = shown_wires s"
      using encode_configured [OF conf 3(3), of w] by auto
    then show ?thesis using run 3(1,2) configured_steps(3) [OF conf] by (auto simp: APP_Nixie_Tasks_def on_the_way_def)
  qed
qed

lemma on_the_way_write:
  assumes way: "on_the_way 0 s d"
    and run: "APP_Nixie_Tasks env after (d, https, sr, w) = Some (d', https', sr', w')"
  shows "if APP_ShiftRegister_IsBusy sr then d' = d \<and> sr' = sr
    else \<exists>regs. APP_ShiftRegister_SendData regs 6 sr = Some sr' \<and> length regs = 6 \<and> lit regs = shown_wires s"
proof -
  have d: "nixie_state d = APP_NIXIE_STATE_WRITE_SHIFT_REGISTER" "length (register_shift_state d) = 6"
    "lit (register_shift_state d) = shown_wires s" "num_shift_registers d = 6"
    using way by (auto simp: on_the_way_def nixie_configured_def nixie_sizes split: AppNixieState.splits)
  then show ?thesis using run
    by (auto simp: APP_Nixie_Tasks_def writeShiftRegister_def split: Option.bind_splits if_splits prod.splits)
qed

text \<open>
  The display has handed its bits on when it has done its steps and the shift registers have become free.
\<close>

lemma display_phase:
  assumes env: "good_env env"
  shows "idle_console a \<Longrightarrow> on_the_way p s (app_nixie a) \<Longrightarrow> max (Suc p) (sr_ticks_left (app_shift_register a)) \<le> n \<Longrightarrow>
    \<exists>m b sr regs. m \<le> n \<and> app_ticks env lay m a = Some b \<and> idle_console b \<and>
      APP_ShiftRegister_SendData regs 6 sr = Some (app_shift_register b) \<and> length regs = 6 \<and> lit regs = shown_wires s"
proof (induction n arbitrary: a p)
  case (Suc n)
  obtain b d v nix https https' v' where b: "APP_Tasks_Real env lay a = Some b" "idle_console b"
    "\<exists>w. APP_ShiftRegister_Tasks (app_shift_register a, w) = Some (d, v)"
    "APP_Nixie_Tasks env (after_nixie_request_url lay) (nix, https, d, v) = Some (app_nixie b, https', app_shift_register b, v')"
    "quiet_https (app_https_client a) \<Longrightarrow> nix = app_nixie a"
    using idle_tick [OF env Suc.prems(1), of lay undefined] by metis
  have "nixie_state (app_nixie a) \<noteq> APP_NIXIE_STATE_WAIT_HTTPS_RESPONSE"
    using Suc.prems(2) by (auto simp: on_the_way_def)
  then have nix: "nix = app_nixie a" using b(5) idle_quiet [OF Suc.prems(1)] by blast
  have "sr_ok (app_shift_register a)" using Suc.prems(1) by (simp add: idle_console_def app_ok_def)
  then have d: "sr_ok d" "sr_ticks_left d = sr_ticks_left (app_shift_register a) - 1"
    using b(3) sr_tick_left [of "app_shift_register a"] by (metis option.inject prod.inject)+
  show ?case
  proof (cases p)
    case (Suc q)
    then have "on_the_way q s (app_nixie b)" "app_shift_register b = d"
      using on_the_way_step [of q s "app_nixie a"] Suc.prems(2) b(4) nix by auto
    moreover have "max (Suc q) (sr_ticks_left d) \<le> n" using Suc.prems(3) \<open>p = Suc q\<close> d(2) by auto
    ultimately obtain m e sr regs where "m \<le> n" "app_ticks env lay m b = Some e" "idle_console e"
      "APP_ShiftRegister_SendData regs 6 sr = Some (app_shift_register e)" "length regs = 6" "lit regs = shown_wires s"
      using Suc.IH [OF b(2)] by metis
    then show ?thesis using b(1) by (intro exI [of _ "Suc m"] exI [of _ e] exI) simp_all
  next
    case 0
    then have last: "on_the_way 0 s (app_nixie a)" using Suc.prems(2) by simp
    note writes = on_the_way_write [OF last b(4) [unfolded nix]]
    show ?thesis
    proof (cases "APP_ShiftRegister_IsBusy d")
      case True
      then have "on_the_way 0 s (app_nixie b)" "app_shift_register b = d" using writes last by simp_all
      moreover have "max (Suc 0) (sr_ticks_left d) \<le> n" using Suc.prems(3) d sr_idle_left [OF d(1)] True by auto
      ultimately obtain m e sr regs where "m \<le> n" "app_ticks env lay m b = Some e" "idle_console e"
        "APP_ShiftRegister_SendData regs 6 sr = Some (app_shift_register e)" "length regs = 6" "lit regs = shown_wires s"
        using Suc.IH [OF b(2)] by metis
      then show ?thesis using b(1) by (intro exI [of _ "Suc m"] exI [of _ e] exI) simp_all
    next
      case False
      with writes obtain regs where "APP_ShiftRegister_SendData regs 6 d = Some (app_shift_register b)" "length regs = 6"
        "lit regs = shown_wires s" by auto
      then show ?thesis using b(1,2) by (intro exI [of _ "Suc 0"] exI [of _ b] exI) simp_all
    qed
  qed
qed simp

section \<open>From the shift registers to their outputs\<close>

text \<open>The driver looks at the world only through its own pins.\<close>

lemma shift_register_same_chain:
  assumes "APP_ShiftRegister_Tasks (d, w) = Some (d', w')" and "chain_of c w = chain_of c v"
  shows "\<exists>v'. APP_ShiftRegister_Tasks (d, v) = Some (d', v') \<and> chain_of c w' = chain_of c v'"
  using assms
  by (cases "sr_state d") (auto simp: APP_ShiftRegister_Tasks_def transmitBegin_def transmitStep_def transmitFinish_def
      transmitPause_def shift_pins SHIFT_SRCK_PULL_UP_def Let_def chain_of_def split: Option.bind_splits if_splits)

lemma nixie_waits_for_shift_register:
  assumes "APP_Nixie_Tasks env after (data, https, sr, w) = Some (data', https', sr', w')" and "APP_ShiftRegister_IsBusy sr"
  shows "sr' = sr"
  using assms
  by (cases "nixie_state data") (auto simp: APP_Nixie_Tasks_def writeShiftRegister_def Let_def
      split: Option.bind_splits prod.splits if_splits)

lemma idle_run: "\<not> APP_ShiftRegister_IsBusy d \<Longrightarrow> sr_run (\<lambda>_. []) t n (d, w) = Some s \<Longrightarrow> s = (d, w)"
  by (induction n arbitrary: t) (auto simp: sr_tick_def APP_ShiftRegister_Tasks_def APP_ShiftRegister_IsBusy_def
      split: Option.bind_splits)

lemma sending_phase:
  assumes env: "good_env env"
  shows "idle_console a \<Longrightarrow> APP_ShiftRegister_IsBusy (app_shift_register a) \<Longrightarrow> chain_of c (app_world a) = chain_of c w \<Longrightarrow>
    sr_run (\<lambda>_. []) t n (app_shift_register a, w) = Some (d', w') \<Longrightarrow> \<not> APP_ShiftRegister_IsBusy d' \<Longrightarrow>
    \<exists>m b. m \<le> n \<and> app_ticks env lay m a = Some b \<and> chain_of c (app_world b) = chain_of c w'"
proof (induction n arbitrary: a w t)
  case (Suc n)
  obtain d1 w1 where tick: "APP_ShiftRegister_Tasks (app_shift_register a, w) = Some (d1, w1)"
    and rest: "sr_run (\<lambda>_. []) (Suc t) n (d1, w1) = Some (d', w')"
    using Suc.prems(4) by (auto simp: sr_tick_def split: Option.bind_splits)
  obtain b d v nix https https' v' where b: "APP_Tasks_Real env lay a = Some b" "idle_console b"
    "\<exists>w. chain_of c w = chain_of c (app_world a) \<and> APP_ShiftRegister_Tasks (app_shift_register a, w) = Some (d, v)"
    "APP_Nixie_Tasks env (after_nixie_request_url lay) (nix, https, d, v) = Some (app_nixie b, https', app_shift_register b, v')"
    "chain_of c (app_world b) = chain_of c v"
    using idle_tick [OF env Suc.prems(1), of lay c] by metis
  have d: "d = d1" "chain_of c v = chain_of c w1"
  proof -
    obtain w2 where w2: "chain_of c w2 = chain_of c (app_world a)"
      "APP_ShiftRegister_Tasks (app_shift_register a, w2) = Some (d, v)" using b(3) by blast
    have "chain_of c w = chain_of c w2" using Suc.prems(3) w2(1) by simp
    from shift_register_same_chain [OF tick this] w2(2) show "d = d1" "chain_of c v = chain_of c w1" by auto
  qed
  show ?case
  proof (cases "APP_ShiftRegister_IsBusy d1")
    case True
    then have "app_shift_register b = d1" using nixie_waits_for_shift_register [OF b(4)] d(1) by simp
    then obtain m e where "m \<le> n" "app_ticks env lay m b = Some e" "chain_of c (app_world e) = chain_of c w'"
      using Suc.IH [OF b(2), of w1 "Suc t"] True b(5) d(2) rest Suc.prems(5) by auto
    then show ?thesis using b(1) by (intro exI [of _ "Suc m"] exI [of _ e]) simp
  next
    case False
    from idle_run [OF this rest] have "w' = w1" by simp
    then show ?thesis using b(1,5) d(2) by (intro exI [of _ "Suc 0"] exI [of _ b]) simp
  qed
qed simp

section \<open>From the outputs to the tubes\<close>

text \<open>
  Wire \<open>(y, k)\<close> hangs on output \<open>k\<close> of register \<open>y\<close>. The register next to the program is number 0, and the
  bit shifted in last is its output 0.
\<close>

definition wire_on :: "chain \<Rightarrow> int \<times> int \<Rightarrow> bool" where
  "wire_on c = (\<lambda>(y, k). outputs c ! (length (outputs c) - 1 - nat (8 * y + k)))"

lemma length_msb_first [simp]: "length (msb_first b) = 8"
  by (simp add: msb_first_def)

lemma length_bits [simp]: "length (concat (map msb_first rs)) = 8 * length rs"
  by (induction rs) simp_all

lemma nth_bits: "i < length rs \<Longrightarrow> j < 8 \<Longrightarrow> concat (map msb_first rs) ! (8 * i + j) = bit (rs ! i) (7 - j)"
proof (induction rs arbitrary: i)
  case (Cons r rs)
  show ?case
  proof (cases i)
    case 0
    with Cons.prems show ?thesis by (simp add: nth_append) (simp add: msb_first_def)
  next
    case (Suc k)
    with Cons show ?thesis by (simp add: nth_append)
  qed
qed simp

lemma wire_on_lit:
  assumes "outputs c = bs @ concat (map msb_first regs)" and "length regs = 6"
    and "0 \<le> y" "y < 6" "0 \<le> k" "k < 8"
  shows "wire_on c (y, k) \<longleftrightarrow> (y, k) \<in> lit regs"
proof -
  obtain Y K where Y: "y = int Y" "k = int K" using assms(3,5) by (metis nonneg_int_cases)
  then have small: "Y < 6" "K < 8" using assms(4,6) by simp_all
  have "nat (8 * y + k) = 8 * Y + K" by (simp add: Y nat_add_distrib nat_mult_distrib)
  moreover have "length (outputs c) - 1 - (8 * Y + K) = length bs + (8 * (5 - Y) + (7 - K))"
    using small assms(2) by (simp add: assms(1))
  ultimately have "wire_on c (y, k) \<longleftrightarrow> outputs c ! (length bs + (8 * (5 - Y) + (7 - K)))"
    by (simp only: wire_on_def prod.case)
  also have "\<dots> \<longleftrightarrow> bit (regs ! (5 - Y)) (7 - (7 - K))"
    unfolding assms(1) nth_append_length_plus using small assms(2) by (intro nth_bits) simp_all
  finally have "wire_on c (y, k) \<longleftrightarrow> bit (regs ! (5 - Y)) (7 - (7 - K))" .
  moreover have "7 - (7 - K) = K" "nat (5 - y) = 5 - Y" using small by (simp_all add: Y)
  ultimately show ?thesis using small by (simp add: lit_def Y)
qed

lemma symbol_wires_range:
  assumes "t < MAX_NIXIE_TUBES" and "(ch, y, k) \<in> set (symbol_wires t)"
  shows "0 \<le> y" "y < 6" "0 \<le> k" "k < 8"
proof -
  have "\<forall>t \<in> set [0..<4]. \<forall>(ch, y, k) \<in> set (symbol_wires t). 0 \<le> y \<and> y < 6 \<and> 0 \<le> k \<and> k < 8"
    by (simp add: symbol_wires_def wiring_def wirings eval_nat_numeral)
  then show "0 \<le> y" "y < 6" "0 \<le> k" "k < 8" using assms by (auto simp: nixie_sizes)
qed

lemma display_reaches_tubes:
  assumes env: "good_env env" and idle: "idle_console a"
    and first: "nixie_state (app_nixie a) = APP_NIXIE_STATE_BEGIN_DISPLAY_SEQUENCE"
  shows "\<exists>n b. n \<le> 230 \<and> app_ticks env lay n a = Some b \<and> \<not> line_en (chain_of c (app_world b)) \<and>
    (\<forall>t < 4. \<forall>(ch, y, k) \<in> set (symbol_wires t). wire_on (chain_of c (app_world b)) (y, k) \<longleftrightarrow> display_value (app_nixie a) ! (3 - t) = ch)"
proof -
  let ?s = "shown_symbol (app_nixie a)"
  have ok: "nixie_configured (app_nixie a)" "sr_ok (app_shift_register a)"
    using idle by (simp_all add: idle_console_def app_ok_def nixie_ok_def)
  then have "on_the_way 3 ?s (app_nixie a)" "max (Suc 3) (sr_ticks_left (app_shift_register a)) \<le> 115"
    using first sr_left_bound [OF ok(2)] by (simp_all add: on_the_way_def)
  from display_phase [OF env idle this, of lay] obtain n b sr regs where b: "n \<le> 115" "app_ticks env lay n a = Some b" "idle_console b"
    and send: "APP_ShiftRegister_SendData regs 6 sr = Some (app_shift_register b)"
    and regs: "length regs = 6" "lit regs = shown_wires ?s" by blast
  obtain d' w' where run: "sr_run (\<lambda>_. []) 0 (19 * 6 + 1) (app_shift_register b, app_world b) = Some (d', w')"
    "\<not> APP_ShiftRegister_IsBusy d'"
    and chain: "shifted (chain_after c (log w')) = shifted (chain_after c (log (app_world b))) @ concat (map msb_first (take 6 regs))"
      "outputs (chain_after c (log w')) = shifted (chain_after c (log w'))" "\<not> line_en (chain_after c (log w'))"
    using shift_transmission [OF send, of "\<lambda>_. []" 0 "app_world b" c] by (auto simp: foreign_def)
  have busy: "APP_ShiftRegister_IsBusy (app_shift_register b)"
    using send by (auto simp: APP_ShiftRegister_SendData_def APP_ShiftRegister_IsBusy_def split: if_splits
        dest: arg_cong [where f = sr_state])
  from sending_phase [OF env b(3) busy refl run] obtain m e where e: "m \<le> 19 * 6 + 1" "app_ticks env lay m b = Some e"
    "chain_of c (app_world e) = chain_of c w'" by blast
  have out: "outputs (chain_of c (app_world e)) = shifted (chain_after c (log (app_world b))) @ concat (map msb_first regs)"
    using chain(1,2) e(3) regs(1) by (simp add: chain_of_def)
  have "wire_on (chain_of c (app_world e)) (y, k) \<longleftrightarrow> display_value (app_nixie a) ! (3 - t) = ch"
    if "t < 4" "(ch, y, k) \<in> set (symbol_wires t)" for t ch y k
  proof -
    have t: "t < MAX_NIXIE_TUBES" using that(1) by (simp add: nixie_sizes)
    have "wire_on (chain_of c (app_world e)) (y, k) \<longleftrightarrow> (y, k) \<in> shown_wires ?s"
      using wire_on_lit [OF out regs(1) symbol_wires_range [OF t that(2)]] regs(2) by simp
    also have "\<dots> \<longleftrightarrow> ?s t = ch" by (rule shown_wires_exact [OF t that(2)])
    finally show ?thesis using that(1) by (simp add: shown_symbol_def nixie_sizes)
  qed
  moreover have "app_ticks env lay (n + m) a = Some e" using b(2) e(2) unfolding app_ticks_add by simp
  moreover have "n + m \<le> 230" using b(1) e(1) by simp
  moreover have "\<not> line_en (chain_of c (app_world e))" using chain(3) e(3) by (simp add: chain_of_def)
  ultimately show ?thesis by (intro exI [of _ "n + m"] exI [of _ e]) blast
qed


text \<open>A sample: a value to show while three bytes are still to be sent.\<close>

definition showing :: "char list \<Rightarrow> AppData \<Rightarrow> AppData" where
  "showing v a = a\<lparr>app_state := APP_STATE_RUN_SERVICES, app_shift_register := sample_shift_data\<lparr>sr_num_bytes := 3, sr_state := APP_SHIFT_REGISTER_STATE_TRANSMIT_BEGIN\<rparr>,
     app_nixie := (app_nixie a)\<lparr>display_value := v, nixie_state := APP_NIXIE_STATE_BEGIN_DISPLAY_SEQUENCE\<rparr>\<rparr>"

lemma showing_ok:
  assumes "app_ok a" and "\<not> APP_HTTPS_Client_IsBusy (app_https_client a)" and "length v = MAX_NIXIE_TUBES"
  shows "app_ok (showing v a)"
proof -
  have ok: "nixie_ok (app_nixie a)" using assms(1) by (simp add: app_ok_def)
  then have "nixie_configured (app_nixie (showing v a))"
    using assms(3) nixie_configured_display [of "app_nixie a" v] by (simp add: nixie_ok_def showing_def)
  with ok have "nixie_ok (app_nixie (showing v a))" by (simp add: nixie_ok_def showing_def)
  moreover have "sr_ok (app_shift_register (showing v a))"
    by (simp add: sr_ok_def sample_shift_data_def showing_def SHIFT_REGISTER_MAX_DATA_def)
  ultimately show ?thesis using assms(1,2)
    by (simp add: app_ok_def talking_def quiet_https_def APP_HTTPS_Client_IsBusy_def send_ok_def showing_def
        APP_Command_IsBusy_def app_task_def)
qed


end
