(* ===== verification/App_Response.thy ===== *)
theory App_Response
  imports App_Tubes
begin

text \<open>
  From the server to the tubes through the main loop: the bytes that the socket delivers while the display
  waits for its response reach the display and nothing else of the program reads the socket, so a value that
  the display begins to show stands behind the token in these bytes.
\<close>

section \<open>The bytes that the socket delivered\<close>

definition delivered :: "harmony \<Rightarrow> world \<Rightarrow> char list" where
  "delivered env w = received env [] (log w)"

interpretation delivered: world_view "delivered env" for env
  by unfold_locales (simp_all add: delivered_def)

lemma shift_register_delivers_nothing:
  "APP_ShiftRegister_Tasks (d, w) = Some (d', w') \<Longrightarrow> delivered env w' = delivered env w"
  by (cases "sr_state d") (auto simp: APP_ShiftRegister_Tasks_def transmitBegin_def transmitStep_def transmitFinish_def
      transmitPause_def shift_pins delivered_def Let_def split: Option.bind_splits if_splits)

lemma delivered_tcpip [simp]: "delivered env (tell (IO_TCPIP e) w) = delivered env w"
  by (simp add: delivered_def)

lemma delivered_pres [simp]:
  "\<forall>s n. e \<noteq> NET_PRES_SocketRead s n \<Longrightarrow> delivered env (tell (IO_Pres e) w) = delivered env w"
  by (cases e) (simp_all add: delivered_def)

lemma delivered_read [simp]:
  "delivered env (tell (IO_Pres (NET_PRES_SocketRead s n)) w) =
     delivered env w @ socket_read (pres env) (log w @ [IO_Pres (NET_PRES_SocketRead s n)])"
  by (simp add: delivered_def)

text \<open>Before the response and after it the client neither reads nor calls back.\<close>

lemma https_silent:
  assumes "APP_HTTPS_Client_Tasks env after_url call (data, u, w) = Some (data', u', w')"
    and "https_state data \<notin> {APP_HTTPS_CLIENT_STATE_WAIT_FOR_RESPONSE, APP_HTTPS_CLIENT_STATE_ERROR}"
  shows "u' = u \<and> delivered env w' = delivered env w"
  using assms
  by (cases "https_state data") (auto simp: APP_HTTPS_Client_Tasks_def
      waitForNetworkAvailable_def processRequest_def checkDNSResolveStatus_def startNetworkConnection_def
      waitNetworkConnection_def closeNetworkConnection_def waitForSSLConnect_def enterErrorState_def
      checkNetworkIsAvailable_def sendRequest_def keep_user_def ask_split Let_def
      split: Option.bind_splits if_splits prod.splits TCPIP_DNS_RESULT.splits AppHTTPSClientIPMode.splits)

lemma https_response:
  assumes run: "APP_HTTPS_Client_Tasks env after_url app_call (data, app, w) = Some (data', u, w')"
    and cbs: "https_callbacks data = nixie_callbacks"
    and waiting: "nixie_state (app_nixie app) = APP_NIXIE_STATE_WAIT_HTTPS_RESPONSE"
    and bytes: "received_bytes T s (app_nixie app)"
  shows "\<exists>new. delivered env w' = delivered env w @ new \<and>
    (nixie_state (app_nixie u) = APP_NIXIE_STATE_WAIT_HTTPS_RESPONSE \<and> received_bytes T (s @ new) (app_nixie u) \<and>
        same_but_parsing (app_nixie app) (app_nixie u) \<and>
        (https_state data = APP_HTTPS_CLIENT_STATE_WAIT_FOR_RESPONSE \<longrightarrow> https_state data' = https_state data) \<or>
     new = [] \<and> requestHandledCallback (app_nixie app) = Some (app_nixie u) \<or>
     https_state data = APP_HTTPS_CLIENT_STATE_ERROR \<and> nixie_state (app_nixie u) = APP_NIXIE_STATE_ERROR)"
proof -
  consider "https_state data = APP_HTTPS_CLIENT_STATE_WAIT_FOR_RESPONSE" | "https_state data = APP_HTTPS_CLIENT_STATE_ERROR"
    | "https_state data \<notin> {APP_HTTPS_CLIENT_STATE_WAIT_FOR_RESPONSE, APP_HTTPS_CLIENT_STATE_ERROR}" by blast
  then show ?thesis
  proof cases
    case 1
    let ?ready = "IO_Pres (NET_PRES_SocketReadIsReady (https_socket data))"
      and ?reset = "IO_Pres (NET_PRES_SocketWasReset (https_socket data))"
      and ?read = "IO_Pres (NET_PRES_SocketRead (https_socket data) HTTPS_CLIENT_NETWORK_BUFFER_SIZE)"
    let ?w = "tell ?ready w"
    consider (closed) "socket_read_ready (pres env) (log ?w) = 0" "socket_was_reset (pres env) (log (tell ?reset ?w))"
      | (nothing) "socket_read_ready (pres env) (log ?w) = 0" "\<not> socket_was_reset (pres env) (log (tell ?reset ?w))"
      | (chunk) "socket_read_ready (pres env) (log ?w) \<noteq> 0" by blast
    then show ?thesis
    proof cases
      case closed
      then have "requestHandledCallback (app_nixie app) = Some (app_nixie u)" "delivered env w' = delivered env w"
        using run 1 by (auto simp: APP_HTTPS_Client_Tasks_def waitForResponse_def ask_split Let_def call_if_def cbs
            nixie_callbacks_def app_call_def call_nixie_def split: Option.bind_splits)
      then show ?thesis by simp
    next
      case nothing
      then have "u = app" "delivered env w' = delivered env w" "https_state data' = https_state data"
        using run 1 by (auto simp: APP_HTTPS_Client_Tasks_def waitForResponse_def ask_split Let_def)
      then show ?thesis using waiting bytes by simp
    next
      case chunk
      let ?bytes = "socket_read (pres env) (log ?w @ [?read])"
      obtain d where d: "bufferReceivedCallback ?bytes (app_nixie app) = Some d" "received_bytes T (s @ ?bytes) d"
        "same_but_parsing (app_nixie app) d" using chunk_step [OF bytes] by blast
      then have "app_nixie u = d" "delivered env w' = delivered env w @ ?bytes" "https_state data' = https_state data"
        using run 1 chunk by (auto simp: APP_HTTPS_Client_Tasks_def waitForResponse_def ask_split Let_def call_if_def cbs
            nixie_callbacks_def app_call_def call_nixie_def split: Option.bind_splits)
      moreover have "nixie_state d = APP_NIXIE_STATE_WAIT_HTTPS_RESPONSE"
        using d(3) waiting by (auto simp: same_but_parsing_def)
      ultimately show ?thesis using d(2,3) by blast
    qed
  next
    case 2
    then have "nixie_state (app_nixie u) = APP_NIXIE_STATE_ERROR" "delivered env w' = delivered env w"
      using run by (auto simp: APP_HTTPS_Client_Tasks_def handleError_def call_if_def cbs nixie_callbacks_def app_call_def
          call_nixie_def errorCallback_def split: Option.bind_splits)
    then show ?thesis using 2 by simp
  next
    case 3
    from https_silent [OF run 3] show ?thesis using waiting bytes 3 by auto
  qed
qed

section \<open>From the request to the value\<close>

text \<open>The display waits for the rest of a response whose first bytes are \<open>s\<close>.\<close>

definition awaiting :: "char list \<Rightarrow> AppData \<Rightarrow> bool" where
  "awaiting s a \<longleftrightarrow> idle_console a \<and> nixie_state (app_nixie a) = APP_NIXIE_STATE_WAIT_HTTPS_RESPONSE \<and>
     display_value_out (app_nixie a) = None \<and> received_bytes NIXIE_TOKEN s (app_nixie a)"

text \<open>The display has found a value in the bytes \<open>s\<close> and begins to show it.\<close>

definition found_in :: "char list \<Rightarrow> AppData \<Rightarrow> bool" where
  "found_in s a \<longleftrightarrow> (\<exists>p. first_occurrence s NIXIE_TOKEN p \<and>
     display_value (app_nixie a) = rev (padded (value_of (drop (p + length NIXIE_TOKEN) s))))"

lemma awaiting_requester:
  assumes "awaiting s a" and "\<not> quiet_https (app_https_client a)"
  shows "https_callbacks (app_https_client a) = nixie_callbacks"
  using assms by (auto simp: awaiting_def idle_console_def app_ok_def talking_def fetching_def APP_Command_IsBusy_def
      APP_Command_Task_IsBusy_def)

lemma handled_tick:
  assumes bytes: "received_bytes NIXIE_TOKEN s d" and own: "display_value_out d = None"
    and handled: "requestHandledCallback d = Some d1"
    and run: "APP_Nixie_Tasks env after (d1, https, sr, w) = Some (d2, https', sr', w')"
  shows "nixie_state d2 = APP_NIXIE_STATE_BEGIN_DISPLAY_SEQUENCE \<and> (\<exists>p. first_occurrence s NIXIE_TOKEN p \<and>
      display_value d2 = rev (padded (value_of (drop (p + length NIXIE_TOKEN) s)))) \<or>
    nixie_state d2 \<in> {APP_NIXIE_STATE_IDLE, APP_NIXIE_STATE_BEGIN_HTTP_REQUEST} \<and> memmem s NIXIE_TOKEN = None"
proof -
  have same: "same_but_outcome d d1" and outcome: "case memmem s NIXIE_TOKEN of
        Some p \<Rightarrow> nixie_state d1 = APP_NIXIE_STATE_SHUFFLE_SERVER_VALUE \<and>
          display_value d1 = display_of (drop (p + length NIXIE_TOKEN) s)
      | None \<Rightarrow> nixie_state d1 = APP_NIXIE_STATE_IDLE \<and> display_value d1 = display_value d"
    using request_handled [OF bytes] handled by auto
  have d1: "num_nixies d1 = 4" "display_value_out d1 = None"
    using same own bytes by (auto simp: same_but_outcome_def received_bytes_def nixie_ready_def nixie_sizes)
  show ?thesis
  proof (cases "memmem s NIXIE_TOKEN")
    case None
    then have "nixie_state d1 = APP_NIXIE_STATE_IDLE" using outcome by simp
    then have "nixie_state d2 \<in> {APP_NIXIE_STATE_IDLE, APP_NIXIE_STATE_BEGIN_HTTP_REQUEST}"
      using run by (auto simp: APP_Nixie_Tasks_def performPeriodicTasks_def schedulePeriodicTask_def Let_def ask_split
          split: prod.splits if_splits PeriodicTime.splits)
    then show ?thesis using None by simp
  next
    case (Some p)
    have "NIXIE_TOKEN \<noteq> []" by (simp add: NIXIE_TOKEN_def)
    then have "first_occurrence s NIXIE_TOKEN p" using Some by (simp add: first_occurrence_memmem)
    moreover have "nixie_state d1 = APP_NIXIE_STATE_SHUFFLE_SERVER_VALUE"
      "display_value d1 = display_of (drop (p + length NIXIE_TOKEN) s)" using outcome Some by simp_all
    ultimately show ?thesis using run shuffle_pads [OF d1(1), of _ w] d1(2) by (auto simp: APP_Nixie_Tasks_def)
  qed
qed

lemma error_tick:
  "APP_Nixie_Tasks env after (d, https, sr, w) = Some (d', https', sr', w') \<Longrightarrow>
     nixie_state d = APP_NIXIE_STATE_ERROR \<Longrightarrow> nixie_state d' = APP_NIXIE_STATE_IDLE"
  by (auto simp: APP_Nixie_Tasks_def schedulePeriodicTask_def Let_def ask_split split: prod.splits if_splits)

text \<open>The client's tick and the display's, on the stages of a tick of the main loop.\<close>

lemma client_stage:
  assumes wait: "awaiting s a" and p: "app_nixie p = app_nixie a"
    and client: "APP_HTTPS_Client_Tasks env after_url app_call (app_https_client a, p, app_world p) = Some (data, u, w)"
  shows "\<exists>new. delivered env w = delivered env (app_world p) @ new \<and>
    (nixie_state (app_nixie u) = APP_NIXIE_STATE_WAIT_HTTPS_RESPONSE \<and> received_bytes NIXIE_TOKEN (s @ new) (app_nixie u) \<and>
        same_but_parsing (app_nixie p) (app_nixie u) \<and>
        (https_state (app_https_client a) = APP_HTTPS_CLIENT_STATE_WAIT_FOR_RESPONSE \<longrightarrow> https_state data = https_state (app_https_client a)) \<or>
     new = [] \<and> requestHandledCallback (app_nixie p) = Some (app_nixie u) \<or>
     https_state (app_https_client a) = APP_HTTPS_CLIENT_STATE_ERROR \<and> nixie_state (app_nixie u) = APP_NIXIE_STATE_ERROR)"
proof (cases "quiet_https (app_https_client a)")
  case True
  then have "https_state (app_https_client a) \<notin> {APP_HTTPS_CLIENT_STATE_WAIT_FOR_RESPONSE, APP_HTTPS_CLIENT_STATE_ERROR}"
    by (auto simp: quiet_https_def)
  from https_silent [OF client this] this wait show ?thesis by (simp add: p awaiting_def)
next
  case False
  show ?thesis
    using https_response [OF client awaiting_requester [OF wait False], of NIXIE_TOKEN s] wait by (simp only: p awaiting_def simp_thms)
qed

lemma response_stages:
  assumes wait: "awaiting s a" and p: "app_nixie p = app_nixie a" and idle: "idle_console b"
    and client: "APP_HTTPS_Client_Tasks env after_url app_call (app_https_client a, p, app_world p) = Some (data, u, w)"
    and display: "APP_Nixie_Tasks env after (app_nixie u, data, d, v) = Some (app_nixie b, app_https_client b, sr, v')"
  shows "\<exists>new. delivered env w = delivered env (app_world p) @ new \<and>
    (awaiting (s @ new) b \<and> app_https_client b = data \<and>
       (https_state (app_https_client a) = APP_HTTPS_CLIENT_STATE_WAIT_FOR_RESPONSE \<longrightarrow>
          https_state data = APP_HTTPS_CLIENT_STATE_WAIT_FOR_RESPONSE) \<or>
     nixie_state (app_nixie b) = APP_NIXIE_STATE_BEGIN_DISPLAY_SEQUENCE \<and> found_in (s @ new) b \<or>
     nixie_state (app_nixie b) \<in> {APP_NIXIE_STATE_IDLE, APP_NIXIE_STATE_BEGIN_HTTP_REQUEST} \<and> memmem (s @ new) NIXIE_TOKEN = None \<or>
     nixie_state (app_nixie b) = APP_NIXIE_STATE_IDLE \<and> https_state (app_https_client a) = APP_HTTPS_CLIENT_STATE_ERROR)"
proof -
  have own: "display_value_out (app_nixie a) = None" and bytes: "received_bytes NIXIE_TOKEN s (app_nixie a)"
    using wait by (simp_all add: awaiting_def)
  from client_stage [OF wait p client] obtain new where new: "delivered env w = delivered env (app_world p) @ new"
    and "nixie_state (app_nixie u) = APP_NIXIE_STATE_WAIT_HTTPS_RESPONSE \<and> received_bytes NIXIE_TOKEN (s @ new) (app_nixie u) \<and>
        same_but_parsing (app_nixie p) (app_nixie u) \<and>
        (https_state (app_https_client a) = APP_HTTPS_CLIENT_STATE_WAIT_FOR_RESPONSE \<longrightarrow> https_state data = https_state (app_https_client a)) \<or>
      new = [] \<and> requestHandledCallback (app_nixie p) = Some (app_nixie u) \<or>
      https_state (app_https_client a) = APP_HTTPS_CLIENT_STATE_ERROR \<and> nixie_state (app_nixie u) = APP_NIXIE_STATE_ERROR" (is "?waits \<or> ?handled \<or> ?failed")
    by blast
  then consider (waits) ?waits | (handled) ?handled | (failed) ?failed by blast
  then show ?thesis
  proof cases
    case waits
    then have "app_nixie b = app_nixie u" "app_https_client b = data" using display by (simp_all add: APP_Nixie_Tasks_def)
    moreover have "display_value_out (app_nixie u) = None" using waits own p by (auto simp: same_but_parsing_def)
    ultimately have "awaiting (s @ new) b" using waits idle by (simp add: awaiting_def)
    then show ?thesis using new waits \<open>app_https_client b = data\<close> by auto
  next
    case handled
    have "requestHandledCallback (app_nixie a) = Some (app_nixie u)" using handled by (simp only: p)
    from handled_tick [OF bytes own this display] have "nixie_state (app_nixie b) = APP_NIXIE_STATE_BEGIN_DISPLAY_SEQUENCE \<and> found_in s b \<or>
        nixie_state (app_nixie b) \<in> {APP_NIXIE_STATE_IDLE, APP_NIXIE_STATE_BEGIN_HTTP_REQUEST} \<and> memmem s NIXIE_TOKEN = None"
      by (simp add: found_in_def)
    then show ?thesis using new handled by (intro exI [of _ new]) auto
  next
    case failed
    then show ?thesis using error_tick [OF display] new by simp
  qed
qed

lemma response_tick:
  assumes env: "good_env env" and wait: "awaiting s a" and tick: "APP_Tasks_Real env lay a = Some b"
  shows "\<exists>new. delivered env (app_world b) = delivered env (app_world a) @ new \<and> idle_console b \<and>
    (awaiting (s @ new) b \<or>
     nixie_state (app_nixie b) = APP_NIXIE_STATE_BEGIN_DISPLAY_SEQUENCE \<and> found_in (s @ new) b \<or>
     nixie_state (app_nixie b) \<notin> {APP_NIXIE_STATE_BEGIN_DISPLAY_SEQUENCE, APP_NIXIE_STATE_WAIT_HTTPS_RESPONSE})"
proof -
  have idle: "idle_console a" using wait by (simp add: awaiting_def)
  obtain p data u w d v e v' where t: "app_nixie p = app_nixie a" "delivered env (app_world p) = delivered env (app_world a)"
    "APP_HTTPS_Client_Tasks env (after_request_url lay) app_call (app_https_client a, p, app_world p) = Some (data, u, w)"
    "APP_ShiftRegister_Tasks (app_shift_register a, w) = Some (d, v)"
    "APP_Nixie_Tasks env (after_nixie_request_url lay) (app_nixie u, data, d, v) =
      Some (app_nixie e, app_https_client e, app_shift_register e, v')"
    "APP_Tasks_Real env lay a = Some e" "idle_console e" "delivered env (app_world e) = delivered env v"
    using delivered.client_stages [OF env idle, of env lay] by metis
  have b: "e = b" using t(6) tick by simp
  have same: "delivered env (app_world b) = delivered env w"
    using t(8) shift_register_delivers_nothing [OF t(4), of env] by (simp add: b)
  from response_stages [OF wait t(1,7,3,5)] t(2,7) same b show ?thesis by auto
qed

lemma response_ticks:
  assumes env: "good_env env" and wait: "awaiting s a" and run: "app_ticks env lay n a = Some b"
    and waits: "\<forall>k \<le> n. nixie_state (app_nixie (the (app_ticks env lay k a))) = APP_NIXIE_STATE_WAIT_HTTPS_RESPONSE"
  shows "\<exists>new. delivered env (app_world b) = delivered env (app_world a) @ new \<and> awaiting (s @ new) b"
  using wait run waits
proof (induction n arbitrary: s a)
  case (Suc n)
  then obtain a1 where a1: "APP_Tasks_Real env lay a = Some a1" "app_ticks env lay n a1 = Some b"
    by (auto split: Option.bind_splits)
  have next_waits: "nixie_state (app_nixie (the (app_ticks env lay k a1))) = APP_NIXIE_STATE_WAIT_HTTPS_RESPONSE" if "k \<le> n" for k
    using Suc.prems(3) [rule_format, of "Suc k"] that a1(1) by simp
  from this [of 0] have "nixie_state (app_nixie a1) = APP_NIXIE_STATE_WAIT_HTTPS_RESPONSE" by simp
  then obtain x where x: "delivered env (app_world a1) = delivered env (app_world a) @ x" "awaiting (s @ x) a1"
    using response_tick [OF env Suc.prems(1) a1(1)] by auto
  from Suc.IH [OF x(2) a1(2)] next_waits obtain y where "delivered env (app_world b) = delivered env (app_world a1) @ y"
    "awaiting ((s @ x) @ y) b" by blast
  with x(1) show ?case by (intro exI [of _ "x @ y"]) simp
qed auto


text \<open>What the tubes show of the bytes \<open>s\<close>.\<close>

lemma found_shown:
  assumes env: "good_env env" and b: "idle_console b" "nixie_state (app_nixie b) = APP_NIXIE_STATE_BEGIN_DISPLAY_SEQUENCE" "found_in s b"
  shows "\<exists>p m e. first_occurrence s NIXIE_TOKEN p \<and> m \<le> 230 \<and> app_ticks env lay m b = Some e \<and>
    \<not> line_en (chain_of c (app_world e)) \<and>
    (\<forall>t < 4. \<forall>(ch, y, k) \<in> set (symbol_wires t). wire_on (chain_of c (app_world e)) (y, k) \<longleftrightarrow>
       padded (value_of (drop (p + length NIXIE_TOKEN) s)) ! t = ch)"
proof -
  obtain p where p: "first_occurrence s NIXIE_TOKEN p"
    "display_value (app_nixie b) = rev (padded (value_of (drop (p + length NIXIE_TOKEN) s)))"
    using b(3) by (auto simp: found_in_def)
  have "length (padded (value_of (drop (p + length NIXIE_TOKEN) s))) = 4"
    using value_of_bounds(1) by (simp add: padded_def nixie_sizes)
  then have digits: "display_value (app_nixie b) ! (3 - t) = padded (value_of (drop (p + length NIXIE_TOKEN) s)) ! t" if "t < 4" for t
    using that by (simp add: p(2) rev_nth)
  obtain m e where e: "m \<le> 230" "app_ticks env lay m b = Some e" "\<not> line_en (chain_of c (app_world e))"
    "\<forall>t < 4. \<forall>(ch, y, k) \<in> set (symbol_wires t). wire_on (chain_of c (app_world e)) (y, k) \<longleftrightarrow> display_value (app_nixie b) ! (3 - t) = ch"
    using display_reaches_tubes [OF env b(1,2), of lay c] by blast
  then have "\<forall>t < 4. \<forall>(ch, y, k) \<in> set (symbol_wires t). wire_on (chain_of c (app_world e)) (y, k) \<longleftrightarrow>
      padded (value_of (drop (p + length NIXIE_TOKEN) s)) ! t = ch" by (simp add: digits)
  with p(1) e(1-3) show ?thesis by blast
qed


text \<open>
  C4: Whatever the board shows it got from the server: when the display comes back from a request and begins to
  show a value, the bytes that the socket delivered since the request began contain the token, and within 230
  ticks of the main loop the tubes show the digits behind its first occurrence, padded with zeros in front,
  tube \<open>t\<close> from the left the \<open>t\<close>-th of them.
\<close>

theorem server_value_reaches_tubes:
  assumes "\<forall>l. num_networks (net env) l \<le> 2"
    and "\<forall>l. length (socket_read (pres env) l) \<le> HTTPS_CLIENT_NETWORK_BUFFER_SIZE"
    and "app_ok a" and "app_state a = APP_STATE_RUN_SERVICES" and "\<not> APP_Command_IsBusy a"
    and "\<not> is_value_parsed (app_nixie a)" and "cyclic_buffer_len (app_nixie a) = 0"
    and "display_value_out (app_nixie a) = None"
    and waits: "\<forall>k \<le> n. nixie_state (app_nixie (the (app_ticks env lay k a))) = APP_NIXIE_STATE_WAIT_HTTPS_RESPONSE"
    and shows_value: "app_ticks env lay (n + 1) a = Some b" "nixie_state (app_nixie b) = APP_NIXIE_STATE_BEGIN_DISPLAY_SEQUENCE"
  shows "\<exists>bytes p m e. received env [] (log (app_world b)) = received env [] (log (app_world a)) @ bytes \<and>
    first_occurrence bytes NIXIE_TOKEN p \<and> m \<le> 230 \<and> app_ticks env lay m b = Some e \<and>
    \<not> line_en (chain_of c (app_world e)) \<and>
    (\<forall>t < 4. \<forall>(ch, y, k) \<in> set (symbol_wires t). wire_on (chain_of c (app_world e)) (y, k) \<longleftrightarrow>
       padded (value_of (drop (p + length NIXIE_TOKEN) bytes)) ! t = ch)"
proof -
  have env: "good_env env" and idle: "idle_console a" using assms(1-5) by (simp_all add: good_env_def idle_console_def)
  have state: "nixie_state (app_nixie a) = APP_NIXIE_STATE_WAIT_HTTPS_RESPONSE" using waits by (metis app_ticks.simps(1) le0 option.sel)
  have "request_begun NIXIE_TOKEN (app_nixie a)"
    using assms(3,6,7) by (simp add: request_begun_def app_ok_def nixie_ok_def nixie_configured_def)
  from received_nothing [OF this] have wait: "awaiting [] a" using idle state assms(8) by (simp add: awaiting_def)
  obtain b0 where b0: "app_ticks env lay n a = Some b0" "APP_Tasks_Real env lay b0 = Some b"
    using shows_value(1) unfolding app_ticks_add by (auto split: Option.bind_splits)
  obtain x where x: "delivered env (app_world b0) = delivered env (app_world a) @ x" "awaiting x b0"
    using response_ticks [OF env wait b0(1) waits] by auto
  from response_tick [OF env x(2) b0(2)] shows_value(2) obtain y where
    y: "delivered env (app_world b) = delivered env (app_world b0) @ y" "idle_console b" "found_in (x @ y) b"
    by (auto simp: awaiting_def)
  have "received env [] (log (app_world b)) = received env [] (log (app_world a)) @ (x @ y)"
    using x(1) y(1) by (simp add: delivered_def)
  then show ?thesis using found_shown [OF env y(2) shows_value(2) y(3), of lay c] by blast
qed


section \<open>A sample\<close>

text \<open>A server that sends one page and closes the connection.\<close>

fun is_read :: "io \<Rightarrow> bool" where
  "is_read (IO_Pres (NET_PRES_SocketRead s n)) = True"
| "is_read _ = False"

definition page :: "char list" where
  "page = ''>Open Tasks (42)''"

definition answering_harmony :: harmony where
  "answering_harmony = sample_harmony\<lparr>pres := (pres sample_harmony)\<lparr>
     socket_read_ready := \<lambda>l. if list_ex is_read l then 0 else 16, socket_read := \<lambda>_. page\<rparr>\<rparr>"

definition answer_seen :: "world \<Rightarrow> char list \<times> bool" where
  "answer_seen w = (delivered answering_harmony w, list_ex is_read (log w))"

interpretation answer: world_view answer_seen
  by unfold_locales (simp_all add: answer_seen_def delivered_def)

lemma answer_pins: "APP_ShiftRegister_Tasks (d, w) = Some (d', w') \<Longrightarrow> answer_seen w' = answer_seen w"
  by (cases "sr_state d") (auto simp: APP_ShiftRegister_Tasks_def transmitBegin_def transmitStep_def transmitFinish_def
      transmitPause_def shift_pins delivered_def answer_seen_def Let_def split: Option.bind_splits if_splits)

lemma good_answering: "\<forall>l. num_networks (net answering_harmony) l \<le> 2"
  "\<forall>l. length (socket_read (pres answering_harmony) l) \<le> HTTPS_CLIENT_NETWORK_BUFFER_SIZE"
  by (simp_all add: answering_harmony_def sample_harmony_def page_def https_sizes)

lemma answering_client:
  assumes "APP_HTTPS_Client_Tasks answering_harmony after_url app_call (data, app, w) = Some (data', u, w')"
    and "https_state data = APP_HTTPS_CLIENT_STATE_WAIT_FOR_RESPONSE" and "https_callbacks data = nixie_callbacks"
  shows "if list_ex is_read (log w)
    then requestHandledCallback (app_nixie app) = Some (app_nixie u) \<and> answer_seen w' = answer_seen w
    else bufferReceivedCallback page (app_nixie app) = Some (app_nixie u) \<and> https_state data' = https_state data \<and>
      answer_seen w' = (delivered answering_harmony w @ page, True)"
  using assms by (auto simp: APP_HTTPS_Client_Tasks_def waitForResponse_def ask_split Let_def call_if_def nixie_callbacks_def
      app_call_def call_nixie_def answering_harmony_def sample_harmony_def answer_seen_def delivered_def split: Option.bind_splits if_splits)

text \<open>A tick that receives the page, and a tick that finds the connection closed.\<close>

lemma answering_tick:
  assumes wait: "awaiting s a" and state: "https_state (app_https_client a) = APP_HTTPS_CLIENT_STATE_WAIT_FOR_RESPONSE"
  obtains b where "APP_Tasks_Real answering_harmony lay a = Some b"
    and "\<not> list_ex is_read (log (app_world a)) \<Longrightarrow> awaiting (s @ page) b \<and>
      https_state (app_https_client b) = APP_HTTPS_CLIENT_STATE_WAIT_FOR_RESPONSE \<and>
      answer_seen (app_world b) = (delivered answering_harmony (app_world a) @ page, True)"
    and "list_ex is_read (log (app_world a)) \<Longrightarrow> first_occurrence s NIXIE_TOKEN p \<Longrightarrow>
      nixie_state (app_nixie b) = APP_NIXIE_STATE_BEGIN_DISPLAY_SEQUENCE \<and> answer_seen (app_world b) = answer_seen (app_world a)"
proof -
  have env: "good_env answering_harmony" using good_answering by (simp add: good_env_def)
  have idle: "idle_console a" and nix: "nixie_state (app_nixie a) = APP_NIXIE_STATE_WAIT_HTTPS_RESPONSE"
    and own: "display_value_out (app_nixie a) = None" and bytes: "received_bytes NIXIE_TOKEN s (app_nixie a)"
    using wait by (simp_all add: awaiting_def)
  obtain p' data u w d v b v' where t: "app_nixie p' = app_nixie a" "answer_seen (app_world p') = answer_seen (app_world a)"
    "APP_HTTPS_Client_Tasks answering_harmony (after_request_url lay) app_call (app_https_client a, p', app_world p') = Some (data, u, w)"
    "APP_ShiftRegister_Tasks (app_shift_register a, w) = Some (d, v)"
    "APP_Nixie_Tasks answering_harmony (after_nixie_request_url lay) (app_nixie u, data, d, v) =
      Some (app_nixie b, app_https_client b, app_shift_register b, v')"
    "APP_Tasks_Real answering_harmony lay a = Some b" "idle_console b" "answer_seen (app_world b) = answer_seen v"
    using answer.client_stages [OF env idle, of lay] by metis
  have "https_callbacks (app_https_client a) = nixie_callbacks"
    using awaiting_requester [OF wait] state by (simp add: quiet_https_def)
  note client = answering_client [OF t(3) state this, unfolded t(1)]
  have read: "list_ex is_read (log (app_world p')) = list_ex is_read (log (app_world a))"
    "delivered answering_harmony (app_world p') = delivered answering_harmony (app_world a)"
    using t(2) by (simp_all add: answer_seen_def)
  have seen: "answer_seen (app_world b) = answer_seen w" using t(8) answer_pins [OF t(4)] by simp
  have "awaiting (s @ page) b \<and> https_state (app_https_client b) = APP_HTTPS_CLIENT_STATE_WAIT_FOR_RESPONSE \<and>
      answer_seen (app_world b) = (delivered answering_harmony (app_world a) @ page, True)"
    if "\<not> list_ex is_read (log (app_world a))"
  proof -
    obtain d' where d': "bufferReceivedCallback page (app_nixie a) = Some d'" "received_bytes NIXIE_TOKEN (s @ page) d'"
      "same_but_parsing (app_nixie a) d'" using chunk_step [OF bytes] by blast
    then have u: "app_nixie u = d'" "https_state data = APP_HTTPS_CLIENT_STATE_WAIT_FOR_RESPONSE"
      using client that read state by simp_all
    have "nixie_state d' = APP_NIXIE_STATE_WAIT_HTTPS_RESPONSE" "display_value_out d' = None"
      using d'(3) nix own by (auto simp: same_but_parsing_def)
    moreover from this have "app_nixie b = d'" "app_https_client b = data"
      using t(5) u(1) by (simp_all add: APP_Nixie_Tasks_def)
    ultimately show ?thesis using t(7) d'(2) u(2) seen client that read by (simp add: awaiting_def)
  qed
  moreover have "nixie_state (app_nixie b) = APP_NIXIE_STATE_BEGIN_DISPLAY_SEQUENCE \<and> answer_seen (app_world b) = answer_seen (app_world a)"
    if "list_ex is_read (log (app_world a))" and token: "first_occurrence s NIXIE_TOKEN p"
  proof -
    have handled: "requestHandledCallback (app_nixie a) = Some (app_nixie u)" "answer_seen w = answer_seen (app_world a)"
      using client that read t(2) by simp_all
    have "NIXIE_TOKEN \<noteq> []" by (simp add: NIXIE_TOKEN_def)
    then have "memmem s NIXIE_TOKEN = Some p" using token by (simp add: first_occurrence_memmem)
    then have shuffle: "nixie_state (app_nixie u) = APP_NIXIE_STATE_SHUFFLE_SERVER_VALUE"
      "display_value (app_nixie u) = display_of (drop (p + length NIXIE_TOKEN) s)" "same_but_outcome (app_nixie a) (app_nixie u)"
      using request_handled [OF bytes] handled(1) by auto
    have "num_nixies (app_nixie u) = 4" "display_value_out (app_nixie u) = None"
      using shuffle(3) own bytes by (auto simp: same_but_outcome_def received_bytes_def nixie_ready_def nixie_sizes)
    from shuffle_pads [OF this(1) shuffle(2)] this(2) t(5) shuffle(1)
    have "app_nixie b = (app_nixie u)\<lparr>display_value := rev (padded (value_of (drop (p + length NIXIE_TOKEN) s))),
        nixie_state := APP_NIXIE_STATE_BEGIN_DISPLAY_SEQUENCE\<rparr>"
      by (simp add: APP_Nixie_Tasks_def)
    then show ?thesis using seen handled(2) by simp
  qed
  ultimately show thesis using that [OF t(6)] by blast
qed


definition asking :: "AppData \<Rightarrow> AppData" where
  "asking a = a\<lparr>app_state := APP_STATE_RUN_SERVICES,
     app_nixie := (app_nixie a)\<lparr>is_value_parsed := False, cyclic_buffer_len := 0,
       display_value_out := None, nixie_state := APP_NIXIE_STATE_WAIT_HTTPS_RESPONSE\<rparr>,
     app_https_client := (app_https_client a)\<lparr>https_state := APP_HTTPS_CLIENT_STATE_WAIT_FOR_RESPONSE,
       https_callbacks := nixie_callbacks\<rparr>, app_world := empty_world\<rparr>"

lemma asking_ok:
  assumes "app_ok a" and "\<not> APP_Command_IsBusy a"
  shows "app_ok (asking a)"
proof -
  let ?d = "app_nixie (asking a)"
  have nix: "nixie_ok (app_nixie a)" using assms(1) by (simp add: app_ok_def)
  then have conf: "nixie_configured ?d"
    by (simp add: nixie_ok_def nixie_configured_def nixie_sized_def nixie_ready_def asking_def)
  then have "request_begun NIXIE_TOKEN ?d" by (simp add: request_begun_def nixie_configured_def asking_def)
  from received_nothing [OF this] have "displaying ?d" by (auto simp: displaying_def asking_def)
  moreover have "nixie_ok ?d" using nix conf by (simp add: nixie_ok_def asking_def)
  ultimately show ?thesis using assms
    by (simp add: app_ok_def talking_def send_ok_def asking_def APP_Command_IsBusy_def app_task_def well_sized_def)
qed

lemma server_value_reaches_tubes_witness:
  "\<exists>a b m e. app_ok a \<and> app_ticks answering_harmony sample_layout 2 a = Some b \<and>
     app_ticks answering_harmony sample_layout m b = Some e \<and> wire_on (chain_of sample_chain (app_world e)) (0, 6)"
proof -
  obtain i where i: "app_ok i" "\<not> APP_Command_IsBusy i" using initialize_ok [OF sample_allocated, of sample_harmony] by blast
  let ?a = "asking i" and ?env = answering_harmony
  have ok: "app_ok ?a" by (rule asking_ok [OF i])
  have a: "app_state ?a = APP_STATE_RUN_SERVICES" "\<not> APP_Command_IsBusy ?a" "\<not> is_value_parsed (app_nixie ?a)"
    "cyclic_buffer_len (app_nixie ?a) = 0" "display_value_out (app_nixie ?a) = None"
    "nixie_state (app_nixie ?a) = APP_NIXIE_STATE_WAIT_HTTPS_RESPONSE" "log (app_world ?a) = []"
    "https_state (app_https_client ?a) = APP_HTTPS_CLIENT_STATE_WAIT_FOR_RESPONSE"
    using i(2) by (simp_all add: asking_def APP_Command_IsBusy_def app_task_def empty_world_def)
  have "request_begun NIXIE_TOKEN (app_nixie ?a)"
    using ok a(3,4) by (simp add: request_begun_def app_ok_def nixie_ok_def nixie_configured_def)
  from received_nothing [OF this] have wait: "awaiting [] ?a" using ok a by (simp add: awaiting_def idle_console_def)
  obtain b0 where b0: "APP_Tasks_Real ?env sample_layout ?a = Some b0" "awaiting page b0"
    "https_state (app_https_client b0) = APP_HTTPS_CLIENT_STATE_WAIT_FOR_RESPONSE" "answer_seen (app_world b0) = (page, True)"
    using answering_tick [OF wait a(8), of sample_layout] a(7) by (auto simp: delivered_def)
  have token: "first_occurrence page NIXIE_TOKEN 0"
    by (simp add: first_occurrence_def occurs_at_def NIXIE_TOKEN_def page_def)
  obtain b where b: "APP_Tasks_Real ?env sample_layout b0 = Some b"
    "nixie_state (app_nixie b) = APP_NIXIE_STATE_BEGIN_DISPLAY_SEQUENCE" "answer_seen (app_world b) = (page, True)"
    using answering_tick [OF b0(2,3), of sample_layout 0] b0(4) token by (auto simp: answer_seen_def)
  have run: "app_ticks ?env sample_layout (1 + 1) ?a = Some b" using b0(1) b(1) by simp
  have "\<forall>k \<le> 1. nixie_state (app_nixie (the (app_ticks ?env sample_layout k ?a))) = APP_NIXIE_STATE_WAIT_HTTPS_RESPONSE"
    using a(6) b0(1,2) by (auto simp: le_Suc_eq awaiting_def)
  from server_value_reaches_tubes [OF good_answering ok a(1-5) this run b(2), of sample_chain]
  obtain bytes p m e where e: "received ?env [] (log (app_world b)) = received ?env [] (log (app_world ?a)) @ bytes"
    "first_occurrence bytes NIXIE_TOKEN p" "app_ticks ?env sample_layout m b = Some e"
    "\<forall>t < 4. \<forall>(ch, y, k) \<in> set (symbol_wires t). wire_on (chain_of sample_chain (app_world e)) (y, k) \<longleftrightarrow>
       padded (value_of (drop (p + length NIXIE_TOKEN) bytes)) ! t = ch" by blast
  have "bytes = page" using e(1) b(3) a(7) by (simp add: answer_seen_def delivered_def)
  moreover from this have "p = 0" using first_occurrence_unique [OF e(2)] token by simp
  moreover have "padded (value_of (drop (0 + length NIXIE_TOKEN) page)) = ''0042''"
    by (simp add: padded_def value_of_def NIXIE_TOKEN_def page_def nixie_sizes is_digit_def eval_nat_numeral)
  moreover have "(CHR ''4'', 0, 6) \<in> set (symbol_wires 2)" by (simp add: symbol_wires_def wiring_def wirings)
  ultimately have "wire_on (chain_of sample_chain (app_world e)) (0, 6) \<longleftrightarrow> ''0042'' ! 2 = CHR ''4''"
    using e(4) [rule_format, of 2] by fastforce
  then have "wire_on (chain_of sample_chain (app_world e)) (0, 6)" by simp
  moreover have "app_ticks ?env sample_layout 2 ?a = Some b" using run by (simp add: numeral_2_eq_2)
  ultimately show ?thesis using ok e(3) by blast
qed

end
