(* ===== verification/App_Frozen.thy ===== *)
theory App_Frozen
  imports App_Response
begin

text \<open>
  A request of the display that the HTTPS client gives up without calling back: the display waits for ever,
  whatever is typed and whatever happens. The predicate \<open>forgotten\<close> says that nobody will call the display
  back; every service, every callback of a command and every console line keeps it.
\<close>

section \<open>A display that nobody calls back\<close>

definition forgotten :: "AppData \<Rightarrow> bool" where
  "forgotten a \<longleftrightarrow> nixie_state (app_nixie a) = APP_NIXIE_STATE_WAIT_HTTPS_RESPONSE \<and>
     (quiet_https (app_https_client a) \<or> https_callbacks (app_https_client a) = fetch_callbacks)"

lemma forgotten_frame [simp]:
  "forgotten (a\<lparr>app_world := w\<rparr>) = forgotten a" "forgotten (a\<lparr>app_usb_hid := us\<rparr>) = forgotten a"
  "forgotten (a\<lparr>app_state := st\<rparr>) = forgotten a" "forgotten (a\<lparr>app_network := nw\<rparr>) = forgotten a"
  "forgotten (a\<lparr>app_rtc := rt\<rparr>) = forgotten a" "forgotten (a\<lparr>app_flash := fl\<rparr>) = forgotten a"
  "forgotten (a\<lparr>app_shift_register := sr\<rparr>) = forgotten a" "forgotten (a\<lparr>app_command := c\<rparr>) = forgotten a"
  "forgotten (on_world f a) = forgotten a" "forgotten (set_app_task t a) = forgotten a"
  "forgotten (set_fetch d a) = forgotten a" "forgotten (set_send bs n a) = forgotten a" "forgotten (set_request_active b a) = forgotten a"
  "forgotten (a\<lparr>app_nixie := APP_Nixie_PeriodicTasksSetEnabled b (app_nixie a)\<rparr>) = forgotten a"
  by (simp_all add: forgotten_def on_world_def set_app_task_def set_fetch_def set_send_def set_request_active_def
      APP_Nixie_PeriodicTasksSetEnabled_def)

lemma forgotten_on_rtc [simp]: "forgotten (on_rtc f a) = forgotten a"
  by (simp add: on_rtc_def split: prod.splits)

section \<open>Services\<close>

lemma forgotten_call:
  assumes "Some cb \<in> {cb_buffer_received fetch_callbacks, cb_request_handled fetch_callbacks, cb_error fetch_callbacks}"
    and "app_call cb e (app, w) = Some (app', w')"
  shows "app_nixie app' = app_nixie app"
proof -
  have "app_nixie b = app_nixie a" if "fetch_bufferReceivedCallback bs a = Some b" for bs a b
    using that
  proof (induction bs arbitrary: a)
    case (Cons x bs)
    then show ?case by (cases "callback_cmd_io (app_task a)") (auto simp: COMMAND_PRINT_def on_world_def)
  qed simp
  then show ?thesis using assms
    by (cases e) (auto simp: fetch_callbacks_def app_call_def fetch_requestHandledCallback_def fetch_errorCallback_def
      set_request_active_def set_fetch_def Let_def split: Option.bind_splits)
qed

lemma forgotten_https:
  assumes "forgotten a" and "https_service env lay a = Some b"
  shows "forgotten b"
proof -
  obtain data u w where run: "APP_HTTPS_Client_Tasks env (after_request_url lay) app_call (app_https_client a, a, app_world a) =
      Some (data, u, w)" and b: "b = u\<lparr>app_https_client := data, app_world := w\<rparr>"
    using assms(2) by (auto simp: https_service_def split: Option.bind_splits)
  have "app_nixie u = app_nixie a"
  proof (cases "quiet_https (app_https_client a)")
    case True
    from quiet_tick_user [OF run this] show ?thesis by simp
  next
    case False
    then have cbs: "https_callbacks (app_https_client a) = fetch_callbacks" using assms(1) by (simp add: forgotten_def)
    show ?thesis
    proof (rule https_user [OF run])
      show "app_nixie u' = app_nixie a"
        if "Some cb \<in> {cb_buffer_received (https_callbacks (app_https_client a)), cb_request_handled (https_callbacks (app_https_client a)),
            cb_error (https_callbacks (app_https_client a))}" "app_call cb e (u, w) = Some (u', w')" "app_nixie u = app_nixie a"
        for cb e u w u' w'
        using forgotten_call [OF that(1) [unfolded cbs] that(2)] that(3) by simp
    qed simp
  qed
  then show ?thesis using https_tick_callbacks [OF run] assms(1) by (auto simp: forgotten_def b)
qed

lemma forgotten_nixie:
  assumes "forgotten a" and "nixie_service env lay a = Some b"
  shows "forgotten b"
  using assms by (auto simp: forgotten_def nixie_service_def APP_Nixie_Tasks_def split: Option.bind_splits)

lemma forgotten_services:
  assumes "forgotten a" and "run_services env lay a = Some b"
  shows "forgotten b"
proof -
  obtain a1 a3 a4 where run: "network_service env a = Some a1"
    "https_service env lay (flash_service env (rtc_service env (usb_service env a1))) = Some a3"
    "shift_register_service a3 = Some a4" "nixie_service env lay a4 = Some b"
    using assms(2) by (auto simp: run_services_def split: Option.bind_splits)
  have "forgotten a1" using run(1) assms(1) by (auto simp: network_service_def split: Option.bind_splits)
  then have "forgotten (flash_service env (rtc_service env (usb_service env a1)))"
    by (simp add: usb_service_def rtc_service_def flash_service_def split: prod.split)
  from forgotten_https [OF this run(2)] have "forgotten a3" .
  then have "forgotten a4" using run(3) by (auto simp: shift_register_service_def split: Option.bind_splits)
  then show ?thesis by (rule forgotten_nixie [OF _ run(4)])
qed

section \<open>Commands\<close>

lemma print_forgotten:
  "COMMAND_PRINT io f as app = Some app' \<Longrightarrow> forgotten app' = forgotten app"
  "COMMAND_MESSAGE io m app = Some app' \<Longrightarrow> forgotten app' = forgotten app"
  by (cases io; auto simp: COMMAND_PRINT_def COMMAND_MESSAGE_def)+

lemma print_row_forgotten: "print_row io rs app = Some app' \<Longrightarrow> forgotten app' = forgotten app"
  by (induction io rs app rule: print_row.induct)
    (auto dest: print_forgotten split: Option.bind_splits)

lemma printRegisters_from_forgotten: "printRegisters_from io n rs app = Some app' \<Longrightarrow> forgotten app' = forgotten app"
proof (induction io n rs app rule: printRegisters_from.induct)
  case (2 io n r rs app)
  from "2.prems" obtain a b where prt: "COMMAND_PRINT io ''%02x |'' [PInt (int n)] app = Some a"
    and row: "print_row io (take 8 (r # rs)) a = Some b"
    and rest: "printRegisters_from io (n + 8) (drop 8 (r # rs)) b = Some app'"
    by (auto simp del: take_Suc_Cons drop_Suc_Cons split: Option.bind_splits)
  show ?case using "2.IH" [OF prt row rest] print_forgotten(1) [OF prt] print_row_forgotten [OF row] by simp
qed simp

lemma forgotten_display: "forgotten a \<Longrightarrow> APP_Nixie_Display v (app_nixie a) = Some (False, app_nixie a)"
  by (simp add: forgotten_def APP_Nixie_Display_def APP_Nixie_IsBusy_def)

lemma forgotten_fetch: "forgotten a \<Longrightarrow> APP_Nixie_Fetch f v (app_nixie a, w) = (False, app_nixie a, poke f [0] w)"
  by (simp add: forgotten_def APP_Nixie_Fetch_def APP_Nixie_IsBusy_def)

lemma forgotten_same: "forgotten a \<Longrightarrow> forgotten (a\<lparr>app_nixie := app_nixie a\<rparr>)"
  by simp

lemma forgotten_request:
  assumes "APP_HTTPS_Client_Request m url fetch_callbacks (app_https_client a) = Some (r, d)" and "forgotten a"
  shows "forgotten (set_request_active on a\<lparr>app_https_client := d\<rparr>)"
  using assms by (auto simp: APP_HTTPS_Client_Request_def forgotten_def set_request_active_def set_fetch_def split: if_splits Option.bind_splits)

lemma forgotten_callback:
  assumes "run_callback env lay t io mode a = Some (r, b)" and "forgotten a"
  shows "forgotten b"
  using assms
  by (cases t; cases mode) (auto simp: run_callback_def callback_defs Let_def printRegisters_def forgotten_display forgotten_fetch
      dest: print_forgotten printRegisters_from_forgotten forgotten_request
      split: Option.bind_splits prod.splits if_splits)

lemma forgotten_command_tasks: "APP_Command_Tasks env lay a = Some b \<Longrightarrow> forgotten a \<Longrightarrow> forgotten b"
  by (auto simp: APP_Command_Tasks_def APP_Command_Task_Tasks_def checkCallbackResult_def appCmdTaskSetCallback_def
      dest!: forgotten_callback split: AppCommandTaskState.splits Option.bind_splits if_splits prod.splits AppCommandTaskCallbackResult.splits)

lemma forgotten_tick:
  assumes tick: "APP_Tasks_Real env lay a = Some b" and "forgotten a"
  shows "forgotten b"
proof (cases "app_state a")
  case APP_STATE_RUN_SERVICES
  obtain c d where c: "run_services env lay a = Some c" "APP_Command_Tasks env lay c = Some d"
    and b: "b = d \<or> b = on_world (tell (IO_Cmd SYS_CMD_READY_TO_READ)) d"
    using tick by (auto simp: run_tick [OF APP_STATE_RUN_SERVICES] split: Option.bind_splits if_splits)
  have "forgotten c" using assms(2) forgotten_services c(1) by blast
  from forgotten_command_tasks [OF c(2) this] b show ?thesis by auto
qed (use assms in \<open>auto simp: APP_Tasks_Real_def appGreetings_def Let_def\<close>)

section \<open>Lines\<close>

lemma schedule_forgotten: "schedule io t c b = (r, a) \<Longrightarrow> forgotten a = forgotten b"
  by (auto simp: schedule_def APP_Command_Task_Schedule_def appCmdTaskSetCallback_def Let_def)

lemma line_forgotten:
  assumes "forgotten a"
  shows "APP_Command_RTC (Some io) argv a = Some (r, b) \<Longrightarrow> forgotten b"
    "APP_Command_Flash (Some io) argv a = Some (r, b) \<Longrightarrow> forgotten b"
    "APP_Command_Fetch (Some io) argv a = Some (r, b) \<Longrightarrow> forgotten b"
    "APP_Command_Debug (Some io) argv a = Some (r, b) \<Longrightarrow> forgotten b"
    "APP_Command_NTP env (Some io) argv a = Some (r, b) \<Longrightarrow> forgotten b"
    "APP_Command_Phy (Some io) argv a = Some (r, b) \<Longrightarrow> forgotten b"
    "APP_Command_Power (Some io) argv a = Some (r, b) \<Longrightarrow> forgotten b"
  using assms
  by (auto simp: APP_Command_RTC_def appCmdRTCOscillator_def appCmdRTCDate_def appCmdRTCBattery_def
      appCmdRTCDump_def appCmdRTCRegister_def
      APP_Command_Flash_def appCmdFlashSectors_def appCmdFlashFormat_def APP_Command_Fetch_def appCmdFetch_def
      APP_Command_Debug_def appCmdDebugWolfSSL_def APP_Command_NTP_def appCmdNTPSeconds_def
      APP_Command_Phy_def APP_Command_Power_def appCmdPowerHV_def set_world_def usage_defs Let_def check_some
      dest: schedule_forgotten split: if_splits Option.bind_splits option.splits prod.splits)

lemma line_nixie_forgotten:
  "forgotten a \<Longrightarrow> APP_Command_Nixie (Some io) argv a = Some (r, b) \<Longrightarrow> forgotten b"
  by (auto simp: APP_Command_Nixie_def appCmdNixieDisplay_def appCmdNixiePeriodic_def appCmdNixieFetch_def
      usage_defs Let_def check_some dest: schedule_forgotten split: if_splits Option.bind_splits option.splits prod.splits)

lemma line_shift_register_forgotten:
  "forgotten a \<Longrightarrow> APP_Command_ShiftRegister (Some io) argv a = Some (r, b) \<Longrightarrow> forgotten b"
  by (auto simp: APP_Command_ShiftRegister_def commandShiftRegisterSetEnabledOrDisabled_def
      commandShiftRegisterSendData_def usage_defs check_some Let_def simp del: min_zz_min
      dest: schedule_forgotten split: if_splits Option.bind_splits option.splits prod.splits)

lemma dispatch_forgotten:
  assumes "forgotten a" and "dispatch env (Some io) argv a = Some (r, b)"
  shows "forgotten b"
proof -
  obtain f where "run_command env f (Some io) argv a = Some (r, b)"
    using assms(2) by (auto simp: dispatch_def split: Option.bind_splits)
  then show ?thesis using assms(1)
    by (cases f) (auto simp: run_command_def dest!: world_only(2) intro: line_forgotten line_nixie_forgotten line_shift_register_forgotten)
qed

lemma step_forgotten: "app_step env lay a b \<Longrightarrow> forgotten a \<Longrightarrow> forgotten b"
  by (auto elim!: app_step.cases intro: forgotten_tick dispatch_forgotten)

lemma forgotten_for_ever: "(app_step env lay)\<^sup>*\<^sup>* a b \<Longrightarrow> forgotten a \<Longrightarrow> forgotten b"
  by (induction rule: rtranclp_induct) (auto intro: step_forgotten)

section \<open>Property\<close>

lemma refusal_forgets:
  assumes "nixie_state (app_nixie a) = APP_NIXIE_STATE_WAIT_HTTPS_RESPONSE" and "app_state a = APP_STATE_RUN_SERVICES"
    and "https_state (app_https_client a) = APP_HTTPS_CLIENT_STATE_WAIT_FOR_CONNECTION"
    and "take 8 (request_url (app_https_client a)) = ''https://''"
    and "\<forall>l. socket_is_connected (pres env) l" and "\<forall>l. \<not> socket_encrypt (pres env) l"
    and "run_services env lay a = Some b"
  shows "forgotten b"
proof -
  obtain a1 a3 a4 where run: "network_service env a = Some a1"
    "https_service env lay (flash_service env (rtc_service env (usb_service env a1))) = Some a3"
    "shift_register_service a3 = Some a4" "nixie_service env lay a4 = Some b"
    using assms(7) by (auto simp: run_services_def split: Option.bind_splits)
  let ?c = "flash_service env (rtc_service env (usb_service env a1))"
  have "app_nixie a1 = app_nixie a" using run(1) by (auto simp: network_service_def split: Option.bind_splits)
  moreover have "app_nixie ?c = app_nixie a1"
    by (simp add: usb_service_def rtc_service_def flash_service_def split: prod.split)
  moreover have "app_https_client ?c = app_https_client a" using services_fetch(1) [OF run(1)] services_fetch(2) by simp
  ultimately have "forgotten a3"
    using refused_encryption [OF _ _ assms(5,6) run(2)] assms(1,3,4) by (auto simp: forgotten_def quiet_https_def)
  then have "forgotten a4" using run(3) by (auto simp: shift_register_service_def split: Option.bind_splits)
  then show ?thesis by (rule forgotten_nixie [OF _ run(4)])
qed

lemma refusal_forgets_tick:
  assumes "nixie_state (app_nixie a) = APP_NIXIE_STATE_WAIT_HTTPS_RESPONSE" and "app_state a = APP_STATE_RUN_SERVICES"
    and "https_state (app_https_client a) = APP_HTTPS_CLIENT_STATE_WAIT_FOR_CONNECTION"
    and "take 8 (request_url (app_https_client a)) = ''https://''"
    and "\<forall>l. socket_is_connected (pres env) l" and "\<forall>l. \<not> socket_encrypt (pres env) l"
    and "APP_Tasks_Real env lay a = Some b"
  shows "forgotten b"
proof -
  obtain c where c: "run_services env lay a = Some c"
    using assms(2,7) by (auto simp: run_tick split: Option.bind_splits)
  with assms(2,7) refusal_forgets [OF assms(1-6) c] show ?thesis
    by (auto simp: run_tick dest: forgotten_command_tasks split: Option.bind_splits if_splits)
qed

text \<open>
  C24: When the socket layer refuses the encryption of a request of the display, the display never shows a new
  value again: after this tick and for ever, whichever ticks, console lines and events of USB follow, it waits
  for an answer, and it drops every value that a command gives it.
\<close>

theorem refused_encryption_freezes_display:
  assumes "nixie_state (app_nixie a) = APP_NIXIE_STATE_WAIT_HTTPS_RESPONSE" and "app_state a = APP_STATE_RUN_SERVICES"
    and "https_state (app_https_client a) = APP_HTTPS_CLIENT_STATE_WAIT_FOR_CONNECTION"
    and "take 8 (request_url (app_https_client a)) = ''https://''"
    and "\<forall>l. socket_is_connected (pres env) l" and "\<forall>l. \<not> socket_encrypt (pres env) l"
    and "APP_Tasks_Real env lay a = Some b" and "(app_step env lay)\<^sup>*\<^sup>* b c"
  shows "nixie_state (app_nixie c) = APP_NIXIE_STATE_WAIT_HTTPS_RESPONSE \<and>
    APP_Nixie_Display value (app_nixie c) = Some (False, app_nixie c)"
  using forgotten_for_ever [OF assms(8) refusal_forgets_tick [OF assms(1-7)]] forgotten_display
  by (auto simp: forgotten_def)

text \<open>A request of the display under way, on a socket layer that refuses encryption.\<close>

definition asking_from :: "char list \<Rightarrow> AppData \<Rightarrow> AppData" where
  "asking_from url a = (asking a)\<lparr>app_https_client := (app_https_client (asking a))
     \<lparr>https_state := APP_HTTPS_CLIENT_STATE_WAIT_FOR_CONNECTION, request_url := url\<rparr>\<rparr>"

lemma asking_from_ok:
  assumes "app_ok a" and "\<not> APP_Command_IsBusy a" and "length url = MAX_URL"
  shows "app_ok (asking_from url a)"
  using asking_ok [OF assms(1,2)] assms(3)
  by (simp add: asking_from_def app_ok_defs app_task_def well_sized_def quiet_https_def asking_def)

lemma refused_encryption_freezes_display_witness:
  "\<exists>a b. app_ok a \<and> APP_Tasks_Real refusing_harmony sample_layout a = Some b \<and>
     APP_Nixie_Display ''1234'' (app_nixie b) = Some (False, app_nixie b)"
proof -
  obtain a0 where "app_ok a0" "\<not> APP_Command_IsBusy a0" and none: "task_callback (app_task a0) = None"
    using initialize_ok [OF sample_allocated, of sample_harmony] by auto
  let ?url = "''https://nixie'' @ replicate 115 (CHR 0x00)"
  let ?a = "asking_from ?url a0"
  have ok: "app_ok ?a" using asking_from_ok [OF \<open>app_ok a0\<close> \<open>\<not> APP_Command_IsBusy a0\<close>, of ?url] by (simp add: https_sizes)
  have env: "good_env refusing_harmony" by (simp add: good_env_def refusing_harmony_def sample_harmony_def)
  have a: "nixie_state (app_nixie ?a) = APP_NIXIE_STATE_WAIT_HTTPS_RESPONSE" "app_state ?a = APP_STATE_RUN_SERVICES"
    "https_state (app_https_client ?a) = APP_HTTPS_CLIENT_STATE_WAIT_FOR_CONNECTION"
    "take 8 (request_url (app_https_client ?a)) = ''https://''"
    by (simp_all add: asking_from_def asking_def)
  have "app_task ?a = app_task a0" by (simp add: asking_from_def asking_def app_task_def)
  then obtain b where run: "APP_Tasks_Real refusing_harmony sample_layout ?a = Some b"
    using tick_ok [OF env ok, of sample_layout] none by auto
  have "\<forall>l. socket_is_connected (pres refusing_harmony) l" "\<forall>l. \<not> socket_encrypt (pres refusing_harmony) l"
    by (simp_all add: refusing_harmony_def sample_harmony_def)
  from refused_encryption_freezes_display [OF a this run rtranclp.rtrancl_refl] run ok show ?thesis by blast
qed

end
