(* ===== verification/Https_Progress.thy ===== *)
theory Https_Progress
  imports App_Frames
begin

text \<open>
  The HTTPS client on a network that may let it wait, but not for ever, and that does not fail: every tick of a
  request of the display takes it a step nearer to the end of the response, by a rank that counts the states that
  are left and the polls that the network may still leave unanswered.
\<close>

section \<open>Polls\<close>

text \<open>What the client polls for, and how often it has done so since it last polled for something else.\<close>

datatype poll = Poll_DNS | Poll_Connected | Poll_Negotiating | Poll_Write | Poll_Response

fun poll_of :: "io \<Rightarrow> poll option" where
  "poll_of (IO_TCPIP (TCPIP_DNS_IsResolved h t)) = Some Poll_DNS"
| "poll_of (IO_Pres (NET_PRES_SocketIsConnected s)) = Some Poll_Connected"
| "poll_of (IO_Pres (NET_PRES_SocketIsNegotiatingEncryption s)) = Some Poll_Negotiating"
| "poll_of (IO_Pres (NET_PRES_SocketWriteIsReady s n m)) = Some Poll_Write"
| "poll_of (IO_Pres (NET_PRES_SocketReadIsReady s)) = Some Poll_Response"
| "poll_of _ = None"

definition polls :: "io list \<Rightarrow> poll list" where
  "polls l = List.map_filter poll_of l"

definition kept_waiting :: "poll \<Rightarrow> io list \<Rightarrow> nat" where
  "kept_waiting q l = length (takeWhile ((=) q) (rev (polls l)))"

text \<open>The texts that were sent.\<close>

fun sent_by :: "io \<Rightarrow> char list option" where
  "sent_by (IO_Pres (NET_PRES_SocketWrite s text)) = Some text"
| "sent_by _ = None"

definition sent :: "io list \<Rightarrow> char list list" where
  "sent l = List.map_filter sent_by l"

lemma polls_append [simp]:
  "polls (l @ m) = polls l @ polls m" "polls [] = []"
  "polls (e # m) = (case poll_of e of None \<Rightarrow> polls m | Some q \<Rightarrow> q # polls m)"
  by (simp_all add: polls_def List.map_filter_def split: option.split)

lemma sent_append [simp]:
  "sent (l @ m) = sent l @ sent m" "sent [] = []"
  "sent (e # m) = (case sent_by e of None \<Rightarrow> sent m | Some t \<Rightarrow> t # sent m)"
  by (simp_all add: sent_def List.map_filter_def split: option.split)

lemma kept_waiting_snoc [simp]:
  "kept_waiting q (l @ [e]) = (case poll_of e of None \<Rightarrow> kept_waiting q l
     | Some r \<Rightarrow> if q = r then Suc (kept_waiting q l) else 0)"
  by (simp add: kept_waiting_def split: option.split)

text \<open>Two calls in a row.\<close>

lemmas kept_waiting_pair [simp] = kept_waiting_snoc [of _ "l @ [d]" for l d, simplified]

text \<open>
  A network that answers after fewer than \<open>n\<close> polls in a row, and then with success. After fewer than \<open>n\<close> polls for
  the response the server has closed the connection.
\<close>

definition healthy :: "nat \<Rightarrow> harmony \<Rightarrow> bool" where
  "healthy n env \<longleftrightarrow>
     (\<forall>l. dns_resolve (dns env) l \<noteq> TCPIP_DNS_RES_FAILED \<and>
        dns_is_resolved (dns env) l \<in> {TCPIP_DNS_RES_PENDING, TCPIP_DNS_RES_OK} \<and>
        (n \<le> kept_waiting Poll_DNS l \<longrightarrow> dns_is_resolved (dns env) l = TCPIP_DNS_RES_OK)) \<and>
     (\<forall>l. socket_open (pres env) l \<noteq> None \<and> socket_encrypt (pres env) l \<and> socket_is_secure (pres env) l) \<and>
     (\<forall>l. n \<le> kept_waiting Poll_Connected l \<longrightarrow> socket_is_connected (pres env) l) \<and>
     (\<forall>l. n \<le> kept_waiting Poll_Negotiating l \<longrightarrow> \<not> socket_is_negotiating (pres env) l) \<and>
     (\<forall>l. n \<le> kept_waiting Poll_Write l \<longrightarrow> socket_write_ready (pres env) l \<noteq> 0) \<and>
     (\<forall>l s text. length text \<le> HTTPS_CLIENT_NETWORK_BUFFER_SIZE \<longrightarrow>
        unat (socket_write (pres env) (l @ [IO_Pres (NET_PRES_SocketWrite s text)])) = length text) \<and>
     (\<forall>l. n \<le> kept_waiting Poll_Response l \<longrightarrow> socket_read_ready (pres env) l = 0 \<and> socket_was_reset (pres env) l)"

lemma healthy_facts:
  assumes "healthy n env"
  shows "dns_resolve (dns env) l \<noteq> TCPIP_DNS_RES_FAILED" "\<exists>s. socket_open (pres env) l = Some s" "socket_open (pres env) l \<noteq> None"
    "socket_encrypt (pres env) l" "socket_is_secure (pres env) l"
  using assms by (simp_all add: healthy_def)

section \<open>The client on its way\<close>

text \<open>The host and the path of the configured URL, and the request for it.\<close>

definition NIXIE_HOST :: string where
  "NIXIE_HOST = ''developer.blender.org''"

definition NIXIE_PATH :: string where
  "NIXIE_PATH = ''/maniphest/project/2/type/Bug/query/open/''"

definition addressed :: "app_callback AppHTTPSClientData \<Rightarrow> bool" where
  "addressed data \<longleftrightarrow> cstr (https_host data) = NIXIE_HOST \<and> cstr (https_path data) = NIXIE_PATH"

definition url_taken :: "app_callback AppHTTPSClientData \<Rightarrow> bool" where
  "url_taken data \<longleftrightarrow> (\<exists>rest. request_url data = NIXIE_REQUEST_URL @ CHR 0x00 # rest)"

text \<open>What holds in each state of a request that goes well; \<open>before\<close> are the texts sent before it.\<close>

definition on_course :: "char list list \<Rightarrow> app_callback AppHTTPSClientData \<Rightarrow> char list list \<Rightarrow> bool" where
  "on_course before data texts \<longleftrightarrow>
     (case https_state data of
        APP_HTTPS_CLIENT_STATE_BEGIN_SEQUENCE \<Rightarrow> url_taken data \<and> ip_mode_config data = APP_HTTPS_CLIENT_IP_MODE_IPV4
      | APP_HTTPS_CLIENT_STATE_WAIT_FOR_NETWORK \<Rightarrow> url_taken data \<and> ip_mode_config data = APP_HTTPS_CLIENT_IP_MODE_IPV4
      | APP_HTTPS_CLIENT_STATE_PARSE_REQUEST_URL \<Rightarrow> url_taken data \<and> ip_mode_config data = APP_HTTPS_CLIENT_IP_MODE_IPV4
      | APP_HTTPS_CLIENT_STATE_PROCESS_REQUEST \<Rightarrow> addressed data \<and> ip_mode_config data = APP_HTTPS_CLIENT_IP_MODE_IPV4
      | APP_HTTPS_CLIENT_STATE_WAIT_ON_DNS \<Rightarrow> addressed data \<and> dns_query_ip_mode data = APP_HTTPS_CLIENT_IP_MODE_IPV4
      | APP_HTTPS_CLIENT_STATE_START_CONNECTION \<Rightarrow> addressed data
      | APP_HTTPS_CLIENT_STATE_WAIT_FOR_CONNECTION \<Rightarrow> addressed data
      | APP_HTTPS_CLIENT_STATE_WAIT_FOR_SSL_CONNECT \<Rightarrow> addressed data
      | APP_HTTPS_CLIENT_STATE_SEND_REQUEST \<Rightarrow> addressed data
      | APP_HTTPS_CLIENT_STATE_WAIT_FOR_RESPONSE \<Rightarrow> True
      | APP_HTTPS_CLIENT_STATE_IDLE \<Rightarrow> False
      | APP_HTTPS_CLIENT_STATE_CLOSE_CONNECTION \<Rightarrow> False
      | APP_HTTPS_CLIENT_STATE_ERROR \<Rightarrow> False) \<and>
     texts = (if https_state data = APP_HTTPS_CLIENT_STATE_WAIT_FOR_RESPONSE
              then before @ [request_text NIXIE_PATH NIXIE_HOST] else before)"

text \<open>The states in order, the poll each waits for, and the ticks that may be left.\<close>

fun phase :: "AppHTTPSClientState \<Rightarrow> nat" where
  "phase APP_HTTPS_CLIENT_STATE_BEGIN_SEQUENCE = 9"
| "phase APP_HTTPS_CLIENT_STATE_WAIT_FOR_NETWORK = 8"
| "phase APP_HTTPS_CLIENT_STATE_PARSE_REQUEST_URL = 7"
| "phase APP_HTTPS_CLIENT_STATE_PROCESS_REQUEST = 6"
| "phase APP_HTTPS_CLIENT_STATE_WAIT_ON_DNS = 5"
| "phase APP_HTTPS_CLIENT_STATE_START_CONNECTION = 4"
| "phase APP_HTTPS_CLIENT_STATE_WAIT_FOR_CONNECTION = 3"
| "phase APP_HTTPS_CLIENT_STATE_WAIT_FOR_SSL_CONNECT = 2"
| "phase APP_HTTPS_CLIENT_STATE_SEND_REQUEST = 1"
| "phase _ = 0"

fun poll_in :: "AppHTTPSClientState \<Rightarrow> poll option" where
  "poll_in APP_HTTPS_CLIENT_STATE_WAIT_ON_DNS = Some Poll_DNS"
| "poll_in APP_HTTPS_CLIENT_STATE_WAIT_FOR_CONNECTION = Some Poll_Connected"
| "poll_in APP_HTTPS_CLIENT_STATE_WAIT_FOR_SSL_CONNECT = Some Poll_Negotiating"
| "poll_in APP_HTTPS_CLIENT_STATE_SEND_REQUEST = Some Poll_Write"
| "poll_in APP_HTTPS_CLIENT_STATE_WAIT_FOR_RESPONSE = Some Poll_Response"
| "poll_in _ = None"

definition ticks_left :: "nat \<Rightarrow> app_callback AppHTTPSClientData \<Rightarrow> io list \<Rightarrow> nat" where
  "ticks_left n data l = phase (https_state data) * Suc n +
     (case poll_in (https_state data) of None \<Rightarrow> n | Some q \<Rightarrow> n - kept_waiting q l)"

lemma ticks_left_phase:
  assumes "phase (https_state data') < phase (https_state data)"
  shows "ticks_left n data' l' < ticks_left n data l"
proof -
  have "ticks_left n data' l' \<le> phase (https_state data') * Suc n + n"
    by (simp add: ticks_left_def split: option.split)
  also have "\<dots> < Suc (phase (https_state data')) * Suc n" by simp
  also have "\<dots> \<le> phase (https_state data) * Suc n" using assms by (intro mult_le_mono1) simp
  also have "\<dots> \<le> ticks_left n data l" by (simp add: ticks_left_def)
  finally show ?thesis .
qed

lemma ticks_left_bound: "ticks_left n data l \<le> 10 * n + 9"
proof -
  have "phase st \<le> 9" for st by (cases st) simp_all
  then have "phase (https_state data) * Suc n \<le> 9 * Suc n" by (rule mult_le_mono1)
  then show ?thesis by (auto simp: ticks_left_def split: option.split)
qed

lemma ticks_left_poll:
  assumes "https_state data' = https_state data" and "poll_in (https_state data) = Some q"
    and "kept_waiting q l' = Suc (kept_waiting q l)" and "\<not> n \<le> Suc (kept_waiting q l)"
  shows "ticks_left n data' l' < ticks_left n data l"
  using assms by (simp add: ticks_left_def)

text \<open>One step of the client.\<close>

definition advances :: "nat \<Rightarrow> char list list \<Rightarrow> app_callback AppHTTPSClientData \<Rightarrow> io list \<Rightarrow>
    app_callback AppHTTPSClientData \<Rightarrow> io list \<Rightarrow> bool" where
  "advances n before data l data' l' \<longleftrightarrow>
     on_course before data' (sent l') \<and> ticks_left n data' l' < ticks_left n data l"

lemma url_parts: "NIXIE_REQUEST_URL = ''https'' @ ''://'' @ (NIXIE_HOST @ NIXIE_PATH)"
  by (simp add: NIXIE_REQUEST_URL_def NIXIE_HOST_def NIXIE_PATH_def)

lemma parse_advances:
  assumes "https_state data = APP_HTTPS_CLIENT_STATE_PARSE_REQUEST_URL" and "on_course before data (sent l)" and "well_sized data"
    and "pasreRequestURL after_url data = Some data'"
  shows "advances n before data l data' l"
proof -
  obtain rest where url: "request_url data = NIXIE_REQUEST_URL @ CHR 0x00 # rest"
    using assms(1,2) by (auto simp: on_course_def url_taken_def)
  have "string_at (array_chars (request_url data) after_url) 0 NIXIE_REQUEST_URL"
    unfolding url by (rule string_at_array_chars) (simp add: NIXIE_REQUEST_URL_def)
  note s = this [unfolded url_parts]
  have "part_host (url_spec ''https'' (NIXIE_HOST @ NIXIE_PATH) p) = NIXIE_HOST"
    "part_path_suffix (url_spec ''https'' (NIXIE_HOST @ NIXIE_PATH) p) = NIXIE_PATH" for p
    by (simp_all add: url_spec_def Let_def in_authority_def port_value_def host_port_def credentials_def
      text_before_def NIXIE_HOST_def NIXIE_PATH_def)
  then obtain d where d: "pasreRequestURL after_url data = Some d" "https_state d = APP_HTTPS_CLIENT_STATE_PROCESS_REQUEST"
    "cstr (https_host d) = NIXIE_HOST" "cstr (https_path d) = NIXIE_PATH"
    using request_parsed [OF assms(3) s] by (force simp: Let_def MAX_URL_def NIXIE_HOST_def NIXIE_PATH_def)
  have "ip_mode_config d = ip_mode_config data"
    using d(1) by (auto simp: pasreRequestURL_def enterErrorState_def Let_def split: Option.bind_splits if_splits)
  then show ?thesis using d assms(1,2,4) by (auto simp: advances_def on_course_def addressed_def intro!: ticks_left_phase)
qed

lemma process_advances:
  assumes "https_state data = APP_HTTPS_CLIENT_STATE_PROCESS_REQUEST" and "on_course before data (sent (log w))"
    and "healthy n env" and "processRequest (dns env) (data, w) = (data', w')"
  shows "advances n before data (log w) data' (log w')"
  using assms(1,2,4) by (auto simp: healthy_facts [OF assms(3)] processRequest_def on_course_def addressed_def advances_def ask_split Let_def SYS_ASSERT_def
      intro!: ticks_left_phase split: if_splits)

lemma dns_advances:
  assumes "https_state data = APP_HTTPS_CLIENT_STATE_WAIT_ON_DNS" and "on_course before data (sent (log w))"
    and "healthy n env" and "checkDNSResolveStatus (dns env) (data, w) = (data', w')"
  shows "advances n before data (log w) data' (log w')"
proof -
  let ?q = "IO_TCPIP (TCPIP_DNS_IsResolved (cstr (https_host data)) IP_ADDRESS_TYPE_IPV4)"
  have course: "addressed data" "dns_query_ip_mode data = APP_HTTPS_CLIENT_IP_MODE_IPV4" using assms(1,2) by (simp_all add: on_course_def)
  consider (waits) "dns_is_resolved (dns env) (log w @ [?q]) = TCPIP_DNS_RES_PENDING" "\<not> n \<le> kept_waiting Poll_DNS (log w @ [?q])"
    | (resolved) "dns_is_resolved (dns env) (log w @ [?q]) = TCPIP_DNS_RES_OK"
    using assms(3) unfolding healthy_def by (metis insertE singletonD TCPIP_DNS_RESULT.distinct(1))
  then show ?thesis
  proof cases
    case waits
    then have "data' = data" "w' = tell ?q w" using assms(4) course by (auto simp: checkDNSResolveStatus_def ask_split Let_def)
    then show ?thesis using assms(1,2) waits(2) by (auto simp: advances_def on_course_def intro!: ticks_left_poll)
  next
    case resolved
    then have "\<exists>ip. data' = data\<lparr>ip_address := ip, ip_mode := APP_HTTPS_CLIENT_IP_MODE_IPV4, https_state := APP_HTTPS_CLIENT_STATE_START_CONNECTION\<rparr>"
      "w' = tell ?q w" using assms(4) course by (auto simp: checkDNSResolveStatus_def ask_split Let_def)
    then show ?thesis using assms(1,2) by (auto simp: advances_def on_course_def addressed_def intro!: ticks_left_phase)
  qed
qed

lemma open_advances:
  assumes "https_state data = APP_HTTPS_CLIENT_STATE_START_CONNECTION" and "on_course before data (sent (log w))"
    and "healthy n env" and "startNetworkConnection (pres env) (data, w) = (data', w')"
  shows "advances n before data (log w) data' (log w')"
  using assms(1,2,4) by (auto simp: healthy_facts [OF assms(3)] startNetworkConnection_def on_course_def addressed_def advances_def ask_split Let_def
      intro!: ticks_left_phase split: if_splits)

lemma connect_advances:
  assumes "https_state data = APP_HTTPS_CLIENT_STATE_WAIT_FOR_CONNECTION" and "on_course before data (sent (log w))"
    and "healthy n env" and "waitNetworkConnection (pres env) after_url (data, w) = (data', w')"
  shows "advances n before data (log w) data' (log w')"
proof (cases "socket_is_connected (pres env) (log w @ [IO_Pres (NET_PRES_SocketIsConnected (https_socket data))])")
  case True
  then show ?thesis using assms(1,2,4) by (auto simp: healthy_facts [OF assms(3)] waitNetworkConnection_def on_course_def addressed_def advances_def ask_split Let_def
      intro!: ticks_left_phase split: if_splits)
next
  case False
  then have "\<not> n \<le> kept_waiting Poll_Connected (log w @ [IO_Pres (NET_PRES_SocketIsConnected (https_socket data))])"
    using assms(3) by (auto simp: healthy_def simp del: kept_waiting_snoc)
  then show ?thesis using False assms(1,2,4)
    by (auto simp: waitNetworkConnection_def on_course_def advances_def ask_split Let_def intro!: ticks_left_poll)
qed

lemma secure_advances:
  assumes "https_state data = APP_HTTPS_CLIENT_STATE_WAIT_FOR_SSL_CONNECT" and "on_course before data (sent (log w))"
    and "healthy n env" and "waitForSSLConnect (pres env) (data, w) = (data', w')"
  shows "advances n before data (log w) data' (log w')"
proof (cases "socket_is_negotiating (pres env) (log w @ [IO_Pres (NET_PRES_SocketIsNegotiatingEncryption (https_socket data))])")
  case False
  then show ?thesis using assms(1,2,4) by (auto simp: healthy_facts [OF assms(3)] waitForSSLConnect_def on_course_def addressed_def advances_def ask_split Let_def
      intro!: ticks_left_phase split: if_splits)
next
  case True
  then have "\<not> n \<le> kept_waiting Poll_Negotiating (log w @ [IO_Pres (NET_PRES_SocketIsNegotiatingEncryption (https_socket data))])"
    using assms(3) by (auto simp: healthy_def simp del: kept_waiting_snoc)
  then show ?thesis using True assms(1,2,4)
    by (auto simp: waitForSSLConnect_def on_course_def advances_def ask_split Let_def intro!: ticks_left_poll)
qed

lemma send_advances:
  assumes "https_state data = APP_HTTPS_CLIENT_STATE_SEND_REQUEST" and "on_course before data (sent (log w))" and "well_sized data"
    and "healthy n env" and "sendRequest (pres env) (data, w) = Some (data', w')"
  shows "advances n before data (log w) data' (log w')"
proof -
  let ?ready = "IO_Pres (NET_PRES_SocketWriteIsReady (https_socket data) HTTPS_CLIENT_NETWORK_BUFFER_SIZE HTTPS_CLIENT_NETWORK_BUFFER_SIZE)"
  let ?text = "request_text NIXIE_PATH NIXIE_HOST"
  let ?put = "IO_Pres (NET_PRES_SocketWrite (https_socket data) ?text)"
  have addr: "cstr (https_host data) = NIXIE_HOST" "cstr (https_path data) = NIXIE_PATH"
    and before: "sent (log w) = before" using assms(1,2) by (simp_all add: on_course_def addressed_def)
  show ?thesis
  proof (cases "socket_write_ready (pres env) (log w @ [?ready]) = 0")
    case True
    then have "\<not> n \<le> kept_waiting Poll_Write (log w @ [?ready])" using assms(4) by (auto simp: healthy_def simp del: kept_waiting_snoc)
    then show ?thesis using True assms(1,2,5)
      by (auto simp: sendRequest_def on_course_def advances_def ask_split Let_def intro!: ticks_left_poll)
  next
    case False
    have len: "length ?text < HTTPS_CLIENT_NETWORK_BUFFER_SIZE" and nul: "CHR 0x00 \<notin> set ?text"
      by (simp_all add: request_text_def crlf_def NIXIE_PATH_def NIXIE_HOST_def https_sizes)
    have "length (network_buffer data) = HTTPS_CLIENT_NETWORK_BUFFER_SIZE" using assms(3) by (simp add: well_sized_def)
    from safe_snprintf_fits [OF this len nul] obtain b where b: "safe_snprintf (network_buffer data)
        HTTPS_CLIENT_NETWORK_BUFFER_SIZE (Some ?text) = Some (int (length ?text), b)" "cstr b = ?text" by blast
    have "unat (socket_write (pres env) ((log w @ [?ready]) @ [?put])) = length ?text"
      using assms(4) len unfolding healthy_def by (simp del: append_assoc)
    then have "socket_write (pres env) (log w @ [?ready, ?put]) = word_of_int (int (length ?text))"
      using len by (auto simp: word_unat_eq_iff unat_of_nat https_sizes)
    then show ?thesis using False assms(1,5) b before
      by (auto simp: sendRequest_def on_course_def advances_def ask_split Let_def addr intro!: ticks_left_phase)
  qed
qed

lemma response_advances:
  assumes "https_state data = APP_HTTPS_CLIENT_STATE_WAIT_FOR_RESPONSE" and "on_course before data (sent (log w))"
    and "healthy n env" and "https_callbacks data = nixie_callbacks"
    and "waitForResponse (pres env) app_call (data, u, w) = Some (data', u', w')" and "https_state data' = https_state data"
  shows "advances n before data (log w) data' (log w')"
proof -
  let ?ready = "IO_Pres (NET_PRES_SocketReadIsReady (https_socket data))"
    and ?reset = "IO_Pres (NET_PRES_SocketWasReset (https_socket data))"
    and ?read = "IO_Pres (NET_PRES_SocketRead (https_socket data) HTTPS_CLIENT_NETWORK_BUFFER_SIZE)"
  have w': "log w' = log w @ [?ready, ?reset] \<or> log w' = log w @ [?ready, ?read]"
    and still: "socket_read_ready (pres env) (log w @ [?ready]) \<noteq> 0 \<or> \<not> socket_was_reset (pres env) (log w @ [?ready, ?reset])"
    using assms(1,4-6) by (auto simp: waitForResponse_def ask_split Let_def call_if_def nixie_callbacks_def
        app_call_def call_nixie_def split: Option.bind_splits if_splits)
  from still have "\<not> n \<le> Suc (kept_waiting Poll_Response (log w))"
  proof
    assume "socket_read_ready (pres env) (log w @ [?ready]) \<noteq> 0"
    then have "\<not> n \<le> kept_waiting Poll_Response (log w @ [?ready])"
      using assms(3) by (auto simp: healthy_def simp del: kept_waiting_snoc)
    then show ?thesis by simp
  next
    assume "\<not> socket_was_reset (pres env) (log w @ [?ready, ?reset])"
    then have "\<not> n \<le> kept_waiting Poll_Response ((log w @ [?ready]) @ [?reset])"
      using assms(3) by (auto simp: healthy_def simp del: kept_waiting_snoc)
    then show ?thesis by simp
  qed
  moreover have "kept_waiting Poll_Response (log w') = Suc (kept_waiting Poll_Response (log w))" "sent (log w') = sent (log w)"
    using w' by auto
  ultimately show ?thesis using assms(1,2,6) by (auto simp: advances_def on_course_def intro!: ticks_left_poll)
qed

lemma https_advances:
  assumes "healthy n env" and "on_course before data (sent (log w))" and "well_sized data"
    and run: "APP_HTTPS_Client_Tasks env after_url app_call (data, u, w) = Some (data', u', w')"
    and "https_callbacks data = nixie_callbacks"
    and "https_state data = APP_HTTPS_CLIENT_STATE_WAIT_FOR_RESPONSE \<longrightarrow> https_state data' = APP_HTTPS_CLIENT_STATE_WAIT_FOR_RESPONSE"
  shows "advances n before data (log w) data' (log w')"
proof (cases "https_state data")
  case APP_HTTPS_CLIENT_STATE_BEGIN_SEQUENCE
  then show ?thesis using assms(2) run
    by (auto simp: APP_HTTPS_Client_Tasks_def ask_split Let_def advances_def on_course_def url_taken_def intro!: ticks_left_phase)
next
  case APP_HTTPS_CLIENT_STATE_WAIT_FOR_NETWORK
  then show ?thesis using assms(2) run
    by (auto simp: APP_HTTPS_Client_Tasks_def waitForNetworkAvailable_def checkNetworkIsAvailable_def keep_user_def
        advances_def on_course_def url_taken_def intro!: ticks_left_phase)
next
  case APP_HTTPS_CLIENT_STATE_PARSE_REQUEST_URL
  then show ?thesis using parse_advances [OF _ assms(2,3)] run by (auto simp: APP_HTTPS_Client_Tasks_def split: Option.bind_splits)
next
  case APP_HTTPS_CLIENT_STATE_PROCESS_REQUEST
  then show ?thesis using process_advances [OF _ assms(2,1)] run by (auto simp: APP_HTTPS_Client_Tasks_def keep_user_def)
next
  case APP_HTTPS_CLIENT_STATE_WAIT_ON_DNS
  then show ?thesis using dns_advances [OF _ assms(2,1)] run by (auto simp: APP_HTTPS_Client_Tasks_def keep_user_def)
next
  case APP_HTTPS_CLIENT_STATE_START_CONNECTION
  then show ?thesis using open_advances [OF _ assms(2,1)] run by (auto simp: APP_HTTPS_Client_Tasks_def keep_user_def)
next
  case APP_HTTPS_CLIENT_STATE_WAIT_FOR_CONNECTION
  then show ?thesis using connect_advances [OF _ assms(2,1)] run by (auto simp: APP_HTTPS_Client_Tasks_def keep_user_def)
next
  case APP_HTTPS_CLIENT_STATE_WAIT_FOR_SSL_CONNECT
  then show ?thesis using secure_advances [OF _ assms(2,1)] run by (auto simp: APP_HTTPS_Client_Tasks_def keep_user_def)
next
  case APP_HTTPS_CLIENT_STATE_SEND_REQUEST
  then show ?thesis using send_advances [OF _ assms(2,3,1)] run
    by (auto simp: APP_HTTPS_Client_Tasks_def keep_user_def split: Option.bind_splits)
next
  case APP_HTTPS_CLIENT_STATE_WAIT_FOR_RESPONSE
  then show ?thesis using response_advances [OF _ assms(2,1,5)] run assms(6) by (simp add: APP_HTTPS_Client_Tasks_def)
qed (use assms(2) in \<open>simp_all add: on_course_def\<close>)

end
