(* ===== verification/Main_Loop.thy ===== *)
theory Main_Loop
  imports App_Console
begin

text \<open>
  \<open>firmware/src/main.c\<close>: initialization, then Harmony's tasks and the application's tick for ever. What
  Harmony's tasks do to the program is to call its handlers: a line of a console, an event of the USB device.
  Which ones they call is a parameter, asked with the log like everything else of Harmony.
\<close>

section \<open>The loop\<close>

datatype harmony_event =
    Console_Line nat "string list"
  | HID_Event USB_DEVICE_HID_EVENT
  | Device_Event USB_DEVICE_EVENT

fun handle_event :: "harmony \<Rightarrow> harmony_event \<Rightarrow> AppData \<Rightarrow> AppData option" where
  "handle_event env (Console_Line io argv) a = map_option snd (dispatch env (Some io) argv a)"
| "handle_event env (HID_Event e) a =
     (let (d, w) = APP_USB_DeviceHIDEventHandler e (app_usb_hid a, app_world a) in Some (a\<lparr>app_usb_hid := d, app_world := w\<rparr>))"
| "handle_event env (Device_Event e) a =
     (let (d, w) = APP_USB_DeviceEventHandler e (app_usb_hid a, app_world a) in Some (a\<lparr>app_usb_hid := d, app_world := w\<rparr>))"

text \<open>One call of \<open>SYS_Tasks\<close>, which Harmony's configurator generates, as the program sees it.\<close>

primrec harmony_tasks :: "harmony \<Rightarrow> harmony_event list \<Rightarrow> AppData \<Rightarrow> AppData option" where
  "harmony_tasks env [] a = Some a"
| "harmony_tasks env (e # es) a = Option.bind (handle_event env e a) (harmony_tasks env es)"

primrec main_loop :: "harmony \<Rightarrow> AppLayout \<Rightarrow> (io list \<Rightarrow> harmony_event list) \<Rightarrow> nat \<Rightarrow> AppData \<Rightarrow> AppData option" where
  "main_loop env lay events 0 a = Some a"
| "main_loop env lay events (Suc n) a = do {
     a \<leftarrow> harmony_tasks env (events (log (app_world a))) a;
     a \<leftarrow> APP_Tasks_Real env lay a;
     main_loop env lay events n a
   }"

text \<open>\<open>main\<close> up to the end of the \<open>n\<close>-th iteration.\<close>

definition main :: "harmony \<Rightarrow> AppLayout \<Rightarrow> (io list \<Rightarrow> harmony_event list) \<Rightarrow> nat \<Rightarrow> AppData \<Rightarrow> AppData option" where
  "main env lay events n app_data = do {
     app_data \<leftarrow> APP_Initialize_Real env app_data;
     main_loop env lay events n app_data
   }"

section \<open>The task that reads the date\<close>

text \<open>
  The only task that may follow the contents of the clock out of a table is the one that shows the date. No
  line but \<open>rtc date\<close> schedules it.
\<close>

definition no_date :: "AppData \<Rightarrow> bool" where
  "no_date a \<longleftrightarrow> task_callback (app_task a) \<noteq> Some performRTCDateShow"

lemma no_date_frame [simp]:
  "no_date (on_world f a) = no_date a" "no_date (set_fetch d a) = no_date a" "no_date (set_send bs n a) = no_date a"
  "no_date (a\<lparr>app_nixie := x\<rparr>) = no_date a" "no_date (a\<lparr>app_usb_hid := y\<rparr>) = no_date a" "no_date (a\<lparr>app_world := w\<rparr>) = no_date a"
  "no_date (a\<lparr>app_state := st\<rparr>) = no_date a"
  by (simp_all add: no_date_def app_task_def on_world_def set_fetch_def set_send_def)

lemma schedule_no_date: "schedule io t c b = (r, a) \<Longrightarrow> t \<noteq> performRTCDateShow \<Longrightarrow> no_date a"
  by (auto simp: schedule_def no_date_def APP_Command_Task_Schedule_def appCmdTaskSetCallback_def Let_def)

lemma line_rtc_no_date:
  assumes "no_date a" and "APP_Command_RTC (Some io) (name # args) a = Some (r, b)" and "take 1 args \<noteq> [''date'']"
  shows "no_date b"
  using assms
  by (cases args) (auto simp: APP_Command_RTC_def appCmdRTCOscillator_def appCmdRTCDate_def appCmdRTCBattery_def
      appCmdRTCDump_def appCmdRTCRegister_def usage_defs Let_def check_some
      intro: schedule_no_date split: if_splits Option.bind_splits option.splits prod.splits)

lemma line_no_date:
  assumes "no_date a"
  shows "APP_Command_Flash (Some io) argv a = Some (r, b) \<Longrightarrow> no_date b"
    "APP_Command_Fetch (Some io) argv a = Some (r, b) \<Longrightarrow> no_date b"
    "APP_Command_Debug (Some io) argv a = Some (r, b) \<Longrightarrow> no_date b"
    "APP_Command_NTP env (Some io) argv a = Some (r, b) \<Longrightarrow> no_date b"
    "APP_Command_Phy (Some io) argv a = Some (r, b) \<Longrightarrow> no_date b"
    "APP_Command_Power (Some io) argv a = Some (r, b) \<Longrightarrow> no_date b"
  using assms
  by (auto simp: APP_Command_Flash_def appCmdFlashSectors_def appCmdFlashFormat_def APP_Command_Fetch_def appCmdFetch_def
      APP_Command_Debug_def appCmdDebugWolfSSL_def APP_Command_NTP_def appCmdNTPSeconds_def
      APP_Command_Phy_def APP_Command_Power_def appCmdPowerHV_def set_world_def usage_defs Let_def check_some
      intro: schedule_no_date split: if_splits Option.bind_splits option.splits prod.splits)

lemma line_nixie_no_date:
  "no_date a \<Longrightarrow> APP_Command_Nixie (Some io) argv a = Some (r, b) \<Longrightarrow> no_date b"
  by (auto simp: APP_Command_Nixie_def appCmdNixieDisplay_def appCmdNixiePeriodic_def appCmdNixieFetch_def
      usage_defs Let_def check_some intro: schedule_no_date split: if_splits Option.bind_splits option.splits prod.splits)

lemma line_shift_register_no_date:
  "no_date a \<Longrightarrow> APP_Command_ShiftRegister (Some io) argv a = Some (r, b) \<Longrightarrow> no_date b"
  by (auto simp: APP_Command_ShiftRegister_def commandShiftRegisterSetEnabledOrDisabled_def
      commandShiftRegisterSendData_def usage_defs check_some Let_def simp del: min_zz_min
      intro: schedule_no_date split: if_splits Option.bind_splits option.splits prod.splits)


definition harmless :: "harmony_event \<Rightarrow> bool" where
  "harmless e = (case e of
     Console_Line io (name # args) \<Rightarrow> name \<in> fst ` set commands \<and> name \<noteq> ''iwsecurity'' \<and> (name = ''rtc'' \<longrightarrow> take 1 args \<noteq> [''date''])
   | Console_Line io [] \<Rightarrow> False
   | _ \<Rightarrow> True)"

lemma dispatch_no_date:
  assumes "no_date a" and "harmless (Console_Line io argv)" and "dispatch env (Some io) argv a = Some (r, b)"
  shows "no_date b"
proof -
  obtain name args where argv: "argv = name # args" "name \<noteq> ''iwsecurity''" "name = ''rtc'' \<longrightarrow> take 1 args \<noteq> [''date'']"
    using assms(2) by (cases argv) (auto simp: harmless_def)
  obtain f where f: "map_of commands name = Some f" "run_command env f (Some io) argv a = Some (r, b)"
    using assms(3) by (auto simp: dispatch_def argv(1) split: Option.bind_splits)
  then have "f \<noteq> cmdIwsecurity" "f = cmdRTC \<Longrightarrow> name = ''rtc''" using argv(2) by (auto simp: commands_def split: if_splits)
  then show ?thesis using f(2) assms(1) argv(1,3)
    by (cases f) (auto simp: run_command_def intro: line_rtc_no_date line_no_date line_nixie_no_date line_shift_register_no_date)
qed

lemma command_tasks_no_date: "APP_Command_Tasks env lay a = Some b \<Longrightarrow> no_date a \<Longrightarrow> no_date b"
  by (auto simp: APP_Command_Tasks_def APP_Command_Task_Tasks_def no_date_def checkCallbackResult_def appCmdTaskSetCallback_def
      dest!: callback_task split: AppCommandTaskState.splits Option.bind_splits if_splits prod.splits AppCommandTaskCallbackResult.splits)

lemma tick_no_date:
  assumes tick: "APP_Tasks_Real env lay a = Some b" and "no_date a"
  shows "no_date b"
proof (cases "app_state a")
  case APP_STATE_RUN_SERVICES
  obtain c d where c: "run_services env lay a = Some c" "APP_Command_Tasks env lay c = Some d"
    and b: "b = d \<or> b = on_world (tell (IO_Cmd SYS_CMD_READY_TO_READ)) d"
    using tick by (auto simp: run_tick [OF APP_STATE_RUN_SERVICES] split: Option.bind_splits if_splits)
  have "no_date c" using assms(2) run_services_task [OF c(1)] by (simp add: no_date_def)
  from command_tasks_no_date [OF c(2) this] b show ?thesis by auto
qed (use assms in \<open>auto simp: APP_Tasks_Real_def appGreetings_def Let_def\<close>)

section \<open>Property\<close>

definition running :: "AppData \<Rightarrow> bool" where
  "running a \<longleftrightarrow> app_ok a \<and> no_date a"

lemma handled_running:
  assumes "running a" and "harmless e"
  shows "\<exists>b. handle_event env e a = Some b \<and> running b"
proof (cases e)
  case (Console_Line io argv)
  then obtain name args where argv: "argv = name # args" "name \<in> fst ` set commands" "name \<noteq> ''iwsecurity''"
    "name = ''rtc'' \<longrightarrow> take 1 args \<noteq> [''date'']" using assms(2) by (cases argv) (auto simp: harmless_def)
  have "app_ok a" using assms(1) by (simp add: running_def)
  from dispatch_returns [OF this argv(2,3), of args env io] argv(4) obtain r b where b: "dispatch env (Some io) argv a = Some (r, b)"
    using argv(1) by auto
  then have "running b"
    using assms dispatch_ok [OF \<open>app_ok a\<close> b] dispatch_no_date [OF _ _ b] Console_Line by (simp add: running_def)
  with b Console_Line show ?thesis by simp
qed (use assms(1) in \<open>auto simp: running_def split: prod.split\<close>)

lemma tasks_running:
  assumes "running a" and "\<forall>e \<in> set es. harmless e"
  shows "\<exists>b. harmony_tasks env es a = Some b \<and> running b"
  using assms
proof (induction es arbitrary: a)
  case (Cons e es)
  then obtain b where "handle_event env e a = Some b" "running b" using handled_running [of a e env] by auto
  with Cons show ?case by simp
qed simp

lemma tick_running:
  assumes "good_env env" and "running a"
  shows "\<exists>b. APP_Tasks_Real env lay a = Some b \<and> running b"
  using tick_ok [OF assms(1), of a lay] tick_no_date [of env lay a] assms(2) by (auto simp: running_def no_date_def)

lemma loop_running:
  assumes "good_env env" and "\<forall>l. \<forall>e \<in> set (events l). harmless e" and "running a"
  shows "\<exists>b. main_loop env lay events n a = Some b \<and> running b"
  using assms(3)
proof (induction n arbitrary: a)
  case (Suc n)
  obtain b where b: "harmony_tasks env (events (log (app_world a))) a = Some b" "running b"
    using tasks_running [OF Suc.prems] assms(2) by blast
  obtain c where "APP_Tasks_Real env lay b = Some c" "running c" using tick_running [OF assms(1) b(2)] by blast
  with Suc.IH b(1) show ?case by simp
qed simp



text \<open>A console that is used all the time.\<close>

definition sample_events :: "io list \<Rightarrow> harmony_event list" where
  "sample_events l = (if length l mod 2 = 0 then [Console_Line 0 [''nixie'', ''display'', ''1234'']]
     else [Console_Line 1 [''rtc'', ''registers''], Device_Event USB_DEVICE_EVENT_SUSPENDED])"


end
