(* ===== verification/App_Cycle.thy ===== *)
theory App_Cycle
  imports Https_Progress App_Response Main_Loop
begin

text \<open>
  A request of the display from its beginning to the tubes, and the program from power on to the first number
  that it shows: the number of ticks is bounded by the number of polls that the network may leave unanswered. The
  locale \<open>progress\<close> is the argument, a rank that falls with every tick; it is interpreted on the main loop.
\<close>

section \<open>Progress\<close>

text \<open>Ticks that lead to a goal, counted by a rank that falls with every tick.\<close>

locale progress =
  fixes tick :: "'s \<Rightarrow> 's option"
    and run :: "nat \<Rightarrow> 's \<Rightarrow> 's option"
    and inv :: "'x \<Rightarrow> 's \<Rightarrow> bool"
    and goal :: "'x \<Rightarrow> 's \<Rightarrow> bool"
    and rank :: "'s \<Rightarrow> nat"
  assumes run_0: "run 0 s = Some s"
    and run_Suc: "run (Suc n) s = Option.bind (tick s) (run n)"
    and progress: "inv x s \<Longrightarrow> \<exists>t y. tick s = Some t \<and> (goal y t \<or> inv y t \<and> rank t < rank s)"
begin

lemma reaches: "inv x s \<Longrightarrow> \<exists>n t y. n \<le> Suc (rank s) \<and> run n s = Some t \<and> goal y t"
proof (induction "rank s" arbitrary: x s rule: less_induct)
  case less
  from progress [OF less.prems] obtain t y where t: "tick s = Some t" "goal y t \<or> inv y t \<and> rank t < rank s" by blast
  from t(2) show ?case
  proof
    assume "goal y t"
    then show ?thesis using t(1) run_0 run_Suc by (intro exI [of _ "Suc 0"] exI [of _ t] exI [of _ y]) simp
  next
    assume y: "inv y t \<and> rank t < rank s"
    then obtain n u z where "n \<le> Suc (rank t)" "run n t = Some u" "goal z u" using less.hyps [of t y] by blast
    then show ?thesis using t(1) run_Suc y by (intro exI [of _ "Suc n"] exI [of _ u] exI [of _ z]) simp
  qed
qed

end

section \<open>Ticks of the main loop\<close>

lemma cstr_split:
  assumes "cstr xs = s" and "length xs \<noteq> length s"
  obtains rest where "xs = s @ CHR 0x00 # rest"
proof -
  have "xs = s @ dropWhile (\<lambda>c. c \<noteq> CHR 0x00) xs" using assms(1) by (simp add: cstr_def flip: assms(1))
  moreover from this have "dropWhile (\<lambda>c. c \<noteq> CHR 0x00) xs \<noteq> []" using assms(2) by force
  ultimately show thesis using that hd_dropWhile [of "\<lambda>c. c \<noteq> CHR 0x00" xs] by (metis list.collapse)
qed

text \<open>All that the proof looks at in the log.\<close>

definition seen :: "harmony \<Rightarrow> world \<Rightarrow> char list \<times> poll list \<times> char list list" where
  "seen env w = (delivered env w, polls (log w), sent (log w))"

interpretation seen: world_view "seen env" for env
proof unfold_locales
  show "seen env (tell (IO_TCPIP e) w) = seen env w" if "\<forall>host ip. e \<noteq> TCPIP_DNS_IsResolved host ip" for e w
    using that by (cases e) (simp_all add: seen_def)
qed (simp_all add: seen_def delivered.view_tell_assert)

lemma shift_register_unseen: "APP_ShiftRegister_Tasks (d, w) = Some (d', w') \<Longrightarrow> seen env w' = seen env w"
  by (cases "sr_state d") (auto simp: APP_ShiftRegister_Tasks_def transmitBegin_def transmitStep_def transmitFinish_def
      transmitPause_def shift_pins delivered_def seen_def Let_def split: Option.bind_splits if_splits)

lemma ticks_left_seen: "polls l = polls l' \<Longrightarrow> ticks_left n data l = ticks_left n data l'"
  by (simp add: ticks_left_def kept_waiting_def split: option.split)

text \<open>A request under way, \<open>s\<close> being received so far, and its end.\<close>

definition under_way :: "nat \<Rightarrow> harmony \<Rightarrow> char list \<times> char list list \<Rightarrow> char list \<Rightarrow> AppData \<Rightarrow> bool" where
  "under_way n env start s a \<longleftrightarrow> good_env env \<and> healthy n env \<and> awaiting s a \<and>
     on_course (snd start) (app_https_client a) (sent (log (app_world a))) \<and>
     delivered env (app_world a) = fst start @ s"

definition answered :: "harmony \<Rightarrow> char list \<times> char list list \<Rightarrow> char list \<Rightarrow> AppData \<Rightarrow> bool" where
  "answered env start s a \<longleftrightarrow> idle_console a \<and> delivered env (app_world a) = fst start @ s \<and>
     sent (log (app_world a)) = snd start @ [request_text NIXIE_PATH NIXIE_HOST] \<and>
     (nixie_state (app_nixie a) = APP_NIXIE_STATE_BEGIN_DISPLAY_SEQUENCE \<and> found_in s a \<or>
      nixie_state (app_nixie a) \<in> {APP_NIXIE_STATE_IDLE, APP_NIXIE_STATE_BEGIN_HTTP_REQUEST} \<and> memmem s NIXIE_TOKEN = None)"

lemma response_sends_nothing:
  "APP_HTTPS_Client_Tasks env after_url app_call (data, app, w) = Some (data', u, w') \<Longrightarrow>
     https_state data = APP_HTTPS_CLIENT_STATE_WAIT_FOR_RESPONSE \<Longrightarrow> https_callbacks data = nixie_callbacks \<Longrightarrow>
     sent (log w') = sent (log w)"
  by (auto simp: APP_HTTPS_Client_Tasks_def waitForResponse_def ask_split Let_def call_if_def nixie_callbacks_def
      app_call_def call_nixie_def split: Option.bind_splits if_splits)

lemma on_course_simps:
  "on_course before data texts \<Longrightarrow> \<not> quiet_https data \<and> https_state data \<noteq> APP_HTTPS_CLIENT_STATE_ERROR"
  "on_course before data texts \<Longrightarrow> https_state data = APP_HTTPS_CLIENT_STATE_WAIT_FOR_RESPONSE \<Longrightarrow>
     texts = before @ [request_text NIXIE_PATH NIXIE_HOST]"
  by (auto simp: on_course_def quiet_https_def split: AppHTTPSClientState.splits)

text \<open>Only the response takes the display out of its waiting.\<close>

lemma only_response_ends:
  assumes "awaiting s a" and course: "on_course before (app_https_client a) texts" and "app_nixie p = app_nixie a"
    and client: "APP_HTTPS_Client_Tasks env after_url app_call (app_https_client a, p, app_world p) = Some (data, u, w)"
    and "APP_Nixie_Tasks env after (app_nixie u, data, d, v) = Some (app_nixie b, https, sr, v')"
    and "nixie_state (app_nixie b) \<noteq> APP_NIXIE_STATE_WAIT_HTTPS_RESPONSE"
  shows "https_state (app_https_client a) = APP_HTTPS_CLIENT_STATE_WAIT_FOR_RESPONSE"
proof (rule ccontr)
  assume "https_state (app_https_client a) \<noteq> APP_HTTPS_CLIENT_STATE_WAIT_FOR_RESPONSE"
  then have "u = p" using https_silent [OF client] on_course_simps(1) [OF course] by simp
  with assms(1,3,5,6) show False by (simp add: APP_Nixie_Tasks_def awaiting_def)
qed

lemma cycle_tick:
  assumes "under_way n env start s a"
  shows "\<exists>b t. APP_Tasks_Real env lay a = Some b \<and> (answered env start t b \<or> under_way n env start t b \<and>
    ticks_left n (app_https_client b) (log (app_world b)) < ticks_left n (app_https_client a) (log (app_world a)))"
proof -
  have env: "good_env env" "healthy n env" and wait: "awaiting s a" and idle: "idle_console a"
    and course: "on_course (snd start) (app_https_client a) (sent (log (app_world a)))"
    and got: "delivered env (app_world a) = fst start @ s"
    using assms by (simp_all add: under_way_def awaiting_def)
  have sized: "well_sized (app_https_client a)" using idle by (simp add: idle_console_def app_ok_def)
  have cbs: "https_callbacks (app_https_client a) = nixie_callbacks"
    using awaiting_requester [OF wait] on_course_simps(1) [OF course] by blast
  obtain p data u w d v b v' where t: "app_nixie p = app_nixie a" "seen env (app_world p) = seen env (app_world a)"
    "APP_HTTPS_Client_Tasks env (after_request_url lay) app_call (app_https_client a, p, app_world p) = Some (data, u, w)"
    "APP_ShiftRegister_Tasks (app_shift_register a, w) = Some (d, v)"
    "APP_Nixie_Tasks env (after_nixie_request_url lay) (app_nixie u, data, d, v) =
      Some (app_nixie b, app_https_client b, app_shift_register b, v')"
    "APP_Tasks_Real env lay a = Some b" "idle_console b" "seen env (app_world b) = seen env v"
    using seen.client_stages [OF env(1) idle, of env lay] by metis
  have before: "delivered env (app_world p) = delivered env (app_world a)" "polls (log (app_world p)) = polls (log (app_world a))"
    "sent (log (app_world p)) = sent (log (app_world a))" using t(2) by (simp_all add: seen_def)
  have after: "delivered env (app_world b) = delivered env w" "polls (log (app_world b)) = polls (log w)"
    "sent (log (app_world b)) = sent (log w)" using t(8) shift_register_unseen [OF t(4), of env] by (simp_all add: seen_def)
  from response_stages [OF wait t(1,7,3,5)] obtain new where new: "delivered env w = delivered env (app_world p) @ new"
    and cases: "awaiting (s @ new) b \<and> app_https_client b = data \<and>
       (https_state (app_https_client a) = APP_HTTPS_CLIENT_STATE_WAIT_FOR_RESPONSE \<longrightarrow>
          https_state data = APP_HTTPS_CLIENT_STATE_WAIT_FOR_RESPONSE) \<or>
     nixie_state (app_nixie b) = APP_NIXIE_STATE_BEGIN_DISPLAY_SEQUENCE \<and> found_in (s @ new) b \<or>
     nixie_state (app_nixie b) \<in> {APP_NIXIE_STATE_IDLE, APP_NIXIE_STATE_BEGIN_HTTP_REQUEST} \<and> memmem (s @ new) NIXIE_TOKEN = None"
    using on_course_simps(1) [OF course] by blast
  have received: "delivered env (app_world b) = fst start @ (s @ new)" using new before(1) after(1) got by simp
  show ?thesis
  proof (cases "nixie_state (app_nixie b) = APP_NIXIE_STATE_WAIT_HTTPS_RESPONSE")
    case True
    then have still: "awaiting (s @ new) b" "app_https_client b = data"
      "https_state (app_https_client a) = APP_HTTPS_CLIENT_STATE_WAIT_FOR_RESPONSE \<longrightarrow>
          https_state data = APP_HTTPS_CLIENT_STATE_WAIT_FOR_RESPONSE" using cases by auto
    have "on_course (snd start) (app_https_client a) (sent (log (app_world p)))" using course by (simp only: before)
    from https_advances [OF env(2) this sized t(3) cbs still(3)]
    have "on_course (snd start) data (sent (log w))" "ticks_left n data (log w) < ticks_left n (app_https_client a) (log (app_world p))"
      by (simp_all add: advances_def)
    then have "under_way n env start (s @ new) b"
      "ticks_left n (app_https_client b) (log (app_world b)) < ticks_left n (app_https_client a) (log (app_world a))"
      using env still received after ticks_left_seen [OF after(2)] ticks_left_seen [OF before(2)] by (simp_all add: under_way_def)
    then show ?thesis using t(6) by blast
  next
    case False
    then have ended: "nixie_state (app_nixie b) = APP_NIXIE_STATE_BEGIN_DISPLAY_SEQUENCE \<and> found_in (s @ new) b \<or>
     nixie_state (app_nixie b) \<in> {APP_NIXIE_STATE_IDLE, APP_NIXIE_STATE_BEGIN_HTTP_REQUEST} \<and> memmem (s @ new) NIXIE_TOKEN = None"
      using cases by (auto simp: awaiting_def)
    have response: "https_state (app_https_client a) = APP_HTTPS_CLIENT_STATE_WAIT_FOR_RESPONSE"
      using only_response_ends [OF wait course t(1,3,5)] False by blast
    have "sent (log (app_world b)) = snd start @ [request_text NIXIE_PATH NIXIE_HOST]"
      using response_sends_nothing [OF t(3) response cbs] on_course_simps(2) [OF course response] by (simp add: after before)
    then have "answered env start (s @ new) b" using t(7) received ended by (simp add: answered_def)
    then show ?thesis using t(6) by blast
  qed
qed

interpretation cycle: progress "APP_Tasks_Real env lay" "\<lambda>k. app_ticks env lay k" "under_way n env start" "answered env start"
    "\<lambda>a. ticks_left n (app_https_client a) (log (app_world a))"
  for env lay n start
proof unfold_locales
  show "\<exists>b t. APP_Tasks_Real env lay a = Some b \<and> (answered env start t b \<or> under_way n env start t b \<and>
      ticks_left n (app_https_client b) (log (app_world b)) < ticks_left n (app_https_client a) (log (app_world a)))"
    if "under_way n env start s a" for s a
    using that by (rule cycle_tick)
qed simp_all

text \<open>The first two ticks: the display hands its request to the idle client.\<close>

definition about_to_ask :: "AppData \<Rightarrow> bool" where
  "about_to_ask a \<longleftrightarrow> idle_console a \<and> display_value_out (app_nixie a) = None \<and>
     \<not> APP_HTTPS_Client_IsBusy (app_https_client a) \<and> ip_mode_config (app_https_client a) = APP_HTTPS_CLIENT_IP_MODE_IPV4"

lemma idle_client_tick:
  assumes env: "good_env env" and idle: "idle_console a" and client: "\<not> APP_HTTPS_Client_IsBusy (app_https_client a)"
  obtains b d v v' where "APP_Tasks_Real env lay a = Some b" and "idle_console b" and "seen env (app_world b) = seen env (app_world a)"
    and "APP_Nixie_Tasks env (after_nixie_request_url lay) (app_nixie a, app_https_client a, d, v) =
      Some (app_nixie b, app_https_client b, app_shift_register b, v')"
proof -
  obtain p data u w d v b v' where t: "app_nixie p = app_nixie a" "seen env (app_world p) = seen env (app_world a)"
    "APP_HTTPS_Client_Tasks env (after_request_url lay) app_call (app_https_client a, p, app_world p) = Some (data, u, w)"
    "APP_ShiftRegister_Tasks (app_shift_register a, w) = Some (d, v)"
    "APP_Nixie_Tasks env (after_nixie_request_url lay) (app_nixie u, data, d, v) =
      Some (app_nixie b, app_https_client b, app_shift_register b, v')"
    "APP_Tasks_Real env lay a = Some b" "idle_console b" "seen env (app_world b) = seen env v"
    using seen.client_stages [OF env idle, of env lay] by metis
  have "data = app_https_client a" "u = p" "w = app_world p"
    using t(3) client by (auto simp: APP_HTTPS_Client_Tasks_def APP_HTTPS_Client_IsBusy_def)
  then show thesis using that [OF t(6,7), of d v v'] t(1,2,5,8) shift_register_unseen [OF t(4), of env] by simp
qed

lemma request_made:
  assumes env: "good_env env" "healthy n env" and a: "about_to_ask a"
    and first: "nixie_state (app_nixie a) = APP_NIXIE_STATE_BEGIN_HTTP_REQUEST"
  shows "\<exists>b. app_ticks env lay 2 a = Some b \<and> under_way n env (delivered env (app_world a), sent (log (app_world a))) [] b"
proof -
  have idle: "idle_console a" and client: "\<not> APP_HTTPS_Client_IsBusy (app_https_client a)"
    and mode: "ip_mode_config (app_https_client a) = APP_HTTPS_CLIENT_IP_MODE_IPV4"
    and own: "display_value_out (app_nixie a) = None" using a by (simp_all add: about_to_ask_def)
  obtain b d v v' where b: "APP_Tasks_Real env lay a = Some b" "idle_console b" "seen env (app_world b) = seen env (app_world a)"
    "APP_Nixie_Tasks env (after_nixie_request_url lay) (app_nixie a, app_https_client a, d, v) =
      Some (app_nixie b, app_https_client b, app_shift_register b, v')"
    by (rule idle_client_tick [OF env(1) idle client])
  then have b_state: "app_nixie b = (app_nixie a)\<lparr>nixie_state := APP_NIXIE_STATE_WAIT_HTTPS_CLIENT\<rparr>" "app_https_client b = app_https_client a"
    using first by (simp_all add: APP_Nixie_Tasks_def)
  then have client': "\<not> APP_HTTPS_Client_IsBusy (app_https_client b)" using client by simp
  obtain c e x x' where c: "APP_Tasks_Real env lay b = Some c" "idle_console c" "seen env (app_world c) = seen env (app_world b)"
    "APP_Nixie_Tasks env (after_nixie_request_url lay) (app_nixie b, app_https_client b, e, x) =
      Some (app_nixie c, app_https_client c, app_shift_register c, x')"
    by (rule idle_client_tick [OF env(1) b(2) client'])
  have ok: "well_sized (app_https_client b)" "nixie_ok (app_nixie b)" using b(2) by (simp_all add: idle_console_def app_ok_def)
  then have "cstr (nixie_request_url (app_nixie b)) = NIXIE_REQUEST_URL" "length (nixie_request_url (app_nixie b)) \<noteq> length NIXIE_REQUEST_URL"
    by (simp_all add: nixie_ok_def nixie_configured_def nixie_sized_def MAX_URL_def NIXIE_REQUEST_URL_def)
  then obtain rest where "nixie_request_url (app_nixie b) = NIXIE_REQUEST_URL @ CHR 0x00 # rest"
    by (rule cstr_split)
  then have s: "string_at (array_chars (nixie_request_url (app_nixie b)) (after_nixie_request_url lay)) 0 NIXIE_REQUEST_URL"
    using string_at_array_chars [of NIXIE_REQUEST_URL rest] by (simp add: NIXIE_REQUEST_URL_def)
  from request_taken [OF ok(1) client' s, of nixie_callbacks] c(4) b_state
  have made: "app_nixie c = (app_nixie a)\<lparr>is_value_parsed := False, cyclic_buffer_len := 0, nixie_state := APP_NIXIE_STATE_WAIT_HTTPS_RESPONSE\<rparr>"
    "app_https_client c = (app_https_client a)\<lparr>request_url := NIXIE_REQUEST_URL @ CHR 0x00 # drop (Suc (length NIXIE_REQUEST_URL))
      (request_url (app_https_client a)), https_callbacks := nixie_callbacks, https_state := APP_HTTPS_CLIENT_STATE_BEGIN_SEQUENCE\<rparr>"
    using client by (simp_all add: APP_Nixie_Tasks_def waitHttpsClientAndSendRequest_def NIXIE_REQUEST_URL_def MAX_URL_def Let_def)
  have "nixie_ok (app_nixie c)" using c(2) by (simp add: idle_console_def app_ok_def)
  then have "request_begun NIXIE_TOKEN (app_nixie c)" by (simp add: request_begun_def nixie_ok_def nixie_configured_def made(1))
  from received_nothing [OF this] have "awaiting [] c" using c(2) own by (simp add: awaiting_def made(1))
  moreover have "on_course before (app_https_client c) before" for before
    using mode by (simp add: on_course_def url_taken_def made(2))
  moreover have "delivered env (app_world c) = delivered env (app_world a)" "sent (log (app_world c)) = sent (log (app_world a))"
    using b(3) c(3) by (simp_all add: seen_def)
  ultimately have "under_way n env (delivered env (app_world a), sent (log (app_world a))) [] c"
    using env by (simp add: under_way_def)
  then show ?thesis using b(1) c(1) by (simp add: numeral_2_eq_2)
qed

section \<open>Properties\<close>

lemma request_answered:
  assumes "good_env env" and "healthy n env" and "about_to_ask a"
    and "nixie_state (app_nixie a) = APP_NIXIE_STATE_BEGIN_HTTP_REQUEST"
  shows "\<exists>k b s. k \<le> 10 * n + 12 \<and> app_ticks env lay k a = Some b \<and>
    answered env (delivered env (app_world a), sent (log (app_world a))) s b"
proof -
  let ?start = "(delivered env (app_world a), sent (log (app_world a)))"
  obtain b where b: "app_ticks env lay 2 a = Some b" "under_way n env ?start [] b" using request_made [OF assms, of lay] by blast
  obtain k c s where c: "k \<le> Suc (ticks_left n (app_https_client b) (log (app_world b)))" "app_ticks env lay k b = Some c"
    "answered env ?start s c" using cycle.reaches [OF b(2)] by blast
  have "app_ticks env lay (2 + k) a = Some c" using b(1) c(2) unfolding app_ticks_add by simp
  moreover have "2 + k \<le> 10 * n + 12" using c(1) ticks_left_bound [of n "app_https_client b" "log (app_world b)"] by simp
  ultimately show ?thesis using c(3) by blast
qed

text \<open>The tubes show the four characters \<open>v\<close>: the outputs are on, and of the wires of each tube that of its character is.\<close>

definition tubes_show :: "chain \<Rightarrow> char list \<Rightarrow> bool" where
  "tubes_show c v \<longleftrightarrow> \<not> line_en c \<and>
     (\<forall>t < 4. \<forall>(ch, y, k) \<in> set (symbol_wires t). wire_on c (y, k) \<longleftrightarrow> v ! t = ch)"

text \<open>The outcome of a request that received \<open>bytes\<close>, in the state \<open>b\<close> in which the response is complete.\<close>

definition outcome :: "harmony \<Rightarrow> AppLayout \<Rightarrow> chain \<Rightarrow> char list \<Rightarrow> AppData \<Rightarrow> bool" where
  "outcome env lay c bytes b \<longleftrightarrow>
     (case memmem bytes NIXIE_TOKEN of
        None \<Rightarrow> nixie_state (app_nixie b) \<in> {APP_NIXIE_STATE_IDLE, APP_NIXIE_STATE_BEGIN_HTTP_REQUEST}
      | Some p \<Rightarrow> (\<exists>m e. m \<le> 230 \<and> app_ticks env lay m b = Some e \<and>
          tubes_show (chain_of c (app_world e)) (padded (value_of (drop (p + length NIXIE_TOKEN) bytes)))))"

lemma answered_outcome:
  assumes "good_env env" and "answered env start s b"
  shows "outcome env lay c s b"
proof -
  have token: "NIXIE_TOKEN \<noteq> []" by (simp add: NIXIE_TOKEN_def)
  from assms(2) consider "idle_console b" "nixie_state (app_nixie b) = APP_NIXIE_STATE_BEGIN_DISPLAY_SEQUENCE" "found_in s b"
    | "nixie_state (app_nixie b) \<in> {APP_NIXIE_STATE_IDLE, APP_NIXIE_STATE_BEGIN_HTTP_REQUEST}" "memmem s NIXIE_TOKEN = None"
    by (auto simp: answered_def)
  then show ?thesis
  proof cases
    case 1
    then obtain p m e where e: "first_occurrence s NIXIE_TOKEN p" "m \<le> 230" "app_ticks env lay m b = Some e"
      "tubes_show (chain_of c (app_world e)) (padded (value_of (drop (p + length NIXIE_TOKEN) s)))"
      unfolding tubes_show_def using found_shown [OF assms(1), of b s lay c] by blast
    have "memmem s NIXIE_TOKEN = Some p" using e(1) token by (simp add: first_occurrence_memmem)
    then show ?thesis using e(2-4) by (auto simp: outcome_def)
  qed (simp add: outcome_def)
qed

text \<open>
  C3: The periodic request of the display ends well on a network that does: from its beginning, with the
  HTTPS client and the console idle, on a network that lets the client poll fewer than \<open>n\<close> times in a row and does
  not fail, the client has sent one text, the GET request for the configured page, and the response is complete,
  after at most \<open>10 n + 12\<close> ticks of the main loop. If the bytes that the socket delivered meanwhile contain the
  token, the tubes show the number behind it within 230 ticks more; if not, the display is ready for the next request.
\<close>

theorem request_reaches_tubes:
  assumes "\<forall>l. num_networks (net env) l \<le> 2"
    and "\<forall>l. length (socket_read (pres env) l) \<le> HTTPS_CLIENT_NETWORK_BUFFER_SIZE"
    and "healthy n env" and "app_ok a" and "app_state a = APP_STATE_RUN_SERVICES" and "\<not> APP_Command_IsBusy a"
    and "nixie_state (app_nixie a) = APP_NIXIE_STATE_BEGIN_HTTP_REQUEST" and "display_value_out (app_nixie a) = None"
    and "\<not> APP_HTTPS_Client_IsBusy (app_https_client a)" and "ip_mode_config (app_https_client a) = APP_HTTPS_CLIENT_IP_MODE_IPV4"
  shows "\<exists>k b bytes. k \<le> 10 * n + 12 \<and> app_ticks env lay k a = Some b \<and>
    received env [] (log (app_world b)) = received env [] (log (app_world a)) @ bytes \<and>
    sent (log (app_world b)) = sent (log (app_world a)) @ [request_text NIXIE_PATH NIXIE_HOST] \<and>
    outcome env lay c bytes b"
proof -
  have env: "good_env env" using assms(1,2) by (simp add: good_env_def)
  have "about_to_ask a" using assms(4-6,8-10) by (simp add: about_to_ask_def idle_console_def)
  from request_answered [OF env assms(3) this assms(7), of lay] obtain k b s where b: "k \<le> 10 * n + 12" "app_ticks env lay k a = Some b"
    "answered env (delivered env (app_world a), sent (log (app_world a))) s b" by blast
  from answered_outcome [OF env b(3), of lay c] b show ?thesis
    by (intro exI [of _ k] exI [of _ b] exI [of _ s]) (simp add: answered_def delivered_def)
qed

section \<open>From power on\<close>

lemma greetings_seen: "seen env (app_world (appGreetings a)) = seen env (app_world a)"
  by (simp add: appGreetings_def on_world_def seen_def delivered_def Let_def pin_Off_def)

lemma periodic_begins:
  assumes ready: "starts_idle data" and net: "\<forall>l. 0 < num_networks (net env) l \<and> net_is_ready (net env) l"
    and run: "performPeriodicTasks env (data\<lparr>task_from_periodic := False\<rparr>, w) = (data', w')"
  shows "nixie_state data' = APP_NIXIE_STATE_BEGIN_HTTP_REQUEST \<and> display_value_out data' = None"
proof -
  have "fst (any_net_ready env [0..<Suc k] w)" for k w
    using net by (simp add: upt_conv_Cons ask_split Let_def del: upt_Suc)
  then have "fst (any_net_ready env [0..<k] w)" if "0 < k" for k w using that by (metis Suc_pred)
  then have "fst (APP_Network_hasUsableInterface env w)" for w
    using net by (simp add: APP_Network_hasUsableInterface_def ask_split Let_def)
  then have "nixie_state (fst (performPeriodicTasks env (data\<lparr>task_from_periodic := False\<rparr>, w))) = APP_NIXIE_STATE_BEGIN_HTTP_REQUEST \<and>
      display_value_out (fst (performPeriodicTasks env (data\<lparr>task_from_periodic := False\<rparr>, w))) = None"
    using ready by (simp add: starts_idle_def performPeriodicTasks_def schedulePeriodicTask_def APP_Nixie_IsBusy_def ask_split
        Let_def split_beta)
  with run show ?thesis by simp
qed

lemma first_request:
  assumes env: "good_env env" and net: "\<forall>l. 0 < num_networks (net env) l \<and> net_is_ready (net env) l"
    and idle: "idle_console a" "\<not> APP_HTTPS_Client_IsBusy (app_https_client a)" and ready: "starts_idle (app_nixie a)"
  obtains b where "APP_Tasks_Real env lay a = Some b" and "idle_console b" and "seen env (app_world b) = seen env (app_world a)"
    and "app_https_client b = app_https_client a" and "nixie_state (app_nixie b) = APP_NIXIE_STATE_BEGIN_HTTP_REQUEST"
    and "display_value_out (app_nixie b) = None"
proof -
  obtain b d v v' where b: "APP_Tasks_Real env lay a = Some b" "idle_console b" "seen env (app_world b) = seen env (app_world a)"
    "APP_Nixie_Tasks env (after_nixie_request_url lay) (app_nixie a, app_https_client a, d, v) =
      Some (app_nixie b, app_https_client b, app_shift_register b, v')"
    by (rule idle_client_tick [OF env idle])
  have "nixie_state (app_nixie b) = APP_NIXIE_STATE_BEGIN_HTTP_REQUEST \<and> display_value_out (app_nixie b) = None \<and>
    app_https_client b = app_https_client a"
    using periodic_begins [OF ready net, of v] b(4) ready by (auto simp: APP_Nixie_Tasks_def starts_idle_def split: prod.splits)
  with b(1-3) show thesis using that by blast
qed

text \<open>A main loop that nobody disturbs.\<close>

definition undisturbed :: "io list \<Rightarrow> harmony_event list" where
  "undisturbed l = []"

lemma undisturbed_loop: "main_loop env lay undisturbed k a = app_ticks env lay k a"
  by (induction k arbitrary: a) (simp_all add: undisturbed_def)

text \<open>
  C2: From power on to the tubes: \<open>main\<close> initializes, and if the network is up and does not fail, the first
  request is sent and its response complete after at most \<open>10 n + 14\<close> iterations of its loop, and the number in
  the response is on the tubes within 230 more, without anybody typing anything.
\<close>

theorem power_on_reaches_tubes:
  assumes "\<forall>l. 0 < num_networks (net env) l \<and> num_networks (net env) l \<le> 2 \<and> net_is_ready (net env) l"
    and "\<forall>l. length (socket_read (pres env) l) \<le> HTTPS_CLIENT_NETWORK_BUFFER_SIZE"
    and "healthy n env" and "allocated app_data"
  shows "\<exists>a k b bytes. main env lay undisturbed 0 app_data = Some a \<and>
    k \<le> 10 * n + 14 \<and> main env lay undisturbed k app_data = Some b \<and>
    received env [] (log (app_world b)) = received env [] (log (app_world a)) @ bytes \<and>
    sent (log (app_world b)) = sent (log (app_world a)) @ [request_text NIXIE_PATH NIXIE_HOST] \<and>
    outcome env lay c bytes b"
proof -
  have env: "good_env env" using assms(1,2) by (simp add: good_env_def)
  obtain a where a: "APP_Initialize_Real env app_data = Some a" "app_ok a" "\<not> APP_Command_IsBusy a" "app_state a = APP_STATE_GREETINGS"
    "\<not> APP_HTTPS_Client_IsBusy (app_https_client a)" "ip_mode_config (app_https_client a) = APP_HTTPS_CLIENT_IP_MODE_IPV4"
    "starts_idle (app_nixie a)" using initialize_ok [OF assms(4), of env] by blast
  let ?g = "appGreetings a"
  have g: "APP_Tasks_Real env lay a = Some ?g" using a(4) by (simp add: APP_Tasks_Real_def)
  have same: "app_https_client ?g = app_https_client a" "app_nixie ?g = app_nixie a" "app_task ?g = app_task a"
    "app_state ?g = APP_STATE_RUN_SERVICES" by (simp_all add: appGreetings_def on_world_def app_task_def Let_def)
  have "app_ok ?g" using tick_ok [OF env a(2), of lay] g initialize_ok a(3) by (auto simp: appGreetings_def Let_def)
  then have "idle_console ?g" using a(3) same by (simp add: idle_console_def APP_Command_IsBusy_def)
  then obtain b where b: "APP_Tasks_Real env lay ?g = Some b" "idle_console b" "seen env (app_world b) = seen env (app_world ?g)"
    "app_https_client b = app_https_client a" "nixie_state (app_nixie b) = APP_NIXIE_STATE_BEGIN_HTTP_REQUEST"
    "display_value_out (app_nixie b) = None"
    using first_request [OF env, of ?g lay] assms(1) a(5,7) same by metis
  have "about_to_ask b" using a(5,6) b(2,4,6) by (simp add: about_to_ask_def)
  from request_answered [OF env assms(3) this b(5), of lay] obtain k e s where e: "k \<le> 10 * n + 12" "app_ticks env lay k b = Some e"
    "answered env (delivered env (app_world b), sent (log (app_world b))) s e" by blast
  have "delivered env (app_world b) = delivered env (app_world a)" "sent (log (app_world b)) = sent (log (app_world a))"
    using b(3) greetings_seen [of env a] by (simp_all add: seen_def)
  moreover have "main env lay undisturbed (Suc (Suc k)) app_data = Some e"
    using a(1) g b(1) e(2) unfolding main_def undisturbed_loop by simp
  moreover have "main env lay undisturbed 0 app_data = Some a" using a(1) by (simp add: main_def)
  moreover have "Suc (Suc k) \<le> 10 * n + 14" using e(1) by simp
  moreover have "received env [] (log (app_world e)) = delivered env (app_world b) @ s"
    "sent (log (app_world e)) = sent (log (app_world b)) @ [request_text NIXIE_PATH NIXIE_HOST]"
    using e(3) by (simp_all add: answered_def delivered_def)
  ultimately show ?thesis using answered_outcome [OF env e(3), of lay c] by (metis delivered_def)
qed

section \<open>A sample\<close>

text \<open>A network that lets the client poll once in vain, and a server that sends one page and closes the connection.\<close>

definition written_length :: "io list \<Rightarrow> nat" where
  "written_length l = (case last l of IO_Pres (NET_PRES_SocketWrite s text) \<Rightarrow> length text | _ \<Rightarrow> 0)"

definition serving_harmony :: harmony where
  "serving_harmony = sample_harmony\<lparr>
     dns := (dns sample_harmony)\<lparr>dns_is_resolved := \<lambda>l. if 2 \<le> kept_waiting Poll_DNS l then TCPIP_DNS_RES_OK else TCPIP_DNS_RES_PENDING\<rparr>,
     pres := (pres sample_harmony)\<lparr>socket_is_connected := \<lambda>l. 2 \<le> kept_waiting Poll_Connected l,
       socket_is_negotiating := \<lambda>l. kept_waiting Poll_Negotiating l < 2,
       socket_write := \<lambda>l. of_nat (written_length l),
       socket_read_ready := \<lambda>l. if 2 \<le> kept_waiting Poll_Response l then 0 else 16, socket_read := \<lambda>_. page,
       socket_was_reset := \<lambda>l. 2 \<le> kept_waiting Poll_Response l\<rparr>\<rparr>"

lemma serving_healthy: "healthy 2 serving_harmony"
  by (simp add: healthy_def serving_harmony_def sample_harmony_def written_length_def unat_of_nat https_sizes)

lemma serving_bounds: "\<forall>l. 0 < num_networks (net serving_harmony) l \<and> num_networks (net serving_harmony) l \<le> 2 \<and> net_is_ready (net serving_harmony) l"
  "\<forall>l. num_networks (net serving_harmony) l \<le> 2"
  "\<forall>l. length (socket_read (pres serving_harmony) l) \<le> HTTPS_CLIENT_NETWORK_BUFFER_SIZE"
  by (simp_all add: serving_harmony_def sample_harmony_def page_def https_sizes)

lemma power_on_reaches_tubes_witness:
  "\<exists>k b bytes. k \<le> 34 \<and> main serving_harmony sample_layout undisturbed k sample_app = Some b \<and>
     request_text ''/maniphest/project/2/type/Bug/query/open/'' ''developer.blender.org'' \<in> set (sent (log (app_world b))) \<and>
     outcome serving_harmony sample_layout sample_chain bytes b"
proof -
  obtain a :: AppData and k b bytes where "k \<le> 10 * 2 + 14" "main serving_harmony sample_layout undisturbed k sample_app = Some b"
    "sent (log (app_world b)) = sent (log (app_world a)) @ [request_text NIXIE_PATH NIXIE_HOST]"
    "outcome serving_harmony sample_layout sample_chain bytes b"
    using power_on_reaches_tubes [OF serving_bounds(1,3) serving_healthy sample_allocated, of sample_layout sample_chain] by blast
  then show ?thesis by (intro exI [of _ k] exI [of _ b] exI [of _ bytes]) (simp add: NIXIE_PATH_def NIXIE_HOST_def)
qed

lemma request_reaches_tubes_witness:
  "\<exists>a k b bytes. app_ok a \<and> k \<le> 32 \<and> app_ticks serving_harmony sample_layout k a = Some b \<and>
     received serving_harmony [] (log (app_world b)) = received serving_harmony [] (log (app_world a)) @ bytes \<and>
     outcome serving_harmony sample_layout sample_chain bytes b"
proof -
  obtain i where i: "app_ok i" "\<not> APP_Command_IsBusy i" "\<not> APP_HTTPS_Client_IsBusy (app_https_client i)"
    "ip_mode_config (app_https_client i) = APP_HTTPS_CLIENT_IP_MODE_IPV4" "starts_idle (app_nixie i)"
    using initialize_ok [OF sample_allocated, of sample_harmony] by blast
  let ?a = "i\<lparr>app_state := APP_STATE_RUN_SERVICES\<rparr>"
  have env: "good_env serving_harmony" using serving_bounds by (simp add: good_env_def)
  have "idle_console ?a" using i(1,2) by (simp add: idle_console_def APP_Command_IsBusy_def app_task_def)
  then obtain b where b: "idle_console b" "app_https_client b = app_https_client i"
    "nixie_state (app_nixie b) = APP_NIXIE_STATE_BEGIN_HTTP_REQUEST" "display_value_out (app_nixie b) = None"
    using first_request [OF env, of ?a sample_layout] serving_bounds(1) i(3,5) by auto
  then have "app_ok b" "app_state b = APP_STATE_RUN_SERVICES" "\<not> APP_Command_IsBusy b" by (simp_all add: idle_console_def)
  note state = this b(3,4) i(3,4) [folded b(2)]
  from request_reaches_tubes [OF serving_bounds(2,3) serving_healthy state, of sample_layout sample_chain] state(1)
  show ?thesis by auto
qed

end
