(* ===== verification/Rtc_Proofs.thy ===== *)
theory Rtc_Proofs
  imports Rtc_Mcp7940n
begin

text \<open>
  What the RTC driver does to the chip. A BCD field of a register is an instance of the locale
  \<open>register_field\<close>: a value up to the field's maximum survives encoding and decoding, and the
  other bits of the register are kept. On a bus that completes every transfer (\<open>bus_works\<close>,
  with a chip that answers from its registers) each call is a sequence of transfers that ends
  with the driver idle after one or two ticks; \<open>chip_registers\<close> replays the writes of the
  log, so the properties speak of the registers of the chip before and after the call.
\<close>

section \<open>BCD fields of the registers\<close>

lemma u8_table:
  fixes v :: u8
  assumes "\<forall>n \<in> set [0..<k]. P (of_nat n)" and "unat v < k"
  shows "P v"
proof -
  have "unat v \<in> set [0..<k]" using assms(2) by simp
  then have "P (of_nat (unat v))" using assms(1) by blast
  then show ?thesis by simp
qed

lemma bcd_table:
  "\<forall>n \<in> set [0..<160]. convertFromBCD (convertToBCD (of_nat n)) = of_nat n"
  by code_simp

lemma convertFromBCD_convertToBCD:
  assumes "d \<le> 159"
  shows "convertFromBCD (convertToBCD d) = d"
proof (rule u8_table [where P = "\<lambda>d. convertFromBCD (convertToBCD d) = d", OF bcd_table])
  show "unat d < 160" using assms by (simp add: word_le_nat_alt)
qed

locale register_field =
  fixes mask max_value :: u8
  assumes bcd_in_mask: "v \<le> max_value \<Longrightarrow> convertToBCD v AND mask = convertToBCD v"
    and max_value_digits: "max_value \<le> 159"
begin

lemma decode_encode:
  assumes "v \<le> max_value"
  shows "convertFromBCD (((old AND NOT mask) OR convertToBCD v) AND mask) = v"
proof -
  have "((old AND NOT mask) OR convertToBCD v) AND mask = convertToBCD v AND mask"
    by (rule bit_word_eqI) (auto simp: bit_simps)
  with assms show ?thesis
    using max_value_digits by (simp add: bcd_in_mask convertFromBCD_convertToBCD)
qed

lemma encode_keeps:
  assumes "v \<le> max_value"
  shows "((old AND NOT mask) OR convertToBCD v) AND NOT mask = old AND NOT mask"
proof -
  have "((old AND NOT mask) OR (convertToBCD v AND mask)) AND NOT mask = old AND NOT mask"
    by (rule bit_word_eqI) (auto simp: bit_simps)
  with assms show ?thesis by (simp add: bcd_in_mask)
qed

end

lemma bcd_mask_tables:
  "\<forall>n \<in> set [0..<80]. convertToBCD (of_nat n) AND 0x7f = convertToBCD (of_nat n)"
  "\<forall>n \<in> set [0..<40]. convertToBCD (of_nat n) AND 0x3f = convertToBCD (of_nat n)"
  "\<forall>n \<in> set [0..<8]. convertToBCD (of_nat n) AND 0x7 = convertToBCD (of_nat n)"
  "\<forall>n \<in> set [0..<10]. convertToBCD (of_nat n) AND 0xf = convertToBCD (of_nat n)"
  by code_simp+

interpretation minute_field: register_field "0x7f" "79"
proof
  show "convertToBCD v AND 0x7f = convertToBCD v" if "v \<le> 79" for v
    by (rule u8_table [where P = "\<lambda>v. convertToBCD v AND _ = convertToBCD v", OF bcd_mask_tables(1)])
      (use that in \<open>simp add: word_le_nat_alt\<close>)
qed simp

interpretation hour_field: register_field "0x3f" "39"
proof
  show "convertToBCD v AND 0x3f = convertToBCD v" if "v \<le> 39" for v
    by (rule u8_table [where P = "\<lambda>v. convertToBCD v AND _ = convertToBCD v", OF bcd_mask_tables(2)])
      (use that in \<open>simp add: word_le_nat_alt\<close>)
qed simp

interpretation day_of_week_field: register_field "0x7" "7"
proof
  show "convertToBCD v AND 0x7 = convertToBCD v" if "v \<le> 7" for v
    by (rule u8_table [where P = "\<lambda>v. convertToBCD v AND _ = convertToBCD v", OF bcd_mask_tables(3)])
      (use that in \<open>simp add: word_le_nat_alt\<close>)
qed simp

interpretation month_field: register_field "0xf" "9"
proof
  show "convertToBCD v AND 0xf = convertToBCD v" if "v \<le> 9" for v
    by (rule u8_table [where P = "\<lambda>v. convertToBCD v AND _ = convertToBCD v", OF bcd_mask_tables(4)])
      (use that in \<open>simp add: word_le_nat_alt\<close>)
qed simp

interpretation year_field: register_field "0xff" "159"
proof
  have "(0xff :: u8) = - 1" by simp
  then show "convertToBCD v AND 0xff = convertToBCD v" for v
    by (simp only: and.right_neutral)
qed simp

definition encodable :: "RTC_MCP7940N_DateTime \<Rightarrow> bool" where
  "encodable t \<longleftrightarrow> seconds t \<le> 79 \<and> minutes t \<le> 79 \<and> hours t \<le> 39 \<and> day_of_week t \<le> 7
     \<and> day t \<le> 39 \<and> month t \<le> 9 \<and> year t \<le> 159"

lemma date_time_roundtrip:
  assumes "encodable t"
  shows "date_time_of_registers (tl (registers_of_date_time reg t)) = t"
  using assms
    minute_field.decode_encode hour_field.decode_encode day_of_week_field.decode_encode
    month_field.decode_encode year_field.decode_encode
  by (simp add: encodable_def date_time_of_registers_def registers_of_date_time_def)


lemma rtc_idle_tick: "\<not> RTC_MCP7940N_IsBusy rtc \<Longrightarrow> RTC_MCP7940N_Tasks env (rtc, w) = (rtc, w)"
  by (auto simp: RTC_MCP7940N_IsBusy_def RTC_MCP7940N_Tasks_def split: RTC_MCP7940N_State.splits)

lemma transferStatusGet_simp:
  "i2c_transferStatusGet env rtc w =
     (let poll = IO_I2C (DRV_I2C_TransferStatusGet (i2c_handle rtc) (i2c_buffer_handle rtc));
          l = log w @ [poll]
      in (i2c_status env l, fold (\<lambda>(p, bs). poke p bs) (i2c_received env l) (tell poll w)))"
  by (simp add: i2c_transferStatusGet_def ask_split Let_def)

lemma log_fold_poke [simp]: "log (fold (\<lambda>(p, bs). poke p bs) xs w) = log w"
  by (induction xs arbitrary: w) auto




section \<open>A working bus\<close>

definition is_receive :: "io \<Rightarrow> bool" where
  "is_receive e = (case e of IO_I2C (DRV_I2C_TransmitThenReceive _ _ _ _ _) \<Rightarrow> True | _ \<Rightarrow> False)"

definition is_transfer :: "io \<Rightarrow> bool" where
  "is_transfer e = (case e of IO_I2C (DRV_I2C_TransmitThenReceive _ _ _ _ _) \<Rightarrow> True
     | IO_I2C (DRV_I2C_Transmit _ _ _) \<Rightarrow> True | _ \<Rightarrow> False)"

abbreviation transfers :: "world \<Rightarrow> io list" where
  "transfers w \<equiv> filter is_transfer (log w)"

text \<open>No reception is outstanding: the last call was not one.\<close>

definition quiet :: "world \<Rightarrow> bool" where
  "quiet w \<longleftrightarrow> (log w = [] \<or> \<not> is_receive (last (log w)))"

text \<open>
  The bus accepts every transfer, reports it complete at the next poll, and stores what the chip
  answered (\<open>answer\<close>, from the transfers before and the bytes sent) when that poll follows a
  reception.
\<close>

definition bus_works :: "i2c_env \<Rightarrow> (io list \<Rightarrow> u8 list \<Rightarrow> nat \<Rightarrow> u8 list) \<Rightarrow> bool" where
  "bus_works env answer \<longleftrightarrow>
     (\<forall>l. i2c_transmit_handle env l \<noteq> None) \<and>
     (\<forall>l. i2c_status env l = DRV_I2C_BUFFER_EVENT_COMPLETE) \<and>
     (\<forall>l h a tx rx n h' b.
        i2c_received env (l @ [IO_I2C (DRV_I2C_TransmitThenReceive h a tx rx n),
                               IO_I2C (DRV_I2C_TransferStatusGet h' b)])
        = [(rx, answer (filter is_transfer l) tx n)]) \<and>
     (\<forall>l h b. l = [] \<or> \<not> is_receive (last l) \<longrightarrow>
        i2c_received env (l @ [IO_I2C (DRV_I2C_TransferStatusGet h b)]) = [])"

lemma is_transfer_simps [simp]:
  "is_transfer (IO_I2C (DRV_I2C_TransmitThenReceive h a tx rx n))"
  "is_transfer (IO_I2C (DRV_I2C_Transmit h a tx))"
  "\<not> is_transfer (IO_I2C (DRV_I2C_TransferStatusGet h b))"
  "\<not> is_receive (IO_I2C (DRV_I2C_Transmit h a tx))"
  "\<not> is_receive (IO_I2C (DRV_I2C_TransferStatusGet h b))"
  "is_receive (IO_I2C (DRV_I2C_TransmitThenReceive h a tx rx n))"
  by (simp_all add: is_transfer_def is_receive_def)

lemma poll_quiet:
  assumes "bus_works env answer" and "quiet w"
  shows "i2c_transferStatusGet env rtc w = (DRV_I2C_BUFFER_EVENT_COMPLETE,
    tell (IO_I2C (DRV_I2C_TransferStatusGet (i2c_handle rtc) (i2c_buffer_handle rtc))) w)"
proof -
  have "i2c_received env (log w @ [IO_I2C (DRV_I2C_TransferStatusGet h b)]) = []" for h b
    using assms unfolding bus_works_def quiet_def by blast
  moreover have "i2c_status env l = DRV_I2C_BUFFER_EVENT_COMPLETE" for l
    using assms(1) unfolding bus_works_def by blast
  ultimately show ?thesis by (simp add: transferStatusGet_simp Let_def)
qed

lemma poll_received:
  assumes "bus_works env answer" and "log w = l @ [IO_I2C (DRV_I2C_TransmitThenReceive h a tx rx n)]"
  shows "i2c_transferStatusGet env rtc w = (DRV_I2C_BUFFER_EVENT_COMPLETE,
    poke rx (answer (filter is_transfer l) tx n)
      (tell (IO_I2C (DRV_I2C_TransferStatusGet (i2c_handle rtc) (i2c_buffer_handle rtc))) w))"
  using assms by (simp add: transferStatusGet_simp Let_def bus_works_def)

lemma quiet_poll [simp]: "quiet (tell (IO_I2C (DRV_I2C_TransferStatusGet h b)) w)"
  by (simp add: quiet_def)

lemma quiet_transmit [simp]: "quiet (tell (IO_I2C (DRV_I2C_Transmit h a tx)) w)"
  by (simp add: quiet_def)

lemma quiet_poke [simp]: "quiet (poke p bs w) = quiet w"
  by (simp add: quiet_def)

lemma ready_quiet:
  assumes "bus_works env answer" and "quiet w"
  obtains w' where "i2c_checkReadyForTransmit env rtc w = (True, w')" and "mem w' = mem w"
    and "transfers w' = transfers w" and "quiet w'"
  using assms that poll_quiet [OF assms]
  by (cases "i2c_buffer_handle rtc = None") (auto simp: i2c_checkReadyForTransmit_def)

lemma transmit_works:
  assumes "bus_works env answer" and "quiet w"
  obtains b w' where
    "i2c_transmit env rtc tb n w =
       (True, rtc\<lparr>i2c_buffer_handle := b, rtc_state := RTC_MCP7940N_STATE_I2C_STAUS_CHECK\<rparr>, w')"
    and "mem w' = mem w" and "quiet w'"
    and "transfers w' = transfers w @
       [IO_I2C (DRV_I2C_Transmit (i2c_handle rtc) 0xde (load_bytes (mem w) tb n))]"
proof -
  obtain w1 where w1: "i2c_checkReadyForTransmit env rtc w = (True, w1)" "mem w1 = mem w"
    "transfers w1 = transfers w" "quiet w1"
    using ready_quiet [OF assms] .
  have "i2c_transmit_handle env l \<noteq> None" for l
    using assms(1) by (simp add: bus_works_def)
  with w1 that show ?thesis
    by (simp add: i2c_transmit_def ask_split Let_def)
qed

lemma receive_works:
  assumes "bus_works env answer" and "quiet w"
  obtains b w' l where
    "i2c_transmitThenReceive env rtc tb n rb m w =
       (True, rtc\<lparr>i2c_buffer_handle := b, rtc_state := RTC_MCP7940N_STATE_I2C_STAUS_CHECK\<rparr>, w')"
    and "mem w' = mem w"
    and "log w' = l @ [IO_I2C (DRV_I2C_TransmitThenReceive (i2c_handle rtc) 0xde
       (load_bytes (mem w) tb n) rb m)]"
    and "filter is_transfer l = transfers w"
proof -
  obtain w1 where w1: "i2c_checkReadyForTransmit env rtc w = (True, w1)" "mem w1 = mem w"
    "transfers w1 = transfers w" "quiet w1"
    using ready_quiet [OF assms] .
  have "i2c_transmit_handle env l \<noteq> None" for l
    using assms(1) by (simp add: bus_works_def)
  with w1 that show ?thesis
    by (simp add: i2c_transmitThenReceive_def ask_split Let_def)
qed

section \<open>The chip\<close>

text \<open>The registers of the chip after a sequence of transfers: a write starts at the address sent first.\<close>

fun chip_registers :: "u8 list \<Rightarrow> io list \<Rightarrow> u8 list" where
  "chip_registers regs [] = regs"
| "chip_registers regs (IO_I2C (DRV_I2C_Transmit h a (r # bs)) # ts) =
     chip_registers (take (unat r) regs @ bs @ drop (unat r + length bs) regs) ts"
| "chip_registers regs (_ # ts) = chip_registers regs ts"

definition chip_answer :: "u8 list \<Rightarrow> io list \<Rightarrow> u8 list \<Rightarrow> nat \<Rightarrow> u8 list" where
  "chip_answer regs ts tx n = take n (drop (unat (hd tx)) (chip_registers regs ts))"

lemma chip_registers_append [simp]:
  "chip_registers regs (xs @ ys) = chip_registers (chip_registers regs xs) ys"
  by (induction regs xs rule: chip_registers.induct) auto

lemma chip_registers_transmit [simp]:
  "chip_registers regs [IO_I2C (DRV_I2C_Transmit h a (r # bs))] =
     take (unat r) regs @ bs @ drop (unat r + length bs) regs"
  by simp

definition works_env :: "(io list \<Rightarrow> u8 list \<Rightarrow> nat \<Rightarrow> u8 list) \<Rightarrow> i2c_env" where
  "works_env answer = \<lparr>i2c_open = (\<lambda>_. Some 1), i2c_transmit_handle = (\<lambda>_. Some 1),
     i2c_status = (\<lambda>_. DRV_I2C_BUFFER_EVENT_COMPLETE),
     i2c_received = (\<lambda>l. if butlast l \<noteq> [] then
       (case last (butlast l) of
          IO_I2C (DRV_I2C_TransmitThenReceive h a tx rx n) \<Rightarrow>
            [(rx, answer (filter is_transfer (butlast (butlast l))) tx n)]
        | _ \<Rightarrow> []) else [])\<rparr>"

lemma bus_works_works_env: "bus_works (works_env answer) answer"
  by (auto simp: bus_works_def works_env_def is_receive_def butlast_append
      split: io.splits i2c_io.splits)

lemma complete_tick:
  assumes "bus_works env answer" and "rtc_state rtc = RTC_MCP7940N_STATE_I2C_STAUS_CHECK"
    and "next_task rtc = RTC_MCP7940N_TASK_NONE" and "quiet w"
  shows "RTC_MCP7940N_Tasks env (rtc, w) = (rtc\<lparr>rtc_state := RTC_MCP7940N_STATE_NONE\<rparr>,
    tell (IO_I2C (DRV_I2C_TransferStatusGet (i2c_handle rtc) (i2c_buffer_handle rtc))) w)"
  using assms by (simp add: RTC_MCP7940N_Tasks_def i2c_taskCheckStatus_def poll_quiet)

lemma load_bytes_1 [simp]: "load_bytes m p (Suc 0) = [m p]"
  by (simp add: load_bytes_def)

lemma load_bytes_2 [simp]: "load_bytes m p 2 = [m p, m (Suc p)]"
  by (simp add: load_bytes_def upt_conv_Cons)

lemma receive_completes:
  assumes bus: "bus_works env answer" and q: "quiet w"
  obtains b w1 wp where
    "i2c_transmitReadRegister env rtc tb rb m w =
       (True, rtc\<lparr>i2c_buffer_handle := b, rtc_state := RTC_MCP7940N_STATE_I2C_STAUS_CHECK\<rparr>, w1)"
    and "\<And>rtc. i2c_transferStatusGet env rtc w1 =
       (DRV_I2C_BUFFER_EVENT_COMPLETE, poke rb (answer (transfers w) [mem w tb] m) (wp rtc))"
    and "\<And>rtc. mem (wp rtc) = mem w" and "\<And>rtc. quiet (wp rtc)"
    and "\<And>rtc'. transfers (wp rtc') = transfers w @
       [IO_I2C (DRV_I2C_TransmitThenReceive (i2c_handle rtc) 0xde [mem w tb] rb m)]"
proof -
  obtain b w1 l where r:
    "i2c_transmitThenReceive env rtc tb 1 rb m w =
       (True, rtc\<lparr>i2c_buffer_handle := b, rtc_state := RTC_MCP7940N_STATE_I2C_STAUS_CHECK\<rparr>, w1)"
    and "mem w1 = mem w"
    and l: "log w1 = l @ [IO_I2C (DRV_I2C_TransmitThenReceive (i2c_handle rtc) 0xde
       (load_bytes (mem w) tb 1) rb m)]"
    and "filter is_transfer l = transfers w"
    using receive_works [OF bus q] .
  then show ?thesis
    using that [of b w1 "\<lambda>rtc. tell (IO_I2C (DRV_I2C_TransferStatusGet (i2c_handle rtc)
      (i2c_buffer_handle rtc))) w1"] poll_received [OF bus l]
    by (simp add: i2c_transmitReadRegister_def)
qed

text \<open>A transmission started by a task, and the tick that finds it complete.\<close>

lemma transmit_completes:
  assumes bus: "bus_works env answer" and q: "quiet w" and h: "i2c_handle rtc = h"
  obtains b w' where
    "i2c_transmit env rtc tb n w =
       (True, rtc\<lparr>i2c_buffer_handle := b, rtc_state := RTC_MCP7940N_STATE_I2C_STAUS_CHECK\<rparr>, w')"
    and "\<And>rtc. rtc_state rtc = RTC_MCP7940N_STATE_I2C_STAUS_CHECK \<Longrightarrow>
       next_task rtc = RTC_MCP7940N_TASK_NONE \<Longrightarrow>
       \<exists>w''. RTC_MCP7940N_Tasks env (rtc, w') = (rtc\<lparr>rtc_state := RTC_MCP7940N_STATE_NONE\<rparr>, w'') \<and>
         mem w'' = mem w \<and> quiet w'' \<and> transfers w'' = transfers w @
           [IO_I2C (DRV_I2C_Transmit h 0xde (load_bytes (mem w) tb n))]"
proof -
  obtain b w' where
    "i2c_transmit env rtc tb n w =
       (True, rtc\<lparr>i2c_buffer_handle := b, rtc_state := RTC_MCP7940N_STATE_I2C_STAUS_CHECK\<rparr>, w')"
    "mem w' = mem w" "quiet w'" "transfers w' = transfers w @
       [IO_I2C (DRV_I2C_Transmit (i2c_handle rtc) 0xde (load_bytes (mem w) tb n))]"
    using transmit_works [OF bus q] .
  then show ?thesis
    using that complete_tick [OF bus _ _ \<open>quiet w'\<close>] h by simp
qed


text \<open>Ticks of the task function.\<close>

definition ticks :: "i2c_env \<Rightarrow> nat \<Rightarrow> RTC_MCP7940N \<times> world \<Rightarrow> RTC_MCP7940N \<times> world" where
  "ticks env n = (RTC_MCP7940N_Tasks env ^^ n)"

lemma ticks_1: "ticks env 1 s = RTC_MCP7940N_Tasks env s"
  by (simp add: ticks_def)

lemma ticks_2: "ticks env 2 s = RTC_MCP7940N_Tasks env (RTC_MCP7940N_Tasks env s)"
  by (simp add: ticks_def numeral_2_eq_2)

text \<open>What a finished call has done: the driver is idle and these transfers were made.\<close>

definition finished :: "RTC_MCP7940N \<times> world \<Rightarrow> io list \<Rightarrow> bool" where
  "finished s ts \<longleftrightarrow> rtc_state (fst s) = RTC_MCP7940N_STATE_NONE \<and>
     next_task (fst s) = RTC_MCP7940N_TASK_NONE \<and> quiet (snd s) \<and> transfers (snd s) = ts"

abbreviation received :: "RTC_MCP7940N \<Rightarrow> u8 \<Rightarrow> nat \<Rightarrow> nat \<Rightarrow> io" where
  "received rtc r p n \<equiv> IO_I2C (DRV_I2C_TransmitThenReceive (i2c_handle rtc) 0xde [r] p n)"

abbreviation sent :: "RTC_MCP7940N \<Rightarrow> u8 list \<Rightarrow> io" where
  "sent rtc bs \<equiv> IO_I2C (DRV_I2C_Transmit (i2c_handle rtc) 0xde bs)"

text \<open>What a tick does once the poll reports the transfer complete.\<close>

definition finish_task :: "i2c_env \<Rightarrow> RTC_MCP7940N \<times> world \<Rightarrow> RTC_MCP7940N \<times> world" where
  "finish_task env = (\<lambda>(rtc, w). case next_task rtc of
     RTC_MCP7940N_TASK_NONE \<Rightarrow> (rtc\<lparr>rtc_state := RTC_MCP7940N_STATE_NONE\<rparr>, w)
   | RTC_MCP7940N_TASK_OSCILLATOR_UPDATE_ENABLE \<Rightarrow> task_oscillator_enableOrDisable env (rtc, w)
   | RTC_MCP7940N_TASK_OSCILLATOR_UPDATE_DISABLE \<Rightarrow> task_oscillator_enableOrDisable env (rtc, w)
   | RTC_MCP7940N_TASK_OSCILLATOR_UPDATE_STATUS \<Rightarrow> task_oscillator_postStatusReceive (rtc, w)
   | RTC_MCP7940N_TASK_BATTERY_UPDATE_ENABLE \<Rightarrow> task_battery_enableOrDisable env (rtc, w)
   | RTC_MCP7940N_TASK_BATTERY_UPDATE_DISABLE \<Rightarrow> task_battery_enableOrDisable env (rtc, w)
   | RTC_MCP7940N_TASK_BATTERY_UPDATE_STATUS \<Rightarrow>
       task_battery_postStatusReceive (rtc\<lparr>next_task := RTC_MCP7940N_TASK_NONE\<rparr>, w)
   | RTC_MCP7940N_TASK_DATE_TIME_CONVERT_BCD \<Rightarrow> task_datetime_convertFromBCD (rtc, w)
   | RTC_MCP7940N_TASK_DATE_TIME_UPDATE_AND_TRANSMIT \<Rightarrow> task_datetime_convertToBCDAndTransmit env (rtc, w))"

lemma tick_complete:
  "rtc_state rtc = RTC_MCP7940N_STATE_I2C_STAUS_CHECK \<Longrightarrow>
   i2c_transferStatusGet env rtc w = (DRV_I2C_BUFFER_EVENT_COMPLETE, w') \<Longrightarrow>
   RTC_MCP7940N_Tasks env (rtc, w) = finish_task env (rtc, w')"
  by (simp add: RTC_MCP7940N_Tasks_def i2c_taskCheckStatus_def finish_task_def)

text \<open>A call that starts with a reception; the rest of it is \<open>finish_task\<close>.\<close>

lemma reception:
  assumes bus: "bus_works env answer" and q: "quiet w"
    and call: "call = (let (_, rtc, w) = i2c_transmitReadRegister env rtc tb rb m w in (rtc, w))"
  obtains b wp where
    "RTC_MCP7940N_Tasks env call = finish_task env
       (rtc\<lparr>i2c_buffer_handle := b, rtc_state := RTC_MCP7940N_STATE_I2C_STAUS_CHECK\<rparr>, wp)"
    and "mem wp = store_bytes rb (answer (transfers w) [mem w tb] m) (mem w)" and "quiet wp"
    and "transfers wp = transfers w @ [received rtc (mem w tb) rb m]"
proof -
  obtain b w1 wp where
    "i2c_transmitReadRegister env rtc tb rb m w =
       (True, rtc\<lparr>i2c_buffer_handle := b, rtc_state := RTC_MCP7940N_STATE_I2C_STAUS_CHECK\<rparr>, w1)"
    and "\<And>rtc. i2c_transferStatusGet env rtc w1 =
       (DRV_I2C_BUFFER_EVENT_COMPLETE, poke rb (answer (transfers w) [mem w tb] m) (wp rtc))"
    and "\<And>rtc. mem (wp rtc) = mem w" and "\<And>rtc. quiet (wp rtc)"
    and "\<And>rtc'. transfers (wp rtc') = transfers w @ [received rtc (mem w tb) rb m]"
    using receive_completes [OF bus q, where rtc = rtc and tb = tb and rb = rb and m = m] by auto
  then show ?thesis
    using that by (simp add: call tick_complete)
qed

text \<open>A task that ends with a transmission, and the tick after it.\<close>

lemma transmission:
  assumes bus: "bus_works env answer" and q: "quiet w"
    and body: "s = (let (_, rtc, w) = i2c_transmit env rtc tb n w
                    in (rtc\<lparr>next_task := RTC_MCP7940N_TASK_NONE\<rparr>, w))"
  shows "finished (RTC_MCP7940N_Tasks env s) (transfers w @ [sent rtc (load_bytes (mem w) tb n)])"
proof -
  obtain b w' where
    "i2c_transmit env rtc tb n w =
       (True, rtc\<lparr>i2c_buffer_handle := b, rtc_state := RTC_MCP7940N_STATE_I2C_STAUS_CHECK\<rparr>, w')"
    and tick: "\<And>rtc'. rtc_state rtc' = RTC_MCP7940N_STATE_I2C_STAUS_CHECK \<Longrightarrow>
       next_task rtc' = RTC_MCP7940N_TASK_NONE \<Longrightarrow>
       \<exists>w''. RTC_MCP7940N_Tasks env (rtc', w') = (rtc'\<lparr>rtc_state := RTC_MCP7940N_STATE_NONE\<rparr>, w'') \<and>
         mem w'' = mem w \<and> quiet w'' \<and> transfers w'' = transfers w @
           [sent rtc (load_bytes (mem w) tb n)]"
    using transmit_completes [OF bus q, where rtc = rtc and h = "i2c_handle rtc" and tb = tb and n = n] by auto
  then have s: "s = (rtc\<lparr>i2c_buffer_handle := b, rtc_state := RTC_MCP7940N_STATE_I2C_STAUS_CHECK,
      next_task := RTC_MCP7940N_TASK_NONE\<rparr>, w')"
    by (simp add: body)
  show ?thesis unfolding s
    using tick [of "rtc\<lparr>i2c_buffer_handle := b, rtc_state := RTC_MCP7940N_STATE_I2C_STAUS_CHECK,
      next_task := RTC_MCP7940N_TASK_NONE\<rparr>"] by (auto simp: finished_def)
qed

lemma enable_oscillator_transaction:
  assumes bus: "bus_works env answer" and q: "quiet w"
    and ans: "answer (transfers w) [0] 1 = [v]"
  shows "finished (ticks env 2 (RTC_MCP7940N_EnableOscillator env enable (rtc, w)))
    (transfers w @ [received rtc 0 (rtc_private rtc) 1,
       sent rtc [0, if enable then v OR 0x80 else v AND NOT 0x80]])"
proof -
  let ?p = "rtc_private rtc"
  let ?rtc = "rtc\<lparr>next_task := if enable then RTC_MCP7940N_TASK_OSCILLATOR_UPDATE_ENABLE
    else RTC_MCP7940N_TASK_OSCILLATOR_UPDATE_DISABLE\<rparr>"
  let ?w = "poke (Suc ?p) [0] w" and ?reg = "if enable then v OR 0x80 else v AND NOT 0x80"
  have addr: "mem ?w (Suc ?p) = 0" by (simp add: store_bytes_def)
  obtain b wp where tick: "RTC_MCP7940N_Tasks env (RTC_MCP7940N_EnableOscillator env enable (rtc, w)) =
      finish_task env (?rtc\<lparr>i2c_buffer_handle := b, rtc_state := RTC_MCP7940N_STATE_I2C_STAUS_CHECK\<rparr>, wp)"
    and wp: "mem wp = store_bytes ?p (answer (transfers ?w) [0] 1) (mem ?w)" "quiet wp"
      "transfers wp = transfers ?w @ [received ?rtc 0 ?p 1]"
    by (rule reception [OF bus, of ?w "RTC_MCP7940N_EnableOscillator env enable (rtc, w)"
          ?rtc "Suc ?p" ?p 1, unfolded addr])
      (use q in \<open>auto simp: RTC_MCP7940N_EnableOscillator_def\<close>)
  let ?rtc1 = "?rtc\<lparr>i2c_buffer_handle := b, rtc_state := RTC_MCP7940N_STATE_I2C_STAUS_CHECK\<rparr>"
  have "mem wp ?p = v" using wp(1) ans by (simp add: store_bytes_def)
  then have "finish_task env (?rtc1, wp) = (let (_, rtc, w) = i2c_transmit env ?rtc1 (Suc ?p) 2
      (poke (Suc ?p) [0, ?reg] wp) in (rtc\<lparr>next_task := RTC_MCP7940N_TASK_NONE\<rparr>, w))"
    by (simp add: finish_task_def task_oscillator_enableOrDisable_def
        i2c_transmitUpdateSingleRegister_def)
  from transmission [OF bus _ this] wp(2,3) show ?thesis
    by (simp add: ticks_2 tick store_bytes_def)
qed

lemma enable_battery_transaction:
  assumes bus: "bus_works env answer" and q: "quiet w"
    and ans: "answer (transfers w) [3] 1 = [v]"
  shows "finished (ticks env 2 (RTC_MCP7940N_EnableBatteryBackup env enable (rtc, w)))
    (transfers w @ [received rtc 3 (rtc_private rtc) 1,
       sent rtc [3, if enable then v OR 0x08 else v AND NOT 0x08]])"
proof -
  let ?p = "rtc_private rtc"
  let ?rtc = "rtc\<lparr>next_task := if enable then RTC_MCP7940N_TASK_BATTERY_UPDATE_ENABLE
    else RTC_MCP7940N_TASK_BATTERY_UPDATE_DISABLE\<rparr>"
  let ?w = "poke (Suc ?p) [3] w" and ?reg = "if enable then v OR 0x08 else v AND NOT 0x08"
  have addr: "mem ?w (Suc ?p) = 3" by (simp add: store_bytes_def)
  obtain b wp where tick: "RTC_MCP7940N_Tasks env (RTC_MCP7940N_EnableBatteryBackup env enable (rtc, w)) =
      finish_task env (?rtc\<lparr>i2c_buffer_handle := b, rtc_state := RTC_MCP7940N_STATE_I2C_STAUS_CHECK\<rparr>, wp)"
    and wp: "mem wp = store_bytes ?p (answer (transfers ?w) [3] 1) (mem ?w)" "quiet wp"
      "transfers wp = transfers ?w @ [received ?rtc 3 ?p 1]"
    by (rule reception [OF bus, of ?w "RTC_MCP7940N_EnableBatteryBackup env enable (rtc, w)"
          ?rtc "Suc ?p" ?p 1, unfolded addr])
      (use q in \<open>auto simp: RTC_MCP7940N_EnableBatteryBackup_def\<close>)
  let ?rtc1 = "?rtc\<lparr>i2c_buffer_handle := b, rtc_state := RTC_MCP7940N_STATE_I2C_STAUS_CHECK\<rparr>"
  have "mem wp ?p = v" using wp(1) ans by (simp add: store_bytes_def)
  then have "finish_task env (?rtc1, wp) = (let (_, rtc, w) = i2c_transmit env ?rtc1 (Suc ?p) 2
      (poke (Suc ?p) [3, ?reg] wp) in (rtc\<lparr>next_task := RTC_MCP7940N_TASK_NONE\<rparr>, w))"
    by (simp add: finish_task_def task_battery_enableOrDisable_def
        i2c_transmitUpdateSingleRegister_def)
  from transmission [OF bus _ this] wp(2,3) show ?thesis
    by (simp add: ticks_2 tick store_bytes_def)
qed

lemma load_bytes_Suc: "load_bytes m p (Suc n) = m p # load_bytes m (Suc p) n"
  by (rule nth_equalityI) (auto simp: nth_Cons')

lemma bytes_of_date_time_inverse [simp]: "date_time_of_bytes (bytes_of_date_time t) = t"
  by (simp add: date_time_of_bytes_def bytes_of_date_time_def)

lemma length_bytes_of_date_time [simp]: "length (bytes_of_date_time t) = 7"
  by (simp add: bytes_of_date_time_def)

lemma length_registers_of_date_time [simp]: "length (registers_of_date_time reg t) = 8"
  by (simp add: registers_of_date_time_def)

lemma registers_of_date_time_tl: "registers_of_date_time (x # bs) t = registers_of_date_time (0 # bs) t"
  by (simp add: registers_of_date_time_def)

lemma write_date_transaction:
  assumes bus: "bus_works env answer" and q: "quiet w"
    and ans: "length (answer (transfers w) [0] 7) = 7"
  shows "finished (ticks env 2 (RTC_MCP7940N_WriteDateAndTime env p (rtc, w)))
    (transfers w @ [received rtc 0 (rtc_private rtc + 1) 7,
       sent rtc (registers_of_date_time (0 # answer (transfers w) [0] 7)
         (date_time_of_bytes (load_bytes (mem w) p 7)))])"
proof -
  let ?p = "rtc_private rtc" and ?regs = "answer (transfers w) [0] 7"
  let ?date = "load_bytes (mem w) p 7"
  let ?rtc = "rtc\<lparr>next_task := RTC_MCP7940N_TASK_DATE_TIME_UPDATE_AND_TRANSMIT\<rparr>"
  let ?w = "poke ?p [0] (poke (?p + 8) ?date w)"
  have addr: "mem ?w ?p = 0" by (simp add: store_bytes_def)
  obtain b wp where tick: "RTC_MCP7940N_Tasks env (RTC_MCP7940N_WriteDateAndTime env p (rtc, w)) =
      finish_task env (?rtc\<lparr>i2c_buffer_handle := b, rtc_state := RTC_MCP7940N_STATE_I2C_STAUS_CHECK\<rparr>, wp)"
    and wp: "mem wp = store_bytes (?p + 1) ?regs (mem ?w)" "quiet wp"
      "transfers wp = transfers ?w @ [received ?rtc 0 (?p + 1) 7]"
    by (rule reception [OF bus, of ?w "RTC_MCP7940N_WriteDateAndTime env p (rtc, w)"
          ?rtc ?p "?p + 1" 7, unfolded addr])
      (use q in \<open>auto simp: RTC_MCP7940N_WriteDateAndTime_def RTC_MCP7940N_ReadNumRegisters_def
        sizeof_DateTime_def Let_def\<close>)
  let ?rtc1 = "?rtc\<lparr>i2c_buffer_handle := b, rtc_state := RTC_MCP7940N_STATE_I2C_STAUS_CHECK\<rparr>"
  have date: "load_bytes (mem wp) (?p + 8) 7 = ?date"
    by (simp add: wp(1) load_store_disjoint load_store_same ans)
  have "load_bytes (mem wp) (Suc ?p) 7 = ?regs"
    using ans by (simp add: wp(1) load_store_same)
  then have regs: "load_bytes (mem wp) ?p 8 = mem wp ?p # ?regs"
    by (simp add: load_bytes_Suc [of _ _ 7, simplified])
  let ?new = "registers_of_date_time (0 # ?regs) (date_time_of_bytes ?date)"
  have "finish_task env (?rtc1, wp) = (let (_, rtc, w) = i2c_transmit env ?rtc1 ?p 8
      (poke ?p ?new wp) in (rtc\<lparr>next_task := RTC_MCP7940N_TASK_NONE\<rparr>, w))"
    using date regs
    by (simp add: finish_task_def task_datetime_convertToBCDAndTransmit_def sizeof_DateTime_def
        registers_of_date_time_tl [of "mem wp _"] Let_def)
  from transmission [OF bus _ this] wp(2,3) show ?thesis
    by (simp add: ticks_2 tick load_store_same)
qed

lemma read_date_transaction:
  assumes bus: "bus_works env answer" and q: "quiet w"
    and ans: "length (answer (transfers w) [0] 7) = 7"
    and apart: "p + 7 \<le> rtc_private rtc \<or> rtc_private rtc + 4 \<le> p" and p: "p < 2 ^ 32"
  shows "finished (ticks env 1 (RTC_MCP7940N_ReadDateAndTime env p (rtc, w)))
      (transfers w @ [received rtc 0 p 7]) \<and>
    load_bytes (mem (snd (ticks env 1 (RTC_MCP7940N_ReadDateAndTime env p (rtc, w))))) p 7 =
      bytes_of_date_time (date_time_of_registers (answer (transfers w) [0] 7))"
proof -
  let ?p = "rtc_private rtc" and ?regs = "answer (transfers w) [0] 7"
  let ?rtc = "rtc\<lparr>next_task := RTC_MCP7940N_TASK_DATE_TIME_CONVERT_BCD\<rparr>"
  let ?w0 = "poke (?p + 4) [0] w"
  let ?w = "?w0\<lparr>mem := store_ptr ?p p (mem ?w0)\<rparr>"
  have addr: "mem ?w (?p + 4) = 0" by (simp add: store_bytes_def store_ptr_def)
  have qw: "quiet ?w" using q by (simp add: quiet_def)
  obtain b wp where tick: "RTC_MCP7940N_Tasks env (RTC_MCP7940N_ReadDateAndTime env p (rtc, w)) =
      finish_task env (?rtc\<lparr>i2c_buffer_handle := b, rtc_state := RTC_MCP7940N_STATE_I2C_STAUS_CHECK\<rparr>, wp)"
    and wp: "mem wp = store_bytes p ?regs (mem ?w)" "quiet wp"
      "transfers wp = transfers w @ [received ?rtc 0 p 7]"
    by (rule reception [OF bus qw, of "RTC_MCP7940N_ReadDateAndTime env p (rtc, w)"
          ?rtc "?p + 4" p 7, unfolded addr])
      (auto simp: RTC_MCP7940N_ReadDateAndTime_def sizeof_DateTime_def Let_def)
  have "load_ptr (mem wp) ?p = p"
    using apart ans p by (auto simp: wp(1) load_ptr_store_disjoint load_store_ptr)
  moreover have "load_bytes (mem wp) p 7 = ?regs"
    using ans by (simp add: wp(1) load_store_same)
  ultimately show ?thesis using wp(2,3)
    by (simp add: ticks_1 [unfolded One_nat_def] tick finish_task_def task_datetime_convertFromBCD_def finished_def
        sizeof_DateTime_def load_store_same)
qed


section \<open>A sample chip and date\<close>

definition sample_date :: RTC_MCP7940N_DateTime where
  "sample_date = \<lparr>seconds = 56, minutes = 34, hours = 12, day_of_week = 3, day = 21, month = 9,
     year = 17\<rparr>"

definition sample_registers :: "u8 list" where
  "sample_registers = 0x80 # replicate 31 0x08"

definition sample_rtc :: RTC_MCP7940N where
  "sample_rtc = \<lparr>rtc_state = RTC_MCP7940N_STATE_NONE, next_task = RTC_MCP7940N_TASK_NONE,
     i2c_handle = Some 1, i2c_buffer_handle = None, rtc_private = 100\<rparr>"

definition sample_world :: world where
  "sample_world = \<lparr>log = [], mem = store_bytes 200 (bytes_of_date_time sample_date) (\<lambda>_. 0)\<rparr>"

abbreviation sample_env :: i2c_env where
  "sample_env \<equiv> works_env (chip_answer sample_registers)"

lemma sample_facts:
  "quiet sample_world" "length (chip_registers sample_registers (transfers sample_world)) = 32"
  "load_bytes (mem sample_world) 200 7 = bytes_of_date_time sample_date" "encodable sample_date"
  by (simp_all add: sample_world_def quiet_def sample_registers_def load_store_same
      encodable_def sample_date_def)

section \<open>Properties\<close>

text \<open>The bits of the first seven registers that do not belong to the date and time.\<close>

definition control_bits :: "u8 list \<Rightarrow> u8 list" where
  "control_bits regs = map2 (\<lambda>r mask. r AND NOT mask) regs [0x7f, 0x7f, 0x3f, 0x7, 0x3f, 0xf, 0xff]"

lemma registers_keep_control_bits:
  assumes "encodable t" and "length regs = 7"
  shows "control_bits (tl (registers_of_date_time (a # regs) t)) = control_bits regs"
proof -
  obtain r0 r1 r2 r3 r4 r5 r6 where "regs = [r0, r1, r2, r3, r4, r5, r6]"
    using assms(2) by (auto simp: length_Suc_conv numeral_eq_Suc)
  then show ?thesis using assms(1)
      minute_field.encode_keeps hour_field.encode_keeps day_of_week_field.encode_keeps
      month_field.encode_keeps year_field.encode_keeps
    by (simp add: control_bits_def registers_of_date_time_def encodable_def)
qed

lemma chip_after_write:
  "length bs = n \<Longrightarrow> n \<le> length (chip_registers regs ts) \<Longrightarrow>
   chip_registers regs (ts @ [received rtc r p m, sent rtc (0 # bs)]) =
     bs @ drop n (chip_registers regs ts)"
  by simp



lemma chip_after_register_write:
  "Suc 0 + unat r \<le> length (chip_registers regs ts) \<Longrightarrow>
   chip_registers regs (ts @ [received rtc r' p m, sent rtc [r, v]]) =
     (chip_registers regs ts)[unat r := v]"
  by (simp add: upd_conv_take_nth_drop)

text \<open>
  \<open>RTC_MCP7940N_EnableOscillator\<close> and two ticks change exactly bit 7 of register 0 of the
  chip, to the requested value, and leave the driver idle.
\<close>

theorem rtc_enable_oscillator_sets_bit:
  assumes "bus_works env (chip_answer regs)" and "quiet w"
    and "length (chip_registers regs (transfers w)) = 32"
  shows "let s = ticks env 2 (RTC_MCP7940N_EnableOscillator env enable (rtc, w));
             before = chip_registers regs (transfers w)
    in rtc_state (fst s) = RTC_MCP7940N_STATE_NONE \<and> next_task (fst s) = RTC_MCP7940N_TASK_NONE \<and>
       chip_registers regs (transfers (snd s)) =
         before[0 := if enable then before ! 0 OR 0x80 else before ! 0 AND NOT 0x80]"
proof -
  let ?s = "ticks env 2 (RTC_MCP7940N_EnableOscillator env enable (rtc, w))"
  let ?before = "chip_registers regs (transfers w)"
  have "chip_answer regs (transfers w) [0] 1 = [?before ! 0]"
    using assms(3) by (cases ?before) (auto simp: chip_answer_def)
  note fin = enable_oscillator_transaction [OF assms(1,2) this, of enable rtc]
  have after: "transfers (snd ?s) = transfers w @ [received rtc 0 (rtc_private rtc) 1,
      sent rtc [0, if enable then ?before ! 0 OR 0x80 else ?before ! 0 AND NOT 0x80]]"
    and idle: "rtc_state (fst ?s) = RTC_MCP7940N_STATE_NONE" "next_task (fst ?s) = RTC_MCP7940N_TASK_NONE"
    using fin by (simp_all add: finished_def)
  show ?thesis
    unfolding Let_def after
    using idle chip_after_register_write [of 0 regs "transfers w"] assms(3) by simp
qed

lemma rtc_enable_oscillator_sets_bit_witness:
  "let s = ticks sample_env 2 (RTC_MCP7940N_EnableOscillator sample_env False (sample_rtc, sample_world));
       before = chip_registers sample_registers (transfers sample_world)
   in rtc_state (fst s) = RTC_MCP7940N_STATE_NONE \<and> next_task (fst s) = RTC_MCP7940N_TASK_NONE \<and>
      chip_registers sample_registers (transfers (snd s)) = before[0 := before ! 0 AND NOT 0x80]"
  using rtc_enable_oscillator_sets_bit [OF bus_works_works_env sample_facts(1,2), where enable = False]
  by (simp only: if_False)

text \<open>
  \<open>RTC_MCP7940N_EnableBatteryBackup\<close> and two ticks change exactly bit 3 of register 3 of the
  chip, to the requested value, and leave the driver idle.
\<close>

theorem rtc_enable_battery_sets_bit:
  assumes "bus_works env (chip_answer regs)" and "quiet w"
    and "length (chip_registers regs (transfers w)) = 32"
  shows "let s = ticks env 2 (RTC_MCP7940N_EnableBatteryBackup env enable (rtc, w));
             before = chip_registers regs (transfers w)
    in rtc_state (fst s) = RTC_MCP7940N_STATE_NONE \<and> next_task (fst s) = RTC_MCP7940N_TASK_NONE \<and>
       chip_registers regs (transfers (snd s)) =
         before[3 := if enable then before ! 3 OR 0x08 else before ! 3 AND NOT 0x08]"
proof -
  let ?s = "ticks env 2 (RTC_MCP7940N_EnableBatteryBackup env enable (rtc, w))"
  let ?before = "chip_registers regs (transfers w)"
  have "chip_answer regs (transfers w) [3] 1 = [?before ! 3]"
    using assms(3) by (simp add: chip_answer_def take_Suc_conv_app_nth hd_drop_conv_nth take_Suc)
  note fin = enable_battery_transaction [OF assms(1,2) this, of enable rtc]
  have after: "transfers (snd ?s) = transfers w @ [received rtc 3 (rtc_private rtc) 1,
      sent rtc [3, if enable then ?before ! 3 OR 0x08 else ?before ! 3 AND NOT 0x08]]"
    and idle: "rtc_state (fst ?s) = RTC_MCP7940N_STATE_NONE" "next_task (fst ?s) = RTC_MCP7940N_TASK_NONE"
    using fin by (simp_all add: finished_def)
  show ?thesis
    unfolding Let_def after
    using idle chip_after_register_write [of 3 regs "transfers w"] assms(3) by simp
qed

lemma rtc_enable_battery_sets_bit_witness:
  "let s = ticks sample_env 2 (RTC_MCP7940N_EnableBatteryBackup sample_env False (sample_rtc, sample_world));
       before = chip_registers sample_registers (transfers sample_world)
   in rtc_state (fst s) = RTC_MCP7940N_STATE_NONE \<and> next_task (fst s) = RTC_MCP7940N_TASK_NONE \<and>
      chip_registers sample_registers (transfers (snd s)) = before[3 := before ! 3 AND NOT 0x08]"
  using rtc_enable_battery_sets_bit [OF bus_works_works_env sample_facts(1,2), where enable = False]
  by (simp only: if_False)

text \<open>A failed call leaves its task behind.\<close>

lemma i2c_error_keeps_task:
  assumes "rtc_state rtc = RTC_MCP7940N_STATE_I2C_STAUS_CHECK"
    and "\<And>l. i2c_status env l = DRV_I2C_BUFFER_EVENT_ERROR"
  shows "fst (RTC_MCP7940N_Tasks env (rtc, w)) = rtc\<lparr>rtc_state := RTC_MCP7940N_STATE_ERROR\<rparr>"
  using assms by (simp add: RTC_MCP7940N_Tasks_def i2c_taskCheckStatus_def transferStatusGet_simp Let_def)






text \<open>
  The months from October on are not kept: whatever the register held, a date written with
  month 10, 11 or 12 is read back as month 0, 1 or 2, because the mask of the month field has
  four bits and the BCD code five.
\<close>

theorem rtc_late_months_read_back_wrong:
  assumes "month t \<in> {10, 11, 12}"
  shows "month (date_time_of_registers (tl (registers_of_date_time reg t))) = month t - 10"
proof -
  have "convertToBCD (month t) AND 0xf = month t - 10 \<and> convertFromBCD (month t - 10) = month t - 10"
    using assms by (auto simp: convertToBCD_def convertFromBCD_def)
  moreover have "((r AND NOT 0xf) OR v) AND 0xf = v AND 0xf" for r v :: u8
    by (rule bit_word_eqI) (auto simp: bit_simps)
  ultimately show ?thesis by (simp add: date_time_of_registers_def registers_of_date_time_def)
qed

lemma rtc_late_months_read_back_wrong_witness:
  "month (date_time_of_registers (tl (registers_of_date_time sample_registers
     (sample_date\<lparr>month := 11\<rparr>)))) = 1"
  using rtc_late_months_read_back_wrong [of "sample_date\<lparr>month := 11\<rparr>" sample_registers] by simp

end
