(* ===== verification/Rtc_Dates.thy ===== *)
theory Rtc_Dates
  imports App_Command_Rtc Rtc_Proofs
begin

text \<open>
  The dates of the \<open>rtc date\<close> line: what \<open>dateDecode\<close> accepts, and what the registers of the
  clock keep of it.
\<close>

section \<open>Names\<close>

lemma name_index_range:
  assumes "name_index name names i = k" and "0 \<le> k" and "0 \<le> i"
  shows "i \<le> k \<and> k < i + int (length names) \<and> names ! nat (k - i) = name"
  using assms
proof (induction name names i rule: name_index.induct)
  case (2 name n ns i)
  show ?case
  proof (cases "n = name")
    case False
    with 2 have "i + 1 \<le> k \<and> k < i + 1 + int (length ns) \<and> ns ! nat (k - (i + 1)) = name" by simp
    moreover have "nat (k - i) = Suc (nat (k - (i + 1)))" if "i + 1 \<le> k" using that by simp
    ultimately show ?thesis by auto
  qed (use 2 in auto)
qed simp

lemma unat_uint8: "0 \<le> i \<Longrightarrow> i < 256 \<Longrightarrow> unat (uint8_of_int i) = nat i"
  by (simp add: uint8_of_int_def unat_eq_nat_uint uint_word_of_int)

lemma uint8_le: "0 \<le> i \<Longrightarrow> i \<le> j \<Longrightarrow> j < 256 \<Longrightarrow> uint8_of_int i \<le> uint8_of_int j"
  by (simp add: word_le_nat_alt unat_uint8 nat_mono)

lemma name_found:
  assumes "\<not> name_index name names 0 < 0" and "length names < 256"
  shows "unat (uint8_of_int (name_index name names 0)) < length names \<and>
    names ! unat (uint8_of_int (name_index name names 0)) = name"
proof -
  let ?k = "name_index name names 0"
  have k: "0 \<le> ?k" "?k < int (length names)" "names ! nat ?k = name"
    using name_index_range [of name names 0 ?k] assms(1) by auto
  with assms(2) show ?thesis by (simp add: unat_uint8)
qed

section \<open>Dates\<close>

lemma dateDecode_accepts:
  assumes "dateDecode argv = Some (Some t)"
  obtains d h m sec y where "\<not> name_index (argv ! 2) days_of_week 0 < 0" "\<not> name_index (argv ! 4) months 0 < 0"
    "0 \<le> d" "d \<le> 31" "0 \<le> h" "h \<le> 24" "0 \<le> m" "m \<le> 59" "0 \<le> sec" "sec \<le> 59"
    "t = \<lparr>seconds = uint8_of_int sec, minutes = uint8_of_int m, hours = uint8_of_int h,
      day_of_week = uint8_of_int (name_index (argv ! 2) days_of_week 0), day = uint8_of_int d,
      month = uint8_of_int (name_index (argv ! 4) months 0), year = uint8_of_int y\<rparr>"
proof -
  obtain h m sec where time: "scan_time (argv ! 6) = (h, m, sec)" by (metis prod_cases3)
  obtain h' m' sec' where "h = Some h'" "m = Some m'" "sec = Some sec'"
    "\<not> name_index (argv ! 2) days_of_week 0 < 0" "\<not> name_index (argv ! 4) months 0 < 0"
    "0 \<le> atoi (argv ! 3)" "atoi (argv ! 3) \<le> 31" "0 \<le> h'" "h' \<le> 24" "0 \<le> m'" "m' \<le> 59" "0 \<le> sec'" "sec' \<le> 59"
    "t = \<lparr>seconds = uint8_of_int sec', minutes = uint8_of_int m', hours = uint8_of_int h',
      day_of_week = uint8_of_int (name_index (argv ! 2) days_of_week 0), day = uint8_of_int (atoi (argv ! 3)),
      month = uint8_of_int (name_index (argv ! 4) months 0), year = uint8_of_int (atoi (argv ! 5) - 2000)\<rparr>"
    using assms time
    by (auto simp: dateDecode_def argument_def array_get_def Let_def split: if_splits Option.bind_splits)
  then show thesis by (intro that [of "atoi (argv ! 3)" h' m' sec' "atoi (argv ! 5) - 2000"]) simp_all
qed

lemma date_fields:
  assumes "dateDecode argv = Some (Some t)"
  shows "unat (day_of_week t) < 7" "days_of_week ! unat (day_of_week t) = argv ! 2"
    "unat (month t) < 12" "months ! unat (month t) = argv ! 4"
    "day t \<le> 31" "hours t \<le> 24" "minutes t \<le> 59" "seconds t \<le> 59"
proof -
  obtain d h m sec y where ranges: "0 \<le> d" "d \<le> 31" "0 \<le> h" "h \<le> 24"
      "0 \<le> m" "m \<le> 59" "0 \<le> sec" "sec \<le> 59"
    and named: "\<not> name_index (argv ! 2) days_of_week 0 < 0" "\<not> name_index (argv ! 4) months 0 < 0"
    and t: "t = \<lparr>seconds = uint8_of_int sec, minutes = uint8_of_int m, hours = uint8_of_int h,
      day_of_week = uint8_of_int (name_index (argv ! 2) days_of_week 0), day = uint8_of_int d,
      month = uint8_of_int (name_index (argv ! 4) months 0), year = uint8_of_int y\<rparr>"
    by (rule dateDecode_accepts [OF assms])
  have "length days_of_week = 7" "length months = 12" by (simp_all add: days_of_week_def months_def)
  then show "unat (day_of_week t) < 7" "days_of_week ! unat (day_of_week t) = argv ! 2"
    "unat (month t) < 12" "months ! unat (month t) = argv ! 4"
    using name_found [OF named(1)] name_found [OF named(2)] by (simp_all add: t)
  have le: "uint8_of_int i \<le> uint8_of_int j" if "0 \<le> i" "i \<le> j" "j < 256" for i j :: int
    using that by (rule uint8_le)
  show "day t \<le> 31" using le [OF ranges(1,2)] by (simp add: t) (simp add: uint8_of_int_def)
  show "hours t \<le> 24" using le [OF ranges(3,4)] by (simp add: t) (simp add: uint8_of_int_def)
  show "minutes t \<le> 59" using le [OF ranges(5,6)] by (simp add: t) (simp add: uint8_of_int_def)
  show "seconds t \<le> 59" using le [OF ranges(7,8)] by (simp add: t) (simp add: uint8_of_int_def)
qed

lemma registers_without_month:
  assumes "encodable (t\<lparr>month := 0\<rparr>)"
  shows "date_time_of_registers (tl (registers_of_date_time reg t)) = t\<lparr>month := convertFromBCD (convertToBCD (month t) AND 0xf)\<rparr>"
proof -
  have "((r AND NOT 0xf) OR v) AND 0xf = v AND 0xf" for r v :: u8
    by (rule bit_word_eqI) (auto simp: bit_simps)
  then show ?thesis
  using assms
    minute_field.decode_encode hour_field.decode_encode day_of_week_field.decode_encode
    month_field.decode_encode year_field.decode_encode
  by (simp add: encodable_def date_time_of_registers_def registers_of_date_time_def)
qed

lemma encodable_but_month:
  assumes "dateDecode argv = Some (Some t)" and "year t \<le> 159"
  shows "encodable (t\<lparr>month := 0\<rparr>)"
proof -
  note f = date_fields [OF assms(1)]
  have "day_of_week t \<le> 7" using f(1) by (simp add: word_le_nat_alt)
  moreover have "day t \<le> 39" "hours t \<le> 39" "minutes t \<le> 79" "seconds t \<le> 79"
    using f(5-8) by (auto simp: word_le_nat_alt)
  ultimately show ?thesis using assms(2) by (simp add: encodable_def)
qed

lemma month_digits:
  "\<forall>n \<in> set [0..<12]. convertFromBCD (convertToBCD (of_nat n) AND 0xf) = (if n < 10 then of_nat n else of_nat n - 10)"
  by code_simp

lemma month_read_back:
  assumes "unat m < 12"
  shows "convertFromBCD (convertToBCD m AND 0xf) = (if unat m < 10 then m else m - 10)"
proof -
  have "unat m \<in> set [0..<12]" using assms by simp
  from bspec [OF month_digits this] show ?thesis by simp
qed

lemma month_names:
  assumes "unat (m :: u8) < 12"
  shows "months ! unat m = ''Nov'' \<longleftrightarrow> m = 10" "months ! unat m = ''Dec'' \<longleftrightarrow> m = 11"
    "unat m < 10 \<longleftrightarrow> m \<noteq> 10 \<and> m \<noteq> 11"
proof -
  have "unat m \<in> {0, 1, 2, 3, 4, 5, 6, 7, 8, 9, 10, 11}" using assms by (auto simp: numeral_eq_Suc less_Suc_eq)
  then show "months ! unat m = ''Nov'' \<longleftrightarrow> m = 10" "months ! unat m = ''Dec'' \<longleftrightarrow> m = 11"
    "unat m < 10 \<longleftrightarrow> m \<noteq> 10 \<and> m \<noteq> 11"
    by (auto simp: months_def word_unat_eq_iff)
qed



end
