(* ===== verification/Tls_Glue.thy ===== *)
theory Tls_Glue
  imports Harmony
begin

text \<open>
  \<open>system_config/default/framework/net/pres/net_pres_enc_glue.c\<close> and \<open>net_pres_cert_store.c\<close>: the provider
  that the socket layer calls to encrypt a connection with wolfSSL. wolfSSL and the transport below are
  parameters that answer from the log of all calls so far. A pointer is a handle, \<open>None\<close> if it is NULL.
\<close>

section \<open>wolfSSL and the transport\<close>

datatype tls_io =
    WolfSSL_Init
  | WolfSSL_Cleanup
  | WolfSSL_CTX_new
  | WolfSSL_CTX_free "u32 option"
  | WolfSSL_SetIORecv "u32 option"
  | WolfSSL_SetIOSend "u32 option"
  | WolfSSL_CTX_load_verify_buffer "u32 option" string
  | WolfSSL_CTX_set_verify_none "u32 option"
  | WolfSSL_new "u32 option"
  | WolfSSL_set_fd "u32 option" u32
  | WolfSSL_free "u32 option"
  | WolfSSL_connect "u32 option"
  | WolfSSL_get_error "u32 option"
  | WolfSSL_write "u32 option" "u8 list"
  | WolfSSL_read "u32 option" u16
  | WolfSSL_peek "u32 option" u16
  | WolfSSL_pending "u32 option"
  | WolfSSL_CheckAvailableSize "u32 option" u16
  | Transport_ReadyToRead u32
  | Transport_Read u32 int
  | Transport_ReadyToWrite u32
  | Transport_Write u32 "u8 list" u16
  | WC_InitRng u32

type_synonym tls_log = "tls_io list"

datatype ssl_error = SSL_ERROR_WANT_READ | SSL_ERROR_WANT_WRITE | SSL_ERROR_OTHER

record tls_env =
  ctx_new :: "tls_log \<Rightarrow> u32 option"
  load_verify :: "tls_log \<Rightarrow> bool" \<comment> \<open>\<open>SSL_SUCCESS\<close>\<close>
  ssl_new :: "tls_log \<Rightarrow> u32 option"
  ssl_set_fd :: "tls_log \<Rightarrow> bool" \<comment> \<open>\<open>SSL_SUCCESS\<close>\<close>
  ssl_connect :: "tls_log \<Rightarrow> bool" \<comment> \<open>\<open>SSL_SUCCESS\<close>\<close>
  ssl_error :: "tls_log \<Rightarrow> ssl_error"
  ssl_write :: "tls_log \<Rightarrow> int"
  ssl_read :: "tls_log \<Rightarrow> int \<times> u8 list" \<comment> \<open>the result and the bytes stored in the buffer\<close>
  ssl_peek :: "tls_log \<Rightarrow> int \<times> u8 list"
  ssl_pending :: "tls_log \<Rightarrow> int"
  available_size :: "tls_log \<Rightarrow> int"
  ready_to_read :: "tls_log \<Rightarrow> u16"
  transport_read :: "tls_log \<Rightarrow> u16 \<times> u8 list"
  ready_to_write :: "tls_log \<Rightarrow> u16"
  transport_write :: "tls_log \<Rightarrow> u16"
  init_rng :: "tls_log \<Rightarrow> int"

definition tls_call :: "(tls_log \<Rightarrow> 'r) \<Rightarrow> tls_io \<Rightarrow> tls_log \<Rightarrow> 'r \<times> tls_log" where
  "tls_call f e l = (f (l @ [e]), l @ [e])"

section \<open>The provider\<close>

text \<open>The static data of the file: \<open>_net_pres_wolfsslUsers\<close> and \<open>net_pres_wolfSSLInfoStreamClient0\<close>.\<close>

record net_pres_wolfsslInfo =
  wolfsslUsers :: u8
  ctx :: "u32 option"
  transObject :: "u32 option"
  isInited :: bool

type_synonym tls = "net_pres_wolfsslInfo \<times> tls_log"

definition InitRng :: "tls_env \<Rightarrow> u32 \<Rightarrow> tls_log \<Rightarrow> int \<times> tls_log" where
  "InitRng env rng l = tls_call (init_rng env) (WC_InitRng rng) l"

definition NET_PRES_CertStoreGetCACerts :: "u8 \<Rightarrow> bool \<times> string" where
  "NET_PRES_CertStoreGetCACerts certIndex = (True, ''client_cert_der_2048'')"

text \<open>The callbacks that wolfSSL calls to move encrypted bytes: a count, or the wish to be called again.\<close>

datatype cbio = CBIO_ERR_WANT_READ | CBIO_ERR_WANT_WRITE | CBIO_Size u16

definition NET_PRES_EncGlue_StreamClientReceiveCb0 ::
    "tls_env \<Rightarrow> int \<Rightarrow> u32 \<Rightarrow> tls \<Rightarrow> ((cbio \<times> u8 list) \<times> tls) option" where
  "NET_PRES_EncGlue_StreamClientReceiveCb0 env sz fd = (\<lambda>(info, l). do {
     _ \<leftarrow> transObject info;
     let (bufferSize, l) = tls_call (ready_to_read env) (Transport_ReadyToRead fd) l;
     (if bufferSize = 0 then Some ((CBIO_ERR_WANT_READ, []), info, l)
      else let ((bufferSize, bytes), l) = tls_call (transport_read env) (Transport_Read fd sz) l
           in Some ((CBIO_Size bufferSize, bytes), info, l))
   })"

definition NET_PRES_EncGlue_StreamClientSendCb0 :: "tls_env \<Rightarrow> u8 list \<Rightarrow> u32 \<Rightarrow> tls \<Rightarrow> (cbio \<times> tls) option" where
  "NET_PRES_EncGlue_StreamClientSendCb0 env buf fd = (\<lambda>(info, l). do {
     _ \<leftarrow> transObject info;
     let (bufferSize, l) = tls_call (ready_to_write env) (Transport_ReadyToWrite fd) l;
     (if bufferSize = 0 then Some (CBIO_ERR_WANT_WRITE, info, l)
      else let (bufferSize, l) = tls_call (transport_write env) (Transport_Write fd buf (of_nat (length buf))) l
           in Some (CBIO_Size bufferSize, info, l))
   })"

definition NET_PRES_EncProviderStreamClientInit0 :: "tls_env \<Rightarrow> u32 option \<Rightarrow> tls \<Rightarrow> bool \<times> tls" where
  "NET_PRES_EncProviderStreamClientInit0 env transport = (\<lambda>(info, l).
     let (found, caCerts) = NET_PRES_CertStoreGetCACerts 0 in
     if \<not> found then (False, info, l)
     else
       let (info, l) = (if wolfsslUsers info = 0
                        then (info\<lparr>wolfsslUsers := wolfsslUsers info + 1\<rparr>, l @ [WolfSSL_Init])
                        else (info, l));
           info = info\<lparr>transObject := transport\<rparr>;
           (c, l) = tls_call (ctx_new env) WolfSSL_CTX_new l;
           info = info\<lparr>ctx := c\<rparr>
       in
       if ctx info = None then (False, info, l)
       else
         let l = l @ [WolfSSL_SetIORecv (ctx info), WolfSSL_SetIOSend (ctx info)];
             (loaded, l) = tls_call (load_verify env) (WolfSSL_CTX_load_verify_buffer (ctx info) caCerts) l
         in
         if \<not> loaded then (False, info, l @ [WolfSSL_CTX_free (ctx info)])
         else (True, info\<lparr>isInited := True\<rparr>, l @ [WolfSSL_CTX_set_verify_none (ctx info)]))"

definition NET_PRES_EncProviderStreamClientDeinit0 :: "tls \<Rightarrow> bool \<times> tls" where
  "NET_PRES_EncProviderStreamClientDeinit0 = (\<lambda>(info, l).
     let l = l @ [WolfSSL_CTX_free (ctx info)];
         info = info\<lparr>isInited := False\<rparr>;
         info = info\<lparr>wolfsslUsers := wolfsslUsers info - 1\<rparr>;
         l = (if wolfsslUsers info = 0 then l @ [WolfSSL_Cleanup] else l)
     in (True, info, l))"

text \<open>What \<open>Open0\<close> stores behind \<open>providerData\<close> is the pointer to the session.\<close>

definition NET_PRES_EncProviderStreamClientOpen0 :: "tls_env \<Rightarrow> u32 \<Rightarrow> tls \<Rightarrow> u32 option \<times> tls" where
  "NET_PRES_EncProviderStreamClientOpen0 env transHandle = (\<lambda>(info, l).
     let (ssl, l) = tls_call (ssl_new env) (WolfSSL_new (ctx info)) l in
     if ssl = None then (None, info, l)
     else
       let (ok, l) = tls_call (ssl_set_fd env) (WolfSSL_set_fd ssl transHandle) l in
       if \<not> ok then (None, info, l @ [WolfSSL_free ssl])
       else (ssl, info, l))"

definition NET_PRES_EncProviderStreamClientIsInited0 :: "tls \<Rightarrow> bool" where
  "NET_PRES_EncProviderStreamClientIsInited0 s = isInited (fst s)"

datatype NET_PRES_EncSessionStatus =
    NET_PRES_ENC_SS_CLIENT_NEGOTIATING | NET_PRES_ENC_SS_OPEN | NET_PRES_ENC_SS_FAILED | NET_PRES_ENC_SS_CLOSED

definition NET_PRES_EncProviderClientConnect0 :: "tls_env \<Rightarrow> u32 option \<Rightarrow> tls_log \<Rightarrow> NET_PRES_EncSessionStatus \<times> tls_log" where
  "NET_PRES_EncProviderClientConnect0 env ssl l =
     (let (success, l) = tls_call (ssl_connect env) (WolfSSL_connect ssl) l in
      if success then (NET_PRES_ENC_SS_OPEN, l)
      else
        let (error, l) = tls_call (ssl_error env) (WolfSSL_get_error ssl) l in
        (case error of
           SSL_ERROR_WANT_READ \<Rightarrow> NET_PRES_ENC_SS_CLIENT_NEGOTIATING
         | SSL_ERROR_WANT_WRITE \<Rightarrow> NET_PRES_ENC_SS_CLIENT_NEGOTIATING
         | SSL_ERROR_OTHER \<Rightarrow> NET_PRES_ENC_SS_FAILED, l))"

definition NET_PRES_EncProviderConnectionClose0 :: "u32 option \<Rightarrow> tls_log \<Rightarrow> NET_PRES_EncSessionStatus \<times> tls_log" where
  "NET_PRES_EncProviderConnectionClose0 ssl l = (NET_PRES_ENC_SS_CLOSED, l @ [WolfSSL_free ssl])"

definition NET_PRES_EncProviderWrite0 :: "tls_env \<Rightarrow> u32 option \<Rightarrow> u8 list \<Rightarrow> tls_log \<Rightarrow> int \<times> tls_log" where
  "NET_PRES_EncProviderWrite0 env ssl buffer l =
     (let (ret, l) = tls_call (ssl_write env) (WolfSSL_write ssl buffer) l in
      if ret < 0 then (0, l) else (ret, l))"

definition NET_PRES_EncProviderWriteReady0 :: "tls_env \<Rightarrow> u32 option \<Rightarrow> u16 \<Rightarrow> u16 \<Rightarrow> tls_log \<Rightarrow> u16 \<times> tls_log" where
  "NET_PRES_EncProviderWriteReady0 env ssl reqSize minSize l =
     (let (ret, l) = tls_call (ssl_write env) (WolfSSL_write ssl []) l in
      if ret < 0 then (0, l)
      else
        let (ret, l) = tls_call (available_size env) (WolfSSL_CheckAvailableSize ssl reqSize) l in
        if ret = 0 then (reqSize, l)
        else if minSize \<noteq> 0 then
          let (ret, l) = tls_call (available_size env) (WolfSSL_CheckAvailableSize ssl minSize) l in
          if ret = 0 then (minSize, l) else (0, l)
        else (0, l))"

definition NET_PRES_EncProviderRead0 :: "tls_env \<Rightarrow> u32 option \<Rightarrow> u16 \<Rightarrow> tls_log \<Rightarrow> (int \<times> u8 list) \<times> tls_log" where
  "NET_PRES_EncProviderRead0 env ssl num l =
     (let ((ret, bytes), l) = tls_call (ssl_read env) (WolfSSL_read ssl num) l in
      if ret < 0 then ((0, bytes), l) else ((ret, bytes), l))"

definition NET_PRES_EncProviderReadReady0 :: "tls_env \<Rightarrow> u32 option \<Rightarrow> tls_log \<Rightarrow> int \<times> tls_log" where
  "NET_PRES_EncProviderReadReady0 env ssl l =
     (let (ret, l) = tls_call (ssl_pending env) (WolfSSL_pending ssl) l in
      if ret = 0 then
        let ((peeked, _), l) = tls_call (ssl_peek env) (WolfSSL_peek ssl 1) l in
        if peeked = 0 then (0, l) else tls_call (ssl_pending env) (WolfSSL_pending ssl) l
      else (ret, l))"

definition NET_PRES_EncProviderPeek0 :: "tls_env \<Rightarrow> u32 option \<Rightarrow> u16 \<Rightarrow> tls_log \<Rightarrow> (int \<times> u8 list) \<times> tls_log" where
  "NET_PRES_EncProviderPeek0 env ssl num l =
     (let ((ret, bytes), l) = tls_call (ssl_peek env) (WolfSSL_peek ssl num) l in
      if ret < 0 then ((0, bytes), l) else ((ret, bytes), l))"

lemmas tls_defs = NET_PRES_EncProviderStreamClientInit0_def NET_PRES_EncProviderStreamClientDeinit0_def
  NET_PRES_EncProviderStreamClientOpen0_def NET_PRES_EncProviderStreamClientIsInited0_def
  NET_PRES_EncProviderClientConnect0_def NET_PRES_EncProviderConnectionClose0_def NET_PRES_EncProviderWrite0_def
  NET_PRES_EncProviderWriteReady0_def NET_PRES_EncProviderRead0_def NET_PRES_EncProviderReadReady0_def
  NET_PRES_EncProviderPeek0_def NET_PRES_CertStoreGetCACerts_def tls_call_def Let_def

section \<open>Space and data\<close>

text \<open>The space that is reported is one of the two sizes that were asked for, and nothing if both are the same and too large.\<close>

lemma write_ready_sizes:
  "NET_PRES_EncProviderWriteReady0 env ssl reqSize minSize l = (n, l') \<Longrightarrow> n \<in> {0, minSize, reqSize}"
  by (auto simp: tls_defs split: if_splits)

lemma sizes_of_results:
  "NET_PRES_EncProviderWrite0 env ssl buffer l = (n, l') \<Longrightarrow> 0 \<le> n"
  "NET_PRES_EncProviderRead0 env ssl num l = ((n, bytes), l') \<Longrightarrow> 0 \<le> n"
  "NET_PRES_EncProviderPeek0 env ssl num l = ((n, bytes), l') \<Longrightarrow> 0 \<le> n"
  by (auto simp: tls_defs split: if_splits prod.splits)

section \<open>The life of the library and of its contexts\<close>

text \<open>
  Whether wolfSSL is initialized after the calls of a log, \<open>None\<close> once it was initialized twice or cleaned up
  while it was not.
\<close>

fun library_step :: "tls_io \<Rightarrow> bool option \<Rightarrow> bool option" where
  "library_step WolfSSL_Init up = (if up = Some False then Some True else None)"
| "library_step WolfSSL_Cleanup up = (if up = Some True then Some False else None)"
| "library_step _ up = up"

definition library :: "tls_log \<Rightarrow> bool option" where
  "library l = fold library_step l (Some False)"

text \<open>The contexts that were taken into use and not freed.\<close>

definition contexts :: "tls_log \<Rightarrow> int" where
  "contexts l = (\<Sum>e \<leftarrow> l. case e of WolfSSL_SetIORecv c \<Rightarrow> 1 | WolfSSL_CTX_free c \<Rightarrow> -1 | _ \<Rightarrow> 0)"

lemma library_append [simp]: "library (l @ m) = fold library_step m (library l)"
  by (simp add: library_def)

lemma contexts_append [simp]: "contexts (l @ m) = contexts l + contexts m" "contexts [] = 0"
  "contexts (e # m) = (case e of WolfSSL_SetIORecv c \<Rightarrow> 1 | WolfSSL_CTX_free c \<Rightarrow> -1 | _ \<Rightarrow> 0) + contexts m"
  by (simp_all add: contexts_def)

text \<open>
  The socket layer's use of the provider: it initializes it when it is not initialized and gives it up when it
  is; connections come and go in between.
\<close>

inductive tls_run :: "tls_env \<Rightarrow> tls \<Rightarrow> bool" for env where
  start: "wolfsslUsers info = 0 \<Longrightarrow> \<not> isInited info \<Longrightarrow> tls_run env (info, [])"
| init: "tls_run env s \<Longrightarrow> \<not> NET_PRES_EncProviderStreamClientIsInited0 s \<Longrightarrow>
    tls_run env (snd (NET_PRES_EncProviderStreamClientInit0 env transport s))"
| deinit: "tls_run env s \<Longrightarrow> NET_PRES_EncProviderStreamClientIsInited0 s \<Longrightarrow>
    tls_run env (snd (NET_PRES_EncProviderStreamClientDeinit0 s))"
| opened: "tls_run env s \<Longrightarrow> tls_run env (snd (NET_PRES_EncProviderStreamClientOpen0 env fd s))"
| connect: "tls_run env (info, l) \<Longrightarrow> tls_run env (info, snd (NET_PRES_EncProviderClientConnect0 env ssl l))"
| close: "tls_run env (info, l) \<Longrightarrow> tls_run env (info, snd (NET_PRES_EncProviderConnectionClose0 ssl l))"
| write_bytes: "tls_run env (info, l) \<Longrightarrow> tls_run env (info, snd (NET_PRES_EncProviderWrite0 env ssl bytes l))"
| write_ready: "tls_run env (info, l) \<Longrightarrow> tls_run env (info, snd (NET_PRES_EncProviderWriteReady0 env ssl n m l))"
| read_bytes: "tls_run env (info, l) \<Longrightarrow> tls_run env (info, snd (NET_PRES_EncProviderRead0 env ssl n l))"
| read_ready: "tls_run env (info, l) \<Longrightarrow> tls_run env (info, snd (NET_PRES_EncProviderReadReady0 env ssl l))"
| peek: "tls_run env (info, l) \<Longrightarrow> tls_run env (info, snd (NET_PRES_EncProviderPeek0 env ssl n l))"

definition tls_inv :: "tls \<Rightarrow> bool" where
  "tls_inv = (\<lambda>(info, l). wolfsslUsers info \<in> {0, 1} \<and> library l = Some (wolfsslUsers info = 1) \<and>
     contexts l = of_bool (isInited info) \<and> (isInited info \<longrightarrow> wolfsslUsers info = 1 \<and> ctx info \<noteq> None))"

lemma init_inv:
  "tls_inv s \<Longrightarrow> \<not> NET_PRES_EncProviderStreamClientIsInited0 s \<Longrightarrow> tls_inv (snd (NET_PRES_EncProviderStreamClientInit0 env transport s))"
  by (cases s) (auto simp: tls_inv_def tls_defs)

lemma deinit_inv:
  "tls_inv s \<Longrightarrow> NET_PRES_EncProviderStreamClientIsInited0 s \<Longrightarrow> tls_inv (snd (NET_PRES_EncProviderStreamClientDeinit0 s))"
  by (cases s) (auto simp: tls_inv_def tls_defs)

lemma session_inv:
  "tls_inv s \<Longrightarrow> tls_inv (snd (NET_PRES_EncProviderStreamClientOpen0 env fd s))"
  "tls_inv (info, l) \<Longrightarrow> tls_inv (info, snd (NET_PRES_EncProviderClientConnect0 env ssl l))"
  "tls_inv (info, l) \<Longrightarrow> tls_inv (info, snd (NET_PRES_EncProviderConnectionClose0 ssl l))"
  "tls_inv (info, l) \<Longrightarrow> tls_inv (info, snd (NET_PRES_EncProviderWrite0 env ssl bytes l))"
  "tls_inv (info, l) \<Longrightarrow> tls_inv (info, snd (NET_PRES_EncProviderWriteReady0 env ssl n m l))"
  "tls_inv (info, l) \<Longrightarrow> tls_inv (info, snd (NET_PRES_EncProviderRead0 env ssl k l))"
  "tls_inv (info, l) \<Longrightarrow> tls_inv (info, snd (NET_PRES_EncProviderReadReady0 env ssl l))"
  "tls_inv (info, l) \<Longrightarrow> tls_inv (info, snd (NET_PRES_EncProviderPeek0 env ssl k l))"
  by (cases s; auto simp: tls_inv_def tls_defs split: prod.split)+

lemma run_inv: "tls_run env s \<Longrightarrow> tls_inv s"
  by (induction rule: tls_run.induct) (simp_all add: init_inv deinit_inv session_inv, simp add: tls_inv_def library_def)

section \<open>Properties\<close>


text \<open>A wolfSSL that always succeeds, and one initialization.\<close>

definition sample_tls :: tls_env where
  "sample_tls = \<lparr>ctx_new = \<lambda>_. Some 1, load_verify = \<lambda>_. True, ssl_new = \<lambda>_. Some 2, ssl_set_fd = \<lambda>_. True, ssl_connect = \<lambda>_. True,
     ssl_error = \<lambda>_. SSL_ERROR_OTHER, ssl_write = \<lambda>_. 0, ssl_read = \<lambda>_. (0, []), ssl_peek = \<lambda>_. (0, []), ssl_pending = \<lambda>_. 0,
     available_size = \<lambda>_. 0, ready_to_read = \<lambda>_. 0, transport_read = \<lambda>_. (0, []), ready_to_write = \<lambda>_. 0, transport_write = \<lambda>_. 0,
     init_rng = \<lambda>_. 0\<rparr>"

definition tls_at_reset :: net_pres_wolfsslInfo where
  "tls_at_reset = \<lparr>wolfsslUsers = 0, ctx = None, transObject = None, isInited = False\<rparr>"


text \<open>
  One call of \<open>Deinit0\<close> too many: the count of the users wraps to 255, so no later initialization initializes
  wolfSSL again, and sessions are opened on a library that is down.
\<close>

theorem tls_deinit_twice_wraps:
  assumes "tls_run env s" and "isInited (fst s)" and "ctx_new env = (\<lambda>_. Some c)" and "load_verify env = (\<lambda>_. True)"
  shows "let (_, s1) = NET_PRES_EncProviderStreamClientDeinit0 s; (_, s2) = NET_PRES_EncProviderStreamClientDeinit0 s1;
      (ok, info, l) = NET_PRES_EncProviderStreamClientInit0 env transport s2
    in ok \<and> isInited info \<and> wolfsslUsers info = 255 \<and> library l = Some False"
  using run_inv [OF assms(1)] assms(2-4) by (cases s) (simp add: tls_inv_def tls_defs)

end
