(* ===== verification/Spec2Isabelle.thy ===== *)
theory Spec2Isabelle
  imports App_Frozen App_Cycle Main_Loop Rtc_Dates App_Network Util_Url App_Shift_Register App_Flash App_Power App_Usb_Hid Tls_Glue
begin

text \<open>
  The application firmware of the Harmony Nixie Tracker: a board with a PIC32 that fetches a number from a
  web server and shows it on four Nixie tubes, with a console over a serial line. This library models the
  program's own code, \<open>src/firmware/src/*.c\<close> and its headers, and proves what makes it correct.

  \<^bold>\<open>The program.\<close> Every component is a state machine that the main loop ticks: \<open>APP_Tasks_Real\<close> runs
  networking, USB, the clock, the flash, the HTTPS client, the shift registers, the display and the command
  processor once each, in this order. The display asks the HTTPS client for a page, finds the value behind a
  token in the bytes that the client hands to its callback, decodes it into cathodes, encodes those into the
  bits of six shift registers and hands these to the shift register driver. The command processor runs one
  command at a time: a handler parses the line and schedules a task, the task waits for its driver, is invoked
  and is then polled. The state of all of it is one struct, \<open>AppData\<close>.

  \<^bold>\<open>How the code is modelled.\<close> A struct is a \<open>record\<close>, an enum a \<open>datatype\<close>, integers are words of their
  width (\<open>size_t\<close>, which only counts, is a natural below \<open>2 ^ 32\<close> with \<open>sz_add\<close> and \<open>sz_sub\<close> that
  wrap). An array of a struct is a list of its declared length; an access outside it, a missing pointer, or a
  variable that was never assigned makes the function return \<open>None\<close>, so \<open>Some\<close> means defined behaviour.
  Buffers that a driver writes into through a pointer, and the unions of the clock driver, are bytes of a memory
  (\<open>mem\<close>). What the program asks of Harmony, Microchip's library, is a parameter: the record
  \<open>harmony\<close> answers each call from the log of all calls so far, so an answer may depend on everything that
  happened, and the log of the \<open>world\<close> is what the program did. Messages for the system console
  (\<open>SYS_CONSOLE_MESSAGE\<close>, debug prints) are left out, \<open>SYS_ASSERT\<close> is an entry of the log after which
  the program goes on. A loop is a recursion over the indices or the data, so each function of the model is
  total; a state machine is ticked by a function of the number of ticks, and a property that it ends says after
  how many.

  \<^bold>\<open>Foundations.\<close> \<open>Prelude\<close>: integers, memory, arrays, C strings. \<open>Byte_Search\<close> and \<open>Util_String\<close>:
  \<open>util_string.c\<close>, \<open>util_math.c\<close>, \<open>gcc/memmem.c\<close>; a locale for the search of a byte string and
  its interpretations on \<open>memmem\<close>. \<open>Util_Url\<close>: \<open>util_url.c\<close>, with a specification of the parts of a
  URL, the round trip, and two errors in the lengths it passes on. \<open>Harmony\<close>: the parameters and the log.

  \<^bold>\<open>Drivers.\<close> \<open>Rtc_Mcp7940n\<close> (\<open>rtc_mcp7940n.c\<close>) is the driver of the clock, \<open>Rtc_Proofs\<close> puts a chip
  with 32 registers on its bus and proves what the registers hold after each call; a locale describes a BCD
  field of a register. \<open>App_Shift_Register\<close> (\<open>app_shift_register.c\<close>) is refined by a chain of shift
  registers that the pin sequence drives: \<open>n\<close> bytes, \<open>1 \<le> n \<le> 6\<close>, are latched after \<open>19 n + 1\<close> ticks,
  and every tick of a transmission counts a variant down by one, so it always comes to rest.
  \<open>App_Flash\<close> (\<open>app_flash.c\<close>), \<open>App_Power\<close> (\<open>app_power.c\<close>, \<open>app_rtc.c\<close>), \<open>App_Usb_Hid\<close>
  (\<open>app_usb_hid.c\<close>, \<open>app_usb_hid_utils.c\<close>): their state machines, events and invariants.
  \<open>App_Network\<close> (\<open>app_network.c\<close>, \<open>app_network_utils.c\<close>), in the configuration of the repository
  (no IPv6, Zeroconf, NBNS, DHCP server or power saving), with the bounds of its arrays.
  \<open>App_Https_Client\<close> (\<open>app_https_client.c\<close>) with \<open>Https_Proofs\<close>: memory safety of every tick, the
  request that is sent, and who is called back when. \<open>Tls_Glue\<close> (\<open>net_pres_enc_glue.c\<close>,
  \<open>net_pres_cert_store.c\<close>) is the provider through which the socket layer encrypts with wolfSSL; it turns the
  verification of certificates off, so an encrypted connection is not an authenticated one.

  \<^bold>\<open>The display.\<close> \<open>App_Nixie\<close> (\<open>app_nixie.c\<close>). \<open>App_Nixie_Stream\<close> relates the cyclic buffer to the
  bytes received so far: the value is found wherever the response is cut into chunks. \<open>App_Nixie_Display\<close>
  relates the bits of the registers to the wires of the tubes. \<open>Nixie_Proofs\<close> composes them from the
  response of the server to the lit cathodes.

  \<^bold>\<open>The console.\<close> \<open>App_Command_Task\<close> (\<open>app_command_task.c\<close>): the scheduler, with the locales
  \<open>task_host\<close> and \<open>polled_command\<close>, the contract of a command that waits, is invoked and is polled.
  \<open>App_Data\<close> (\<open>app.h\<close>, \<open>app_command.h\<close> and the headers of the commands): the application's state and what
  the handlers share. \<open>App_Command_Rtc\<close>, \<open>App_Command_Nixie\<close>, \<open>App_Command_Shift_Register\<close>,
  \<open>App_Command_Flash\<close>, \<open>App_Command_Fetch\<close> and \<open>App_Command_Board\<close> (\<open>debug\<close>, \<open>ntp\<close>, \<open>phy\<close>,
  \<open>power\<close>, \<open>iwsecurity\<close>): one handler each, \<open>app_command_*.c\<close>. \<open>App_Command\<close>
  (\<open>app_command.c\<close>): the table of commands, the callbacks by name, and the interpretation of
  \<open>polled_command\<close> for every callback of the program.

  \<^bold>\<open>The application.\<close> \<open>App\<close> (\<open>app.c\<close>): initialization and tick. \<open>App_Invariant\<close>, \<open>App_Lines\<close> and
  \<open>App_Steps\<close>: an invariant that initialization establishes and every tick, every line and every USB event
  keeps, so that the composed program stays in memory. It ties the components together: a request of the
  HTTPS client that is under way belongs to the display, which then waits for it, or to the \<open>fetch\<close>
  command, whose task then runs. \<open>App_Console\<close>: the locale of a lock of the console and its two
  interpretations, a busy processor, and whole commands. \<open>App_Frames\<close>: a locale for what an observer of the log
  sees of a tick, interpreted on the chain of shift registers and on the bytes that the socket delivered.
  \<open>App_Tubes\<close>: from the display to the outputs of the shift registers through the main loop; a value that the display begins to show waits at most 115 ticks for the
  transmission under way, which is the longest there is, and at most 115 more for its own, so it is on the tubes
  within 230 ticks whatever the other services do. \<open>App_Response\<close>: from the bytes of the socket to the value that
  the display begins to show, and so from the server to the tubes. \<open>Https_Progress\<close> and
  \<open>App_Cycle\<close>: on a network that leaves fewer than \<open>n\<close> polls in a row unanswered and does not fail, a request of the
  display passes its ten states in at most \<open>10 n + 12\<close> ticks, so \<open>main\<close> shows the first number of the server after
  at most \<open>10 n + 14 + 230\<close> iterations; a locale \<open>progress\<close> holds the argument, a rank that every tick decreases.
  \<open>App_Frozen\<close>: a
  request whose encryption is refused, of which nobody tells the display, so that it waits for ever.
  \<open>Main_Loop\<close> (\<open>main.c\<close>): initialization and
  the endless loop, by the number of its iterations, with the events that Harmony's tasks hand to the program; it
  runs for ever. \<open>Rtc_Dates\<close>: from the date that is typed to the registers of
  the clock.

  \<^bold>\<open>Hypotheses.\<close> Properties of the composed program assume at most two network interfaces (the arrays have two
  entries) and that a read from a socket returns no more bytes than were asked for. Properties of one driver
  assume what its peripheral does, such as a bus that completes every transfer; each has a sample on which it
  holds. The hypothesis \<open>healthy n\<close> on the network bounds the polls that it leaves unanswered, one state after the
  other, and excludes failures; what failures do is the matter of properties of their own.

  \<^bold>\<open>Not modelled.\<close> The generated configuration and drivers of Harmony (\<open>system_config\<close>, with
  \<open>SYS_Initialize\<close> and \<open>SYS_Tasks\<close>, but for the TLS provider), which are tables of settings, interrupt stubs
  and accesses to registers; the pointer in \<open>system_objects.h\<close>; the texts that go to the system console; and the
  host-side tests and libraries under \<open>src/software\<close>. \<open>rtc date\<close> and \<open>iwsecurity\<close> reach undefined
  behaviour, which the model shows as \<open>None\<close>; the property of the composed program names them.
\<close>

end
